(* ===== verification/Api_Types.thy ===== *)
theory Api_Types
  imports Go_Prelude
begin

text \<open>
  The custom resources of \<open>api/v1beta1\<close> (Job, Manager, Announcement, File) and the messages
  of \<open>internal/types.go\<close> that the controller, the manager and the workers exchange.

  String-typed enumerations stay strings, as in Go, with one constant per named value.  A slice
  or pointer whose nil value the code tells apart from an empty one is an \<open>option\<close>.  The
  Kubernetes values the code only carries along (affinity, tolerations) are opaque strings, and a
  map of annotations is the list of its pairs.
\<close>

section \<open>Job: api/v1beta1/job_types.go\<close>

type_synonym MirrorType = string

definition Mirror :: MirrorType where [status_simps]: "Mirror = ''mirror''"
definition Proxy :: MirrorType where [status_simps]: "Proxy = ''proxy''"
definition Git :: MirrorType where [status_simps]: "Git = ''git''"
definition External :: MirrorType where [status_simps]: "External = ''external''"

text \<open>\<open>corev1.EnvVar\<close>: \<open>ev_FieldPath\<close> is the field path of a \<open>ValueFrom\<close> reference.\<close>

record EnvVar =
  ev_Name :: string
  ev_Value :: string
  ev_FieldPath :: "string option"

definition envvar :: "string \<Rightarrow> string \<Rightarrow> EnvVar" where
  "envvar n v = \<lparr>ev_Name = n, ev_Value = v, ev_FieldPath = None\<rparr>"

record JobConfig =
  jc_Alias :: string
  jc_Desc :: string
  jc_Url :: string
  jc_HelpUrl :: string
  jc_Type :: MirrorType
  jc_Upstream :: string
  jc_Provider :: string
  jc_MirrorPath :: string
  jc_Command :: string
  jc_Concurrent :: int
  jc_Interval :: int
  jc_Retry :: int
  jc_Timeout :: int
  jc_FailOnMatch :: string
  jc_IPv6Only :: string
  jc_IPv4Only :: string
  jc_ExcludeFile :: string
  jc_RsyncOptions :: string
  jc_Stage1Profile :: string
  jc_ExecOnSuccess :: string
  jc_ExecOnFailure :: string
  jc_SizePattern :: string
  jc_AdditionEnvs :: "EnvVar list"
  jc_Debug :: string

text \<open>The shared deployment settings, \<open>DeployConfig\<close> of \<open>manager_types.go\<close>.\<close>

record DeployConfig =
  dc_Image :: string
  dc_Env :: "EnvVar list"
  dc_ImagePullPolicy :: string
  dc_ImagePullSecrets :: "string list option"
  dc_NodeName :: string
  dc_Affinity :: "string option"
  dc_Tolerations :: "string list option"
  dc_CPULimit :: string
  dc_MemoryLimit :: string

record JobDeploy = DeployConfig +
  jd_DisableFront :: string
  jd_FrontMode :: string
  jd_FrontImage :: string
  jd_FrontCmd :: string
  jd_DisableRsync :: string
  jd_RsyncImage :: string
  jd_RsyncCmd :: string

record PVConfig =
  pv_Size :: string
  pv_StorageClass :: "string option"
  pv_AccessMode :: string

record IngressConfig =
  ic_IngressClass :: string
  ic_TLSSecret :: string
  ic_Host :: string
  ic_Annotations :: "(string \<times> string) list"

record JobSpec =
  js_Config :: JobConfig
  js_Deploy :: JobDeploy
  js_Volume :: PVConfig
  js_Ingress :: IngressConfig

text \<open>The zero values of the structs.\<close>

definition zeroJobConfig :: JobConfig where
  "zeroJobConfig = \<lparr>jc_Alias = [], jc_Desc = [], jc_Url = [], jc_HelpUrl = [], jc_Type = [], jc_Upstream = [],
     jc_Provider = [], jc_MirrorPath = [], jc_Command = [], jc_Concurrent = 0, jc_Interval = 0, jc_Retry = 0,
     jc_Timeout = 0, jc_FailOnMatch = [], jc_IPv6Only = [], jc_IPv4Only = [], jc_ExcludeFile = [],
     jc_RsyncOptions = [], jc_Stage1Profile = [], jc_ExecOnSuccess = [], jc_ExecOnFailure = [],
     jc_SizePattern = [], jc_AdditionEnvs = [], jc_Debug = []\<rparr>"

definition zeroDeployConfig :: DeployConfig where
  "zeroDeployConfig = \<lparr>dc_Image = [], dc_Env = [], dc_ImagePullPolicy = [], dc_ImagePullSecrets = None,
     dc_NodeName = [], dc_Affinity = None, dc_Tolerations = None, dc_CPULimit = [], dc_MemoryLimit = []\<rparr>"

definition zeroJobDeploy :: JobDeploy where
  "zeroJobDeploy = \<lparr>dc_Image = [], dc_Env = [], dc_ImagePullPolicy = [], dc_ImagePullSecrets = None,
     dc_NodeName = [], dc_Affinity = None, dc_Tolerations = None, dc_CPULimit = [], dc_MemoryLimit = [],
     jd_DisableFront = [], jd_FrontMode = [], jd_FrontImage = [], jd_FrontCmd = [], jd_DisableRsync = [],
     jd_RsyncImage = [], jd_RsyncCmd = []\<rparr>"

definition zeroPVConfig :: PVConfig where
  "zeroPVConfig = \<lparr>pv_Size = [], pv_StorageClass = None, pv_AccessMode = []\<rparr>"

definition zeroIngressConfig :: IngressConfig where
  "zeroIngressConfig = \<lparr>ic_IngressClass = [], ic_TLSSecret = [], ic_Host = [], ic_Annotations = []\<rparr>"

definition zeroJobSpec :: JobSpec where
  "zeroJobSpec = \<lparr>js_Config = zeroJobConfig, js_Deploy = zeroJobDeploy, js_Volume = zeroPVConfig,
     js_Ingress = zeroIngressConfig\<rparr>"

type_synonym SyncStatus = string

definition SyncNone :: SyncStatus where [status_simps]: "SyncNone = ''none''"
definition Failed :: SyncStatus where [status_simps]: "Failed = ''failed''"
definition Success :: SyncStatus where [status_simps]: "Success = ''success''"
definition Syncing :: SyncStatus where [status_simps]: "Syncing = ''syncing''"
definition PreSyncing :: SyncStatus where [status_simps]: "PreSyncing = ''pre-syncing''"
definition Paused :: SyncStatus where [status_simps]: "Paused = ''paused''"
definition Disabled :: SyncStatus where [status_simps]: "Disabled = ''disabled''"
definition Cached :: SyncStatus where [status_simps]: "Cached = ''cached''"
definition Created :: SyncStatus where [status_simps]: "Created = ''created''"

record JobStatus =
  Status :: SyncStatus
  LastUpdate :: int
  LastStarted :: int
  LastEnded :: int
  Scheduled :: int
  Upstream :: string
  Size :: uint64
  ErrorMsg :: string
  LastOnline :: int
  LastRegister :: int

text \<open>The zero value of the struct, which Go declares with \<open>var status JobStatus\<close>.\<close>

definition zeroJobStatus :: JobStatus where
  "zeroJobStatus = \<lparr>Status = [], LastUpdate = 0, LastStarted = 0, LastEnded = 0, Scheduled = 0,
     Upstream = [], Size = 0, ErrorMsg = [], LastOnline = 0, LastRegister = 0\<rparr>"

record Job =
  job_Name :: string
  job_Namespace :: string
  job_Spec :: JobSpec
  job_Status :: JobStatus

section \<open>Manager: api/v1beta1/manager_types.go\<close>

type_synonym DeployType = string

definition DeployDeployment :: DeployType where [status_simps]: "DeployDeployment = ''Deployment''"
definition DeployDaemonSet :: DeployType where [status_simps]: "DeployDaemonSet = ''DaemonSet''"

type_synonym DeployPhase = string

definition DeployPending :: DeployPhase where [status_simps]: "DeployPending = ''Pending''"
definition DeploySucceeded :: DeployPhase where [status_simps]: "DeploySucceeded = ''Succeeded''"
definition DeployFailed :: DeployPhase where [status_simps]: "DeployFailed = ''Failed''"

record ManagerSpec =
  ms_DeployType :: DeployType
  ms_Deploy :: DeployConfig
  ms_Ingress :: IngressConfig

record ManagerRes =
  mgr_Name :: string
  mgr_Namespace :: string
  mgr_Spec :: ManagerSpec
  mgr_Phase :: DeployPhase

section \<open>File and Announcement\<close>

type_synonym FileType = string

definition OS :: FileType where [status_simps]: "OS = ''os''"
definition App :: FileType where [status_simps]: "App = ''app''"

record FileInfo =
  fi_Name :: string
  fi_Ext :: string
  fi_MajorVersion :: string
  fi_Version :: string
  fi_Arch :: string
  fi_Edition :: string
  fi_EditionType :: string
  fi_Part :: int
  fi_Path :: string
  fi_Size :: uint64
  fi_SizeStr :: string

definition zeroFileInfo :: FileInfo where
  "zeroFileInfo = \<lparr>fi_Name = [], fi_Ext = [], fi_MajorVersion = [], fi_Version = [], fi_Arch = [],
     fi_Edition = [], fi_EditionType = [], fi_Part = 0, fi_Path = [], fi_Size = 0, fi_SizeStr = []\<rparr>"

record FileRes =
  file_Name :: string
  file_Type :: FileType
  file_Alias :: string
  file_Files :: "FileInfo list"
  file_UpdateTime :: int

record AnnouncementRes =
  ann_Name :: string
  ann_Title :: string
  ann_Author :: string
  ann_Content :: string
  ann_PubTime :: int
  ann_EditTime :: int

section \<open>Commands: internal/types.go\<close>

datatype CmdVerb = CmdStart | CmdStop | CmdRestart | CmdPing | CmdUpdate

text \<open>Both mappings are Go maps: a missing key yields the zero value of the value type.\<close>

definition CmdVerb_String :: "CmdVerb \<Rightarrow> string" where
  "CmdVerb_String c =
     (case c of CmdStart \<Rightarrow> ''start'' | CmdStop \<Rightarrow> ''stop'' | CmdRestart \<Rightarrow> ''restart''
      | CmdPing \<Rightarrow> ''ping'' | CmdUpdate \<Rightarrow> '''')"

definition NewCmdVerbFromString :: "string \<Rightarrow> CmdVerb" where
  "NewCmdVerbFromString s =
     (if s = ''start'' then CmdStart else if s = ''stop'' then CmdStop
      else if s = ''restart'' then CmdRestart else if s = ''ping'' then CmdPing else CmdStart)"

definition MarshalJSON :: "CmdVerb \<Rightarrow> string" where
  "MarshalJSON s = ''\"'' @ CmdVerb_String s @ ''\"''"

text \<open>
  \<open>UnmarshalJSON\<close> on the outcome of \<open>json.Unmarshal(b, &j)\<close>: an error leaves the receiver
  as it was.
\<close>

definition UnmarshalJSON :: "CmdVerb \<Rightarrow> string + string \<Rightarrow> CmdVerb \<times> err" where
  "UnmarshalJSON old decoded =
     (case decoded of Inl e \<Rightarrow> (old, Some e) | Inr j \<Rightarrow> (NewCmdVerbFromString j, None))"

record ClientCmd =
  cc_Cmd :: CmdVerb
  cc_Force :: bool


section \<open>Values of the manager's pages and requests\<close>

record AnnouncementInfo =
  ai_ID :: string
  ai_Title :: string
  ai_Author :: string
  ai_Content :: string
  ai_PubTime :: int
  ai_EditTime :: int

text \<open>A Go map decoded from JSON: the pairs in the order the loop happens to visit them.\<close>

record FileBase =
  fb_Type :: FileType
  fb_Alias :: string
  fb_Files :: "(string \<times> uint64) list"

record FileListing =
  fl_ID :: string
  fl_Type :: FileType
  fl_Alias :: string
  fl_Files :: "FileInfo list"
  fl_UpdateTime :: int

text \<open>The document of the MirrorZ project, \<open>manager/mirrorz/types.go\<close>; numbers of its header are text.\<close>

record ZInfoUrl =
  zu_Name :: string
  zu_Url :: string

record ZInfo =
  zi_Distro :: string
  zi_Category :: string
  zi_Urls :: "ZInfoUrl list"

record ZMirror =
  zm_Cname :: string
  zm_Desc :: string
  zm_Url :: string
  zm_Status :: string
  zm_Help :: string
  zm_Upstream :: string
  zm_Size :: string
  zm_Disable :: bool

record ZSite =
  zs_Url :: string
  zs_Logo :: string
  zs_LogoDarkmode :: string
  zs_Abbr :: string
  zs_Name :: string
  zs_Homepage :: string
  zs_Issue :: string
  zs_Request :: string
  zs_Email :: string
  zs_Group :: string
  zs_Disk :: string
  zs_Note :: string
  zs_Big :: string
  zs_Disable :: bool

record ZEndpoint =
  ze_Label :: string
  ze_Public :: bool
  ze_Resolve :: string
  ze_Filter :: "string list"
  ze_Range :: "string list"

record MirrorZ =
  mz_Version :: string
  mz_Site :: ZSite
  mz_Info :: "ZInfo list"
  mz_Mirrors :: "ZMirror list"
  mz_Extension :: string
  mz_Endpoints :: "ZEndpoint list"

record MirrorConfig =
  mc_ID :: string
  mc_Spec :: JobSpec

record MirrorStatus =
  mi_ID :: string
  mi_Alias :: string
  mi_Desc :: string
  mi_Url :: string
  mi_HelpUrl :: string
  mi_Type :: MirrorType
  mi_SizeStr :: string
  mi_JobStatus :: JobStatus

end
