(* ===== verification/Go_Store.thy ===== *)
theory Go_Store
  imports Go_Prelude "HOL-Library.Sublist" "HOL-Library.AList"
begin

text \<open>
  Memory with pointers, and what it means to copy a value deeply.

  A store is the list of the cells allocated so far, and an address the position of a cell.  A
  value may hold addresses; \<open>reach\<close> is the set of the cells that belong to it and
  \<open>content\<close> what it says once all pointers have been followed.  A \<^emph>\<open>copier\<close> makes of a value
  another one of the same content whose cells are all new, and writes to no cell that was there
  before.  The copiers of structures, pointers and slices are built from those of their parts.
\<close>

type_synonym addr = nat

abbreviation allocated :: "'c list \<Rightarrow> addr set" where
  "allocated h \<equiv> {..<length h}"

text \<open>The store \<open>h'\<close> has the same cells as \<open>h\<close> at the addresses \<open>A\<close>.\<close>

definition agree :: "addr set \<Rightarrow> 'c list \<Rightarrow> 'c list \<Rightarrow> bool" where
  "agree A h h' \<longleftrightarrow> A \<subseteq> allocated h' \<and> (\<forall>a \<in> A. h' ! a = h ! a)"

lemma agree_subset: "agree A h h' \<Longrightarrow> B \<subseteq> A \<Longrightarrow> agree B h h'"
  by (auto simp: agree_def)

lemma agree_Un [simp]: "agree (A \<union> B) h h' \<longleftrightarrow> agree A h h' \<and> agree B h h'"
  by (auto simp: agree_def)

lemma agree_UN: "agree (\<Union> (f ` S)) h h' \<Longrightarrow> x \<in> S \<Longrightarrow> agree (f x) h h'"
  by (auto simp: agree_def)

lemma agree_prefix: "prefix h h' \<Longrightarrow> A \<subseteq> allocated h \<Longrightarrow> agree A h h'"
  by (auto simp: agree_def prefix_def nth_append)

lemma agree_write: "A \<subseteq> allocated h \<Longrightarrow> p \<notin> A \<Longrightarrow> agree A h (h[p := c])"
  unfolding agree_def by (metis length_list_update nth_list_update_neq)

lemma allocated_mono: "prefix h h' \<Longrightarrow> allocated h \<subseteq> allocated h'"
  by (simp add: prefix_length_le)

lemma fresh_Un: "A \<inter> S = {} \<Longrightarrow> B \<inter> T = {} \<Longrightarrow> S \<subseteq> T \<Longrightarrow> (A \<union> B) \<inter> S = {}"
  by blast

section \<open>Copiers\<close>

locale copier =
  fixes copy :: "'v \<Rightarrow> 'c list \<Rightarrow> 'v \<times> 'c list"
    and valid :: "'c list \<Rightarrow> 'v \<Rightarrow> bool"
    and reach :: "'c list \<Rightarrow> 'v \<Rightarrow> addr set"
    and content :: "'c list \<Rightarrow> 'v \<Rightarrow> 't"
  assumes reach_allocated: "valid h v \<Longrightarrow> reach h v \<subseteq> allocated h"
    and frame: "valid h v \<Longrightarrow> agree (reach h v) h h' \<Longrightarrow>
      valid h' v \<and> reach h' v = reach h v \<and> content h' v = content h v"
    and copied: "valid h v \<Longrightarrow> copy v h = (v', h') \<Longrightarrow>
      prefix h h' \<and> valid h' v' \<and> reach h' v' \<inter> allocated h = {} \<and> content h' v' = content h v"
begin

lemma extended:
  assumes "valid h v" "prefix h h'"
  shows "valid h' v" "reach h' v = reach h v" "content h' v = content h v"
  using frame [OF assms(1) agree_prefix [OF assms(2) reach_allocated [OF assms(1)]]] by simp_all

lemma copied_cases:
  assumes "valid h v"
  obtains v' h' where "copy v h = (v', h')" "prefix h h'" "valid h' v'" "reach h' v' \<inter> allocated h = {}"
    "content h' v' = content h v"
  using copied [OF assms] by (cases "copy v h") blast

text \<open>
  The copy and the original lead separate lives: a store in which only cells of the one were
  written still has the other, unchanged.
\<close>

lemma independent:
  assumes "valid h v" "copy v h = (v', h')"
  shows "reach h' v' \<inter> reach h' v = {}"
    and "agree (reach h' v) h' h'' \<Longrightarrow> content h'' v = content h v"
    and "agree (reach h' v') h' h'' \<Longrightarrow> content h'' v' = content h v"
proof -
  have c: "prefix h h'" "valid h' v'" "reach h' v' \<inter> allocated h = {}" "content h' v' = content h v"
    using copied [OF assms] by simp_all
  note v = extended [OF assms(1) c(1)]
  show "reach h' v' \<inter> reach h' v = {}" using c(3) v(2) reach_allocated [OF assms(1)] by auto
  show "content h'' v = content h v" if "agree (reach h' v) h' h''" using frame [OF v(1) that] v(3) by simp
  show "content h'' v' = content h v" if "agree (reach h' v') h' h''" using frame [OF c(2) that] c(4) by simp
qed

end

section \<open>Values without pointers, and the fields of a structure\<close>

text \<open>The assignment \<open>*out = *in\<close>; \<open>view\<close> hides the fields that are copied after it.\<close>

definition assign :: "'v \<Rightarrow> 'c list \<Rightarrow> 'v \<times> 'c list" where
  "assign v h = (v, h)"

lemma copier_assign: "copier assign (\<lambda>h v. True) (\<lambda>h v. {}) (\<lambda>h. view)"
  by unfold_locales (auto simp: assign_def)


text \<open>A structure copied by \<open>bc\<close> whose field \<open>get\<close> is then replaced by a copy made by \<open>fc\<close>.\<close>

definition then_field ::
  "('v \<Rightarrow> 'c list \<Rightarrow> 'v \<times> 'c list) \<Rightarrow> ('v \<Rightarrow> 'f) \<Rightarrow> ('f \<Rightarrow> 'v \<Rightarrow> 'v) \<Rightarrow> ('f \<Rightarrow> 'c list \<Rightarrow> 'f \<times> 'c list) \<Rightarrow>
     'v \<Rightarrow> 'c list \<Rightarrow> 'v \<times> 'c list" where
  "then_field bc get put fc v h =
     (let (out, h) = bc v h; (x, h) = fc (get v) h in (put x out, h))"

lemma copier_field:
  assumes "copier bc bw br bt" "copier fc fw fr ft" "\<And>x v. get (put x v) = x"
    and "\<And>h x v. bw h (put x v) = bw h v" "\<And>h x v. br h (put x v) = br h v" "\<And>h x v. bt h (put x v) = bt h v"
  shows "copier (then_field bc get put fc) (\<lambda>h v. bw h v \<and> fw h (get v)) (\<lambda>h v. br h v \<union> fr h (get v))
           (\<lambda>h v. (bt h v, ft h (get v)))"
proof
  fix h v
  assume w: "bw h v \<and> fw h (get v)"
  show "br h v \<union> fr h (get v) \<subseteq> allocated h"
    using w copier.reach_allocated [OF assms(1), of h v] copier.reach_allocated [OF assms(2), of h "get v"] by simp
  show "(bw h' v \<and> fw h' (get v)) \<and> br h' v \<union> fr h' (get v) = br h v \<union> fr h (get v)
      \<and> (bt h' v, ft h' (get v)) = (bt h v, ft h (get v))" if "agree (br h v \<union> fr h (get v)) h h'" for h'
    using w that copier.frame [OF assms(1), of h v h'] copier.frame [OF assms(2), of h "get v" h'] by simp
  fix v' h'
  assume c: "then_field bc get put fc v h = (v', h')"
  obtain out h1 where b: "bc v h = (out, h1)" "prefix h h1" "bw h1 out" "br h1 out \<inter> allocated h = {}" "bt h1 out = bt h v"
    by (rule copier.copied_cases [OF assms(1) conjunct1 [OF w]])
  note f1 = copier.extended [OF assms(2) conjunct2 [OF w] b(2)]
  obtain x h2 where f: "fc (get v) h1 = (x, h2)" "prefix h1 h2" "fw h2 x" "fr h2 x \<inter> allocated h1 = {}" "ft h2 x = ft h1 (get v)"
    by (rule copier.copied_cases [OF assms(2) f1(1)])
  note b2 = copier.extended [OF assms(1) b(3) f(2)]
  have eq: "v' = put x out" "h' = h2" using c b(1) f(1) by (simp_all add: then_field_def)
  have "(br h2 out \<union> fr h2 x) \<inter> allocated h = {}"
    unfolding b2(2) by (rule fresh_Un [OF b(4) f(4) allocated_mono [OF b(2)]])
  moreover have "prefix h h2" using b(2) f(2) by (rule prefix_order.trans)
  ultimately show "prefix h h' \<and> (bw h' v' \<and> fw h' (get v')) \<and> (br h' v' \<union> fr h' (get v')) \<inter> allocated h = {}
      \<and> (bt h' v', ft h' (get v')) = (bt h v, ft h (get v))"
    using b2 f b(5) f1(3) unfolding eq assms(3-6) by simp
qed

section \<open>Slices and pointers\<close>

fun copy_list :: "('v \<Rightarrow> 'c list \<Rightarrow> 'v \<times> 'c list) \<Rightarrow> 'v list \<Rightarrow> 'c list \<Rightarrow> 'v list \<times> 'c list" where
  "copy_list c [] h = ([], h)"
| "copy_list c (x # xs) h = (let (y, h) = c x h; (ys, h) = copy_list c xs h in (y # ys, h))"

lemma copier_list:
  assumes "copier c w r t"
  shows "copier (copy_list c) (\<lambda>h. list_all (w h)) (\<lambda>h xs. \<Union> (r h ` set xs)) (\<lambda>h. map (t h))"
proof
  fix h xs
  assume w: "list_all (w h) xs"
  then have wx: "x \<in> set xs \<Longrightarrow> w h x" for x by (simp add: list_all_iff)
  show "\<Union> (r h ` set xs) \<subseteq> allocated h" by (rule UN_least) (rule copier.reach_allocated [OF assms wx])
  show "list_all (w h') xs \<and> \<Union> (r h' ` set xs) = \<Union> (r h ` set xs) \<and> map (t h') xs = map (t h) xs"
    if "agree (\<Union> (r h ` set xs)) h h'" for h'
    using copier.frame [OF assms wx agree_UN [OF that]] by (simp add: list_all_iff)
  fix ys h'
  assume "copy_list c xs h = (ys, h')"
  then show "prefix h h' \<and> list_all (w h') ys \<and> \<Union> (r h' ` set ys) \<inter> allocated h = {} \<and> map (t h') ys = map (t h) xs"
    using w
  proof (induction xs arbitrary: h ys)
    case (Cons x xs)
    have "w h x" using Cons.prems(2) by simp
    then obtain y h1 where y: "c x h = (y, h1)" "prefix h h1" "w h1 y" "r h1 y \<inter> allocated h = {}" "t h1 y = t h x"
      by (rule copier.copied_cases [OF assms])
    obtain zs where zs: "copy_list c xs h1 = (zs, h')" "ys = y # zs"
      using Cons.prems(1) by (cases "copy_list c xs h1") (simp add: y(1))
    have xs: "z \<in> set xs \<Longrightarrow> w h1 z \<and> t h1 z = t h z" for z
      using copier.extended [OF assms _ y(2)] Cons.prems(2) by (simp add: list_all_iff)
    have IH: "prefix h1 h'" "list_all (w h') zs" "\<Union> (r h' ` set zs) \<inter> allocated h1 = {}" "map (t h') zs = map (t h1) xs"
      using Cons.IH [OF zs(1)] xs by (simp_all add: list_all_iff)
    note y' = copier.extended [OF assms y(3) IH(1)]
    have "\<Union> (r h' ` set ys) \<inter> allocated h = {}"
      using fresh_Un [OF y(4) IH(3) allocated_mono [OF y(2)]] by (simp add: zs(2) y'(2))
    moreover have "prefix h h'" using y(2) IH(1) by (rule prefix_order.trans)
    moreover have "map (t h') ys = map (t h) (x # xs)" using y(5) y'(3) IH(4) xs by (simp add: zs(2))
    ultimately show ?case using IH(2) y'(1) by (simp add: zs(2))
  qed simp
qed

text \<open>
  A pointer: \<open>new\<close> or \<open>make\<close> allocates a blank cell, which the copy is then written to.  The cells of
  a kind are made by \<open>mk\<close> and read by \<open>un\<close>; reading a cell of another kind does not happen
  in well-formed stores.
\<close>

definition copy_ptr ::
  "'c \<Rightarrow> ('v \<Rightarrow> 'c) \<Rightarrow> ('c \<Rightarrow> 'v) \<Rightarrow> ('v \<Rightarrow> 'c list \<Rightarrow> 'v \<times> 'c list) \<Rightarrow>
     addr option \<Rightarrow> 'c list \<Rightarrow> addr option \<times> 'c list" where
  "copy_ptr blank mk un c p h =
     (case p of
        None \<Rightarrow> (None, h)
      | Some a \<Rightarrow>
          let q = length h; (v, h) = c (un (h ! a)) (h @ [blank]) in (Some q, h[q := mk v]))"

definition wf_ptr :: "('c \<Rightarrow> bool) \<Rightarrow> ('c \<Rightarrow> 'v) \<Rightarrow> ('c list \<Rightarrow> 'v \<Rightarrow> bool) \<Rightarrow> 'c list \<Rightarrow> addr option \<Rightarrow> bool" where
  "wf_ptr kind un w h p = (case p of None \<Rightarrow> True | Some a \<Rightarrow> a < length h \<and> kind (h ! a) \<and> w h (un (h ! a)))"

definition reach_ptr :: "('c \<Rightarrow> 'v) \<Rightarrow> ('c list \<Rightarrow> 'v \<Rightarrow> addr set) \<Rightarrow> 'c list \<Rightarrow> addr option \<Rightarrow> addr set" where
  "reach_ptr un r h p = (case p of None \<Rightarrow> {} | Some a \<Rightarrow> insert a (r h (un (h ! a))))"

definition content_ptr :: "('c \<Rightarrow> 'v) \<Rightarrow> ('c list \<Rightarrow> 'v \<Rightarrow> 't) \<Rightarrow> 'c list \<Rightarrow> addr option \<Rightarrow> 't option" where
  "content_ptr un t h p = (case p of None \<Rightarrow> None | Some a \<Rightarrow> Some (t h (un (h ! a))))"

lemmas ptr_defs = wf_ptr_def reach_ptr_def content_ptr_def

lemma copier_ptr:
  assumes "copier c w r t" "\<And>v. kind (mk v)" "\<And>v. un (mk v) = v"
  shows "copier (copy_ptr blank mk un c) (wf_ptr kind un w) (reach_ptr un r) (content_ptr un t)"
proof
  fix h p
  assume w: "wf_ptr kind un w h p"
  show "reach_ptr un r h p \<subseteq> allocated h"
    using w copier.reach_allocated [OF assms(1)] by (auto simp: ptr_defs split: option.splits)
  show "wf_ptr kind un w h' p \<and> reach_ptr un r h' p = reach_ptr un r h p \<and> content_ptr un t h' p = content_ptr un t h p"
    if ag: "agree (reach_ptr un r h p) h h'" for h'
  proof (cases p)
    case (Some a)
    then have "h' ! a = h ! a" "a < length h'" "agree (r h (un (h ! a))) h h'" "w h (un (h ! a))" "kind (h ! a)"
      using ag w by (auto simp: ptr_defs agree_def)
    then show ?thesis using copier.frame [OF assms(1), of h "un (h ! a)" h'] Some by (simp add: ptr_defs)
  qed (simp add: ptr_defs)
  fix q h'
  assume c: "copy_ptr blank mk un c p h = (q, h')"
  show "prefix h h' \<and> wf_ptr kind un w h' q \<and> reach_ptr un r h' q \<inter> allocated h = {} \<and> content_ptr un t h' q = content_ptr un t h p"
  proof (cases p)
    case (Some a)
    let ?h1 = "h @ [blank]" and ?q = "length h"
    have "w h (un (h ! a))" using w Some by (simp add: ptr_defs)
    note x = copier.extended [OF assms(1) this, of ?h1, simplified]
    obtain v h2 where v: "c (un (h ! a)) ?h1 = (v, h2)" "prefix ?h1 h2" "w h2 v" "r h2 v \<inter> allocated ?h1 = {}"
        "t h2 v = t ?h1 (un (h ! a))"
      by (rule copier.copied_cases [OF assms(1) x(1)])
    have eq: "q = Some ?q" "h' = h2[?q := mk v]" using c v(1) Some by (simp_all add: copy_ptr_def Let_def)
    obtain ext where h2: "h2 = ?h1 @ ext" using v(2) by (auto simp: prefix_def)
    have "agree (r h2 v) h2 h'"
      unfolding eq using v(4) copier.reach_allocated [OF assms(1) v(3)] by (intro agree_write) auto
    note v' = copier.frame [OF assms(1) v(3) this]
    have "h' ! ?q = mk v" "prefix h h'" "?q < length h'" by (simp_all add: eq h2 list_update_append)
    moreover have "insert ?q (r h' v) \<inter> allocated h = {}"
      using v(4) v' fresh_Un [of "{?q}" "allocated h" "r h2 v" "allocated ?h1"] by simp
    ultimately show ?thesis using v(5) v' x(3) Some by (simp add: ptr_defs eq(1) assms(2,3))
  qed (use c in \<open>simp add: copy_ptr_def ptr_defs\<close>)
qed

section \<open>Shapes\<close>

text \<open>
  What a copier is judged by, in one value: which values are well formed, the cells that belong to
  them, and what they say.  Shapes are built like the copiers.
\<close>

record ('c, 'v, 't) shape =
  sh_valid :: "'c list \<Rightarrow> 'v \<Rightarrow> bool"
  sh_reach :: "'c list \<Rightarrow> 'v \<Rightarrow> addr set"
  sh_content :: "'c list \<Rightarrow> 'v \<Rightarrow> 't"

definition copies :: "('v \<Rightarrow> 'c list \<Rightarrow> 'v \<times> 'c list) \<Rightarrow> ('c, 'v, 't) shape \<Rightarrow> bool" where
  "copies c S \<longleftrightarrow> copier c (sh_valid S) (sh_reach S) (sh_content S)"

definition plain_shape :: "('v \<Rightarrow> 't) \<Rightarrow> ('c, 'v, 't) shape" where
  "plain_shape view = \<lparr>sh_valid = \<lambda>h v. True, sh_reach = \<lambda>h v. {}, sh_content = \<lambda>h. view\<rparr>"

definition with_field ::
  "('c, 'v, 's) shape \<Rightarrow> ('v \<Rightarrow> 'f) \<Rightarrow> ('c, 'f, 't) shape \<Rightarrow> ('c, 'v, 's \<times> 't) shape" where
  "with_field S get F =
     \<lparr>sh_valid = \<lambda>h v. sh_valid S h v \<and> sh_valid F h (get v),
      sh_reach = \<lambda>h v. sh_reach S h v \<union> sh_reach F h (get v),
      sh_content = \<lambda>h v. (sh_content S h v, sh_content F h (get v))\<rparr>"

definition list_shape :: "('c, 'v, 't) shape \<Rightarrow> ('c, 'v list, 't list) shape" where
  "list_shape S =
     \<lparr>sh_valid = \<lambda>h. list_all (sh_valid S h), sh_reach = \<lambda>h xs. \<Union> (sh_reach S h ` set xs),
      sh_content = \<lambda>h. map (sh_content S h)\<rparr>"

definition ptr_shape :: "('c \<Rightarrow> bool) \<Rightarrow> ('c \<Rightarrow> 'v) \<Rightarrow> ('c, 'v, 't) shape \<Rightarrow> ('c, addr option, 't option) shape" where
  "ptr_shape kind un S =
     \<lparr>sh_valid = wf_ptr kind un (sh_valid S), sh_reach = reach_ptr un (sh_reach S),
      sh_content = content_ptr un (sh_content S)\<rparr>"

text \<open>Assigning a field leaves the rest of a structure as it is.\<close>

definition spares :: "('c, 'v, 't) shape \<Rightarrow> ('f \<Rightarrow> 'v \<Rightarrow> 'v) \<Rightarrow> bool" where
  "spares S put \<longleftrightarrow>
     (\<forall>h x v. sh_valid S h (put x v) = sh_valid S h v \<and> sh_reach S h (put x v) = sh_reach S h v
        \<and> sh_content S h (put x v) = sh_content S h v)"

named_theorems copying \<open>copiers of values and of their parts\<close>

lemma spares_plain [copying]: "(\<And>x v. view (put x v) = view v) \<Longrightarrow> spares (plain_shape view) put"
  by (simp add: spares_def plain_shape_def)

lemma spares_field [copying]: "spares S put \<Longrightarrow> (\<And>x v. get (put x v) = get v) \<Longrightarrow> spares (with_field S get F) put"
  by (simp add: spares_def with_field_def)

lemma copies_assign [copying]: "copies assign (plain_shape view)"
  using copier_assign by (simp add: copies_def plain_shape_def)

lemma copies_field [copying]:
  "copies bc S \<Longrightarrow> copies fc F \<Longrightarrow> (\<And>x v. get (put x v) = x) \<Longrightarrow> spares S put \<Longrightarrow>
     copies (then_field bc get put fc) (with_field S get F)"
  using copier_field [of bc "sh_valid S" "sh_reach S" "sh_content S" fc "sh_valid F" "sh_reach F" "sh_content F" get put]
  by (simp add: copies_def with_field_def spares_def)

lemma copies_list [copying]: "copies c S \<Longrightarrow> copies (copy_list c) (list_shape S)"
  using copier_list by (simp add: copies_def list_shape_def)

lemma copies_ptr [copying]:
  "copies c S \<Longrightarrow> (\<And>v. kind (mk v)) \<Longrightarrow> (\<And>v. un (mk v) = v) \<Longrightarrow> copies (copy_ptr blank mk un c) (ptr_shape kind un S)"
  using copier_ptr [of c "sh_valid S" "sh_reach S" "sh_content S" kind mk un blank] by (simp add: copies_def ptr_shape_def)

text \<open>A map is copied entry by entry; it is the list of its entries in the order of the iteration.\<close>

definition copy_map :: "('k \<times> 'v) list \<Rightarrow> 'c list \<Rightarrow> ('k \<times> 'v) list \<times> 'c list" where
  "copy_map es h = (fold (\<lambda>(k, v) m. AList.update k v m) es [], h)"

definition map_shape :: "('c, ('k \<times> 'v) list, 'k \<rightharpoonup> 'v) shape" where
  "map_shape = \<lparr>sh_valid = \<lambda>h es. distinct (map fst es), sh_reach = \<lambda>h es. {}, sh_content = \<lambda>h. map_of\<rparr>"

lemma fold_update:
  "distinct (map fst m) \<Longrightarrow> distinct (map fst es) \<Longrightarrow>
     distinct (map fst (fold (\<lambda>(k, v) m. AList.update k v m) es m))
     \<and> map_of (fold (\<lambda>(k, v) m. AList.update k v m) es m) = map_of m ++ map_of es"
proof (induction es arbitrary: m)
  case (Cons e es)
  obtain k v where e: "e = (k, v)" by (cases e)
  have k: "k \<notin> dom (map_of es)" using Cons.prems(2) by (simp add: e dom_map_of_conv_image_fst)
  have "distinct (map fst (AList.update k v m))" using Cons.prems(1) by (rule distinct_update)
  note IH = Cons.IH [OF this]
  have "map_of (AList.update k v m) ++ map_of es = map_of m ++ map_of ((k, v) # es)"
    by (simp only: update_conv' map_add_upd_left [OF k] map_of.simps fst_conv snd_conv map_add_upd)
  with IH Cons.prems(2) show ?case
    by (simp only: e fold_simps case_prod_conv list.map fst_conv distinct.simps simp_thms)
qed simp

lemma copies_map [copying]: "copies copy_map map_shape"
  unfolding copies_def
  by unfold_locales (use fold_update [of "[]"] in \<open>auto simp: map_shape_def copy_map_def\<close>)

end
