(* ===== verification/Api_DeepCopy.thy ===== *)
theory Api_DeepCopy
  imports Api_Types Go_Store
begin

text \<open>
  The generated copies of the resources, \<open>api/v1beta1/zz_generated.deepcopy.go\<close>, over a store.

  Here the structures of \<open>api/v1beta1\<close> are as they lie in memory: a slice, a map or a pointer is the
  address of a cell, \<open>None\<close> for nil.  A slice covers its array.  Values of the cluster's own types
  (metadata, environment variables, affinity, tolerations) are of an unknown type \<open>'k\<close>, and their
  copies, which are not part of the sources, are the record \<open>k8s_copy\<close>; what is relied on is that
  they are copies, \<open>k8s_copies\<close>.

  The method \<open>DeepCopyInto\<close> of a type returns what it writes through its argument, \<open>DeepCopy\<close>
  the pointer to a new copy, and \<open>DeepCopyObject\<close> an interface value, which is nil, or a type
  with a pointer.
\<close>

section \<open>Structures in memory\<close>

record TypeMeta =
  tm_Kind :: string
  tm_APIVersion :: string

record AnnouncementSpecM =
  asm_Title :: string
  asm_Author :: string
  asm_Content :: string

record AnnouncementStatusM =
  atm_PubTime :: int
  atm_EditTime :: int

record 'k AnnouncementM =
  am_TypeMeta :: TypeMeta
  am_ObjectMeta :: "'k"
  am_Spec :: AnnouncementSpecM
  am_Status :: AnnouncementStatusM

text \<open>The four kinds of list differ in what their items are.\<close>

record 'k ListM =
  lm_TypeMeta :: TypeMeta
  lm_ListMeta :: "'k"
  lm_Items :: "addr option"

record DeployConfigM =
  dm_Image :: string
  dm_Env :: "addr option"
  dm_ImagePullPolicy :: string
  dm_ImagePullSecrets :: "addr option"
  dm_NodeName :: string
  dm_Affinity :: "addr option"
  dm_Tolerations :: "addr option"
  dm_CPULimit :: string
  dm_MemoryLimit :: string

record FileSpecM =
  fsm_Type :: FileType
  fsm_Alias :: string

record FileStatusM =
  ftm_Files :: "addr option"
  ftm_UpdateTime :: int

record 'k FileM =
  fm_TypeMeta :: TypeMeta
  fm_ObjectMeta :: "'k"
  fm_Spec :: FileSpecM
  fm_Status :: FileStatusM

record IngressConfigM =
  im_IngressClass :: string
  im_TLSSecret :: string
  im_Host :: string
  im_Annotations :: "addr option"

record JobConfigM =
  jcm_Alias :: string
  jcm_Desc :: string
  jcm_Url :: string
  jcm_HelpUrl :: string
  jcm_Type :: MirrorType
  jcm_Upstream :: string
  jcm_Provider :: string
  jcm_MirrorPath :: string
  jcm_Command :: string
  jcm_Concurrent :: int
  jcm_Interval :: int
  jcm_Retry :: int
  jcm_Timeout :: int
  jcm_FailOnMatch :: string
  jcm_IPv6Only :: string
  jcm_IPv4Only :: string
  jcm_ExcludeFile :: string
  jcm_RsyncOptions :: string
  jcm_Stage1Profile :: string
  jcm_ExecOnSuccess :: string
  jcm_ExecOnFailure :: string
  jcm_SizePattern :: string
  jcm_AdditionEnvs :: "addr option"
  jcm_Debug :: string

record JobDeployM =
  jdm_DeployConfig :: DeployConfigM
  jdm_DisableFront :: string
  jdm_FrontMode :: string
  jdm_FrontImage :: string
  jdm_FrontCmd :: string
  jdm_DisableRsync :: string
  jdm_RsyncImage :: string
  jdm_RsyncCmd :: string

record PVConfigM =
  pm_Size :: string
  pm_StorageClass :: "addr option"
  pm_AccessMode :: string

record JobSpecM =
  jsm_Config :: JobConfigM
  jsm_Deploy :: JobDeployM
  jsm_Volume :: PVConfigM
  jsm_Ingress :: IngressConfigM

record 'k JobM =
  jbm_TypeMeta :: TypeMeta
  jbm_ObjectMeta :: "'k"
  jbm_Spec :: JobSpecM
  jbm_Status :: JobStatus

record ManagerSpecM =
  msm_DeployType :: DeployType
  msm_Deploy :: DeployConfigM
  msm_Ingress :: IngressConfigM

record ManagerStatusM =
  mtm_Phase :: DeployPhase

record 'k ManagerM =
  mm_TypeMeta :: TypeMeta
  mm_ObjectMeta :: "'k"
  mm_Spec :: ManagerSpecM
  mm_Status :: ManagerStatusM

section \<open>Cells\<close>

text \<open>
  What an address may refer to.  A blank cell is one that \<open>new\<close> or \<open>make\<close> has just
  allocated; a foreign one belongs to a value of the cluster's types.
\<close>

datatype 'k cell =
    Blank
  | ForeignCell (the_Foreign: "'k")
  | EnvVarsCell (the_EnvVars: "'k list")
  | LocalRefsCell (the_LocalRefs: "string list")
  | AffinityCell (the_Affinity: "'k")
  | TolerationsCell (the_Tolerations: "'k list")
  | StringMapCell (the_StringMap: "(string \<times> string) list")
  | StringCell (the_String: "string")
  | FileInfosCell (the_FileInfos: "FileInfo list")
  | AnnouncementsCell (the_Announcements: "'k AnnouncementM list")
  | FilesCell (the_Files: "'k FileM list")
  | JobsCell (the_Jobs: "'k JobM list")
  | ManagersCell (the_Managers: "'k ManagerM list")
  | AnnouncementCell (the_Announcement: "'k AnnouncementM")
  | AnnouncementListCell (the_AnnouncementList: "'k ListM")
  | AnnouncementSpecCell (the_AnnouncementSpec: "AnnouncementSpecM")
  | AnnouncementStatusCell (the_AnnouncementStatus: "AnnouncementStatusM")
  | DeployConfigCell (the_DeployConfig: "DeployConfigM")
  | FileCell (the_File: "'k FileM")
  | FileInfoCell (the_FileInfo: "FileInfo")
  | FileListCell (the_FileList: "'k ListM")
  | FileSpecCell (the_FileSpec: "FileSpecM")
  | FileStatusCell (the_FileStatus: "FileStatusM")
  | IngressConfigCell (the_IngressConfig: "IngressConfigM")
  | JobCell (the_Job: "'k JobM")
  | JobConfigCell (the_JobConfig: "JobConfigM")
  | JobDeployCell (the_JobDeploy: "JobDeployM")
  | JobListCell (the_JobList: "'k ListM")
  | JobSpecCell (the_JobSpec: "JobSpecM")
  | JobStatusCell (the_JobStatus: "JobStatus")
  | ManagerCell (the_Manager: "'k ManagerM")
  | ManagerListCell (the_ManagerList: "'k ListM")
  | ManagerSpecCell (the_ManagerSpec: "ManagerSpecM")
  | ManagerStatusCell (the_ManagerStatus: "ManagerStatusM")
  | PVConfigCell (the_PVConfig: "PVConfigM")

record 'k k8s_copy =
  kc_ObjectMeta :: "'k \<Rightarrow> 'k cell list \<Rightarrow> 'k \<times> 'k cell list"
  kc_ListMeta :: "'k \<Rightarrow> 'k cell list \<Rightarrow> 'k \<times> 'k cell list"
  kc_EnvVar :: "'k \<Rightarrow> 'k cell list \<Rightarrow> 'k \<times> 'k cell list"
  kc_Affinity :: "'k \<Rightarrow> 'k cell list \<Rightarrow> 'k \<times> 'k cell list"
  kc_Toleration :: "'k \<Rightarrow> 'k cell list \<Rightarrow> 'k \<times> 'k cell list"

record ('k, 't) k8s_shape =
  ks_ObjectMeta :: "('k cell, 'k, 't) shape"
  ks_ListMeta :: "('k cell, 'k, 't) shape"
  ks_EnvVar :: "('k cell, 'k, 't) shape"
  ks_Affinity :: "('k cell, 'k, 't) shape"
  ks_Toleration :: "('k cell, 'k, 't) shape"

definition k8s_copies :: "'k k8s_copy \<Rightarrow> ('k, 't) k8s_shape \<Rightarrow> bool" where
  "k8s_copies K S \<longleftrightarrow>
     copies (kc_ObjectMeta K) (ks_ObjectMeta S)
     \<and> copies (kc_ListMeta K) (ks_ListMeta S)
     \<and> copies (kc_EnvVar K) (ks_EnvVar S)
     \<and> copies (kc_Affinity K) (ks_Affinity S)
     \<and> copies (kc_Toleration K) (ks_Toleration S)"

lemma k8s_copiesD [copying]:
  assumes "k8s_copies K S"
  shows "copies (kc_ObjectMeta K) (ks_ObjectMeta S)" "copies (kc_ListMeta K) (ks_ListMeta S)" "copies (kc_EnvVar K) (ks_EnvVar S)" "copies (kc_Affinity K) (ks_Affinity S)" "copies (kc_Toleration K) (ks_Toleration S)"
  using assms by (simp_all add: k8s_copies_def)

section \<open>DeepCopyInto\<close>

definition AnnouncementSpec_DeepCopyInto :: "AnnouncementSpecM \<Rightarrow> 'k cell list \<Rightarrow> AnnouncementSpecM \<times> 'k cell list" where
  "AnnouncementSpec_DeepCopyInto = assign"

definition AnnouncementStatus_DeepCopyInto :: "AnnouncementStatusM \<Rightarrow> 'k cell list \<Rightarrow> AnnouncementStatusM \<times> 'k cell list" where
  "AnnouncementStatus_DeepCopyInto = assign"

definition Announcement_DeepCopyInto :: "'k k8s_copy \<Rightarrow> 'k AnnouncementM \<Rightarrow> 'k cell list \<Rightarrow> 'k AnnouncementM \<times> 'k cell list" where
  "Announcement_DeepCopyInto K =
     then_field (then_field (then_field (then_field assign
       am_TypeMeta (\<lambda>x. am_TypeMeta_update (\<lambda>_. x)) assign)
       am_ObjectMeta (\<lambda>x. am_ObjectMeta_update (\<lambda>_. x)) (kc_ObjectMeta K))
       am_Spec (\<lambda>x. am_Spec_update (\<lambda>_. x)) assign)
       am_Status (\<lambda>x. am_Status_update (\<lambda>_. x)) assign"

definition AnnouncementList_DeepCopyInto :: "'k k8s_copy \<Rightarrow> 'k ListM \<Rightarrow> 'k cell list \<Rightarrow> 'k ListM \<times> 'k cell list" where
  "AnnouncementList_DeepCopyInto K =
     then_field (then_field (then_field assign
       lm_TypeMeta (\<lambda>x. lm_TypeMeta_update (\<lambda>_. x)) assign)
       lm_ListMeta (\<lambda>x. lm_ListMeta_update (\<lambda>_. x)) (kc_ListMeta K))
       lm_Items (\<lambda>x. lm_Items_update (\<lambda>_. x)) (copy_ptr Blank AnnouncementsCell the_Announcements (copy_list (Announcement_DeepCopyInto K)))"

definition DeployConfig_DeepCopyInto :: "'k k8s_copy \<Rightarrow> DeployConfigM \<Rightarrow> 'k cell list \<Rightarrow> DeployConfigM \<times> 'k cell list" where
  "DeployConfig_DeepCopyInto K =
     then_field (then_field (then_field (then_field assign
       dm_Env (\<lambda>x. dm_Env_update (\<lambda>_. x)) (copy_ptr Blank EnvVarsCell the_EnvVars (copy_list (kc_EnvVar K))))
       dm_ImagePullSecrets (\<lambda>x. dm_ImagePullSecrets_update (\<lambda>_. x)) (copy_ptr Blank LocalRefsCell the_LocalRefs assign))
       dm_Affinity (\<lambda>x. dm_Affinity_update (\<lambda>_. x)) (copy_ptr Blank AffinityCell the_Affinity (kc_Affinity K)))
       dm_Tolerations (\<lambda>x. dm_Tolerations_update (\<lambda>_. x)) (copy_ptr Blank TolerationsCell the_Tolerations (copy_list (kc_Toleration K)))"

definition FileInfo_DeepCopyInto :: "FileInfo \<Rightarrow> 'k cell list \<Rightarrow> FileInfo \<times> 'k cell list" where
  "FileInfo_DeepCopyInto = assign"

definition FileSpec_DeepCopyInto :: "FileSpecM \<Rightarrow> 'k cell list \<Rightarrow> FileSpecM \<times> 'k cell list" where
  "FileSpec_DeepCopyInto = assign"

definition FileStatus_DeepCopyInto :: "FileStatusM \<Rightarrow> 'k cell list \<Rightarrow> FileStatusM \<times> 'k cell list" where
  "FileStatus_DeepCopyInto =
     then_field assign
       ftm_Files (\<lambda>x. ftm_Files_update (\<lambda>_. x)) (copy_ptr Blank FileInfosCell the_FileInfos assign)"

definition File_DeepCopyInto :: "'k k8s_copy \<Rightarrow> 'k FileM \<Rightarrow> 'k cell list \<Rightarrow> 'k FileM \<times> 'k cell list" where
  "File_DeepCopyInto K =
     then_field (then_field (then_field (then_field assign
       fm_TypeMeta (\<lambda>x. fm_TypeMeta_update (\<lambda>_. x)) assign)
       fm_ObjectMeta (\<lambda>x. fm_ObjectMeta_update (\<lambda>_. x)) (kc_ObjectMeta K))
       fm_Spec (\<lambda>x. fm_Spec_update (\<lambda>_. x)) assign)
       fm_Status (\<lambda>x. fm_Status_update (\<lambda>_. x)) FileStatus_DeepCopyInto"

definition FileList_DeepCopyInto :: "'k k8s_copy \<Rightarrow> 'k ListM \<Rightarrow> 'k cell list \<Rightarrow> 'k ListM \<times> 'k cell list" where
  "FileList_DeepCopyInto K =
     then_field (then_field (then_field assign
       lm_TypeMeta (\<lambda>x. lm_TypeMeta_update (\<lambda>_. x)) assign)
       lm_ListMeta (\<lambda>x. lm_ListMeta_update (\<lambda>_. x)) (kc_ListMeta K))
       lm_Items (\<lambda>x. lm_Items_update (\<lambda>_. x)) (copy_ptr Blank FilesCell the_Files (copy_list (File_DeepCopyInto K)))"

definition IngressConfig_DeepCopyInto :: "IngressConfigM \<Rightarrow> 'k cell list \<Rightarrow> IngressConfigM \<times> 'k cell list" where
  "IngressConfig_DeepCopyInto =
     then_field assign
       im_Annotations (\<lambda>x. im_Annotations_update (\<lambda>_. x)) (copy_ptr Blank StringMapCell the_StringMap copy_map)"

definition JobConfig_DeepCopyInto :: "'k k8s_copy \<Rightarrow> JobConfigM \<Rightarrow> 'k cell list \<Rightarrow> JobConfigM \<times> 'k cell list" where
  "JobConfig_DeepCopyInto K =
     then_field assign
       jcm_AdditionEnvs (\<lambda>x. jcm_AdditionEnvs_update (\<lambda>_. x)) (copy_ptr Blank EnvVarsCell the_EnvVars (copy_list (kc_EnvVar K)))"

definition JobDeploy_DeepCopyInto :: "'k k8s_copy \<Rightarrow> JobDeployM \<Rightarrow> 'k cell list \<Rightarrow> JobDeployM \<times> 'k cell list" where
  "JobDeploy_DeepCopyInto K =
     then_field assign
       jdm_DeployConfig (\<lambda>x. jdm_DeployConfig_update (\<lambda>_. x)) (DeployConfig_DeepCopyInto K)"

definition PVConfig_DeepCopyInto :: "PVConfigM \<Rightarrow> 'k cell list \<Rightarrow> PVConfigM \<times> 'k cell list" where
  "PVConfig_DeepCopyInto =
     then_field assign
       pm_StorageClass (\<lambda>x. pm_StorageClass_update (\<lambda>_. x)) (copy_ptr Blank StringCell the_String assign)"

definition JobSpec_DeepCopyInto :: "'k k8s_copy \<Rightarrow> JobSpecM \<Rightarrow> 'k cell list \<Rightarrow> JobSpecM \<times> 'k cell list" where
  "JobSpec_DeepCopyInto K =
     then_field (then_field (then_field (then_field assign
       jsm_Config (\<lambda>x. jsm_Config_update (\<lambda>_. x)) (JobConfig_DeepCopyInto K))
       jsm_Deploy (\<lambda>x. jsm_Deploy_update (\<lambda>_. x)) (JobDeploy_DeepCopyInto K))
       jsm_Volume (\<lambda>x. jsm_Volume_update (\<lambda>_. x)) PVConfig_DeepCopyInto)
       jsm_Ingress (\<lambda>x. jsm_Ingress_update (\<lambda>_. x)) IngressConfig_DeepCopyInto"

definition JobStatus_DeepCopyInto :: "JobStatus \<Rightarrow> 'k cell list \<Rightarrow> JobStatus \<times> 'k cell list" where
  "JobStatus_DeepCopyInto = assign"

definition Job_DeepCopyInto :: "'k k8s_copy \<Rightarrow> 'k JobM \<Rightarrow> 'k cell list \<Rightarrow> 'k JobM \<times> 'k cell list" where
  "Job_DeepCopyInto K =
     then_field (then_field (then_field (then_field assign
       jbm_TypeMeta (\<lambda>x. jbm_TypeMeta_update (\<lambda>_. x)) assign)
       jbm_ObjectMeta (\<lambda>x. jbm_ObjectMeta_update (\<lambda>_. x)) (kc_ObjectMeta K))
       jbm_Spec (\<lambda>x. jbm_Spec_update (\<lambda>_. x)) (JobSpec_DeepCopyInto K))
       jbm_Status (\<lambda>x. jbm_Status_update (\<lambda>_. x)) assign"

definition JobList_DeepCopyInto :: "'k k8s_copy \<Rightarrow> 'k ListM \<Rightarrow> 'k cell list \<Rightarrow> 'k ListM \<times> 'k cell list" where
  "JobList_DeepCopyInto K =
     then_field (then_field (then_field assign
       lm_TypeMeta (\<lambda>x. lm_TypeMeta_update (\<lambda>_. x)) assign)
       lm_ListMeta (\<lambda>x. lm_ListMeta_update (\<lambda>_. x)) (kc_ListMeta K))
       lm_Items (\<lambda>x. lm_Items_update (\<lambda>_. x)) (copy_ptr Blank JobsCell the_Jobs (copy_list (Job_DeepCopyInto K)))"

definition ManagerSpec_DeepCopyInto :: "'k k8s_copy \<Rightarrow> ManagerSpecM \<Rightarrow> 'k cell list \<Rightarrow> ManagerSpecM \<times> 'k cell list" where
  "ManagerSpec_DeepCopyInto K =
     then_field (then_field assign
       msm_Deploy (\<lambda>x. msm_Deploy_update (\<lambda>_. x)) (DeployConfig_DeepCopyInto K))
       msm_Ingress (\<lambda>x. msm_Ingress_update (\<lambda>_. x)) IngressConfig_DeepCopyInto"

definition ManagerStatus_DeepCopyInto :: "ManagerStatusM \<Rightarrow> 'k cell list \<Rightarrow> ManagerStatusM \<times> 'k cell list" where
  "ManagerStatus_DeepCopyInto = assign"

definition Manager_DeepCopyInto :: "'k k8s_copy \<Rightarrow> 'k ManagerM \<Rightarrow> 'k cell list \<Rightarrow> 'k ManagerM \<times> 'k cell list" where
  "Manager_DeepCopyInto K =
     then_field (then_field (then_field (then_field assign
       mm_TypeMeta (\<lambda>x. mm_TypeMeta_update (\<lambda>_. x)) assign)
       mm_ObjectMeta (\<lambda>x. mm_ObjectMeta_update (\<lambda>_. x)) (kc_ObjectMeta K))
       mm_Spec (\<lambda>x. mm_Spec_update (\<lambda>_. x)) (ManagerSpec_DeepCopyInto K))
       mm_Status (\<lambda>x. mm_Status_update (\<lambda>_. x)) assign"

definition ManagerList_DeepCopyInto :: "'k k8s_copy \<Rightarrow> 'k ListM \<Rightarrow> 'k cell list \<Rightarrow> 'k ListM \<times> 'k cell list" where
  "ManagerList_DeepCopyInto K =
     then_field (then_field (then_field assign
       lm_TypeMeta (\<lambda>x. lm_TypeMeta_update (\<lambda>_. x)) assign)
       lm_ListMeta (\<lambda>x. lm_ListMeta_update (\<lambda>_. x)) (kc_ListMeta K))
       lm_Items (\<lambda>x. lm_Items_update (\<lambda>_. x)) (copy_ptr Blank ManagersCell the_Managers (copy_list (Manager_DeepCopyInto K)))"

section \<open>DeepCopy\<close>

definition Announcement_DeepCopy :: "'k k8s_copy \<Rightarrow> addr option \<Rightarrow> 'k cell list \<Rightarrow> addr option \<times> 'k cell list" where
  "Announcement_DeepCopy K = copy_ptr Blank AnnouncementCell the_Announcement (Announcement_DeepCopyInto K)"

definition AnnouncementList_DeepCopy :: "'k k8s_copy \<Rightarrow> addr option \<Rightarrow> 'k cell list \<Rightarrow> addr option \<times> 'k cell list" where
  "AnnouncementList_DeepCopy K = copy_ptr Blank AnnouncementListCell the_AnnouncementList (AnnouncementList_DeepCopyInto K)"

definition AnnouncementSpec_DeepCopy :: "addr option \<Rightarrow> 'k cell list \<Rightarrow> addr option \<times> 'k cell list" where
  "AnnouncementSpec_DeepCopy = copy_ptr Blank AnnouncementSpecCell the_AnnouncementSpec AnnouncementSpec_DeepCopyInto"

definition AnnouncementStatus_DeepCopy :: "addr option \<Rightarrow> 'k cell list \<Rightarrow> addr option \<times> 'k cell list" where
  "AnnouncementStatus_DeepCopy = copy_ptr Blank AnnouncementStatusCell the_AnnouncementStatus AnnouncementStatus_DeepCopyInto"

definition DeployConfig_DeepCopy :: "'k k8s_copy \<Rightarrow> addr option \<Rightarrow> 'k cell list \<Rightarrow> addr option \<times> 'k cell list" where
  "DeployConfig_DeepCopy K = copy_ptr Blank DeployConfigCell the_DeployConfig (DeployConfig_DeepCopyInto K)"

definition File_DeepCopy :: "'k k8s_copy \<Rightarrow> addr option \<Rightarrow> 'k cell list \<Rightarrow> addr option \<times> 'k cell list" where
  "File_DeepCopy K = copy_ptr Blank FileCell the_File (File_DeepCopyInto K)"

definition FileInfo_DeepCopy :: "addr option \<Rightarrow> 'k cell list \<Rightarrow> addr option \<times> 'k cell list" where
  "FileInfo_DeepCopy = copy_ptr Blank FileInfoCell the_FileInfo FileInfo_DeepCopyInto"

definition FileList_DeepCopy :: "'k k8s_copy \<Rightarrow> addr option \<Rightarrow> 'k cell list \<Rightarrow> addr option \<times> 'k cell list" where
  "FileList_DeepCopy K = copy_ptr Blank FileListCell the_FileList (FileList_DeepCopyInto K)"

definition FileSpec_DeepCopy :: "addr option \<Rightarrow> 'k cell list \<Rightarrow> addr option \<times> 'k cell list" where
  "FileSpec_DeepCopy = copy_ptr Blank FileSpecCell the_FileSpec FileSpec_DeepCopyInto"

definition FileStatus_DeepCopy :: "addr option \<Rightarrow> 'k cell list \<Rightarrow> addr option \<times> 'k cell list" where
  "FileStatus_DeepCopy = copy_ptr Blank FileStatusCell the_FileStatus FileStatus_DeepCopyInto"

definition IngressConfig_DeepCopy :: "addr option \<Rightarrow> 'k cell list \<Rightarrow> addr option \<times> 'k cell list" where
  "IngressConfig_DeepCopy = copy_ptr Blank IngressConfigCell the_IngressConfig IngressConfig_DeepCopyInto"

definition Job_DeepCopy :: "'k k8s_copy \<Rightarrow> addr option \<Rightarrow> 'k cell list \<Rightarrow> addr option \<times> 'k cell list" where
  "Job_DeepCopy K = copy_ptr Blank JobCell the_Job (Job_DeepCopyInto K)"

definition JobConfig_DeepCopy :: "'k k8s_copy \<Rightarrow> addr option \<Rightarrow> 'k cell list \<Rightarrow> addr option \<times> 'k cell list" where
  "JobConfig_DeepCopy K = copy_ptr Blank JobConfigCell the_JobConfig (JobConfig_DeepCopyInto K)"

definition JobDeploy_DeepCopy :: "'k k8s_copy \<Rightarrow> addr option \<Rightarrow> 'k cell list \<Rightarrow> addr option \<times> 'k cell list" where
  "JobDeploy_DeepCopy K = copy_ptr Blank JobDeployCell the_JobDeploy (JobDeploy_DeepCopyInto K)"

definition JobList_DeepCopy :: "'k k8s_copy \<Rightarrow> addr option \<Rightarrow> 'k cell list \<Rightarrow> addr option \<times> 'k cell list" where
  "JobList_DeepCopy K = copy_ptr Blank JobListCell the_JobList (JobList_DeepCopyInto K)"

definition JobSpec_DeepCopy :: "'k k8s_copy \<Rightarrow> addr option \<Rightarrow> 'k cell list \<Rightarrow> addr option \<times> 'k cell list" where
  "JobSpec_DeepCopy K = copy_ptr Blank JobSpecCell the_JobSpec (JobSpec_DeepCopyInto K)"

definition JobStatus_DeepCopy :: "addr option \<Rightarrow> 'k cell list \<Rightarrow> addr option \<times> 'k cell list" where
  "JobStatus_DeepCopy = copy_ptr Blank JobStatusCell the_JobStatus JobStatus_DeepCopyInto"

definition Manager_DeepCopy :: "'k k8s_copy \<Rightarrow> addr option \<Rightarrow> 'k cell list \<Rightarrow> addr option \<times> 'k cell list" where
  "Manager_DeepCopy K = copy_ptr Blank ManagerCell the_Manager (Manager_DeepCopyInto K)"

definition ManagerList_DeepCopy :: "'k k8s_copy \<Rightarrow> addr option \<Rightarrow> 'k cell list \<Rightarrow> addr option \<times> 'k cell list" where
  "ManagerList_DeepCopy K = copy_ptr Blank ManagerListCell the_ManagerList (ManagerList_DeepCopyInto K)"

definition ManagerSpec_DeepCopy :: "'k k8s_copy \<Rightarrow> addr option \<Rightarrow> 'k cell list \<Rightarrow> addr option \<times> 'k cell list" where
  "ManagerSpec_DeepCopy K = copy_ptr Blank ManagerSpecCell the_ManagerSpec (ManagerSpec_DeepCopyInto K)"

definition ManagerStatus_DeepCopy :: "addr option \<Rightarrow> 'k cell list \<Rightarrow> addr option \<times> 'k cell list" where
  "ManagerStatus_DeepCopy = copy_ptr Blank ManagerStatusCell the_ManagerStatus ManagerStatus_DeepCopyInto"

definition PVConfig_DeepCopy :: "addr option \<Rightarrow> 'k cell list \<Rightarrow> addr option \<times> 'k cell list" where
  "PVConfig_DeepCopy = copy_ptr Blank PVConfigCell the_PVConfig PVConfig_DeepCopyInto"

section \<open>Shapes\<close>

definition AnnouncementSpec_shape where
  "AnnouncementSpec_shape = plain_shape (\<lambda>v. v)"

definition AnnouncementStatus_shape where
  "AnnouncementStatus_shape = plain_shape (\<lambda>v. v)"

definition Announcement_shape where
  "Announcement_shape S =
     with_field (with_field (with_field (with_field (plain_shape (\<lambda>_. ()))
       am_TypeMeta (plain_shape (\<lambda>v. v)))
       am_ObjectMeta (ks_ObjectMeta S))
       am_Spec (plain_shape (\<lambda>v. v)))
       am_Status (plain_shape (\<lambda>v. v))"

definition AnnouncementList_shape where
  "AnnouncementList_shape S =
     with_field (with_field (with_field (plain_shape (\<lambda>_. ()))
       lm_TypeMeta (plain_shape (\<lambda>v. v)))
       lm_ListMeta (ks_ListMeta S))
       lm_Items (ptr_shape is_AnnouncementsCell the_Announcements (list_shape (Announcement_shape S)))"

definition DeployConfig_shape where
  "DeployConfig_shape S =
     with_field (with_field (with_field (with_field (plain_shape (\<lambda>v. v\<lparr>dm_Env := None, dm_ImagePullSecrets := None, dm_Affinity := None, dm_Tolerations := None\<rparr>))
       dm_Env (ptr_shape is_EnvVarsCell the_EnvVars (list_shape (ks_EnvVar S))))
       dm_ImagePullSecrets (ptr_shape is_LocalRefsCell the_LocalRefs (plain_shape (\<lambda>v. v))))
       dm_Affinity (ptr_shape is_AffinityCell the_Affinity (ks_Affinity S)))
       dm_Tolerations (ptr_shape is_TolerationsCell the_Tolerations (list_shape (ks_Toleration S)))"

definition FileInfo_shape where
  "FileInfo_shape = plain_shape (\<lambda>v. v)"

definition FileSpec_shape where
  "FileSpec_shape = plain_shape (\<lambda>v. v)"

definition FileStatus_shape where
  "FileStatus_shape =
     with_field (plain_shape ftm_UpdateTime)
       ftm_Files (ptr_shape is_FileInfosCell the_FileInfos (plain_shape (\<lambda>v. v)))"

definition File_shape where
  "File_shape S =
     with_field (with_field (with_field (with_field (plain_shape (\<lambda>_. ()))
       fm_TypeMeta (plain_shape (\<lambda>v. v)))
       fm_ObjectMeta (ks_ObjectMeta S))
       fm_Spec (plain_shape (\<lambda>v. v)))
       fm_Status FileStatus_shape"

definition FileList_shape where
  "FileList_shape S =
     with_field (with_field (with_field (plain_shape (\<lambda>_. ()))
       lm_TypeMeta (plain_shape (\<lambda>v. v)))
       lm_ListMeta (ks_ListMeta S))
       lm_Items (ptr_shape is_FilesCell the_Files (list_shape (File_shape S)))"

definition IngressConfig_shape where
  "IngressConfig_shape =
     with_field (plain_shape (\<lambda>v. (im_IngressClass v, im_TLSSecret v, im_Host v)))
       im_Annotations (ptr_shape is_StringMapCell the_StringMap map_shape)"

definition JobConfig_shape where
  "JobConfig_shape S =
     with_field (plain_shape (\<lambda>v. v\<lparr>jcm_AdditionEnvs := None\<rparr>))
       jcm_AdditionEnvs (ptr_shape is_EnvVarsCell the_EnvVars (list_shape (ks_EnvVar S)))"

definition JobDeploy_shape where
  "JobDeploy_shape S =
     with_field (plain_shape (\<lambda>v. (jdm_DisableFront v, jdm_FrontMode v, jdm_FrontImage v, jdm_FrontCmd v, jdm_DisableRsync v, jdm_RsyncImage v, jdm_RsyncCmd v)))
       jdm_DeployConfig (DeployConfig_shape S)"

definition PVConfig_shape where
  "PVConfig_shape =
     with_field (plain_shape (\<lambda>v. (pm_Size v, pm_AccessMode v)))
       pm_StorageClass (ptr_shape is_StringCell the_String (plain_shape (\<lambda>v. v)))"

definition JobSpec_shape where
  "JobSpec_shape S =
     with_field (with_field (with_field (with_field (plain_shape (\<lambda>_. ()))
       jsm_Config (JobConfig_shape S))
       jsm_Deploy (JobDeploy_shape S))
       jsm_Volume PVConfig_shape)
       jsm_Ingress IngressConfig_shape"

definition JobStatus_shape where
  "JobStatus_shape = plain_shape (\<lambda>v. v)"

definition Job_shape where
  "Job_shape S =
     with_field (with_field (with_field (with_field (plain_shape (\<lambda>_. ()))
       jbm_TypeMeta (plain_shape (\<lambda>v. v)))
       jbm_ObjectMeta (ks_ObjectMeta S))
       jbm_Spec (JobSpec_shape S))
       jbm_Status (plain_shape (\<lambda>v. v))"

definition JobList_shape where
  "JobList_shape S =
     with_field (with_field (with_field (plain_shape (\<lambda>_. ()))
       lm_TypeMeta (plain_shape (\<lambda>v. v)))
       lm_ListMeta (ks_ListMeta S))
       lm_Items (ptr_shape is_JobsCell the_Jobs (list_shape (Job_shape S)))"

definition ManagerSpec_shape where
  "ManagerSpec_shape S =
     with_field (with_field (plain_shape msm_DeployType)
       msm_Deploy (DeployConfig_shape S))
       msm_Ingress IngressConfig_shape"

definition ManagerStatus_shape where
  "ManagerStatus_shape = plain_shape (\<lambda>v. v)"

definition Manager_shape where
  "Manager_shape S =
     with_field (with_field (with_field (with_field (plain_shape (\<lambda>_. ()))
       mm_TypeMeta (plain_shape (\<lambda>v. v)))
       mm_ObjectMeta (ks_ObjectMeta S))
       mm_Spec (ManagerSpec_shape S))
       mm_Status (plain_shape (\<lambda>v. v))"

definition ManagerList_shape where
  "ManagerList_shape S =
     with_field (with_field (with_field (plain_shape (\<lambda>_. ()))
       lm_TypeMeta (plain_shape (\<lambda>v. v)))
       lm_ListMeta (ks_ListMeta S))
       lm_Items (ptr_shape is_ManagersCell the_Managers (list_shape (Manager_shape S)))"

lemma copies_AnnouncementSpec [copying]: "copies AnnouncementSpec_DeepCopyInto AnnouncementSpec_shape"
  unfolding AnnouncementSpec_DeepCopyInto_def AnnouncementSpec_shape_def by (intro copying)

lemma copies_AnnouncementStatus [copying]: "copies AnnouncementStatus_DeepCopyInto AnnouncementStatus_shape"
  unfolding AnnouncementStatus_DeepCopyInto_def AnnouncementStatus_shape_def by (intro copying)

lemma copies_Announcement [copying]: "k8s_copies K S \<Longrightarrow> copies (Announcement_DeepCopyInto K) (Announcement_shape S)"
  unfolding Announcement_DeepCopyInto_def Announcement_shape_def by (intro copying) simp_all

lemma copies_AnnouncementList [copying]: "k8s_copies K S \<Longrightarrow> copies (AnnouncementList_DeepCopyInto K) (AnnouncementList_shape S)"
  unfolding AnnouncementList_DeepCopyInto_def AnnouncementList_shape_def by (intro copying) simp_all

lemma copies_DeployConfig [copying]: "k8s_copies K S \<Longrightarrow> copies (DeployConfig_DeepCopyInto K) (DeployConfig_shape S)"
  unfolding DeployConfig_DeepCopyInto_def DeployConfig_shape_def by (intro copying) simp_all

lemma copies_FileInfo [copying]: "copies FileInfo_DeepCopyInto FileInfo_shape"
  unfolding FileInfo_DeepCopyInto_def FileInfo_shape_def by (intro copying)

lemma copies_FileSpec [copying]: "copies FileSpec_DeepCopyInto FileSpec_shape"
  unfolding FileSpec_DeepCopyInto_def FileSpec_shape_def by (intro copying)

lemma copies_FileStatus [copying]: "copies FileStatus_DeepCopyInto FileStatus_shape"
  unfolding FileStatus_DeepCopyInto_def FileStatus_shape_def by (intro copying) simp_all

lemma copies_File [copying]: "k8s_copies K S \<Longrightarrow> copies (File_DeepCopyInto K) (File_shape S)"
  unfolding File_DeepCopyInto_def File_shape_def by (intro copying) simp_all

lemma copies_FileList [copying]: "k8s_copies K S \<Longrightarrow> copies (FileList_DeepCopyInto K) (FileList_shape S)"
  unfolding FileList_DeepCopyInto_def FileList_shape_def by (intro copying) simp_all

lemma copies_IngressConfig [copying]: "copies IngressConfig_DeepCopyInto IngressConfig_shape"
  unfolding IngressConfig_DeepCopyInto_def IngressConfig_shape_def by (intro copying) simp_all

lemma copies_JobConfig [copying]: "k8s_copies K S \<Longrightarrow> copies (JobConfig_DeepCopyInto K) (JobConfig_shape S)"
  unfolding JobConfig_DeepCopyInto_def JobConfig_shape_def by (intro copying) simp_all

lemma copies_JobDeploy [copying]: "k8s_copies K S \<Longrightarrow> copies (JobDeploy_DeepCopyInto K) (JobDeploy_shape S)"
  unfolding JobDeploy_DeepCopyInto_def JobDeploy_shape_def by (intro copying) simp_all

lemma copies_PVConfig [copying]: "copies PVConfig_DeepCopyInto PVConfig_shape"
  unfolding PVConfig_DeepCopyInto_def PVConfig_shape_def by (intro copying) simp_all

lemma copies_JobSpec [copying]: "k8s_copies K S \<Longrightarrow> copies (JobSpec_DeepCopyInto K) (JobSpec_shape S)"
  unfolding JobSpec_DeepCopyInto_def JobSpec_shape_def by (intro copying) simp_all

lemma copies_JobStatus [copying]: "copies JobStatus_DeepCopyInto JobStatus_shape"
  unfolding JobStatus_DeepCopyInto_def JobStatus_shape_def by (intro copying)

lemma copies_Job [copying]: "k8s_copies K S \<Longrightarrow> copies (Job_DeepCopyInto K) (Job_shape S)"
  unfolding Job_DeepCopyInto_def Job_shape_def by (intro copying) simp_all

lemma copies_JobList [copying]: "k8s_copies K S \<Longrightarrow> copies (JobList_DeepCopyInto K) (JobList_shape S)"
  unfolding JobList_DeepCopyInto_def JobList_shape_def by (intro copying) simp_all

lemma copies_ManagerSpec [copying]: "k8s_copies K S \<Longrightarrow> copies (ManagerSpec_DeepCopyInto K) (ManagerSpec_shape S)"
  unfolding ManagerSpec_DeepCopyInto_def ManagerSpec_shape_def by (intro copying) simp_all

lemma copies_ManagerStatus [copying]: "copies ManagerStatus_DeepCopyInto ManagerStatus_shape"
  unfolding ManagerStatus_DeepCopyInto_def ManagerStatus_shape_def by (intro copying)

lemma copies_Manager [copying]: "k8s_copies K S \<Longrightarrow> copies (Manager_DeepCopyInto K) (Manager_shape S)"
  unfolding Manager_DeepCopyInto_def Manager_shape_def by (intro copying) simp_all

lemma copies_ManagerList [copying]: "k8s_copies K S \<Longrightarrow> copies (ManagerList_DeepCopyInto K) (ManagerList_shape S)"
  unfolding ManagerList_DeepCopyInto_def ManagerList_shape_def by (intro copying) simp_all

interpretation pv: copier PVConfig_DeepCopyInto "sh_valid PVConfig_shape" "sh_reach PVConfig_shape" "sh_content PVConfig_shape"
  by (fact copies_PVConfig [unfolded copies_def])

interpretation ingress: copier IngressConfig_DeepCopyInto
  "sh_valid IngressConfig_shape" "sh_reach IngressConfig_shape" "sh_content IngressConfig_shape"
  by (fact copies_IngressConfig [unfolded copies_def])

interpretation images: copier FileStatus_DeepCopyInto
  "sh_valid FileStatus_shape" "sh_reach FileStatus_shape" "sh_content FileStatus_shape"
  by (fact copies_FileStatus [unfolded copies_def])

section \<open>DeepCopyObject\<close>

text \<open>The types that are objects of the cluster, and an interface value that holds one.\<close>

datatype object_type =
  TAnnouncement | TAnnouncementList | TFile | TFileList | TJob | TJobList | TManager | TManagerList

type_synonym interface = "(object_type \<times> addr option) option"

text \<open>A pointer to a copy becomes an interface value; a nil pointer must become the nil interface.\<close>

definition as_object :: "object_type \<Rightarrow> addr option \<times> 'c list \<Rightarrow> interface \<times> 'c list" where
  "as_object t r = (case r of (Some c, h) \<Rightarrow> (Some (t, Some c), h) | (None, h) \<Rightarrow> (None, h))"

definition Announcement_DeepCopyObject :: "'k k8s_copy \<Rightarrow> addr option \<Rightarrow> 'k cell list \<Rightarrow> interface \<times> 'k cell list" where
  "Announcement_DeepCopyObject K p h = as_object TAnnouncement (Announcement_DeepCopy K p h)"

definition AnnouncementList_DeepCopyObject :: "'k k8s_copy \<Rightarrow> addr option \<Rightarrow> 'k cell list \<Rightarrow> interface \<times> 'k cell list" where
  "AnnouncementList_DeepCopyObject K p h = as_object TAnnouncementList (AnnouncementList_DeepCopy K p h)"

definition File_DeepCopyObject :: "'k k8s_copy \<Rightarrow> addr option \<Rightarrow> 'k cell list \<Rightarrow> interface \<times> 'k cell list" where
  "File_DeepCopyObject K p h = as_object TFile (File_DeepCopy K p h)"

definition FileList_DeepCopyObject :: "'k k8s_copy \<Rightarrow> addr option \<Rightarrow> 'k cell list \<Rightarrow> interface \<times> 'k cell list" where
  "FileList_DeepCopyObject K p h = as_object TFileList (FileList_DeepCopy K p h)"

definition Job_DeepCopyObject :: "'k k8s_copy \<Rightarrow> addr option \<Rightarrow> 'k cell list \<Rightarrow> interface \<times> 'k cell list" where
  "Job_DeepCopyObject K p h = as_object TJob (Job_DeepCopy K p h)"

definition JobList_DeepCopyObject :: "'k k8s_copy \<Rightarrow> addr option \<Rightarrow> 'k cell list \<Rightarrow> interface \<times> 'k cell list" where
  "JobList_DeepCopyObject K p h = as_object TJobList (JobList_DeepCopy K p h)"

definition Manager_DeepCopyObject :: "'k k8s_copy \<Rightarrow> addr option \<Rightarrow> 'k cell list \<Rightarrow> interface \<times> 'k cell list" where
  "Manager_DeepCopyObject K p h = as_object TManager (Manager_DeepCopy K p h)"

definition ManagerList_DeepCopyObject :: "'k k8s_copy \<Rightarrow> addr option \<Rightarrow> 'k cell list \<Rightarrow> interface \<times> 'k cell list" where
  "ManagerList_DeepCopyObject K p h = as_object TManagerList (ManagerList_DeepCopy K p h)"

text \<open>The call of \<open>DeepCopyObject\<close> through the interface, which finds the method of the type.\<close>

fun DeepCopyObject :: "'k k8s_copy \<Rightarrow> object_type \<Rightarrow> addr option \<Rightarrow> 'k cell list \<Rightarrow> interface \<times> 'k cell list" where
  "DeepCopyObject K TAnnouncement = Announcement_DeepCopyObject K"
| "DeepCopyObject K TAnnouncementList = AnnouncementList_DeepCopyObject K"
| "DeepCopyObject K TFile = File_DeepCopyObject K"
| "DeepCopyObject K TFileList = FileList_DeepCopyObject K"
| "DeepCopyObject K TJob = Job_DeepCopyObject K"
| "DeepCopyObject K TJobList = JobList_DeepCopyObject K"
| "DeepCopyObject K TManager = Manager_DeepCopyObject K"
| "DeepCopyObject K TManagerList = ManagerList_DeepCopyObject K"

text \<open>The same for the shapes: validity, cells, and equality of content.\<close>

fun object_valid :: "('k, 't) k8s_shape \<Rightarrow> object_type \<Rightarrow> 'k cell list \<Rightarrow> addr option \<Rightarrow> bool" where
  "object_valid S TAnnouncement = sh_valid (ptr_shape is_AnnouncementCell the_Announcement (Announcement_shape S))"
| "object_valid S TAnnouncementList = sh_valid (ptr_shape is_AnnouncementListCell the_AnnouncementList (AnnouncementList_shape S))"
| "object_valid S TFile = sh_valid (ptr_shape is_FileCell the_File (File_shape S))"
| "object_valid S TFileList = sh_valid (ptr_shape is_FileListCell the_FileList (FileList_shape S))"
| "object_valid S TJob = sh_valid (ptr_shape is_JobCell the_Job (Job_shape S))"
| "object_valid S TJobList = sh_valid (ptr_shape is_JobListCell the_JobList (JobList_shape S))"
| "object_valid S TManager = sh_valid (ptr_shape is_ManagerCell the_Manager (Manager_shape S))"
| "object_valid S TManagerList = sh_valid (ptr_shape is_ManagerListCell the_ManagerList (ManagerList_shape S))"

fun object_reach :: "('k, 't) k8s_shape \<Rightarrow> object_type \<Rightarrow> 'k cell list \<Rightarrow> addr option \<Rightarrow> addr set" where
  "object_reach S TAnnouncement = sh_reach (ptr_shape is_AnnouncementCell the_Announcement (Announcement_shape S))"
| "object_reach S TAnnouncementList = sh_reach (ptr_shape is_AnnouncementListCell the_AnnouncementList (AnnouncementList_shape S))"
| "object_reach S TFile = sh_reach (ptr_shape is_FileCell the_File (File_shape S))"
| "object_reach S TFileList = sh_reach (ptr_shape is_FileListCell the_FileList (FileList_shape S))"
| "object_reach S TJob = sh_reach (ptr_shape is_JobCell the_Job (Job_shape S))"
| "object_reach S TJobList = sh_reach (ptr_shape is_JobListCell the_JobList (JobList_shape S))"
| "object_reach S TManager = sh_reach (ptr_shape is_ManagerCell the_Manager (Manager_shape S))"
| "object_reach S TManagerList = sh_reach (ptr_shape is_ManagerListCell the_ManagerList (ManagerList_shape S))"

fun same_object ::
  "('k, 't) k8s_shape \<Rightarrow> object_type \<Rightarrow> 'k cell list \<Rightarrow> addr option \<Rightarrow> 'k cell list \<Rightarrow> addr option \<Rightarrow> bool" where
  "same_object S TAnnouncement h p h' q \<longleftrightarrow>
     sh_content (ptr_shape is_AnnouncementCell the_Announcement (Announcement_shape S)) h' q = sh_content (ptr_shape is_AnnouncementCell the_Announcement (Announcement_shape S)) h p"
| "same_object S TAnnouncementList h p h' q \<longleftrightarrow>
     sh_content (ptr_shape is_AnnouncementListCell the_AnnouncementList (AnnouncementList_shape S)) h' q = sh_content (ptr_shape is_AnnouncementListCell the_AnnouncementList (AnnouncementList_shape S)) h p"
| "same_object S TFile h p h' q \<longleftrightarrow>
     sh_content (ptr_shape is_FileCell the_File (File_shape S)) h' q = sh_content (ptr_shape is_FileCell the_File (File_shape S)) h p"
| "same_object S TFileList h p h' q \<longleftrightarrow>
     sh_content (ptr_shape is_FileListCell the_FileList (FileList_shape S)) h' q = sh_content (ptr_shape is_FileListCell the_FileList (FileList_shape S)) h p"
| "same_object S TJob h p h' q \<longleftrightarrow>
     sh_content (ptr_shape is_JobCell the_Job (Job_shape S)) h' q = sh_content (ptr_shape is_JobCell the_Job (Job_shape S)) h p"
| "same_object S TJobList h p h' q \<longleftrightarrow>
     sh_content (ptr_shape is_JobListCell the_JobList (JobList_shape S)) h' q = sh_content (ptr_shape is_JobListCell the_JobList (JobList_shape S)) h p"
| "same_object S TManager h p h' q \<longleftrightarrow>
     sh_content (ptr_shape is_ManagerCell the_Manager (Manager_shape S)) h' q = sh_content (ptr_shape is_ManagerCell the_Manager (Manager_shape S)) h p"
| "same_object S TManagerList h p h' q \<longleftrightarrow>
     sh_content (ptr_shape is_ManagerListCell the_ManagerList (ManagerList_shape S)) h' q = sh_content (ptr_shape is_ManagerListCell the_ManagerList (ManagerList_shape S)) h p"

definition independent_copy ::
  "('k, 't) k8s_shape \<Rightarrow> object_type \<Rightarrow> 'k cell list \<Rightarrow> addr option \<Rightarrow> 'k cell list \<Rightarrow> addr option \<Rightarrow> bool" where
  "independent_copy S t h p h' q \<longleftrightarrow>
     prefix h h' \<and> object_valid S t h' q \<and> object_reach S t h' q \<inter> allocated h = {}
     \<and> (\<forall>h''. agree (object_reach S t h' p) h' h'' \<longrightarrow> same_object S t h p h'' p)
     \<and> (\<forall>h''. agree (object_reach S t h' q) h' h'' \<longrightarrow> same_object S t h p h'' q)"

lemmas deep_copy_object_defs =
  Announcement_DeepCopyObject_def Announcement_DeepCopy_def
  AnnouncementList_DeepCopyObject_def AnnouncementList_DeepCopy_def
  File_DeepCopyObject_def File_DeepCopy_def
  FileList_DeepCopyObject_def FileList_DeepCopy_def
  Job_DeepCopyObject_def Job_DeepCopy_def
  JobList_DeepCopyObject_def JobList_DeepCopy_def
  Manager_DeepCopyObject_def Manager_DeepCopy_def
  ManagerList_DeepCopyObject_def ManagerList_DeepCopy_def

lemma copies_independent:
  assumes "copies c S" "sh_valid S h v" "c v h = (v', h')"
  shows "prefix h h'" "sh_valid S h' v'" "sh_reach S h' v' \<inter> allocated h = {}"
    and "agree (sh_reach S h' v) h' h'' \<Longrightarrow> sh_content S h'' v = sh_content S h v"
    and "agree (sh_reach S h' v') h' h'' \<Longrightarrow> sh_content S h'' v' = sh_content S h v"
proof -
  have c: "copier c (sh_valid S) (sh_reach S) (sh_content S)" using assms(1) by (simp add: copies_def)
  show "prefix h h'" "sh_valid S h' v'" "sh_reach S h' v' \<inter> allocated h = {}"
    using copier.copied [OF c assms(2,3)] by simp_all
  show "sh_content S h'' v = sh_content S h v" if "agree (sh_reach S h' v) h' h''"
    using copier.independent(2) [OF c assms(2,3) that] .
  show "sh_content S h'' v' = sh_content S h v" if "agree (sh_reach S h' v') h' h''"
    using copier.independent(3) [OF c assms(2,3) that] .
qed

lemma copy_ptr_Some: "fst (copy_ptr blank mk un c (Some a) h) = Some (length h)"
  by (simp add: copy_ptr_def Let_def split: prod.split)

lemma copy_ptr_None [simp]: "copy_ptr blank mk un c None h = (None, h)"
  by (simp add: copy_ptr_def)

lemma object_copied:
  assumes "copies c S" "\<And>v. kind (mk v)" "\<And>v. un (mk v) = v"
    and "sh_valid (ptr_shape kind un S) h (Some a)" "as_object t (copy_ptr blank mk un c (Some a) h) = (ob, h')"
  shows "\<exists>q. ob = Some (t, Some q) \<and> prefix h h' \<and> sh_valid (ptr_shape kind un S) h' (Some q)
    \<and> sh_reach (ptr_shape kind un S) h' (Some q) \<inter> allocated h = {}
    \<and> (\<forall>h''. agree (sh_reach (ptr_shape kind un S) h' (Some a)) h' h'' \<longrightarrow>
         sh_content (ptr_shape kind un S) h'' (Some a) = sh_content (ptr_shape kind un S) h (Some a))
    \<and> (\<forall>h''. agree (sh_reach (ptr_shape kind un S) h' (Some q)) h' h'' \<longrightarrow>
         sh_content (ptr_shape kind un S) h'' (Some q) = sh_content (ptr_shape kind un S) h (Some a))"
proof -
  have c: "copies (copy_ptr blank mk un c) (ptr_shape kind un S)" using assms(1-3) by (rule copies_ptr)
  obtain h1 where h1: "copy_ptr blank mk un c (Some a) h = (Some (length h), h1)"
    using copy_ptr_Some [of blank mk un c a h] by (cases "copy_ptr blank mk un c (Some a) h") simp
  then have ob: "ob = Some (t, Some (length h))" "h1 = h'" using assms(5) by (simp_all add: as_object_def)
  note i = copies_independent [OF c assms(4) h1, unfolded ob(2)]
  show ?thesis using i ob(1) by blast
qed

text \<open>
  Copying an object through the interface, whatever its type, gives the nil interface for a nil
  pointer, and else a pointer to a copy all of whose cells are new: the store that was there is
  not written to, and from then on neither of the two notices what is written to cells of the other.
\<close>

theorem DeepCopyObject_independent:
  assumes "k8s_copies K S" and "object_valid S t h p" and "DeepCopyObject K t p h = (ob, h')"
  shows "(p = None \<longrightarrow> ob = None \<and> h' = h)
    \<and> (p \<noteq> None \<longrightarrow> (\<exists>q. ob = Some (t, Some q) \<and> independent_copy S t h p h' (Some q)))"
proof (cases p)
  case None
  with assms(3) show ?thesis
    by (cases t) (simp_all add: deep_copy_object_defs as_object_def)
next
  case (Some a)
  have "\<exists>q. ob = Some (t, Some q) \<and> independent_copy S t h (Some a) h' (Some q)"
    using assms(2,3) unfolding Some
    by (cases t; simp only: object_valid.simps object_reach.simps same_object.simps DeepCopyObject.simps
          deep_copy_object_defs independent_copy_def)
      (rule object_copied; (rule copying assms(1) | simp | assumption)+)+
  with Some show ?thesis by simp
qed

section \<open>An instance\<close>

text \<open>Values of the cluster's types that are a name and a pointer to a map, and a list of two jobs.\<close>

definition named_copy :: "string \<times> addr option \<Rightarrow> (string \<times> addr option) cell list \<Rightarrow> (string \<times> addr option) \<times> (string \<times> addr option) cell list" where
  "named_copy = then_field assign snd (\<lambda>x v. (fst v, x)) (copy_ptr Blank StringMapCell the_StringMap copy_map)"

definition named_shape where
  "named_shape = with_field (plain_shape fst) snd (ptr_shape is_StringMapCell the_StringMap map_shape)"

definition named_copies :: "(string \<times> addr option) k8s_copy" where
  "named_copies = \<lparr>kc_ObjectMeta = named_copy, kc_ListMeta = named_copy, kc_EnvVar = named_copy, kc_Affinity = named_copy,
     kc_Toleration = named_copy\<rparr>"

definition named_shapes where
  "named_shapes = \<lparr>ks_ObjectMeta = named_shape, ks_ListMeta = named_shape, ks_EnvVar = named_shape, ks_Affinity = named_shape,
     ks_Toleration = named_shape\<rparr>"

lemma named_copies_copy: "k8s_copies named_copies named_shapes"
proof -
  have "copies named_copy named_shape"
    unfolding named_copy_def named_shape_def by (intro copying) simp_all
  then show ?thesis by (simp add: k8s_copies_def named_copies_def named_shapes_def)
qed

definition sample_store :: "(string \<times> addr option) cell list" where
  "sample_store =
     [StringMapCell [(''app'', ''mirror'')], FileInfosCell [], FileCell
       \<lparr>fm_TypeMeta = \<lparr>tm_Kind = ''File'', tm_APIVersion = ''v1beta1''\<rparr>, fm_ObjectMeta = (''debian'', Some 0),
        fm_Spec = \<lparr>fsm_Type = OS, fsm_Alias = []\<rparr>, fm_Status = \<lparr>ftm_Files = Some 1, ftm_UpdateTime = 5\<rparr>\<rparr>]"

theorem DeepCopyObject_independent_witness:
  "\<exists>q h'. DeepCopyObject named_copies TFile (Some 2) sample_store = (Some (TFile, Some q), h')
     \<and> independent_copy named_shapes TFile sample_store (Some 2) h' (Some q)"
proof -
  have "object_valid named_shapes TFile sample_store (Some 2)"
    by (simp add: File_shape_def FileStatus_shape_def named_shapes_def named_shape_def sample_store_def with_field_def
        plain_shape_def ptr_shape_def map_shape_def ptr_defs)
  from DeepCopyObject_independent [OF named_copies_copy this] show ?thesis
    by (cases "DeepCopyObject named_copies TFile (Some 2) sample_store") auto
qed


end
