(* ===== verification/Worker_Context.thy ===== *)
theory Worker_Context
  imports Go_Prelude
begin

text \<open>
  The layered key-value store of \<open>worker/context.go\<close>, in which a provider keeps its working
  directory, log directory and log file.  A context is its own layer and, below it, the context
  it was entered from.
\<close>

section \<open>Contexts\<close>

text \<open>An \<open>interface{}\<close> value: a string, or a value of any other dynamic type.\<close>

datatype iface = IString string | IOther

datatype Context = Context (ctx_parent: "Context option") (ctx_store: "string \<Rightarrow> iface option")

definition NewContext :: Context where
  "NewContext = Context None (\<lambda>_. None)"

definition Enter :: "Context \<Rightarrow> Context" where
  "Enter ctx = Context (Some ctx) (\<lambda>_. None)"

definition Exit :: "Context \<Rightarrow> Context option \<times> err" where
  "Exit ctx =
     (case ctx_parent ctx of
        None \<Rightarrow> (None, Some ''Cannot exit the bottom layer context'')
      | Some p \<Rightarrow> (Some p, None))"

fun Get :: "Context \<Rightarrow> string \<Rightarrow> iface option" where
  "Get (Context None st) key = (case st key of Some v \<Rightarrow> Some v | None \<Rightarrow> None)"
| "Get (Context (Some p) st) key = (case st key of Some v \<Rightarrow> Some v | None \<Rightarrow> Get p key)"

definition Set :: "Context \<Rightarrow> string \<Rightarrow> iface \<Rightarrow> Context" where
  "Set ctx key value = Context (ctx_parent ctx) ((ctx_store ctx)(key \<mapsto> value))"

fun ctx_depth :: "Context \<Rightarrow> nat" where
  "ctx_depth (Context None st) = 0"
| "ctx_depth (Context (Some p) st) = Suc (ctx_depth p)"

lemmas ctx_defs = NewContext_def Enter_def Exit_def Set_def

section \<open>The contract of a layered store\<close>

locale layered_store =
  fixes enter :: "'c \<Rightarrow> 'c"
    and leave :: "'c \<Rightarrow> 'c option"
    and look :: "'c \<Rightarrow> 'k \<Rightarrow> 'v option"
    and put :: "'c \<Rightarrow> 'k \<Rightarrow> 'v \<Rightarrow> 'c"
  assumes look_enter: "look (enter c) = look c"
    and leave_enter: "leave (enter c) = Some c"
    and look_put: "look (put c k v) = (look c)(k \<mapsto> v)"
    and leave_put: "leave (put c k v) = leave c"
begin

text \<open>What is written inside a layer shadows what is below, and is gone after leaving it.\<close>

lemma leave_puts: "leave (fold (\<lambda>(k, v) c. put c k v) kvs c) = leave c"
  by (induction kvs arbitrary: c) (auto simp: leave_put)

lemma look_puts: "look (fold (\<lambda>(k, v) c. put c k v) kvs c) = look c ++ map_of (rev kvs)"
  by (induction kvs arbitrary: c) (auto simp: look_put fun_eq_iff map_add_def split: option.splits)

lemma layer_restored: "leave (fold (\<lambda>(k, v) c. put c k v) kvs (enter c)) = Some c"
  by (simp add: leave_puts leave_enter)

lemma layer_shadows:
  "look (fold (\<lambda>(k, v) c. put c k v) kvs (enter c)) = look c ++ map_of (rev kvs)"
  by (simp add: look_puts look_enter)

end

lemma Get_unfold:
  "Get ctx key =
     (case ctx_store ctx key of
        Some v \<Rightarrow> Some v
      | None \<Rightarrow> (case ctx_parent ctx of None \<Rightarrow> None | Some p \<Rightarrow> Get p key))"
  by (cases "(ctx, key)" rule: Get.cases) (auto split: option.splits)

interpretation ctx: layered_store Enter "\<lambda>c. fst (Exit c)" Get Set
proof unfold_locales
  show "Get (Enter c) = Get c" for c
    by (simp add: Enter_def fun_eq_iff)
  show "fst (Exit (Enter c)) = Some c" for c
    by (simp add: Enter_def Exit_def)
  show "Get (Set c k v) = (Get c)(k \<mapsto> v)" for c k v
    by (auto simp: fun_eq_iff Set_def Get_unfold [of c]
        Get_unfold [of "Context (ctx_parent c) ((ctx_store c)(k \<mapsto> v))"] split: option.split)
  show "fst (Exit (Set c k v)) = fst (Exit c)" for c k v
    by (simp add: Exit_def Set_def split: option.splits)
qed

section \<open>Scripts of context operations\<close>

text \<open>
  A provider holds one reference to its current context and replaces it (\<open>EnterContext\<close>,
  \<open>ExitContext\<close>).  Leaving the bottom layer stores nil; entering from nil gives a new bottom
  layer, and every other use of nil panics.
\<close>

datatype ctx_op = OpEnter | OpExit | OpSet string iface

fun run_op :: "ctx_op \<Rightarrow> Context option \<Rightarrow> Context option go" where
  "run_op OpEnter None = Ret (Some NewContext)"
| "run_op _ None = Panic ''nil pointer dereference''"
| "run_op OpEnter (Some c) = Ret (Some (Enter c))"
| "run_op OpExit (Some c) = Ret (fst (Exit c))"
| "run_op (OpSet k v) (Some c) = Ret (Some (Set c k v))"

fun run_script :: "ctx_op list \<Rightarrow> Context option \<Rightarrow> Context option go" where
  "run_script [] c = Ret c"
| "run_script (x # xs) c = go_bind (run_op x c) (run_script xs)"

text \<open>Well bracketed above depth \<open>n\<close>: every exit has its enter, and the bottom is not written.\<close>

fun bracketed :: "nat \<Rightarrow> ctx_op list \<Rightarrow> bool" where
  "bracketed n [] = (n = 0)"
| "bracketed n (OpEnter # xs) = bracketed (Suc n) xs"
| "bracketed n (OpExit # xs) = (0 < n \<and> bracketed (n - 1) xs)"
| "bracketed n (OpSet k v # xs) = (0 < n \<and> bracketed n xs)"

fun leave_n :: "nat \<Rightarrow> Context \<Rightarrow> Context option" where
  "leave_n 0 c = Some c"
| "leave_n (Suc n) c = (case ctx_parent c of None \<Rightarrow> None | Some p \<Rightarrow> leave_n n p)"

lemma run_script_restores:
  "bracketed n xs \<Longrightarrow> leave_n n c = Some base \<Longrightarrow> run_script xs (Some c) = Ret (Some base)"
proof (induction xs arbitrary: n c)
  case (Cons x xs)
  show ?case
  proof (cases x)
    case OpEnter
    with Cons.prems have "bracketed (Suc n) xs" "leave_n (Suc n) (Enter c) = Some base"
      by (auto simp: Enter_def)
    with OpEnter show ?thesis using Cons.IH by simp
  next
    case OpExit
    with Cons.prems obtain m p where "n = Suc m" "ctx_parent c = Some p" "leave_n m p = Some base"
      "bracketed m xs"
      by (cases n) (auto split: option.splits)
    with OpExit show ?thesis using Cons.IH by (simp add: Exit_def)
  next
    case (OpSet k v)
    with Cons.prems obtain m where "n = Suc m" by (cases n) auto
    with OpSet Cons.prems have "bracketed n xs" "leave_n n (Set c k v) = Some base"
      by (auto simp: Set_def)
    with OpSet show ?thesis using Cons.IH by simp
  qed
qed simp

text \<open>
  C26: A well-bracketed sequence of enters, exits and writes above the bottom layer never panics and
  ends in exactly the context it started from, so a provider's configured paths survive every
  completed synchronisation.
\<close>

theorem context_script_restores:
  assumes "bracketed 0 xs"
  shows "run_script xs (Some c) = Ret (Some c)"
  using assms by (rule run_script_restores) simp

theorem context_script_restores_witness:
  "bracketed 0 [OpEnter, OpSet ''log_file'' (IString ''/var/log/a.log''), OpEnter, OpExit, OpExit]
   \<and> run_script [OpEnter, OpSet ''log_file'' (IString ''/var/log/a.log''), OpEnter, OpExit, OpExit]
       (Some NewContext) = Ret (Some NewContext)"
proof -
  have "bracketed 0 [OpEnter, OpSet ''log_file'' (IString ''/var/log/a.log''), OpEnter, OpExit, OpExit]"
    by simp
  then show ?thesis using context_script_restores by blast
qed

lemma Get_Set_same [simp]: "Get (Set c k v) k = Some v"
  by (simp add: ctx.look_put)

lemma Get_Set_other: "k \<noteq> k' \<Longrightarrow> Get (Set c k v) k' = Get c k'"
  by (simp add: ctx.look_put)

lemma Get_Enter [simp]: "Get (Enter c) = Get c"
  by (rule ctx.look_enter)

lemma Exit_Enter [simp]: "Exit (Enter c) = (Some c, None)"
  by (simp add: ctx_defs)

lemma Exit_Set [simp]: "Exit (Set c k v) = Exit c"
  by (simp add: ctx_defs split: option.splits)

end
