(* ===== verification/Worker_Runner.thy ===== *)
theory Worker_Runner
  imports Go_Prelude
begin

text \<open>
  Running one operating-system command, \<open>worker/runner.go\<close>.  What the operating system
  answers (whether a directory exists, the outcome of starting, waiting for and signalling a
  process) is an argument of the operation that asks for it.
\<close>

section \<open>The command and its environment\<close>

datatype chan_state = NilChan | OpenChan | ClosedChan

text \<open>A Go map from strings to strings is the list of its entries, in iteration order.\<close>

record cmdJob =
  cj_args :: "string list"
  cj_workingDir :: string
  cj_Env :: "string list"
  cj_env :: "(string \<times> string) list"
  cj_logFile :: "string option"
  cj_process :: "nat option"
  cj_finished :: chan_state
  cj_retErr :: err

definition env_key :: "string \<Rightarrow> string" where
  "env_key line = hd (Split line (CHR ''=''))"

definition newEnviron :: "string list \<Rightarrow> (string \<times> string) list \<Rightarrow> bool \<Rightarrow> string list" where
  "newEnviron osEnviron env inherit =
     (if inherit then filter (\<lambda>line. env_key line \<notin> fst ` set env) osEnviron else [])
     @ map (\<lambda>(k, v). k @ ''='' @ v) env"

text \<open>
  \<open>newCmdJob\<close> returns the job and the directory it asks to be made, if the working directory
  does not exist.
\<close>

definition newCmdJob ::
  "string list \<Rightarrow> bool \<Rightarrow> string list \<Rightarrow> string \<Rightarrow> (string \<times> string) list \<Rightarrow>
     (cmdJob \<times> string option) go" where
  "newCmdJob osEnviron dirMissing cmdAndArgs workingDir env =
     (if cmdAndArgs = [] then Panic ''Command length should be at least 1!''
      else Ret (\<lparr>cj_args = cmdAndArgs, cj_workingDir = workingDir,
                 cj_Env = newEnviron osEnviron env True, cj_env = env, cj_logFile = None,
                 cj_process = None, cj_finished = NilChan, cj_retErr = None\<rparr>,
                if dirMissing then Some workingDir else None))"

section \<open>Start, Wait, Terminate\<close>

text \<open>\<open>cmd.Start()\<close> answers an error, or the process id of the child.\<close>

definition cmdJob_Start :: "string + nat \<Rightarrow> cmdJob \<Rightarrow> cmdJob \<times> err" where
  "cmdJob_Start started c =
     (let c = c\<lparr>cj_finished := OpenChan\<rparr>
      in case started of Inl e \<Rightarrow> (c, Some e) | Inr pid \<Rightarrow> (c\<lparr>cj_process := Some pid\<rparr>, None))"

text \<open>Closing the nil channel of a command that was never started panics.\<close>

definition cmdJob_Wait :: "err \<Rightarrow> cmdJob \<Rightarrow> (cmdJob \<times> err) go" where
  "cmdJob_Wait waited c =
     (case cj_finished c of
        ClosedChan \<Rightarrow> Ret (c, cj_retErr c)
      | OpenChan \<Rightarrow> Ret (c\<lparr>cj_retErr := waited, cj_finished := ClosedChan\<rparr>, waited)
      | NilChan \<Rightarrow> Panic ''close of nil channel'')"

definition cmdJob_SetLogFile :: "string option \<Rightarrow> cmdJob \<Rightarrow> cmdJob" where
  "cmdJob_SetLogFile f c = c\<lparr>cj_logFile := f\<rparr>"

datatype signal = SIGTERM | SIGKILL

definition errProcessNotStarted :: string where
  "errProcessNotStarted = ''Process Not Started''"

text \<open>
  \<open>Terminate\<close>: the signals it sends and its error.  \<open>killed\<close> is the outcome of the first
  \<open>kill\<close>, \<open>inTime\<close> whether the command finished within two seconds.
\<close>

definition cmdJob_Terminate :: "err \<Rightarrow> bool \<Rightarrow> cmdJob \<Rightarrow> (signal \<times> nat) list \<times> err" where
  "cmdJob_Terminate killed inTime c =
     (case cj_process c of
        None \<Rightarrow> ([], Some errProcessNotStarted)
      | Some pid \<Rightarrow>
          (case killed of
             Some e \<Rightarrow> ([(SIGTERM, pid)], Some e)
           | None \<Rightarrow> ([(SIGTERM, pid)] @ (if inTime then [] else [(SIGKILL, pid)]), None)))"

lemmas cmdJob_defs = newCmdJob_def cmdJob_Start_def cmdJob_Wait_def cmdJob_SetLogFile_def
  cmdJob_Terminate_def

lemma newCmdJob_Ret_iff:
  "newCmdJob osEnv m args d env = Ret r \<longleftrightarrow>
     args \<noteq> [] \<and>
     r = (\<lparr>cj_args = args, cj_workingDir = d, cj_Env = newEnviron osEnv env True, cj_env = env,
            cj_logFile = None, cj_process = None, cj_finished = NilChan, cj_retErr = None\<rparr>,
          if m then Some d else None)"
  by (auto simp: newCmdJob_def)

text \<open>Waiting twice gives the outcome of the first wait, whatever the system would answer then.\<close>

lemma Wait_twice:
  "cmdJob_Wait w c = Ret (c', e) \<Longrightarrow> cmdJob_Wait w' c' = Ret (c', e)"
  by (auto simp: cmdJob_Wait_def split: chan_state.splits)

section \<open>The environment of the child process\<close>

lemma env_key_line: "CHR ''='' \<notin> set k \<Longrightarrow> env_key (k @ ''='' @ v) = k"
  by (simp add: env_key_def Split_append_sep)

lemma filter_map_other:
  assumes "\<forall>(k, v) \<in> set env. CHR ''='' \<notin> set k" and "k \<notin> fst ` set env"
  shows "filter (\<lambda>line. env_key line = k) (map (\<lambda>(k, v). k @ ''='' @ v) env) = []"
  using assms by (induction env) (auto simp: env_key_line [simplified])

lemma filter_map_entry:
  assumes "distinct (map fst env)" and "(k, v) \<in> set env"
    and "\<forall>(k, v) \<in> set env. CHR ''='' \<notin> set k"
  shows "filter (\<lambda>line. env_key line = k) (map (\<lambda>(k, v). k @ ''='' @ v) env) = [k @ ''='' @ v]"
  using assms
proof (induction env)
  case (Cons kv env)
  obtain k' v' where kv: "kv = (k', v')" by (cases kv)
  show ?case
  proof (cases "k' = k")
    case True
    then have "k \<notin> fst ` set env" using Cons.prems(1) kv by auto
    then have "filter (\<lambda>line. env_key line = k) (map (\<lambda>(k, v). k @ ''='' @ v) env) = []"
      using Cons.prems(3) by (intro filter_map_other) auto
    moreover have "v' = v" using True Cons.prems(1,2) kv by force
    ultimately show ?thesis using True kv Cons.prems(3) by (simp add: env_key_line [simplified])
  next
    case False
    then show ?thesis using Cons kv by (auto simp: env_key_line [simplified])
  qed
qed simp

text \<open>
  In the environment of the child every variable of the job occurs exactly once, with the job's
  value, and the lines of all other variables are those of the worker, in the same order.
\<close>

lemma newEnviron_overrides:
  assumes "distinct (map fst env)" and "\<forall>(k, v) \<in> set env. CHR ''='' \<notin> set k"
  shows "((k, v) \<in> set env \<longrightarrow>
            filter (\<lambda>line. env_key line = k) (newEnviron osEnv env True) = [k @ ''='' @ v])
         \<and> (k \<notin> fst ` set env \<longrightarrow>
            filter (\<lambda>line. env_key line = k) (newEnviron osEnv env True)
              = filter (\<lambda>line. env_key line = k) osEnv)"
proof (intro conjI impI)
  assume kv: "(k, v) \<in> set env"
  then have "filter (\<lambda>line. env_key line = k) (filter (\<lambda>line. env_key line \<notin> fst ` set env) osEnv) = []"
    by (force simp: filter_empty_conv)
  with filter_map_entry [OF assms(1) kv assms(2)]
  show "filter (\<lambda>line. env_key line = k) (newEnviron osEnv env True) = [k @ ''='' @ v]"
    by (simp add: newEnviron_def)
next
  assume k: "k \<notin> fst ` set env"
  then have "filter (\<lambda>line. env_key line = k) (map (\<lambda>(k, v). k @ ''='' @ v) env) = []"
    using assms(2) by (intro filter_map_other) auto
  moreover have "filter (\<lambda>line. env_key line = k) (filter (\<lambda>line. env_key line \<notin> fst ` set env) osEnv)
      = filter (\<lambda>line. env_key line = k) osEnv"
    using k by (induction osEnv) auto
  ultimately show "filter (\<lambda>line. env_key line = k) (newEnviron osEnv env True)
      = filter (\<lambda>line. env_key line = k) osEnv"
    by (simp add: newEnviron_def)
qed

lemma newEnviron_overrides_witness:
  "newEnviron [''PATH=/bin'', ''NAME=host''] [(''NAME'', ''job'')] True = [''PATH=/bin'', ''NAME=job'']
   \<and> filter (\<lambda>line. env_key line = ''NAME'') (newEnviron [''PATH=/bin'', ''NAME=host''] [(''NAME'', ''job'')] True)
       = [''NAME=job'']"
  using newEnviron_overrides [of "[(''NAME'', ''job'')]" "''NAME''" "''job''" "[''PATH=/bin'', ''NAME=host'']"]
  by (simp add: newEnviron_def env_key_def)

end
