(* ===== verification/Worker_Base.thy ===== *)
theory Worker_Base
  imports Worker_Context Worker_Runner
begin

text \<open>
  The state every provider embeds and its methods, \<open>worker/base_provider.go\<close>.
\<close>

section \<open>Hooks as data\<close>

text \<open>
  The four kinds of hook a provider can carry (\<open>loglimit_hook.go\<close>, \<open>zfs_hook.go\<close>,
  \<open>btrfs_snapshot_hook.go\<close>, \<open>exec_post_hook.go\<close>) with their own fields; the provider
  pointer each of them holds is the provider that carries it.
\<close>

datatype exec_on = execOnSuccess | execOnFailure

datatype jobHook =
    LogLimiter
  | ZfsHook (zfs_zpool: string)
  | BtrfsSnapshotHook (btrfs_snapshotPath: string)
  | ExecPostHook (exec_execOn: exec_on) (exec_command: "string list")

section \<open>The provider state\<close>

text \<open>The open log file is its path and whether it was opened for appending.\<close>

record baseProvider =
  bp_ctx :: "Context option"
  bp_name :: string
  bp_interval :: int
  bp_retry :: int
  bp_timeout :: int
  bp_cmd :: "cmdJob option"
  bp_logFileFd :: "(string \<times> bool) option"
  bp_isRunning :: bool
  bp_zfs :: "jobHook option"
  bp_hooks :: "jobHook list"

definition WorkingDirKey :: string where "WorkingDirKey = ''working_dir''"
definition LogDirKey :: string where "LogDirKey = ''log_dir''"
definition LogFileKey :: string where "LogFileKey = ''log_file''"

lemmas ctx_key_defs = WorkingDirKey_def LogDirKey_def LogFileKey_def

definition nilDeref :: string where
  "nilDeref = ''invalid memory address or nil pointer dereference''"

definition EnterContext :: "baseProvider \<Rightarrow> baseProvider" where
  "EnterContext p = p\<lparr>bp_ctx := Some (case bp_ctx p of None \<Rightarrow> NewContext | Some c \<Rightarrow> Enter c)\<rparr>"

definition ExitContext :: "baseProvider \<Rightarrow> baseProvider go" where
  "ExitContext p =
     (case bp_ctx p of None \<Rightarrow> Panic nilDeref | Some c \<Rightarrow> Ret (p\<lparr>bp_ctx := fst (Exit c)\<rparr>))"

text \<open>\<open>WorkingDir\<close>, \<open>LogDir\<close> and \<open>LogFile\<close> differ only in the key and the panic text.\<close>

definition ctx_path :: "string \<Rightarrow> string \<Rightarrow> baseProvider \<Rightarrow> string go" where
  "ctx_path key msg p =
     (case bp_ctx p of
        None \<Rightarrow> Panic nilDeref
      | Some c \<Rightarrow> (case Get c key of Some (IString s) \<Rightarrow> Ret s | _ \<Rightarrow> Panic msg))"

definition WorkingDir :: "baseProvider \<Rightarrow> string go" where
  "WorkingDir = ctx_path WorkingDirKey ''working dir is impossible to be non-exist''"

definition LogDir :: "baseProvider \<Rightarrow> string go" where
  "LogDir = ctx_path LogDirKey ''log dir is impossible to be unavailable''"

definition LogFile :: "baseProvider \<Rightarrow> string go" where
  "LogFile = ctx_path LogFileKey ''log file is impossible to be unavailable''"

definition AddHook :: "jobHook \<Rightarrow> baseProvider \<Rightarrow> baseProvider" where
  "AddHook hook p =
     (let p = (case hook of ZfsHook _ \<Rightarrow> p\<lparr>bp_zfs := Some hook\<rparr> | _ \<Rightarrow> p)
      in p\<lparr>bp_hooks := bp_hooks p @ [hook]\<rparr>)"

text \<open>\<open>opened\<close> is the outcome of \<open>os.OpenFile\<close>.\<close>

definition prepareLogFile :: "err \<Rightarrow> bool \<Rightarrow> baseProvider \<Rightarrow> (baseProvider \<times> err) go" where
  "prepareLogFile opened appending p =
     go_bind (LogFile p) (\<lambda>f.
       case bp_cmd p of
         None \<Rightarrow> Panic nilDeref
       | Some c \<Rightarrow>
           if f = ''/dev/null'' then Ret (p\<lparr>bp_cmd := Some (cmdJob_SetLogFile None c)\<rparr>, None)
           else (case opened of
                   Some e \<Rightarrow> Ret (p, Some e)
                 | None \<Rightarrow> Ret (p\<lparr>bp_logFileFd := Some (f, appending),
                                   bp_cmd := Some (cmdJob_SetLogFile (Some f) c)\<rparr>, None)))"

definition closeLogFile :: "baseProvider \<Rightarrow> baseProvider" where
  "closeLogFile p = p\<lparr>bp_logFileFd := None\<rparr>"

definition base_Wait :: "err \<Rightarrow> baseProvider \<Rightarrow> (baseProvider \<times> err) go" where
  "base_Wait waited p =
     (case bp_cmd p of
        None \<Rightarrow> Panic nilDeref
      | Some c \<Rightarrow> go_bind (cmdJob_Wait waited c)
          (\<lambda>(c', e). Ret (p\<lparr>bp_cmd := Some c', bp_isRunning := False\<rparr>, e)))"

definition base_Terminate ::
  "err \<Rightarrow> bool \<Rightarrow> baseProvider \<Rightarrow> ((signal \<times> nat) list \<times> err) go" where
  "base_Terminate killed inTime p =
     (if \<not> bp_isRunning p then Ret ([], None)
      else (case bp_cmd p of
              None \<Rightarrow> Panic nilDeref
            | Some c \<Rightarrow> Ret (cmdJob_Terminate killed inTime c)))"

lemmas base_defs = EnterContext_def ExitContext_def ctx_path_def WorkingDir_def LogDir_def
  LogFile_def AddHook_def prepareLogFile_def closeLogFile_def base_Wait_def base_Terminate_def

section \<open>Well-formed providers\<close>

text \<open>
  A provider is well formed when its three paths can be read: every constructor sets them, and
  no operation but an unmatched \<open>ExitContext\<close> loses them.
\<close>

definition has_path :: "Context \<Rightarrow> string \<Rightarrow> bool" where
  "has_path c key = (case Get c key of Some (IString s) \<Rightarrow> True | _ \<Rightarrow> False)"

definition ctx_ok :: "Context \<Rightarrow> bool" where
  "ctx_ok c \<longleftrightarrow> has_path c WorkingDirKey \<and> has_path c LogDirKey \<and> has_path c LogFileKey"

definition prov_ok :: "baseProvider \<Rightarrow> bool" where
  "prov_ok p \<longleftrightarrow> (case bp_ctx p of None \<Rightarrow> False | Some c \<Rightarrow> ctx_ok c)"

lemma ctx_ok_Enter: "ctx_ok c \<Longrightarrow> ctx_ok (Enter c)"
  by (simp add: ctx_ok_def has_path_def)

lemma ctx_ok_Set_LogFile: "ctx_ok c \<Longrightarrow> ctx_ok (Set c LogFileKey (IString f))"
  by (simp add: ctx_ok_def has_path_def ctx_key_defs Get_Set_other)

lemma prov_ok_paths:
  assumes "prov_ok p"
  shows "\<exists>s. WorkingDir p = Ret s" and "\<exists>s. LogDir p = Ret s" and "\<exists>s. LogFile p = Ret s"
  using assms
  by (auto simp: prov_ok_def ctx_ok_def has_path_def WorkingDir_def LogDir_def LogFile_def
      ctx_path_def split: option.splits iface.splits)

definition set_paths :: "string \<Rightarrow> string \<Rightarrow> string \<Rightarrow> Context" where
  "set_paths wd ld lf =
     Set (Set (Set NewContext WorkingDirKey (IString wd)) LogDirKey (IString ld))
       LogFileKey (IString lf)"

lemma Get_set_paths [simp]:
  "Get (set_paths wd ld lf) WorkingDirKey = Some (IString wd)"
  "Get (set_paths wd ld lf) LogDirKey = Some (IString ld)"
  "Get (set_paths wd ld lf) LogFileKey = Some (IString lf)"
  by (simp_all add: set_paths_def ctx_key_defs ctx.look_put)

lemma ctx_ok_set_paths [simp]: "ctx_ok (set_paths wd ld lf)"
  by (simp add: ctx_ok_def has_path_def)

end
