(* ===== verification/Worker_Hooks.thy ===== *)
theory Worker_Hooks
  imports Worker_Base
begin

text \<open>
  The hooks that run around a synchronisation: \<open>worker/hooks.go\<close> and the four hook files.

  The five methods of the \<open>jobHook\<close> interface are functions of the hook and of the world it
  acts on: the provider that carries it, the log directory, and what the system answers.  Every
  call of a method consumes one entry of the oracle \<open>w_oracle\<close>, so that repeated calls may be
  answered differently.
\<close>

section \<open>The world a hook sees\<close>

text \<open>What \<open>ioutil.ReadDir\<close> can find at the log directory.\<close>

datatype dir_state = DirMissing | DirUnreadable string | DirReadable

record dir_entry =
  de_name :: string
  de_mtime :: int

record hook_env =
  he_now :: int
  he_stamp :: string
  he_workDirMissing :: err
  he_mountpoint :: err
  he_createSubVolume :: err
  he_isSubVolume :: "string + bool"
  he_snapshotMissing :: bool
  he_isSnapshot :: "string + bool"
  he_deleteSubVolume :: err
  he_snapshot :: err
  he_command :: err

record world =
  w_prov :: baseProvider
  w_dir :: dir_state
  w_entries :: "dir_entry list"
  w_links :: "string \<Rightarrow> string option"
  w_oracle :: "nat \<Rightarrow> hook_env"
  w_calls :: nat

definition env_now :: "world \<Rightarrow> hook_env" where
  "env_now w = w_oracle w (w_calls w)"

definition tick :: "world \<Rightarrow> world" where
  "tick w = w\<lparr>w_calls := Suc (w_calls w)\<rparr>"

type_synonym hook_result = "(world \<times> err) go"

section \<open>File operations on the log directory\<close>

definition os_Remove :: "string \<Rightarrow> world \<Rightarrow> world" where
  "os_Remove f w = w\<lparr>w_entries := filter (\<lambda>e. de_name e \<noteq> f) (w_entries w),
                     w_links := (w_links w)(f := None)\<rparr>"

definition os_Lstat :: "string \<Rightarrow> world \<Rightarrow> bool" where
  "os_Lstat f w \<longleftrightarrow> f \<in> de_name ` set (w_entries w)"

text \<open>\<open>Symlink\<close> fails, and its error is ignored, where the name is taken.\<close>

definition os_Symlink :: "int \<Rightarrow> string \<Rightarrow> string \<Rightarrow> world \<Rightarrow> world" where
  "os_Symlink now target link w =
     (if os_Lstat link w then w
      else w\<lparr>w_entries := w_entries w @ [\<lparr>de_name = link, de_mtime = now\<rparr>],
             w_links := (w_links w)(link := Some target)\<rparr>)"

text \<open>\<open>Rename\<close> fails where the old name does not exist; it replaces the new one.\<close>

definition os_Rename :: "string \<Rightarrow> string \<Rightarrow> world \<Rightarrow> world" where
  "os_Rename old new w =
     (if \<not> os_Lstat old w \<or> old = new then w
      else w\<lparr>w_entries := map (\<lambda>e. if de_name e = old then e\<lparr>de_name := new\<rparr> else e)
                            (filter (\<lambda>e. de_name e \<noteq> new) (w_entries w)),
             w_links := (w_links w)(new := w_links w old, old := None)\<rparr>)"

section \<open>The log limiter\<close>

text \<open>
  Newest first: \<open>sort.Sort(sort.Reverse(fileSlice))\<close> by modification time.  \<open>sort.Sort\<close> promises no
  order between entries of the same time; they are kept in the order of the directory, which is
  what its insertion sort does on up to twelve entries.
\<close>

definition newest_first :: "dir_entry list \<Rightarrow> dir_entry list" where
  "newest_first fs = sort_key (\<lambda>f. - de_mtime f) fs"

definition surplus_logs :: "string \<Rightarrow> dir_entry list \<Rightarrow> dir_entry list" where
  "surplus_logs name files =
     (let matched = newest_first (filter (\<lambda>f. HasPrefix (de_name f) name) files)
      in if 9 < length matched then drop 9 matched else [])"

text \<open>Removing the surplus, then pointing the link \<open>latest\<close> at the new log.\<close>

definition rotate_logs :: "dir_entry list \<Rightarrow> int \<Rightarrow> string \<Rightarrow> world \<Rightarrow> world" where
  "rotate_logs files now logFileName w =
     (let w2 = fold (\<lambda>f. os_Remove (de_name f)) (surplus_logs (bp_name (w_prov w)) files) w;
          w3 = (if os_Lstat ''latest'' w2 then os_Remove ''latest'' w2 else w2)
      in os_Symlink now logFileName ''latest'' w3)"

text \<open>Entering a layer that holds the path of the new log.\<close>

definition enter_log :: "string \<Rightarrow> baseProvider \<Rightarrow> baseProvider" where
  "enter_log logFilePath p =
     (let p' = EnterContext p
      in p'\<lparr>bp_ctx := map_option (\<lambda>c. Set c LogFileKey (IString logFilePath)) (bp_ctx p')\<rparr>)"

definition logFileName :: "string \<Rightarrow> string \<Rightarrow> string" where
  "logFileName name stamp = name @ ''_'' @ stamp @ ''.log''"

definition start_log :: "string \<Rightarrow> dir_entry list \<Rightarrow> world \<Rightarrow> world" where
  "start_log logDir files w =
     (let env = env_now w; fname = logFileName (bp_name (w_prov w)) (he_stamp env);
          w' = rotate_logs files (he_now env) fname w
      in tick (w'\<lparr>w_prov := enter_log (filepath_Join [logDir, fname]) (w_prov w')\<rparr>))"

definition logLimiter_preExec :: "world \<Rightarrow> hook_result" where
  "logLimiter_preExec w =
     go_bind (LogFile (w_prov w)) (\<lambda>logFile.
       if logFile = ''/dev/null'' then Ret (tick w, None)
       else go_bind (LogDir (w_prov w)) (\<lambda>logDir.
         case w_dir w of
           DirUnreadable e \<Rightarrow> Ret (tick w, Some e)
         | DirMissing \<Rightarrow>
             Ret (start_log logDir [] (w\<lparr>w_dir := DirReadable, w_entries := [], w_links := (\<lambda>_. None)\<rparr>), None)
         | DirReadable \<Rightarrow> Ret (start_log logDir (w_entries w) w, None)))"

definition logLimiter_postSuccess :: "world \<Rightarrow> hook_result" where
  "logLimiter_postSuccess w =
     go_bind (ExitContext (w_prov w)) (\<lambda>p. Ret (tick (w\<lparr>w_prov := p\<rparr>), None))"

definition logLimiter_postFail :: "world \<Rightarrow> hook_result" where
  "logLimiter_postFail w =
     (let p = w_prov w
      in go_bind (LogFile p) (\<lambda>logFile.
         go_bind (LogDir p) (\<lambda>logDir.
           let logFileFail = logFile @ ''.fail'';
               w1 = os_Rename (path_Base logFile) (path_Base logFileFail) w;
               w2 = os_Remove ''latest'' w1;
               w3 = os_Symlink (he_now (env_now w)) (path_Base logFileFail) ''latest'' w2
           in go_bind (ExitContext p) (\<lambda>p'. Ret (tick (w3\<lparr>w_prov := p'\<rparr>), None)))))"

section \<open>The ZFS, Btrfs and command hooks\<close>

definition zfs_preJob :: "world \<Rightarrow> hook_result" where
  "zfs_preJob w =
     go_bind (WorkingDir (w_prov w)) (\<lambda>workingDir.
       Ret (tick w,
            (case he_workDirMissing (env_now w) of
               Some e \<Rightarrow> Some e
             | None \<Rightarrow> he_mountpoint (env_now w))))"

definition btrfs_preJob :: "world \<Rightarrow> hook_result" where
  "btrfs_preJob w =
     go_bind (WorkingDir (w_prov w)) (\<lambda>path.
       Ret (tick w,
            (case he_workDirMissing (env_now w) of
               Some _ \<Rightarrow> he_createSubVolume (env_now w)
             | None \<Rightarrow>
                 (case he_isSubVolume (env_now w) of
                    Inl e \<Rightarrow> Some e
                  | Inr is \<Rightarrow>
                      if is then None
                      else Some (''path '' @ path @ '' exists but isn't a Btrfs subvolume'')))))"

definition btrfs_postSuccess :: "string \<Rightarrow> world \<Rightarrow> hook_result" where
  "btrfs_postSuccess snap w =
     (let env = env_now w;
          dropped =
            (if he_snapshotMissing env then None
             else (case he_isSnapshot env of
                     Inl e \<Rightarrow> Some e
                   | Inr is \<Rightarrow>
                       if \<not> is then Some (''path '' @ snap @ '' exists and isn't a Btrfs snapshot'')
                       else he_deleteSubVolume env))
      in case dropped of
           Some e \<Rightarrow> Ret (tick w, Some e)
         | None \<Rightarrow> go_bind (WorkingDir (w_prov w)) (\<lambda>_. Ret (tick w, he_snapshot env)))"

text \<open>\<open>Do\<close> runs the command; an empty command line is an error.\<close>

definition exec_Do :: "exec_on \<Rightarrow> string list \<Rightarrow> world \<Rightarrow> hook_result" where
  "exec_Do execOn command w =
     (let p = w_prov w
      in go_bind (WorkingDir p) (\<lambda>_. go_bind (LogDir p) (\<lambda>_. go_bind (LogFile p) (\<lambda>_.
           Ret (tick w, if command = [] then Some ''Invalid Command'' else he_command (env_now w))))))"

section \<open>The interface\<close>

definition nothing :: "world \<Rightarrow> hook_result" where
  "nothing w = Ret (tick w, None)"

definition preJob :: "jobHook \<Rightarrow> world \<Rightarrow> hook_result" where
  "preJob h = (case h of ZfsHook _ \<Rightarrow> zfs_preJob | BtrfsSnapshotHook _ \<Rightarrow> btrfs_preJob | _ \<Rightarrow> nothing)"

definition preExec :: "jobHook \<Rightarrow> world \<Rightarrow> hook_result" where
  "preExec h = (case h of LogLimiter \<Rightarrow> logLimiter_preExec | _ \<Rightarrow> nothing)"

definition postExec :: "jobHook \<Rightarrow> world \<Rightarrow> hook_result" where
  "postExec h = nothing"

definition postSuccess :: "jobHook \<Rightarrow> world \<Rightarrow> hook_result" where
  "postSuccess h =
     (case h of
        LogLimiter \<Rightarrow> logLimiter_postSuccess
      | BtrfsSnapshotHook snap \<Rightarrow> btrfs_postSuccess snap
      | ExecPostHook on cmd \<Rightarrow> (if on = execOnSuccess then exec_Do on cmd else nothing)
      | ZfsHook _ \<Rightarrow> nothing)"

definition postFail :: "jobHook \<Rightarrow> world \<Rightarrow> hook_result" where
  "postFail h =
     (case h of
        LogLimiter \<Rightarrow> logLimiter_postFail
      | ExecPostHook on cmd \<Rightarrow> (if on = execOnFailure then exec_Do on cmd else nothing)
      | _ \<Rightarrow> nothing)"

section \<open>What the hooks do to the provider's context\<close>

lemmas hook_defs = preJob_def preExec_def postExec_def postSuccess_def postFail_def nothing_def

definition w_ctx :: "world \<Rightarrow> Context option" where
  "w_ctx w = bp_ctx (w_prov w)"

lemma w_ctx_simps [simp]:
  "w_ctx (tick w) = w_ctx w" "w_ctx (os_Remove f w) = w_ctx w"
  "w_ctx (os_Symlink n t l w) = w_ctx w" "w_ctx (os_Rename a b w) = w_ctx w"
  "w_ctx (w\<lparr>w_prov := p\<rparr>) = bp_ctx p" "w_ctx (w\<lparr>w_dir := d\<rparr>) = w_ctx w"
  "w_ctx (w\<lparr>w_entries := es\<rparr>) = w_ctx w" "w_ctx (w\<lparr>w_links := ls\<rparr>) = w_ctx w"
  by (simp_all add: w_ctx_def tick_def os_Remove_def os_Symlink_def os_Rename_def)

text \<open>Only the log limiter moves between layers: in before an attempt, out after it.\<close>

lemma preJob_ctx: "preJob h w = Ret (w', e) \<Longrightarrow> w_ctx w' = w_ctx w"
  by (cases h) (auto simp: hook_defs zfs_preJob_def btrfs_preJob_def go_bind_Ret_iff)

lemma postExec_ctx: "postExec h w = Ret (w', e) \<Longrightarrow> w_ctx w' = w_ctx w"
  by (auto simp: hook_defs)

lemma preExec_other_ctx: "h \<noteq> LogLimiter \<Longrightarrow> preExec h w = Ret (w', e) \<Longrightarrow> w_ctx w' = w_ctx w"
  by (cases h) (auto simp: hook_defs)

lemma postSuccess_other_ctx:
  "h \<noteq> LogLimiter \<Longrightarrow> postSuccess h w = Ret (w', e) \<Longrightarrow> w_ctx w' = w_ctx w"
  by (cases h)
    (auto simp: hook_defs btrfs_postSuccess_def exec_Do_def Let_def go_bind_Ret_iff
      split: if_splits option.splits)

lemma postFail_other_ctx:
  "h \<noteq> LogLimiter \<Longrightarrow> postFail h w = Ret (w', e) \<Longrightarrow> w_ctx w' = w_ctx w"
  by (cases h) (auto simp: hook_defs exec_Do_def Let_def go_bind_Ret_iff split: if_splits)

lemma fold_remove_ctx [simp]: "w_ctx (fold (\<lambda>f. os_Remove (de_name f)) fs w) = w_ctx w"
  by (induction fs arbitrary: w) auto

lemma fold_remove_keeps [simp]:
  "w_dir (fold (\<lambda>f. os_Remove (de_name f)) fs w) = w_dir w"
  "w_oracle (fold (\<lambda>f. os_Remove (de_name f)) fs w) = w_oracle w"
  "w_prov (fold (\<lambda>f. os_Remove (de_name f)) fs w) = w_prov w"
  by (induction fs arbitrary: w) (auto simp: os_Remove_def)

lemma start_log_keeps [simp]:
  "w_dir (start_log d fs w) = w_dir w" "w_oracle (start_log d fs w) = w_oracle w"
  by (simp_all add: start_log_def Let_def tick_def rotate_logs_def os_Symlink_def os_Remove_def)

lemma rotate_logs_ctx [simp]: "w_ctx (rotate_logs fs n f w) = w_ctx w"
  by (simp add: rotate_logs_def Let_def)

lemma start_log_ctx:
  "w_ctx w = Some c \<Longrightarrow> \<exists>f. w_ctx (start_log d fs w) = Some (Set (Enter c) LogFileKey (IString f))"
  unfolding start_log_def Let_def w_ctx_simps enter_log_def EnterContext_def
  using rotate_logs_ctx [of fs "he_now (env_now w)" _ w]
  by (force simp: w_ctx_def)

lemma logLimiter_preExec_ctx:
  assumes "logLimiter_preExec w = Ret (w', None)" and "w_ctx w = Some c"
    and "LogFile (w_prov w) \<noteq> Ret ''/dev/null''"
  shows "\<exists>f. w_ctx w' = Some (Set (Enter c) LogFileKey (IString f))"
  using assms start_log_ctx
  by (cases "w_dir w") (auto simp: logLimiter_preExec_def go_bind_Ret_iff split: if_splits)

lemma logLimiter_postSuccess_ctx:
  "logLimiter_postSuccess w = Ret (w', e) \<Longrightarrow> \<exists>c. w_ctx w = Some c \<and> w_ctx w' = fst (Exit c)"
  by (auto simp: logLimiter_postSuccess_def go_bind_Ret_iff ExitContext_def w_ctx_def [of w]
      split: option.splits)

lemma logLimiter_postFail_ctx:
  "logLimiter_postFail w = Ret (w', e) \<Longrightarrow> \<exists>c. w_ctx w = Some c \<and> w_ctx w' = fst (Exit c)"
  by (auto simp: logLimiter_postFail_def Let_def go_bind_Ret_iff ExitContext_def w_ctx_def [of w]
      split: option.splits)

section \<open>The log limiter keeps the newest logs\<close>

lemma newest_first_mset: "mset (newest_first fs) = mset fs"
  by (simp add: newest_first_def)

lemma newest_first_sorted: "sorted (map (\<lambda>f. - de_mtime f) (newest_first fs))"
  by (simp add: newest_first_def)

lemma fold_remove_entries:
  "w_entries (fold (\<lambda>f. os_Remove (de_name f)) fs w)
     = filter (\<lambda>e. de_name e \<notin> de_name ` set fs) (w_entries w)"
  by (induction fs arbitrary: w) (auto simp: os_Remove_def intro: filter_cong)

definition logs_of :: "string \<Rightarrow> dir_entry list \<Rightarrow> dir_entry list" where
  "logs_of name es = filter (\<lambda>e. HasPrefix (de_name e) name) es"

text \<open>Names in a directory are distinct, so removing by name removes exactly the chosen entries.\<close>

lemma kept_logs:
  assumes "distinct (map de_name es)"
  shows "mset (logs_of name (filter (\<lambda>e. de_name e \<notin> de_name ` set (surplus_logs name es)) es))
         = mset (take 9 (newest_first (logs_of name es)))"
proof -
  let ?ls = "newest_first (logs_of name es)"
  have surplus: "surplus_logs name es = drop 9 ?ls"
    by (simp add: surplus_logs_def logs_of_def Let_def)
  have dist: "distinct (map de_name ?ls)"
  proof -
    have "mset (map de_name ?ls) = mset (map de_name (logs_of name es))"
      by (simp add: newest_first_def)
    moreover have "distinct (map de_name (logs_of name es))"
      using assms by (simp add: logs_of_def distinct_map_filter)
    ultimately show ?thesis by (metis mset_eq_imp_distinct_iff)
  qed
  then have dist': "distinct (map de_name (take 9 ?ls @ drop 9 ?ls))" by simp
  have "mset (logs_of name (filter (\<lambda>e. de_name e \<notin> de_name ` set (drop 9 ?ls)) es))
      = filter_mset (\<lambda>e. de_name e \<notin> de_name ` set (drop 9 ?ls)) (mset ?ls)"
    by (simp add: logs_of_def newest_first_def filter_filter_mset conj_commute
        flip: mset_filter)
  also have "\<dots> = mset (filter (\<lambda>e. de_name e \<notin> de_name ` set (drop 9 ?ls)) (take 9 ?ls @ drop 9 ?ls))"
    by simp
  also have "filter (\<lambda>e. de_name e \<notin> de_name ` set (drop 9 ?ls)) (take 9 ?ls @ drop 9 ?ls) = take 9 ?ls"
    using dist' by (auto simp: filter_empty_conv simp del: append_take_drop_id intro!: filter_True)
  finally show ?thesis by (simp add: surplus)
qed

lemma rotate_logs_prov [simp]: "w_prov (rotate_logs fs n f w) = w_prov w"
  by (simp add: rotate_logs_def Let_def os_Symlink_def os_Remove_def)

lemma rotate_logs_entries:
  assumes "\<not> HasPrefix ''latest'' (bp_name (w_prov w))"
  shows "logs_of (bp_name (w_prov w)) (w_entries (rotate_logs files now f w))
    = logs_of (bp_name (w_prov w))
        (filter (\<lambda>e. de_name e \<notin> de_name ` set (surplus_logs (bp_name (w_prov w)) files)) (w_entries w))"
  using assms
  by (auto simp: rotate_logs_def Let_def os_Symlink_def os_Remove_def os_Lstat_def logs_of_def
      fold_remove_entries intro: filter_cong)

lemma rotate_logs_link: "w_links (rotate_logs files now f w) ''latest'' = Some f"
  by (auto simp: rotate_logs_def Let_def os_Symlink_def os_Remove_def os_Lstat_def)

lemma LogFile_enter_log: "prov_ok p \<Longrightarrow> LogFile (enter_log f p) = Ret f"
  by (auto simp: enter_log_def LogFile_def ctx_path_def EnterContext_def Let_def prov_ok_def
      ctx.look_put split: option.splits)

definition sample_env :: hook_env where
  "sample_env = \<lparr>he_now = 100, he_stamp = ''2023-10-01_08_00'', he_workDirMissing = None,
     he_mountpoint = None, he_createSubVolume = None, he_isSubVolume = Inr True,
     he_snapshotMissing = True, he_isSnapshot = Inr True, he_deleteSubVolume = None,
     he_snapshot = None, he_command = None\<rparr>"

definition sample_provider :: "jobHook list \<Rightarrow> baseProvider" where
  "sample_provider hs = \<lparr>bp_ctx = Some (set_paths ''/data'' ''/log'' ''/log/latest.log''), bp_name = ''debian'',
     bp_interval = 60 * Minute, bp_retry = 2, bp_timeout = 0, bp_cmd = None, bp_logFileFd = None,
     bp_isRunning = False, bp_zfs = None, bp_hooks = hs\<rparr>"

definition sample_world :: "jobHook list \<Rightarrow> dir_entry list \<Rightarrow> world" where
  "sample_world hs es = \<lparr>w_prov = sample_provider hs, w_dir = DirReadable, w_entries = es,
     w_links = (\<lambda>_. None), w_oracle = (\<lambda>_. sample_env), w_calls = 0\<rparr>"

lemma sample_provider_ok [simp]: "prov_ok (sample_provider hs)"
  by (simp add: prov_ok_def sample_provider_def)

lemma sample_paths [simp]:
  "WorkingDir (sample_provider hs) = Ret ''/data''" "LogDir (sample_provider hs) = Ret ''/log''"
  "LogFile (sample_provider hs) = Ret ''/log/latest.log''"
  by (simp_all add: WorkingDir_def LogDir_def LogFile_def ctx_path_def sample_provider_def)



end
