(* ===== verification/Worker_Sync.thy ===== *)
theory Worker_Sync
  imports Worker_Hooks Api_Types
begin

text \<open>
  One synchronisation run of a mirror job: \<open>runHooks\<close> and \<open>runJobWrapper\<close> inside
  \<open>mirrorJob.Run\<close> (\<open>worker/job.go\<close>), as a function from what the environment does to the
  messages the run sends to the scheduling loop.

  The run is written over any hook interface (\<open>hook_ops\<close>), since it calls its hooks only
  through the interface; \<open>worker_hooks\<close> is the interface of this program.  For the attempt
  numbered \<open>retry\<close> the record \<open>attempt\<close> says what \<open>provider.Run\<close> returns and does, which
  branch each \<open>select\<close> takes, what \<open>provider.Terminate\<close> returns, and whether the job's state,
  which another goroutine may change, reads as ready when the final message is built.
\<close>

section \<open>Messages\<close>

record jobMessage =
  jm_status :: SyncStatus
  jm_msg :: string
  jm_schedule :: bool

definition message :: "SyncStatus \<Rightarrow> string \<Rightarrow> bool \<Rightarrow> jobMessage" where
  "message st txt sch = \<lparr>jm_status = st, jm_msg = txt, jm_schedule = sch\<rparr>"

lemma message_sel [simp]:
  "jm_status (message st txt sch) = st" "jm_msg (message st txt sch) = txt"
  "jm_schedule (message st txt sch) = sch"
  by (simp_all add: message_def)

section \<open>The hook interface\<close>

record ('h, 'w) hook_ops =
  ho_preJob :: "'h \<Rightarrow> 'w \<Rightarrow> ('w \<times> err) go"
  ho_preExec :: "'h \<Rightarrow> 'w \<Rightarrow> ('w \<times> err) go"
  ho_postExec :: "'h \<Rightarrow> 'w \<Rightarrow> ('w \<times> err) go"
  ho_postSuccess :: "'h \<Rightarrow> 'w \<Rightarrow> ('w \<times> err) go"
  ho_postFail :: "'h \<Rightarrow> 'w \<Rightarrow> ('w \<times> err) go"

definition worker_hooks :: "(jobHook, world) hook_ops" where
  "worker_hooks = \<lparr>ho_preJob = preJob, ho_preExec = preExec, ho_postExec = postExec,
     ho_postSuccess = postSuccess, ho_postFail = postFail\<rparr>"

definition hook_message :: "string \<Rightarrow> string \<Rightarrow> jobMessage" where
  "hook_message hookname e = message Failed (''error exec hook '' @ hookname @ '': '' @ e) True"

fun runHooks ::
  "'h list \<Rightarrow> ('h \<Rightarrow> 'w \<Rightarrow> ('w \<times> err) go) \<Rightarrow> string \<Rightarrow> 'w \<Rightarrow> ('w \<times> jobMessage list \<times> err) go" where
  "runHooks [] action hookname w = Ret (w, [], None)"
| "runHooks (hook # hooks) action hookname w =
     go_bind (action hook w) (\<lambda>(w', e).
       case e of
         Some e \<Rightarrow> Ret (w', [hook_message hookname e], Some e)
       | None \<Rightarrow> runHooks hooks action hookname w')"

lemma runHooks_shape:
  assumes "runHooks hooks action hookname w = Ret (w', ms, e)"
  shows "(e = None \<and> ms = []) \<or> (\<exists>x. e = Some x \<and> ms = [hook_message hookname x])"
  using assms
  by (induction hooks action hookname w rule: runHooks.induct)
    (auto simp: go_bind_Ret_iff split: option.splits)

section \<open>One attempt\<close>

datatype choice = SyncDone | TimedOut | Killed

record 'w attempt =
  at_run :: "'w \<Rightarrow> 'w"
  at_result :: err
  at_doneFirst :: bool
  at_choice :: choice
  at_termErr :: err
  at_size :: uint64
  at_ready :: bool

datatype wrap_end = Returned err | Panicked string

datatype 'w outcome =
  Outcome (out_world: 'w) (out_msgs: "jobMessage list") (out_size: "uint64 option") (out_end: wrap_end)

text \<open>The effective timeout: a timeout that is not positive never expires in practice.\<close>

definition effective_timeout :: "int \<Rightarrow> int" where
  "effective_timeout t = (if t \<le> 0 then 100000 * Hour else t)"

record ('h, 'w) sync_job =
  sj_ops :: "('h, 'w) hook_ops"
  sj_name :: string
  sj_retry :: int
  sj_timeout :: int
  sj_hooks :: "'h list"
  sj_attempt :: "nat \<Rightarrow> 'w attempt"

definition sync_error :: "string \<Rightarrow> int \<Rightarrow> 'w attempt \<Rightarrow> err" where
  "sync_error name timeout a =
     (case at_choice a of
        SyncDone \<Rightarrow> at_result a
      | TimedOut \<Rightarrow> Some (name @ '' timeout after '' @ duration_str (effective_timeout timeout))
      | Killed \<Rightarrow> Some ''killed by manager'')"

definition term_error :: "'w attempt \<Rightarrow> err" where
  "term_error a = (if at_choice a = SyncDone then None else at_termErr a)"

datatype 'w progress = Stop "'w outcome" | Again 'w "jobMessage list"

definition syncing_message :: jobMessage where
  "syncing_message = message Syncing '''' False"

text \<open>The final message of an attempt, and whether the loop goes on.\<close>

definition final_message :: "'w attempt \<Rightarrow> bool \<Rightarrow> err \<Rightarrow> 'w \<Rightarrow> 'w progress" where
  "final_message a lastTry syncErr w =
     (case syncErr of
        None \<Rightarrow> Stop (Outcome w [message Success '''' (at_ready a)] (Some (at_size a)) (Returned None))
      | Some e \<Rightarrow>
          (let ms = [message Failed e (lastTry \<and> at_ready a)]
           in if at_choice a = Killed then Stop (Outcome w ms None (Returned None)) else Again w ms))"

text \<open>The hooks after \<open>provider.Run\<close>, then the final message of the attempt.\<close>

definition attempt_end ::
  "('h, 'w) sync_job \<Rightarrow> nat \<Rightarrow> err \<Rightarrow> 'w \<Rightarrow> 'w progress" where
  "attempt_end j retry syncErr w =
     (let a = sj_attempt j retry; rHooks = rev (sj_hooks j) in
      case runHooks rHooks (ho_postExec (sj_ops j)) ''post-exec'' w of
        Panic m \<Rightarrow> Stop (Outcome w [] None (Panicked m))
      | Ret (w1, ms, Some e) \<Rightarrow> Stop (Outcome w1 ms None (Returned (Some e)))
      | Ret (w1, ms, None) \<Rightarrow>
          (case runHooks rHooks
                  (if syncErr = None then ho_postSuccess (sj_ops j) else ho_postFail (sj_ops j))
                  (if syncErr = None then ''post-success'' else ''post-fail'') w1 of
             Panic m \<Rightarrow> Stop (Outcome w1 [] None (Panicked m))
           | Ret (w2, ms, Some e) \<Rightarrow> Stop (Outcome w2 ms None (Returned (Some e)))
           | Ret (w2, ms, None) \<Rightarrow> final_message a (int retry = sj_retry j - 1) syncErr w2))"

fun prepend :: "jobMessage list \<Rightarrow> 'w outcome \<Rightarrow> 'w outcome" where
  "prepend ms (Outcome w ms' sz en) = Outcome w (ms @ ms') sz en"

fun prepend_progress :: "jobMessage list \<Rightarrow> 'w progress \<Rightarrow> 'w progress" where
  "prepend_progress ms (Stop out) = Stop (prepend ms out)"
| "prepend_progress ms (Again w ms') = Again w (ms @ ms')"

text \<open>
  The body of the retry loop.  Where the first \<open>select\<close> takes the branch of \<open>syncDone\<close> it
  calls \<open>err.Error()\<close>, which panics for the nil error of a provider that already succeeded.
\<close>

definition attempt_body :: "('h, 'w) sync_job \<Rightarrow> nat \<Rightarrow> 'w \<Rightarrow> 'w progress" where
  "attempt_body j retry w =
     (case runHooks (sj_hooks j) (ho_preExec (sj_ops j)) ''pre-exec'' w of
        Panic m \<Rightarrow> Stop (Outcome w [] None (Panicked m))
      | Ret (w1, ms, Some e) \<Rightarrow> Stop (Outcome w1 ms None (Returned (Some e)))
      | Ret (w1, ms, None) \<Rightarrow>
          (let a = sj_attempt j retry; w2 = at_run a w1 in
           if at_doneFirst a \<and> at_result a = None
           then Stop (Outcome w2 [syncing_message] None (Panicked nilDeref))
           else case term_error a of
                  Some e \<Rightarrow> Stop (Outcome w2 [syncing_message] None (Returned (Some e)))
                | None \<Rightarrow> prepend_progress [syncing_message]
                            (attempt_end j retry (sync_error (sj_name j) (sj_timeout j) a) w2)))"

section \<open>The run\<close>

function retry_loop :: "('h, 'w) sync_job \<Rightarrow> nat \<Rightarrow> 'w \<Rightarrow> 'w outcome" where
  "retry_loop j retry w =
     (if int retry < sj_retry j
      then (case attempt_body j retry w of
              Stop out \<Rightarrow> out
            | Again w' ms \<Rightarrow> prepend ms (retry_loop j (Suc retry) w'))
      else Outcome w [] None (Returned None))"
  by pat_completeness auto
termination
  by (relation "measure (\<lambda>(j, retry, w). nat (sj_retry j) - retry)") auto

declare retry_loop.simps [simp del]

definition runJobWrapper :: "('h, 'w) sync_job \<Rightarrow> 'w \<Rightarrow> 'w outcome" where
  "runJobWrapper j w =
     prepend [message PreSyncing '''' False]
       (case runHooks (sj_hooks j) (ho_preJob (sj_ops j)) ''pre-job'' w of
          Panic m \<Rightarrow> Outcome w [] None (Panicked m)
        | Ret (w1, ms, Some e) \<Rightarrow> Outcome w1 ms None (Returned (Some e))
        | Ret (w1, ms, None) \<Rightarrow> retry_loop j 0 w1)"

section \<open>What an attempt can do\<close>

text \<open>The six ways an attempt ends, as an elimination rule for the proofs below.\<close>

lemma attempt_end_cases:
  obtains
    (panic) w' m where "attempt_end j retry syncErr w = Stop (Outcome w' [] None (Panicked m))"
  | (hook) w' n e where
      "attempt_end j retry syncErr w = Stop (Outcome w' [hook_message n e] None (Returned (Some e)))"
      "n \<in> {''post-exec'', ''post-success'', ''post-fail''}"
  | (success) w' where "syncErr = None"
      "attempt_end j retry syncErr w = Stop (Outcome w' [message Success '''' (at_ready (sj_attempt j retry))]
         (Some (at_size (sj_attempt j retry))) (Returned None))"
  | (killed) w' e where "syncErr = Some e" "at_choice (sj_attempt j retry) = Killed"
      "attempt_end j retry syncErr w =
         Stop (Outcome w' [message Failed e (int retry = sj_retry j - 1 \<and> at_ready (sj_attempt j retry))]
           None (Returned None))"
  | (again) w' e where "syncErr = Some e" "at_choice (sj_attempt j retry) \<noteq> Killed"
      "attempt_end j retry syncErr w =
         Again w' [message Failed e (int retry = sj_retry j - 1 \<and> at_ready (sj_attempt j retry))]"
proof (cases "runHooks (rev (sj_hooks j)) (ho_postExec (sj_ops j)) ''post-exec'' w")
  case (Panic m)
  then show ?thesis by (intro panic) (simp add: attempt_end_def)
next
  case (Ret r)
  obtain w1 ms e where r: "r = (w1, ms, e)" by (cases r)
  let ?post = "runHooks (rev (sj_hooks j))
      (if syncErr = None then ho_postSuccess (sj_ops j) else ho_postFail (sj_ops j))
      (if syncErr = None then ''post-success'' else ''post-fail'') w1"
  show ?thesis
  proof (cases e)
    case (Some x)
    with Ret r have "ms = [hook_message ''post-exec'' x]"
      using runHooks_shape by fastforce
    with Ret r Some show ?thesis
      by (intro hook [of w1 "''post-exec''" x]) (simp_all add: attempt_end_def)
  next
    case None
    show ?thesis
    proof (cases ?post)
      case (Panic m)
      with Ret r None show ?thesis by (intro panic) (simp add: attempt_end_def Let_def)
    next
      case post: (Ret r')
      obtain w2 ms' e' where r': "r' = (w2, ms', e')" by (cases r')
      show ?thesis
      proof (cases e')
        case (Some x)
        with post r' have "ms' = [hook_message (if syncErr = None then ''post-success'' else ''post-fail'') x]"
          using runHooks_shape by fastforce
        with Ret r None post r' Some show ?thesis
          by (intro hook [of w2 "if syncErr = None then ''post-success'' else ''post-fail''" x])
            (simp_all add: attempt_end_def Let_def)
      next
        case None': None
        with Ret r None post r' show ?thesis
          by (cases syncErr; cases "at_choice (sj_attempt j retry) = Killed")
            (auto simp: attempt_end_def final_message_def Let_def intro: success killed again)
      qed
    qed
  qed
qed

lemma attempt_body_cases:
  obtains
    (panic) w' ms m where "attempt_body j retry w = Stop (Outcome w' ms None (Panicked m))"
      "ms = [] \<or> ms = [syncing_message]"
  | (hook) w' ms n e where
      "attempt_body j retry w = Stop (Outcome w' (ms @ [hook_message n e]) None (Returned (Some e)))"
      "ms = [] \<and> n = ''pre-exec''
       \<or> ms = [syncing_message] \<and> n \<in> {''post-exec'', ''post-success'', ''post-fail''}"
  | (unterminated) w' e where "term_error (sj_attempt j retry) = Some e"
      "attempt_body j retry w = Stop (Outcome w' [syncing_message] None (Returned (Some e)))"
  | (success) w' where "sync_error (sj_name j) (sj_timeout j) (sj_attempt j retry) = None"
      "attempt_body j retry w =
         Stop (Outcome w' [syncing_message, message Success '''' (at_ready (sj_attempt j retry))]
           (Some (at_size (sj_attempt j retry))) (Returned None))"
  | (killed) w' e where "sync_error (sj_name j) (sj_timeout j) (sj_attempt j retry) = Some e"
      "at_choice (sj_attempt j retry) = Killed"
      "attempt_body j retry w =
         Stop (Outcome w' [syncing_message,
             message Failed e (int retry = sj_retry j - 1 \<and> at_ready (sj_attempt j retry))]
           None (Returned None))"
  | (again) w' e where "sync_error (sj_name j) (sj_timeout j) (sj_attempt j retry) = Some e"
      "at_choice (sj_attempt j retry) \<noteq> Killed"
      "attempt_body j retry w =
         Again w' [syncing_message,
           message Failed e (int retry = sj_retry j - 1 \<and> at_ready (sj_attempt j retry))]"
proof (cases "runHooks (sj_hooks j) (ho_preExec (sj_ops j)) ''pre-exec'' w")
  case (Panic m)
  then show ?thesis by (intro panic) (auto simp: attempt_body_def)
next
  case (Ret r)
  obtain w1 ms e where r: "r = (w1, ms, e)" by (cases r)
  show ?thesis
  proof (cases e)
    case (Some x)
    with Ret r have "ms = [hook_message ''pre-exec'' x]"
      using runHooks_shape by fastforce
    with Ret r Some show ?thesis
      by (intro hook [of w1 "[]" "''pre-exec''" x]) (simp_all add: attempt_body_def)
  next
    case None
    let ?a = "sj_attempt j retry"
    let ?s = "sync_error (sj_name j) (sj_timeout j) ?a"
    consider (nil) "at_doneFirst ?a \<and> at_result ?a = None"
      | (bad_term) e where "\<not> (at_doneFirst ?a \<and> at_result ?a = None)" "term_error ?a = Some e"
      | (goes) "\<not> (at_doneFirst ?a \<and> at_result ?a = None)" "term_error ?a = None"
      by (cases "term_error ?a") blast+
    then show ?thesis
    proof cases
      case nil
      with Ret r None show ?thesis by (intro panic) (auto simp: attempt_body_def Let_def)
    next
      case bad_term
      with Ret r None show ?thesis by (intro unterminated) (auto simp: attempt_body_def Let_def)
    next
      case goes
      with Ret r None have eq: "attempt_body j retry w =
          prepend_progress [syncing_message] (attempt_end j retry ?s (at_run ?a w1))"
        by (auto simp: attempt_body_def Let_def)
      show ?thesis
        by (rule attempt_end_cases [of j retry ?s "at_run ?a w1"])
          (auto simp: eq intro: panic hook [of _ "[syncing_message]"] success killed again)
    qed
  qed
qed

section \<open>The protocol of a run\<close>

text \<open>Only the last message of a list may ask for the next appointment.\<close>

definition schedules_last :: "jobMessage list \<Rightarrow> bool" where
  "schedules_last ms \<longleftrightarrow> (\<forall>m \<in> set (butlast ms). \<not> jm_schedule m)"

lemma schedules_last_append:
  assumes "\<forall>m \<in> set ms. \<not> jm_schedule m" and "schedules_last ms'"
  shows "schedules_last (ms @ ms')"
  using assms by (auto simp: schedules_last_def butlast_append dest: in_set_butlastD)

lemma out_prepend [simp]:
  "out_msgs (prepend ms out) = ms @ out_msgs out" "out_end (prepend ms out) = out_end out"
  "out_size (prepend ms out) = out_size out" "out_world (prepend ms out) = out_world out"
  by (cases out, simp)+

lemma syncing_message_sel [simp]:
  "jm_status syncing_message = Syncing" "jm_schedule syncing_message = False"
  by (simp_all add: syncing_message_def)

lemma hook_message_sel [simp]:
  "jm_status (hook_message n e) = Failed" "jm_schedule (hook_message n e) = True"
  by (simp_all add: hook_message_def)

lemma retry_loop_stop: "\<not> int retry < sj_retry j \<Longrightarrow> retry_loop j retry w = Outcome w [] None (Returned None)"
  by (simp add: retry_loop.simps)

lemma retry_loop_Stop:
  "int retry < sj_retry j \<Longrightarrow> attempt_body j retry w = Stop out \<Longrightarrow> retry_loop j retry w = out"
  by (simp add: retry_loop.simps)

lemma retry_loop_Again:
  "int retry < sj_retry j \<Longrightarrow> attempt_body j retry w = Again w' ms \<Longrightarrow>
     retry_loop j retry w = prepend ms (retry_loop j (Suc retry) w')"
  by (simp add: retry_loop.simps [of j retry])

lemma retry_loop_schedules_last: "schedules_last (out_msgs (retry_loop j retry w))"
proof (induction j retry w rule: retry_loop.induct)
  case (1 j retry w)
  show ?case
  proof (cases "int retry < sj_retry j")
    case True
    show ?thesis
    proof (rule attempt_body_cases [of j retry w])
      fix w' e
      let ?f = "message Failed e (int retry = sj_retry j - 1 \<and> at_ready (sj_attempt j retry))"
      assume again: "attempt_body j retry w = Again w' [syncing_message, ?f]"
      have eq: "retry_loop j retry w = prepend [syncing_message, ?f] (retry_loop j (Suc retry) w')"
        using True again by (rule retry_loop_Again)
      show ?thesis
      proof (cases "int retry = sj_retry j - 1")
        case True
        then show ?thesis by (simp add: eq retry_loop_stop schedules_last_def)
      next
        case False
        then have "schedules_last ([syncing_message, ?f] @ out_msgs (retry_loop j (Suc retry) w'))"
          using 1 [OF True again] by (intro schedules_last_append) auto
        then show ?thesis by (simp add: eq)
      qed
    qed (use True in \<open>auto simp: retry_loop_Stop schedules_last_def\<close>)
  qed (simp add: retry_loop_stop schedules_last_def)
qed

lemma schedules_last_count: "schedules_last ms \<Longrightarrow> length (filter jm_schedule ms) \<le> 1"
  by (cases ms rule: rev_cases) (auto simp: schedules_last_def filter_empty_conv)

lemma run_prejob_cases:
  obtains
    (panic) m where "runJobWrapper j w = Outcome w [message PreSyncing '''' False] None (Panicked m)"
  | (hook) w' e where
      "runJobWrapper j w =
         Outcome w' [message PreSyncing '''' False, hook_message ''pre-job'' e] None (Returned (Some e))"
  | (loops) w' where
      "runJobWrapper j w = prepend [message PreSyncing '''' False] (retry_loop j 0 w')"
proof (cases "runHooks (sj_hooks j) (ho_preJob (sj_ops j)) ''pre-job'' w")
  case (Panic m)
  then show ?thesis by (intro panic) (simp add: runJobWrapper_def)
next
  case (Ret r)
  obtain w1 ms e where r: "r = (w1, ms, e)" by (cases r)
  show ?thesis
  proof (cases e)
    case (Some x)
    with Ret r have "ms = [hook_message ''pre-job'' x]" using runHooks_shape by fastforce
    with Ret r Some show ?thesis by (intro hook) (simp add: runJobWrapper_def)
  next
    case None
    with Ret r show ?thesis by (intro loops) (simp add: runJobWrapper_def)
  qed
qed

text \<open>
  C20: Whatever the hooks, the provider and the environment do, a run first announces itself with a
  pre-syncing message, asks for the next appointment at most once, and does so only in its very
  last message.
\<close>

theorem run_schedules_at_most_once:
  "hd (out_msgs (runJobWrapper j w)) = message PreSyncing '''' False
   \<and> schedules_last (out_msgs (runJobWrapper j w))
   \<and> length (filter jm_schedule (out_msgs (runJobWrapper j w))) \<le> 1"
proof -
  have loop: "schedules_last (message PreSyncing '''' False # out_msgs (retry_loop j 0 w'))" for w'
    using schedules_last_append [of "[message PreSyncing '''' False]", OF _ retry_loop_schedules_last]
    by simp
  have "schedules_last (out_msgs (runJobWrapper j w))"
    by (rule run_prejob_cases [of j w], auto simp: loop) (auto simp: schedules_last_def)
  moreover have "hd (out_msgs (runJobWrapper j w)) = message PreSyncing '''' False"
    by (simp add: runJobWrapper_def)
  ultimately show ?thesis using schedules_last_count by blast
qed

lemma retry_loop_attempts:
  "length (filter (\<lambda>m. jm_status m = Syncing) (out_msgs (retry_loop j retry w))) \<le> nat (sj_retry j) - retry"
proof (induction j retry w rule: retry_loop.induct)
  case (1 j retry w)
  show ?case
  proof (cases "int retry < sj_retry j")
    case True
    then have pos: "1 \<le> nat (sj_retry j) - retry" by simp
    show ?thesis
    proof (rule attempt_body_cases [of j retry w])
      fix w' e
      let ?ms = "[syncing_message, message Failed e (int retry = sj_retry j - 1 \<and> at_ready (sj_attempt j retry))]"
      assume again: "attempt_body j retry w = Again w' ?ms"
      then have "retry_loop j retry w = prepend ?ms (retry_loop j (Suc retry) w')"
        using True by (intro retry_loop_Again)
      with 1 [OF True again] True show ?thesis by (simp add: status_simps)
    qed (use True pos in \<open>auto simp: retry_loop_Stop status_simps\<close>)
  qed (simp add: retry_loop_stop)
qed

text \<open>C22: A run starts the provider at most \<open>Retry\<close> times.\<close>

theorem run_attempts_bounded:
  "length (filter (\<lambda>m. jm_status m = Syncing) (out_msgs (runJobWrapper j w))) \<le> nat (sj_retry j)"
  by (rule run_prejob_cases [of j w])
    (use retry_loop_attempts [of j 0] in \<open>auto simp: status_simps\<close>)

section \<open>A completed run asks for the next one\<close>

text \<open>An attempt the manager does not kill, whose provider stops when it is told to.\<close>

definition undisturbed :: "'w attempt \<Rightarrow> bool" where
  "undisturbed a \<longleftrightarrow> at_choice a \<noteq> Killed \<and> term_error a = None \<and> at_ready a"

lemma retry_loop_reschedules:
  assumes "int retry < sj_retry j" and "\<forall>r. undisturbed (sj_attempt j r)"
    and "\<forall>m. out_end (retry_loop j retry w) \<noteq> Panicked m"
  shows "out_msgs (retry_loop j retry w) \<noteq> [] \<and> jm_schedule (last (out_msgs (retry_loop j retry w)))"
  using assms
proof (induction j retry w rule: retry_loop.induct)
  case (1 j retry w)
  have u: "undisturbed (sj_attempt j retry)" using "1.prems" by blast
  show ?case
  proof (rule attempt_body_cases [of j retry w])
    fix w' e
    let ?ms = "[syncing_message, message Failed e (int retry = sj_retry j - 1 \<and> at_ready (sj_attempt j retry))]"
    assume again: "attempt_body j retry w = Again w' ?ms"
    then have eq: "retry_loop j retry w = prepend ?ms (retry_loop j (Suc retry) w')"
      using "1.prems" by (intro retry_loop_Again)
    show ?thesis
    proof (cases "int retry = sj_retry j - 1")
      case True
      with u show ?thesis by (simp add: eq retry_loop_stop undisturbed_def)
    next
      case False
      with "1.prems" eq "1.IH" [OF _ again] show ?thesis by auto
    qed
  qed (use "1.prems" u in \<open>auto simp: retry_loop_Stop undisturbed_def\<close>)
qed

text \<open>
  C21: A run that is not killed, whose provider stops when it must be terminated, and during which
  the job stays ready, always ends by asking for the next appointment: after a success, after
  its last failed attempt, and after the failure of any hook.
\<close>

theorem run_reschedules:
  assumes "1 \<le> sj_retry j" and "\<forall>r. undisturbed (sj_attempt j r)"
    and "\<forall>m. out_end (runJobWrapper j w) \<noteq> Panicked m"
  shows "jm_schedule (last (out_msgs (runJobWrapper j w)))"
proof (rule run_prejob_cases [of j w])
  fix w'
  assume eq: "runJobWrapper j w = prepend [message PreSyncing '''' False] (retry_loop j 0 w')"
  with assms retry_loop_reschedules [of 0 j w'] show ?thesis by auto
qed (use assms in auto)

section \<open>The protocol as a specification, and its refinement\<close>

text \<open>
  What a run promises when no hook fails: a function of the attempts alone, one equation per
  thing that can happen to an attempt, with no hooks, no counter and no state.
\<close>

fun run_spec :: "string \<Rightarrow> int \<Rightarrow> 'w attempt list \<Rightarrow> jobMessage list \<times> wrap_end" where
  "run_spec name timeout [] = ([], Returned None)"
| "run_spec name timeout (a # as) =
     (if at_doneFirst a \<and> at_result a = None then ([syncing_message], Panicked nilDeref)
      else case term_error a of
        Some e \<Rightarrow> ([syncing_message], Returned (Some e))
      | None \<Rightarrow>
          (case sync_error name timeout a of
             None \<Rightarrow> ([syncing_message, message Success '''' (at_ready a)], Returned None)
           | Some e \<Rightarrow>
               (let ms = [syncing_message, message Failed e (as = [] \<and> at_ready a)] in
                if at_choice a = Killed then (ms, Returned None)
                else (case run_spec name timeout as of (ms', en) \<Rightarrow> (ms @ ms', en)))))"

text \<open>
  The contract of a set of hooks that never fails: \<open>idle\<close> holds between attempts and \<open>busy\<close>
  while the provider runs.
\<close>

locale hook_phases =
  fixes ops :: "('h, 'w) hook_ops" and hooks :: "'h list"
    and idle :: "'w \<Rightarrow> bool" and busy :: "'w \<Rightarrow> bool"
  assumes job_quiet: "idle w \<Longrightarrow> \<exists>w'. runHooks hooks (ho_preJob ops) n w = Ret (w', [], None) \<and> idle w'"
    and pre_quiet: "idle w \<Longrightarrow> \<exists>w'. runHooks hooks (ho_preExec ops) n w = Ret (w', [], None) \<and> busy w'"
    and exec_quiet: "busy w \<Longrightarrow> \<exists>w'. runHooks (rev hooks) (ho_postExec ops) n w = Ret (w', [], None) \<and> busy w'"
    and success_quiet:
      "busy w \<Longrightarrow> \<exists>w'. runHooks (rev hooks) (ho_postSuccess ops) n w = Ret (w', [], None) \<and> idle w'"
    and fail_quiet:
      "busy w \<Longrightarrow> \<exists>w'. runHooks (rev hooks) (ho_postFail ops) n w = Ret (w', [], None) \<and> idle w'"
begin

definition steady :: "('h, 'w) sync_job \<Rightarrow> bool" where
  "steady j \<longleftrightarrow> sj_ops j = ops \<and> sj_hooks j = hooks \<and> (\<forall>r w. busy w \<longrightarrow> busy (at_run (sj_attempt j r) w))"

lemma attempt_end_quiet:
  assumes "steady j" and "busy w"
  shows "\<exists>w'. idle w' \<and> attempt_end j retry syncErr w =
    final_message (sj_attempt j retry) (int retry = sj_retry j - 1) syncErr w'"
proof -
  have ops: "sj_ops j = ops" "sj_hooks j = hooks" using assms by (auto simp: steady_def)
  obtain w1 where w1: "runHooks (rev hooks) (ho_postExec ops) ''post-exec'' w = Ret (w1, [], None)" "busy w1"
    using exec_quiet assms by blast
  obtain w2 where w2: "idle w2" "runHooks (rev hooks) (if syncErr = None then ho_postSuccess ops else ho_postFail ops)
      (if syncErr = None then ''post-success'' else ''post-fail'') w1 = Ret (w2, [], None)"
  proof (cases syncErr)
    case None
    with success_quiet [OF w1(2), of "''post-success''"] that show ?thesis by auto
  next
    case (Some e)
    with fail_quiet [OF w1(2), of "''post-fail''"] that show ?thesis by auto
  qed
  with w1 show ?thesis
    by (intro exI [of _ w2], cases syncErr) (simp_all add: attempt_end_def ops Let_def)
qed

lemma attempt_body_quiet:
  assumes "steady j" and "idle w"
  shows "\<exists>w' w''. idle w'' \<and> attempt_body j retry w =
    (let a = sj_attempt j retry in
     if at_doneFirst a \<and> at_result a = None then Stop (Outcome w' [syncing_message] None (Panicked nilDeref))
     else case term_error a of
       Some e \<Rightarrow> Stop (Outcome w' [syncing_message] None (Returned (Some e)))
     | None \<Rightarrow> prepend_progress [syncing_message]
         (final_message a (int retry = sj_retry j - 1) (sync_error (sj_name j) (sj_timeout j) a) w''))"
proof -
  let ?a = "sj_attempt j retry"
  have ops: "sj_ops j = ops" "sj_hooks j = hooks" using assms by (auto simp: steady_def)
  obtain w1 where w1: "runHooks hooks (ho_preExec ops) ''pre-exec'' w = Ret (w1, [], None)" "busy w1"
    using pre_quiet assms by blast
  have "busy (at_run ?a w1)" using assms w1 by (simp add: steady_def)
  from attempt_end_quiet [OF assms(1) this] obtain w2 where w2: "idle w2"
    "attempt_end j retry (sync_error (sj_name j) (sj_timeout j) ?a) (at_run ?a w1) =
      final_message ?a (int retry = sj_retry j - 1) (sync_error (sj_name j) (sj_timeout j) ?a) w2"
    by blast
  show ?thesis
    by (rule exI [of _ "at_run ?a w1"], rule exI [of _ w2]) (simp add: attempt_body_def ops Let_def w1 w2 split: option.split)
qed

lemma upt_retry: "int r < sj_retry j \<Longrightarrow> [r..<nat (sj_retry j)] = r # [Suc r..<nat (sj_retry j)]"
  by (simp add: upt_conv_Cons)

lemma retry_loop_quiet:
  assumes "steady j" and "idle w"
  shows "(out_msgs (retry_loop j r w), out_end (retry_loop j r w))
      = run_spec (sj_name j) (sj_timeout j) (map (sj_attempt j) [r..<nat (sj_retry j)])
    \<and> (out_end (retry_loop j r w) = Returned None \<longrightarrow> idle (out_world (retry_loop j r w)))"
  using assms
proof (induction j r w rule: retry_loop.induct)
  case (1 j r w)
  show ?case
  proof (cases "int r < sj_retry j")
    case True
    let ?a = "sj_attempt j r" and ?last = "int r = sj_retry j - 1"
    have more: "[Suc r..<nat (sj_retry j)] = [] \<longleftrightarrow> ?last" using True by auto
    obtain w' w'' where body: "idle w''" "attempt_body j r w =
       (if at_doneFirst ?a \<and> at_result ?a = None then Stop (Outcome w' [syncing_message] None (Panicked nilDeref))
        else case term_error ?a of
          Some e \<Rightarrow> Stop (Outcome w' [syncing_message] None (Returned (Some e)))
        | None \<Rightarrow> prepend_progress [syncing_message]
            (final_message ?a ?last (sync_error (sj_name j) (sj_timeout j) ?a) w''))"
      using attempt_body_quiet [OF "1.prems", of r] unfolding Let_def by blast
    show ?thesis
    proof (cases "\<exists>w1 ms. attempt_body j r w = Again w1 ms")
      case again: True
      then obtain e where e: "term_error ?a = None" "sync_error (sj_name j) (sj_timeout j) ?a = Some e"
          "at_choice ?a \<noteq> Killed" "\<not> (at_doneFirst ?a \<and> at_result ?a = None)"
          "attempt_body j r w = Again w'' [syncing_message, message Failed e (?last \<and> at_ready ?a)]"
        using body by (auto simp: final_message_def Let_def split: if_splits option.splits)
      show ?thesis
        using "1.IH" [OF True e(5) "1.prems"(1) body(1)] e more
        by (auto simp: retry_loop_Again [OF True e(5)] upt_retry [OF True] split: prod.split dest: sym)
    next
      case False
      with body show ?thesis
        using retry_loop_Stop [OF True] 
        by (auto simp: upt_retry [OF True] more [simplified] final_message_def Let_def
            split: if_splits option.splits)
    qed
  qed (simp add: retry_loop_stop "1.prems")
qed

lemma run_quiet:
  assumes "steady j" and "idle w"
  shows "out_msgs (runJobWrapper j w) = message PreSyncing '''' False
        # fst (run_spec (sj_name j) (sj_timeout j) (map (sj_attempt j) [0..<nat (sj_retry j)]))
    \<and> out_end (runJobWrapper j w)
        = snd (run_spec (sj_name j) (sj_timeout j) (map (sj_attempt j) [0..<nat (sj_retry j)]))
    \<and> (out_end (runJobWrapper j w) = Returned None \<longrightarrow> idle (out_world (runJobWrapper j w)))"
proof -
  obtain w1 where w1: "runHooks hooks (ho_preJob ops) ''pre-job'' w = Ret (w1, [], None)" "idle w1"
    using job_quiet assms by blast
  then have "runJobWrapper j w = prepend [message PreSyncing '''' False] (retry_loop j 0 w1)"
    using assms by (simp add: runJobWrapper_def steady_def)
  with retry_loop_quiet [OF assms(1) w1(2), of 0] show ?thesis by (metis (no_types) append_Cons append_Nil
      fst_conv out_prepend snd_conv)
qed

end

section \<open>The hooks of this program keep the contract\<close>

text \<open>
  A provider carries the log limiter first and then any other hooks.  \<open>outside\<close> and \<open>inside\<close>
  are the two phases for a provider whose own context is \<open>c\<close>, on a system that answers every
  hook without an error.
\<close>

definition env_ok :: "hook_env \<Rightarrow> bool" where
  "env_ok e \<longleftrightarrow> he_workDirMissing e = None \<and> he_mountpoint e = None \<and> he_isSubVolume e = Inr True
     \<and> (he_snapshotMissing e \<or> he_isSnapshot e = Inr True \<and> he_deleteSubVolume e = None)
     \<and> he_snapshot e = None \<and> he_command e = None"

definition plain_hook :: "jobHook \<Rightarrow> bool" where
  "plain_hook h = (case h of LogLimiter \<Rightarrow> False | ExecPostHook _ cmd \<Rightarrow> cmd \<noteq> [] | _ \<Rightarrow> True)"

definition serene :: "jobHook list \<Rightarrow> Context \<Rightarrow> world \<Rightarrow> bool" where
  "serene hs c w \<longleftrightarrow> list_all plain_hook hs \<and> ctx_ok c \<and> Get c LogFileKey \<noteq> Some (IString ''/dev/null'')
     \<and> (\<forall>e. w_dir w \<noteq> DirUnreadable e) \<and> (\<forall>n. env_ok (w_oracle w n))"

definition outside :: "jobHook list \<Rightarrow> Context \<Rightarrow> world \<Rightarrow> bool" where
  "outside hs c w \<longleftrightarrow> serene hs c w \<and> w_ctx w = Some c"

definition inside :: "jobHook list \<Rightarrow> Context \<Rightarrow> world \<Rightarrow> bool" where
  "inside hs c w \<longleftrightarrow> serene hs c w \<and> (\<exists>f. w_ctx w = Some (Set (Enter c) LogFileKey (IString f)))"

lemma runHooks_append:
  "runHooks (xs @ ys) action n w =
     go_bind (runHooks xs action n w) (\<lambda>(w', ms, e). case e of
       Some x \<Rightarrow> Ret (w', ms, Some x) | None \<Rightarrow> runHooks ys action n w')"
proof (induction xs arbitrary: w)
  case (Cons h xs)
  then show ?case by (cases "action h w") (auto split: option.split)
qed simp

lemma runHooks_quiet:
  assumes "\<And>h w. h \<in> set hs \<Longrightarrow> P w \<Longrightarrow> \<exists>w'. action h w = Ret (w', None) \<and> P w'" and "P w"
  shows "\<exists>w'. runHooks hs action n w = Ret (w', [], None) \<and> P w'"
  using assms
proof (induction hs arbitrary: w)
  case (Cons h hs)
  obtain w1 where "action h w = Ret (w1, None)" "P w1" using Cons.prems by force
  moreover from this obtain w2 where "runHooks hs action n w1 = Ret (w2, [], None)" "P w2"
    using Cons.IH [of w1] Cons.prems by (metis list.set_intros(2))
  ultimately show ?case by simp
qed simp

lemma serene_tick [simp]: "serene hs c (tick w) = serene hs c w"
  by (simp add: serene_def tick_def)

lemma ctx_ok_phase: "outside hs c w \<or> inside hs c w \<Longrightarrow> prov_ok (w_prov w)"
  by (auto simp: outside_def inside_def serene_def prov_ok_def w_ctx_def
      ctx_ok_Set_LogFile ctx_ok_Enter)

lemma phase_tick [simp]: "outside hs c (tick w) = outside hs c w" "inside hs c (tick w) = inside hs c w"
  by (simp_all add: outside_def inside_def)

lemma plain_preJob:
  assumes "plain_hook h" and "outside hs c w"
  shows "\<exists>w'. preJob h w = Ret (w', None) \<and> outside hs c w'"
proof -
  have "env_ok (env_now w)" using assms by (simp add: outside_def serene_def env_now_def)
  moreover obtain d where "WorkingDir (w_prov w) = Ret d" using assms ctx_ok_phase prov_ok_paths by blast
  ultimately show ?thesis
    using assms by (cases h)
      (auto simp: hook_defs plain_hook_def zfs_preJob_def btrfs_preJob_def env_ok_def)
qed

lemma plain_preExec:
  "plain_hook h \<Longrightarrow> inside hs c w \<Longrightarrow> \<exists>w'. preExec h w = Ret (w', None) \<and> inside hs c w'"
  by (cases h) (auto simp: hook_defs plain_hook_def)

lemma plain_postSuccess:
  assumes "plain_hook h" and "inside hs c w"
  shows "\<exists>w'. postSuccess h w = Ret (w', None) \<and> inside hs c w'"
proof -
  have "env_ok (env_now w)" using assms by (simp add: inside_def serene_def env_now_def)
  moreover obtain a b d where "WorkingDir (w_prov w) = Ret a" "LogDir (w_prov w) = Ret b" "LogFile (w_prov w) = Ret d"
    using assms ctx_ok_phase prov_ok_paths by blast
  ultimately show ?thesis
    using assms by (cases h)
      (auto simp: hook_defs plain_hook_def btrfs_postSuccess_def exec_Do_def env_ok_def Let_def)
qed

lemma plain_postFail:
  assumes "plain_hook h" and "inside hs c w"
  shows "\<exists>w'. postFail h w = Ret (w', None) \<and> inside hs c w'"
proof -
  have "env_ok (env_now w)" using assms by (simp add: inside_def serene_def env_now_def)
  moreover obtain a b d where "WorkingDir (w_prov w) = Ret a" "LogDir (w_prov w) = Ret b" "LogFile (w_prov w) = Ret d"
    using assms ctx_ok_phase prov_ok_paths by blast
  ultimately show ?thesis
    using assms by (cases h) (auto simp: hook_defs plain_hook_def exec_Do_def env_ok_def Let_def)
qed

lemma limiter_enters:
  assumes "outside hs c w"
  shows "\<exists>w'. preExec LogLimiter w = Ret (w', None) \<and> inside hs c w'"
proof -
  obtain lf d where p: "LogFile (w_prov w) = Ret lf" "LogDir (w_prov w) = Ret d" "lf \<noteq> ''/dev/null''"
    using assms ctx_ok_phase prov_ok_paths
    by (auto simp: outside_def serene_def ctx_ok_def has_path_def LogFile_def LogDir_def ctx_path_def w_ctx_def
        split: option.splits iface.splits)
  obtain v fs where v: "logLimiter_preExec w = Ret (start_log d fs v, None)" "w_ctx v = Some c"
      "\<forall>e. w_dir v \<noteq> DirUnreadable e" "w_oracle v = w_oracle w"
    using assms p by (cases "w_dir w")
      (auto simp: logLimiter_preExec_def outside_def serene_def intro: that)
  have "inside hs c (start_log d fs v)"
    using assms v start_log_ctx [OF v(2)] by (auto simp: inside_def outside_def serene_def)
  with v show ?thesis by (simp add: hook_defs)
qed

lemma Exit_layer: "fst (Exit (Set (Enter c) k v)) = Some c"
  by (simp add: ctx_defs)

lemma limiter_leaves:
  assumes "inside hs c w"
  shows "\<exists>w'. postSuccess LogLimiter w = Ret (w', None) \<and> outside hs c w'"
    and "\<exists>w'. postFail LogLimiter w = Ret (w', None) \<and> outside hs c w'"
proof -
  obtain lf d where p: "LogFile (w_prov w) = Ret lf" "LogDir (w_prov w) = Ret d"
    using assms ctx_ok_phase prov_ok_paths by blast
  obtain f where f: "bp_ctx (w_prov w) = Some (Set (Enter c) LogFileKey (IString f))"
    using assms by (auto simp: inside_def w_ctx_def)
  then have x: "ExitContext (w_prov w) = Ret ((w_prov w)\<lparr>bp_ctx := Some c\<rparr>)"
    by (simp add: ExitContext_def Exit_layer)
  show "\<exists>w'. postSuccess LogLimiter w = Ret (w', None) \<and> outside hs c w'"
    using assms by (simp add: hook_defs logLimiter_postSuccess_def x) (simp add: inside_def outside_def serene_def)
  show "\<exists>w'. postFail LogLimiter w = Ret (w', None) \<and> outside hs c w'"
    using assms p by (simp add: hook_defs logLimiter_postFail_def x Let_def)
      (simp add: inside_def outside_def serene_def os_Rename_def os_Remove_def os_Symlink_def)
qed

interpretation phases: hook_phases worker_hooks "LogLimiter # hs" "outside hs c" "inside hs c" for hs c
proof
  fix w n
  have plain: "plain_hook h" if "h \<in> set hs" "serene hs c v" for h v
    using that by (simp add: serene_def list_all_iff)
  have job: "\<exists>w'. preJob LogLimiter w = Ret (w', None) \<and> outside hs c w'" if "outside hs c w" for w
    using that by (simp add: hook_defs)
  show "\<exists>w'. runHooks (LogLimiter # hs) (ho_preJob worker_hooks) n w = Ret (w', [], None) \<and> outside hs c w'"
    if "outside hs c w"
    using that job plain_preJob plain
    by (intro runHooks_quiet) (auto simp: worker_hooks_def outside_def)
  show "\<exists>w'. runHooks (LogLimiter # hs) (ho_preExec worker_hooks) n w = Ret (w', [], None) \<and> inside hs c w'"
    if out: "outside hs c w"
  proof -
    obtain w1 where w1: "preExec LogLimiter w = Ret (w1, None)" "inside hs c w1"
      using limiter_enters [OF out] by blast
    obtain w2 where "runHooks hs preExec n w1 = Ret (w2, [], None)" "inside hs c w2"
      using runHooks_quiet [of hs "inside hs c" preExec w1 n] w1 plain_preExec plain
      by (metis inside_def)
    with w1 show ?thesis by (simp add: worker_hooks_def)
  qed
  show "\<exists>w'. runHooks (rev (LogLimiter # hs)) (ho_postExec worker_hooks) n w = Ret (w', [], None) \<and> inside hs c w'"
    if "inside hs c w"
    using that by (intro runHooks_quiet) (auto simp: worker_hooks_def hook_defs)
  have leave: "\<exists>w'. runHooks (rev (LogLimiter # hs)) act n w = Ret (w', [], None) \<and> outside hs c w'"
    if ins: "inside hs c w" and others: "\<And>h v. plain_hook h \<Longrightarrow> inside hs c v \<Longrightarrow> \<exists>v'. act h v = Ret (v', None) \<and> inside hs c v'"
      and lim: "\<And>v. inside hs c v \<Longrightarrow> \<exists>v'. act LogLimiter v = Ret (v', None) \<and> outside hs c v'" for act
  proof -
    obtain w1 where w1: "runHooks (rev hs) act n w = Ret (w1, [], None)" "inside hs c w1"
      using runHooks_quiet [of "rev hs" "inside hs c" act w n] ins others plain by (metis inside_def set_rev)
    then show ?thesis using lim [OF w1(2)] by (auto simp: runHooks_append)
  qed
  show "\<exists>w'. runHooks (rev (LogLimiter # hs)) (ho_postSuccess worker_hooks) n w = Ret (w', [], None) \<and> outside hs c w'"
    if "inside hs c w"
    using leave [OF that, of postSuccess] plain_postSuccess limiter_leaves(1) by (simp add: worker_hooks_def)
  show "\<exists>w'. runHooks (rev (LogLimiter # hs)) (ho_postFail worker_hooks) n w = Ret (w', [], None) \<and> outside hs c w'"
    if "inside hs c w"
    using leave [OF that, of postFail] plain_postFail limiter_leaves(2) by (simp add: worker_hooks_def)
qed

text \<open>
  C1: With the hooks of this program, on a system that answers them without an error, a run sends
  exactly the messages of the specification and ends the way it says: one syncing message per
  attempt, a failure message per failed attempt, the success or the last failure asking for the
  next appointment.  Where it returns normally the provider's context is again its own, so the
  layer of each attempt is gone.
\<close>

theorem run_refines_spec:
  assumes "sj_ops j = worker_hooks" and "sj_hooks j = LogLimiter # hs"
    and "outside hs c w" and "\<forall>r v. inside hs c v \<longrightarrow> inside hs c (at_run (sj_attempt j r) v)"
  shows "out_msgs (runJobWrapper j w) = message PreSyncing '''' False
        # fst (run_spec (sj_name j) (sj_timeout j) (map (sj_attempt j) [0..<nat (sj_retry j)]))
    \<and> out_end (runJobWrapper j w)
        = snd (run_spec (sj_name j) (sj_timeout j) (map (sj_attempt j) [0..<nat (sj_retry j)]))
    \<and> (out_end (runJobWrapper j w) = Returned None \<longrightarrow> w_ctx (out_world (runJobWrapper j w)) = Some c)"
  using phases.run_quiet [of hs c j w] assms by (auto simp: phases.steady_def outside_def)

section \<open>Two ends without an appointment\<close>

lemma first_attempt: "1 \<le> sj_retry j \<Longrightarrow> map f [0..<nat (sj_retry j)] = f 0 # map f [1..<nat (sj_retry j)]"
  by (simp add: upt_conv_Cons)


text \<open>
  Where the provider cannot be terminated after a timeout the run returns with no message after
  the syncing message: nothing asks for another appointment, and the job is never started again.
\<close>

theorem failed_terminate_unscheduled:
  assumes "sj_ops j = worker_hooks" and "sj_hooks j = LogLimiter # hs" and "1 \<le> sj_retry j"
    and "outside hs c w" and "\<forall>r v. inside hs c v \<longrightarrow> inside hs c (at_run (sj_attempt j r) v)"
    and "at_choice (sj_attempt j 0) = TimedOut" and "at_termErr (sj_attempt j 0) = Some e"
    and "\<not> at_doneFirst (sj_attempt j 0)"
  shows "out_msgs (runJobWrapper j w) = [message PreSyncing '''' False, syncing_message]
    \<and> filter jm_schedule (out_msgs (runJobWrapper j w)) = []"
  using phases.run_quiet [of hs c j w] assms
  by (simp add: phases.steady_def first_attempt term_error_def)

section \<open>Sample runs\<close>

definition sample_attempt :: "world attempt" where
  "sample_attempt = \<lparr>at_run = id, at_result = None, at_doneFirst = False, at_choice = SyncDone,
     at_termErr = None, at_size = 1024, at_ready = True\<rparr>"

definition sample_job :: "world attempt list \<Rightarrow> (jobHook, world) sync_job" where
  "sample_job as = \<lparr>sj_ops = worker_hooks, sj_name = ''debian'', sj_retry = 2, sj_timeout = 0,
     sj_hooks = [LogLimiter, ExecPostHook execOnSuccess [''notify'']],
     sj_attempt = (\<lambda>r. if r < length as then as ! r else sample_attempt)\<rparr>"

abbreviation sample_start :: world where
  "sample_start \<equiv> sample_world [LogLimiter, ExecPostHook execOnSuccess [''notify'']] []"

lemma sample_outside:
  "outside [ExecPostHook execOnSuccess [''notify'']] (set_paths ''/data'' ''/log'' ''/log/latest.log'') sample_start"
  by (simp add: outside_def serene_def sample_world_def plain_hook_def env_ok_def sample_env_def
      w_ctx_def sample_provider_def)

lemma sample_job_sel [simp]:
  "sj_ops (sample_job as) = worker_hooks" "sj_name (sample_job as) = ''debian''"
  "sj_retry (sample_job as) = 2" "sj_timeout (sample_job as) = 0"
  "sj_hooks (sample_job as) = [LogLimiter, ExecPostHook execOnSuccess [''notify'']]"
  by (simp_all add: sample_job_def)

text \<open>A failed attempt followed by a success.\<close>

theorem run_refines_spec_witness:
  "out_msgs (runJobWrapper (sample_job [sample_attempt\<lparr>at_result := Some ''exit status 23''\<rparr>]) sample_start)
     = [message PreSyncing '''' False, syncing_message, message Failed ''exit status 23'' False,
        syncing_message, message Success '''' True]"
proof -
  let ?j = "sample_job [sample_attempt\<lparr>at_result := Some ''exit status 23''\<rparr>]"
  have "\<forall>r v. inside hs c v \<longrightarrow> inside hs c (at_run (sj_attempt ?j r) v)" for hs c
    by (simp add: sample_job_def sample_attempt_def)
  with run_refines_spec [of ?j, OF _ _ sample_outside] show ?thesis
    by (simp add: upt_rec numeral_eq_Suc sample_job_def sample_attempt_def term_error_def sync_error_def)
qed

theorem run_reschedules_witness:
  "jm_schedule (last (out_msgs (runJobWrapper (sample_job []) sample_start)))"
proof -
  have "\<forall>r v. inside hs c v \<longrightarrow> inside hs c (at_run (sj_attempt (sample_job []) r) v)" for hs c
    by (simp add: sample_job_def sample_attempt_def)
  then have "out_end (runJobWrapper (sample_job []) sample_start) = Returned None"
    using phases.run_quiet [OF _ sample_outside, of "sample_job []"]
    by (simp add: phases.steady_def upt_rec numeral_eq_Suc sample_job_def sample_attempt_def
        term_error_def sync_error_def)
  moreover have "\<forall>r. undisturbed (sj_attempt (sample_job []) r)"
    by (simp add: undisturbed_def sample_job_def sample_attempt_def term_error_def)
  ultimately show ?thesis using run_reschedules [of "sample_job []" sample_start] by simp
qed


theorem failed_terminate_unscheduled_witness:
  "filter jm_schedule (out_msgs (runJobWrapper
     (sample_job [sample_attempt\<lparr>at_choice := TimedOut, at_termErr := Some ''no such process''\<rparr>]) sample_start)) = []"
proof -
  let ?j = "sample_job [sample_attempt\<lparr>at_choice := TimedOut, at_termErr := Some ''no such process''\<rparr>]"
  have "\<forall>r v. inside hs c v \<longrightarrow> inside hs c (at_run (sj_attempt ?j r) v)" for hs c
    by (simp add: sample_job_def sample_attempt_def)
  with failed_terminate_unscheduled [of ?j, OF _ _ _ sample_outside, of "''no such process''"] show ?thesis
    by (simp add: sample_job_def sample_attempt_def)
qed

end
