(* ===== verification/Worker_Job.thy ===== *)
theory Worker_Job
  imports Worker_Sync
begin

text \<open>
  The goroutines of a mirror job, \<open>mirrorJob.Run\<close> in \<open>worker/job.go\<close>: the control loop that
  \<open>Run\<close> itself executes and the goroutine \<open>runJob\<close> it starts for each synchronisation, with
  the channels they share.  Each goroutine is a program counter; a labelled step performs one
  channel operation, one atomic access of the job's state, or one call of hooks or provider, and
  yields \<open>None\<close> where the operation blocks.
\<close>

section \<open>States, actions and channels\<close>

datatype job_state = stateNone | stateReady | statePaused | stateDisabled | stateHalting

datatype ctrlAction = jobStart | jobStop | jobDisable | jobRestart | jobPing | jobHalt | jobForceStart

text \<open>What \<open>runJobWrapper\<close> and \<open>runJob\<close> read from the configuration and the provider.\<close>

record job_cfg =
  jf_name :: string
  jf_retry :: int
  jf_timeout :: int
  jf_concurrent :: nat

text \<open>
  What the goroutines share: the job's state and size, the control channel (capacity 1), the
  manager channel (capacity 32), the tokens in the semaphore, how many goroutines still have to
  give a token back, whether the channel \<open>m.disabled\<close> refers to is open, and whether a panic has
  ended the process.
\<close>

record shared =
  sh_state :: job_state
  sh_size :: uint64
  sh_ctrl :: "ctrlAction list"
  sh_chan :: "jobMessage list"
  sh_tokens :: nat
  sh_releasing :: nat
  sh_disabled :: bool
  sh_crashed :: bool

definition ctrl_cap :: nat where "ctrl_cap = 1"
definition chan_cap :: nat where "chan_cap = 32"

section \<open>The goroutine of one synchronisation\<close>

text \<open>
  The points of \<open>runJobWrapper\<close>: the pre-job hooks, the pre-exec hooks of an attempt, the
  provider's run with its two \<open>select\<close>s, the hooks after it, the final message, the return.
\<close>

datatype stage =
    StPreJob
  | StPreExec nat
  | StRun nat
  | StPost nat err bool
  | StFinal nat err bool
  | StReturn

text \<open>
  \<open>ChSem\<close> is the \<open>select\<close> of \<open>runJob\<close>, \<open>ChSending\<close> a send that may block, \<open>ChKilledEarly\<close>
  the rendezvous \<open>jobDone <- empty{}\<close> of a job killed before it began.
\<close>

datatype child =
    ChSem
  | ChSending jobMessage stage
  | ChAt stage
  | ChKilledEarly

text \<open>What the environment answers at a stage.\<close>

datatype reply =
    HooksRan err
  | HooksPanicked
  | PostHookFailed string string
  | RunDone bool err
  | RunTimeout err
  | RunKilled err
  | StateRead uint64

definition next_try :: "job_cfg \<Rightarrow> nat \<Rightarrow> stage" where
  "next_try cfg r = (if int r < jf_retry cfg then StPreExec r else StReturn)"

definition timeout_error :: "job_cfg \<Rightarrow> string" where
  "timeout_error cfg = jf_name cfg @ '' timeout after '' @ duration_str (effective_timeout (jf_timeout cfg))"

text \<open>
  The hooks an attempt runs after the provider: post-exec first, then post-success or post-fail.
\<close>

definition post_hook_names :: "err \<Rightarrow> string list" where
  "post_hook_names syncErr = [''post-exec'', if syncErr = None then ''post-success'' else ''post-fail'']"

datatype stage_result = Goes child "uint64 option" | Crashes | Stays

fun stage_step :: "job_cfg \<Rightarrow> bool \<Rightarrow> job_state \<Rightarrow> stage \<Rightarrow> reply \<Rightarrow> stage_result" where
  "stage_step cfg kill st StPreJob (HooksRan None) = Goes (ChAt (next_try cfg 0)) None"
| "stage_step cfg kill st StPreJob HooksPanicked = Crashes"
| "stage_step cfg kill st (StPreExec r) HooksPanicked = Crashes"
| "stage_step cfg kill st (StPost r syncErr killed) HooksPanicked = Crashes"
| "stage_step cfg kill st StPreJob (HooksRan (Some e)) =
     Goes (ChSending (hook_message ''pre-job'' e) StReturn) None"
| "stage_step cfg kill st (StPreExec r) (HooksRan None) = Goes (ChSending syncing_message (StRun r)) None"
| "stage_step cfg kill st (StPreExec r) (HooksRan (Some e)) =
     Goes (ChSending (hook_message ''pre-exec'' e) StReturn) None"
| "stage_step cfg kill st (StRun r) (RunDone first e) =
     (if first \<and> e = None then Crashes else Goes (ChAt (StPost r e False)) None)"
| "stage_step cfg kill st (StRun r) (RunTimeout termErr) =
     (case termErr of
        Some _ \<Rightarrow> Goes (ChAt StReturn) None
      | None \<Rightarrow> Goes (ChAt (StPost r (Some (timeout_error cfg)) False)) None)"
| "stage_step cfg kill st (StRun r) (RunKilled termErr) =
     (if \<not> kill then Stays
      else case termErr of
        Some _ \<Rightarrow> Goes (ChAt StReturn) None
      | None \<Rightarrow> Goes (ChAt (StPost r (Some ''killed by manager'') True)) None)"
| "stage_step cfg kill st (StPost r syncErr killed) (HooksRan None) =
     Goes (ChAt (StFinal r syncErr killed)) None"
| "stage_step cfg kill st (StPost r syncErr killed) (PostHookFailed n e) =
     (if n \<in> set (post_hook_names syncErr) then Goes (ChSending (hook_message n e) StReturn) None else Stays)"
| "stage_step cfg kill st (StFinal r syncErr killed) (StateRead sz) =
     (case syncErr of
        None \<Rightarrow> Goes (ChSending (message Success '''' (st = stateReady)) StReturn) (Some sz)
      | Some e \<Rightarrow>
          Goes (ChSending (message Failed e (int r = jf_retry cfg - 1 \<and> st = stateReady))
                 (if killed then StReturn else next_try cfg (Suc r))) None)"
| "stage_step cfg kill st _ _ = Stays"

section \<open>The control loop\<close>

text \<open>
  Where \<open>Run\<close> is: before \<open>jobsDone.Add\<close>, at the head of the loop, in \<open>_wait_for_job\<close>, waiting
  for \<open>jobDone\<close> after closing \<open>kill\<close>, in the one-second sleep of a restart, receiving a command
  while no synchronisation runs, returned.
\<close>

datatype after_drain = ThenIdle | ThenReturn | ThenRestart

datatype main_pc = MStart | MTop | MWait | MDrain after_drain | MSleep | MIdle | MExit

record runner =
  rn_main :: main_pc
  rn_child :: "child option"
  rn_kill :: bool
  rn_done :: bool
  rn_holds :: bool
  rn_bypass :: bool

definition new_runner :: runner where
  "new_runner = \<lparr>rn_main = MStart, rn_child = None, rn_kill = False, rn_done = False,
     rn_holds = False, rn_bypass = False\<rparr>"

text \<open>Starting \<open>runJob\<close> with fresh \<open>kill\<close> and \<open>jobDone\<close> channels.\<close>

definition spawn :: "runner \<Rightarrow> runner" where
  "spawn r = r\<lparr>rn_main := MWait, rn_child := Some ChSem, rn_kill := False, rn_done := False, rn_holds := False\<rparr>"

text \<open>A command received in \<open>_wait_for_job\<close>, and one received while no synchronisation runs.\<close>

fun wait_ctrl :: "ctrlAction \<Rightarrow> runner \<times> 'a shared_scheme \<Rightarrow> runner \<times> 'a shared_scheme" where
  "wait_ctrl jobStop (r, s) = (r\<lparr>rn_main := MDrain ThenIdle, rn_kill := True\<rparr>, s\<lparr>sh_state := statePaused\<rparr>)"
| "wait_ctrl jobDisable (r, s) =
     (r\<lparr>rn_main := MDrain ThenReturn, rn_kill := True\<rparr>, s\<lparr>sh_state := stateDisabled\<rparr>)"
| "wait_ctrl jobRestart (r, s) =
     (r\<lparr>rn_main := MDrain ThenRestart, rn_kill := True\<rparr>, s\<lparr>sh_state := stateReady\<rparr>)"
| "wait_ctrl jobForceStart (r, s) = (r\<lparr>rn_bypass := True\<rparr>, s\<lparr>sh_state := stateReady\<rparr>)"
| "wait_ctrl jobStart (r, s) = (r, s\<lparr>sh_state := stateReady\<rparr>)"
| "wait_ctrl jobHalt (r, s) =
     (r\<lparr>rn_main := MDrain ThenReturn, rn_kill := True\<rparr>, s\<lparr>sh_state := stateHalting\<rparr>)"
| "wait_ctrl jobPing (r, s) = (r\<lparr>rn_main := MExit, rn_kill := True\<rparr>, s)"

fun idle_ctrl :: "ctrlAction \<Rightarrow> runner \<times> 'a shared_scheme \<Rightarrow> runner \<times> 'a shared_scheme" where
  "idle_ctrl jobStop (r, s) = (r\<lparr>rn_main := MTop\<rparr>, s\<lparr>sh_state := statePaused\<rparr>)"
| "idle_ctrl jobDisable (r, s) = (r\<lparr>rn_main := MExit\<rparr>, s\<lparr>sh_state := stateDisabled\<rparr>)"
| "idle_ctrl jobForceStart (r, s) = (r\<lparr>rn_main := MTop, rn_bypass := True\<rparr>, s\<lparr>sh_state := stateReady\<rparr>)"
| "idle_ctrl jobRestart (r, s) = (r\<lparr>rn_main := MTop\<rparr>, s\<lparr>sh_state := stateReady\<rparr>)"
| "idle_ctrl jobStart (r, s) = (r\<lparr>rn_main := MTop\<rparr>, s\<lparr>sh_state := stateReady\<rparr>)"
| "idle_ctrl jobPing (r, s) = (r\<lparr>rn_main := MExit\<rparr>, s)"
| "idle_ctrl jobHalt (r, s) = (r\<lparr>rn_main := MExit\<rparr>, s)"

text \<open>\<open>jobDone\<close> can be received once it is closed, or while a killed job offers the rendezvous.\<close>

definition job_done :: "runner \<Rightarrow> bool" where
  "job_done r \<longleftrightarrow> rn_done r \<or> rn_child r = Some ChKilledEarly"

fun after_pc :: "after_drain \<Rightarrow> main_pc" where
  "after_pc ThenIdle = MIdle"
| "after_pc ThenReturn = MExit"
| "after_pc ThenRestart = MSleep"

section \<open>Steps of a runner\<close>

datatype runner_label =
    RGo           \<comment> \<open>the control loop moves without a channel\<close>
  | RCtrlWait     \<comment> \<open>the control loop receives a command in \<open>_wait_for_job\<close>\<close>
  | RCtrlIdle     \<comment> \<open>the control loop receives a command while no synchronisation runs\<close>
  | RDone         \<comment> \<open>the control loop receives \<open>jobDone\<close>\<close>
  | RTake         \<comment> \<open>\<open>runJob\<close> puts a token into the semaphore\<close>
  | RBypass       \<comment> \<open>\<open>runJob\<close> receives from \<open>bypassSemaphore\<close>\<close>
  | RKill         \<comment> \<open>\<open>runJob\<close> receives from \<open>kill\<close>\<close>
  | RStage reply  \<comment> \<open>\<open>runJobWrapper\<close> goes on with a reply\<close>
  | RPush         \<comment> \<open>\<open>runJobWrapper\<close> sends to the manager channel\<close>
  | RReturn       \<comment> \<open>\<open>runJobWrapper\<close> closes \<open>jobDone\<close>\<close>

fun go_step :: "runner \<times> 'a shared_scheme \<Rightarrow> (runner \<times> 'a shared_scheme) option" where
  "go_step (r, s) =
     (case rn_main r of
        MStart \<Rightarrow> Some (r\<lparr>rn_main := MTop\<rparr>, s\<lparr>sh_disabled := True\<rparr>)
      | MTop \<Rightarrow> Some (if sh_state s = stateReady then spawn r else r\<lparr>rn_main := MIdle\<rparr>, s)
      | MSleep \<Rightarrow> Some (r\<lparr>rn_main := MTop\<rparr>, s)
      | _ \<Rightarrow> None)"

fun ctrl_step ::
  "main_pc \<Rightarrow> (ctrlAction \<Rightarrow> runner \<times> 'a shared_scheme \<Rightarrow> runner \<times> 'a shared_scheme) \<Rightarrow>
     runner \<times> 'a shared_scheme \<Rightarrow> (runner \<times> 'a shared_scheme) option" where
  "ctrl_step pc act (r, s) =
     (if rn_main r \<noteq> pc then None
      else case sh_ctrl s of
        [] \<Rightarrow> None
      | a # rest \<Rightarrow> Some (act a (r, s\<lparr>sh_ctrl := rest\<rparr>)))"

fun done_step :: "runner \<times> 'a shared_scheme \<Rightarrow> (runner \<times> 'a shared_scheme) option" where
  "done_step (r, s) =
     (if \<not> job_done r then None
      else let r' = (if rn_done r then r else r\<lparr>rn_child := None\<rparr>) in
        case rn_main r of
          MWait \<Rightarrow> Some (r'\<lparr>rn_main := MIdle\<rparr>, s)
        | MDrain k \<Rightarrow> Some (r'\<lparr>rn_main := after_pc k\<rparr>, s)
        | _ \<Rightarrow> None)"

text \<open>The deferred function of \<open>Run\<close>: closing a closed channel panics.\<close>

definition on_return :: "runner \<Rightarrow> 'a shared_scheme \<Rightarrow> 'a shared_scheme" where
  "on_return r s =
     (if rn_main r \<noteq> MExit then s
      else if sh_disabled s then s\<lparr>sh_disabled := False\<rparr>
      else s\<lparr>sh_crashed := True\<rparr>)"

definition returning ::
  "(runner \<times> 'a shared_scheme) option \<Rightarrow> (runner \<times> 'a shared_scheme) option" where
  "returning = map_option (\<lambda>(r, s). (r, on_return r s))"

definition begin_wrapper :: child where
  "begin_wrapper = ChSending (message PreSyncing '''' False) StPreJob"

fun child_step :: "job_cfg \<Rightarrow> runner_label \<Rightarrow> runner \<times> 'a shared_scheme \<Rightarrow> (runner \<times> 'a shared_scheme) option" where
  "child_step cfg l (r, s) =
     (case (rn_child r, l) of
        (Some ChSem, RTake) \<Rightarrow>
          if sh_tokens s < jf_concurrent cfg
          then Some (r\<lparr>rn_child := Some begin_wrapper, rn_holds := True\<rparr>, s\<lparr>sh_tokens := Suc (sh_tokens s)\<rparr>)
          else None
      | (Some ChSem, RBypass) \<Rightarrow>
          if rn_bypass r then Some (r\<lparr>rn_child := Some begin_wrapper, rn_bypass := False\<rparr>, s) else None
      | (Some ChSem, RKill) \<Rightarrow>
          if rn_kill r then Some (r\<lparr>rn_child := Some ChKilledEarly\<rparr>, s) else None
      | (Some (ChAt st), RStage a) \<Rightarrow>
          (case stage_step cfg (rn_kill r) (sh_state s) st a of
             Stays \<Rightarrow> None
           | Crashes \<Rightarrow> Some (r, s\<lparr>sh_crashed := True\<rparr>)
           | Goes c sz \<Rightarrow>
               Some (r\<lparr>rn_child := Some c\<rparr>,
                     case sz of None \<Rightarrow> s | Some n \<Rightarrow> s\<lparr>sh_size := n\<rparr>))
      | (Some (ChSending m st), RPush) \<Rightarrow>
          if length (sh_chan s) < chan_cap
          then Some (r\<lparr>rn_child := Some (ChAt st)\<rparr>, s\<lparr>sh_chan := sh_chan s @ [m]\<rparr>)
          else None
      | (Some (ChAt StReturn), RReturn) \<Rightarrow>
          Some (r\<lparr>rn_child := None, rn_done := True, rn_holds := False\<rparr>,
                if rn_holds r then s\<lparr>sh_releasing := Suc (sh_releasing s)\<rparr> else s)
      | _ \<Rightarrow> None)"

definition runner_step ::
  "job_cfg \<Rightarrow> runner_label \<Rightarrow> runner \<times> 'a shared_scheme \<Rightarrow> (runner \<times> 'a shared_scheme) option" where
  "runner_step cfg l rs =
     (case l of
        RGo \<Rightarrow> go_step rs
      | RCtrlWait \<Rightarrow> returning (ctrl_step MWait wait_ctrl rs)
      | RCtrlIdle \<Rightarrow> returning (ctrl_step MIdle idle_ctrl rs)
      | RDone \<Rightarrow> returning (done_step rs)
      | _ \<Rightarrow> child_step cfg l rs)"

section \<open>The goroutine performs the runs of the wrapper\<close>

text \<open>
  The messages the goroutine can send from a point until it returns or crashes, whatever the
  other goroutines do to \<open>kill\<close> and to the state in between.
\<close>

datatype child_end = Finishes | CrashesProcess

inductive emits :: "job_cfg \<Rightarrow> child \<Rightarrow> jobMessage list \<Rightarrow> child_end \<Rightarrow> bool" for cfg where
  emits_return: "emits cfg (ChAt StReturn) [] Finishes"
| emits_stage: "stage_step cfg kill st stg a = Goes c sz \<Longrightarrow> emits cfg c ms en \<Longrightarrow> emits cfg (ChAt stg) ms en"
| emits_crash: "stage_step cfg kill st stg a = Crashes \<Longrightarrow> emits cfg (ChAt stg) [] CrashesProcess"
| emits_send: "emits cfg (ChAt stg) ms en \<Longrightarrow> emits cfg (ChSending m stg) (m # ms) en"

text \<open>One rule per answer of the environment, read off the equations of the stages.\<close>

lemma emits_pre:
  "emits cfg (ChAt (next_try cfg 0)) ms en \<Longrightarrow> emits cfg (ChAt StPreJob) ms en"
  "emits cfg (ChAt StPreJob) [hook_message ''pre-job'' e] Finishes"
  "emits cfg (ChAt StPreJob) [] CrashesProcess"
  "emits cfg (ChAt (StRun r)) ms en \<Longrightarrow> emits cfg (ChAt (StPreExec r)) (syncing_message # ms) en"
  "emits cfg (ChAt (StPreExec r)) [hook_message ''pre-exec'' e] Finishes"
  "emits cfg (ChAt (StPreExec r)) [] CrashesProcess"
proof -
  note send = emits_send [OF emits_return]
  show "emits cfg (ChAt (next_try cfg 0)) ms en \<Longrightarrow> emits cfg (ChAt StPreJob) ms en"
    by (rule emits_stage [where a = "HooksRan None"]) simp_all
  show "emits cfg (ChAt StPreJob) [hook_message ''pre-job'' e] Finishes"
    by (rule emits_stage [where a = "HooksRan (Some e)", OF _ send]) simp
  show "emits cfg (ChAt StPreJob) [] CrashesProcess"
    by (rule emits_crash [where a = HooksPanicked]) simp
  show "emits cfg (ChAt (StRun r)) ms en \<Longrightarrow> emits cfg (ChAt (StPreExec r)) (syncing_message # ms) en"
    by (rule emits_stage [where a = "HooksRan None", OF _ emits_send]) simp_all
  show "emits cfg (ChAt (StPreExec r)) [hook_message ''pre-exec'' e] Finishes"
    by (rule emits_stage [where a = "HooksRan (Some e)", OF _ send]) simp
  show "emits cfg (ChAt (StPreExec r)) [] CrashesProcess"
    by (rule emits_crash [where a = HooksPanicked]) simp
qed

lemma emits_post:
  "n \<in> set (post_hook_names s) \<Longrightarrow> emits cfg (ChAt (StPost r s killed)) [hook_message n e] Finishes"
  "emits cfg (ChAt (StFinal r s killed)) ms en \<Longrightarrow> emits cfg (ChAt (StPost r s killed)) ms en"
  "emits cfg (ChAt (StFinal r None killed)) [message Success '''' ready] Finishes"
  "emits cfg (ChAt (if killed then StReturn else next_try cfg (Suc r))) ms en \<Longrightarrow>
     emits cfg (ChAt (StFinal r (Some x) killed)) (message Failed x (int r = jf_retry cfg - 1 \<and> ready) # ms) en"
proof -
  show "n \<in> set (post_hook_names s) \<Longrightarrow> emits cfg (ChAt (StPost r s killed)) [hook_message n e] Finishes"
    by (rule emits_stage [where a = "PostHookFailed n e", OF _ emits_send [OF emits_return]]) simp
  show "emits cfg (ChAt (StFinal r s killed)) ms en \<Longrightarrow> emits cfg (ChAt (StPost r s killed)) ms en"
    by (rule emits_stage [where a = "HooksRan None"]) simp_all
  show "emits cfg (ChAt (StFinal r None killed)) [message Success '''' ready] Finishes"
    by (rule emits_stage [where a = "StateRead 0" and st = "if ready then stateReady else stateNone",
          OF _ emits_send [OF emits_return]]) simp
  show "emits cfg (ChAt (if killed then StReturn else next_try cfg (Suc r))) ms en \<Longrightarrow>
     emits cfg (ChAt (StFinal r (Some x) killed)) (message Failed x (int r = jf_retry cfg - 1 \<and> ready) # ms) en"
    by (rule emits_stage [where a = "StateRead 0" and st = "if ready then stateReady else stateNone",
          OF _ emits_send]) simp_all
qed

lemma emits_run:
  "emits cfg (ChAt (StPost r s False)) ms en \<Longrightarrow> emits cfg (ChAt (StRun r)) ms en"
  "emits cfg (ChAt (StPost r (Some ''killed by manager'') True)) ms en \<Longrightarrow> emits cfg (ChAt (StRun r)) ms en"
  "emits cfg (ChAt (StRun r)) [] Finishes"
  "emits cfg (ChAt (StRun r)) [] CrashesProcess"
proof -
  show "emits cfg (ChAt (StPost r s False)) ms en \<Longrightarrow> emits cfg (ChAt (StRun r)) ms en"
    by (rule emits_stage [where a = "RunDone False s"]) simp_all
  show "emits cfg (ChAt (StPost r (Some ''killed by manager'') True)) ms en \<Longrightarrow> emits cfg (ChAt (StRun r)) ms en"
    by (rule emits_stage [where a = "RunKilled None" and kill = True]) simp_all
  show "emits cfg (ChAt (StRun r)) [] Finishes"
    by (rule emits_stage [where a = "RunTimeout (Some [])", OF _ emits_return]) simp
  show "emits cfg (ChAt (StRun r)) [] CrashesProcess"
    by (rule emits_crash [where a = "RunDone True None"]) simp
qed

lemma emits_run_hook:
  assumes "n \<in> {''post-exec'', ''post-success'', ''post-fail''}"
  shows "emits cfg (ChAt (StRun r)) [hook_message n e] Finishes"
proof (cases "n = ''post-fail''")
  case True
  then show ?thesis by (intro emits_run(1) [of cfg r "Some []"] emits_post(1)) (simp add: post_hook_names_def)
next
  case False
  with assms show ?thesis by (intro emits_run(1) [of cfg r None] emits_post(1)) (auto simp: post_hook_names_def)
qed

lemmas emits_attempt = emits_pre(4)
lemmas emits_run_crash = emits_run(4)
lemmas emits_run_unterminated = emits_run(3)
lemmas emits_run_success = emits_run(1) [OF emits_post(2) [OF emits_post(3)]]
lemmas emits_run_failed = emits_run(1) [OF emits_post(2) [OF emits_post(4) [where killed = False, simplified]]]
lemmas emits_run_killed = emits_run(2) [OF emits_post(2) [OF emits_post(4) [where killed = True, simplified, OF emits_return]]]

definition end_of :: "wrap_end \<Rightarrow> child_end" where
  "end_of en = (case en of Panicked _ \<Rightarrow> CrashesProcess | Returned _ \<Rightarrow> Finishes)"

definition runs_for :: "job_cfg \<Rightarrow> ('h, 'w) sync_job \<Rightarrow> bool" where
  "runs_for cfg j \<longleftrightarrow> jf_name cfg = sj_name j \<and> jf_retry cfg = sj_retry j \<and> jf_timeout cfg = sj_timeout j"

lemma emits_retry_loop:
  assumes "runs_for cfg j"
  shows "emits cfg (ChAt (next_try cfg r)) (out_msgs (retry_loop j r w)) (end_of (out_end (retry_loop j r w)))"
  using assms
proof (induction j r w rule: retry_loop.induct)
  case (1 j r w)
  have ret: "jf_retry cfg = sj_retry j" using "1.prems" by (simp add: runs_for_def)
  show ?case
  proof (cases "int r < sj_retry j")
    case True
    then have head: "next_try cfg r = StPreExec r" by (simp add: next_try_def ret)
    show ?thesis unfolding head
    proof (rule attempt_body_cases [of j r w])
      fix w' ms m
      assume "attempt_body j r w = Stop (Outcome w' ms None (Panicked m))" "ms = [] \<or> ms = [syncing_message]"
      then show "emits cfg (ChAt (StPreExec r)) (out_msgs (retry_loop j r w)) (end_of (out_end (retry_loop j r w)))"
        using emits_attempt [OF emits_run_crash] emits_pre(6)
        by (auto simp: retry_loop_Stop [OF True] end_of_def)
    next
      fix w' ms n e
      assume "attempt_body j r w = Stop (Outcome w' (ms @ [hook_message n e]) None (Returned (Some e)))"
        "ms = [] \<and> n = ''pre-exec'' \<or> ms = [syncing_message] \<and> n \<in> {''post-exec'', ''post-success'', ''post-fail''}"
      then show "emits cfg (ChAt (StPreExec r)) (out_msgs (retry_loop j r w)) (end_of (out_end (retry_loop j r w)))"
        using emits_attempt [OF emits_run_hook [of n cfg r e]] emits_pre(5)
        by (elim disjE conjE) (simp_all add: retry_loop_Stop [OF True] end_of_def del: insert_iff)
    next
      fix w' e
      assume "sync_error (sj_name j) (sj_timeout j) (sj_attempt j r) = Some e" "at_choice (sj_attempt j r) = Killed"
        "attempt_body j r w = Stop (Outcome w' [syncing_message,
             message Failed e (int r = sj_retry j - 1 \<and> at_ready (sj_attempt j r))] None (Returned None))"
      then show "emits cfg (ChAt (StPreExec r)) (out_msgs (retry_loop j r w)) (end_of (out_end (retry_loop j r w)))"
        using emits_attempt [OF emits_run_killed [of cfg r "at_ready (sj_attempt j r)"]]
        by (simp add: retry_loop_Stop [OF True] end_of_def sync_error_def ret)
    next
      fix w' e
      let ?ms = "[syncing_message, message Failed e (int r = sj_retry j - 1 \<and> at_ready (sj_attempt j r))]"
      assume again: "attempt_body j r w = Again w' ?ms"
      show "emits cfg (ChAt (StPreExec r)) (out_msgs (retry_loop j r w)) (end_of (out_end (retry_loop j r w)))"
        using emits_attempt [OF emits_run_failed [OF "1.IH" [OF True again "1.prems"]]]
        by (simp add: retry_loop_Again [OF True again] ret)
    qed (use emits_attempt [OF emits_run_unterminated] emits_attempt [OF emits_run_success] in
        \<open>auto simp: retry_loop_Stop [OF True] end_of_def\<close>)
  qed (use ret in \<open>simp add: retry_loop_stop next_try_def end_of_def emits_return\<close>)
qed

text \<open>
  C9: Every run \<open>runJobWrapper\<close> can make, with any hooks and any provider, is one the goroutine of
  the concurrent model can make: it sends the same messages in the same order and ends alike.
\<close>

theorem goroutine_performs_wrapper:
  assumes "runs_for cfg j"
  shows "emits cfg begin_wrapper (out_msgs (runJobWrapper j w)) (end_of (out_end (runJobWrapper j w)))"
proof -
  have "emits cfg (ChAt StPreJob) ms en"
    if "message PreSyncing '''' False # ms = out_msgs (runJobWrapper j w)" "en = end_of (out_end (runJobWrapper j w))" for ms en
  proof (rule run_prejob_cases [of j w])
    fix w' e
    assume "runJobWrapper j w = Outcome w' [message PreSyncing '''' False, hook_message ''pre-job'' e] None (Returned (Some e))"
    with that emits_pre(2) show "emits cfg (ChAt StPreJob) ms en" by (simp add: end_of_def)
  next
    fix w'
    assume "runJobWrapper j w = prepend [message PreSyncing '''' False] (retry_loop j 0 w')"
    with that emits_retry_loop [OF assms, of 0 w'] show "emits cfg (ChAt StPreJob) ms en"
      by (simp add: emits_pre(1))
  qed (use that emits_pre(3) in \<open>simp add: end_of_def\<close>)
  moreover obtain ms where "out_msgs (runJobWrapper j w) = message PreSyncing '''' False # ms"
    by (simp add: runJobWrapper_def)
  ultimately show ?thesis by (auto simp: begin_wrapper_def intro: emits_send)
qed

section \<open>What a runner keeps\<close>

text \<open>
  A runner has a synchronisation goroutine only while it waits for it (or has abandoned it), it
  owes \<open>jobDone\<close> exactly while that goroutine lives, \<open>kill\<close> is closed exactly once the loop has
  left \<open>_wait_for_job\<close>, and only a goroutine past the semaphore can hold a token.
\<close>

definition runner_ok :: "runner \<Rightarrow> bool" where
  "runner_ok r \<longleftrightarrow>
     (rn_main r \<in> {MStart, MTop, MSleep, MIdle} \<longrightarrow> rn_child r = None)
   \<and> (rn_main r = MWait \<longrightarrow> (rn_child r = None \<longleftrightarrow> rn_done r) \<and> \<not> rn_kill r)
   \<and> ((\<exists>k. rn_main r = MDrain k) \<longrightarrow> (rn_child r = None \<longleftrightarrow> rn_done r) \<and> rn_kill r)
   \<and> (rn_holds r \<longrightarrow> rn_child r \<notin> {None, Some ChSem, Some ChKilledEarly})
   \<and> (rn_child r \<noteq> None \<longrightarrow> \<not> rn_done r)
   \<and> (rn_child r = Some ChKilledEarly \<longrightarrow> rn_kill r)"

lemma new_runner_ok [simp]: "runner_ok new_runner"
  by (simp add: runner_ok_def new_runner_def)

lemma begin_wrapper_neq [simp]: "begin_wrapper \<noteq> ChSem" "begin_wrapper \<noteq> ChKilledEarly"
  by (simp_all add: begin_wrapper_def)

lemma stage_step_child: "stage_step cfg kill st stg a = Goes c sz \<Longrightarrow> c \<noteq> ChSem \<and> c \<noteq> ChKilledEarly"
  by (induction cfg kill st stg a rule: stage_step.induct) (auto split: if_splits option.splits)

lemma runner_step_stage:
  "rn_child r = Some (ChAt stg) \<Longrightarrow> runner_step cfg (RStage a) (r, s) =
     (case stage_step cfg (rn_kill r) (sh_state s) stg a of
        Stays \<Rightarrow> None
      | Crashes \<Rightarrow> Some (r, s\<lparr>sh_crashed := True\<rparr>)
      | Goes c sz \<Rightarrow> Some (r\<lparr>rn_child := Some c\<rparr>, case sz of None \<Rightarrow> s | Some n \<Rightarrow> s\<lparr>sh_size := n\<rparr>))"
  by (cases stg) (simp_all add: runner_step_def)

lemma on_return_sel [simp]:
  "sh_state (on_return r s) = sh_state s" "sh_size (on_return r s) = sh_size s"
  "sh_ctrl (on_return r s) = sh_ctrl s" "sh_chan (on_return r s) = sh_chan s"
  "sh_tokens (on_return r s) = sh_tokens s" "sh_releasing (on_return r s) = sh_releasing s"
  by (simp_all add: on_return_def)

text \<open>The moves of a runner, as an elimination rule.\<close>

lemma runner_step_cases:
  assumes "runner_step cfg l (r, s) = Some (r', s')"
  obtains
    (start) "l = RGo" "rn_main r = MStart" "r' = r\<lparr>rn_main := MTop\<rparr>" "s' = s\<lparr>sh_disabled := True\<rparr>"
  | (awake) "l = RGo" "rn_main r = MSleep" "r' = r\<lparr>rn_main := MTop\<rparr>" "s' = s"
  | (spawn) "l = RGo" "rn_main r = MTop" "sh_state s = stateReady" "r' = spawn r" "s' = s"
  | (idle) "l = RGo" "rn_main r = MTop" "sh_state s \<noteq> stateReady" "r' = r\<lparr>rn_main := MIdle\<rparr>" "s' = s"
  | (wait_ctrl) a rest t where "l = RCtrlWait" "rn_main r = MWait" "sh_ctrl s = a # rest"
      "(r', t) = wait_ctrl a (r, s\<lparr>sh_ctrl := rest\<rparr>)" "s' = on_return r' t"
  | (idle_ctrl) a rest t where "l = RCtrlIdle" "rn_main r = MIdle" "sh_ctrl s = a # rest"
      "(r', t) = idle_ctrl a (r, s\<lparr>sh_ctrl := rest\<rparr>)" "s' = on_return r' t"
  | (finished) pc where "l = RDone" "job_done r" "s' = on_return r' s"
      "r' = (if rn_done r then r else r\<lparr>rn_child := None\<rparr>)\<lparr>rn_main := pc\<rparr>"
      "rn_main r = MWait \<and> pc = MIdle \<or> (\<exists>k. rn_main r = MDrain k \<and> pc = after_pc k)"
  | (take) "l = RTake" "rn_child r = Some ChSem" "sh_tokens s < jf_concurrent cfg"
      "r' = r\<lparr>rn_child := Some begin_wrapper, rn_holds := True\<rparr>" "s' = s\<lparr>sh_tokens := Suc (sh_tokens s)\<rparr>"
  | (bypass) "l = RBypass" "rn_child r = Some ChSem" "rn_bypass r"
      "r' = r\<lparr>rn_child := Some begin_wrapper, rn_bypass := False\<rparr>" "s' = s"
  | (kill) "l = RKill" "rn_child r = Some ChSem" "rn_kill r" "r' = r\<lparr>rn_child := Some ChKilledEarly\<rparr>" "s' = s"
  | (stage) a stg c sz where "l = RStage a" "rn_child r = Some (ChAt stg)"
      "stage_step cfg (rn_kill r) (sh_state s) stg a = Goes c sz" "r' = r\<lparr>rn_child := Some c\<rparr>"
      "s' = (case sz of None \<Rightarrow> s | Some n \<Rightarrow> s\<lparr>sh_size := n\<rparr>)"
  | (crash) a stg where "l = RStage a" "rn_child r = Some (ChAt stg)"
      "stage_step cfg (rn_kill r) (sh_state s) stg a = Crashes" "r' = r" "s' = s\<lparr>sh_crashed := True\<rparr>"
  | (push) m stg where "l = RPush" "rn_child r = Some (ChSending m stg)" "length (sh_chan s) < chan_cap"
      "r' = r\<lparr>rn_child := Some (ChAt stg)\<rparr>" "s' = s\<lparr>sh_chan := sh_chan s @ [m]\<rparr>"
  | (return) "l = RReturn" "rn_child r = Some (ChAt StReturn)"
      "r' = r\<lparr>rn_child := None, rn_done := True, rn_holds := False\<rparr>"
      "s' = (if rn_holds r then s\<lparr>sh_releasing := Suc (sh_releasing s)\<rparr> else s)"
proof (cases l)
  case RGo
  with assms have "rn_main r = MStart \<and> r' = r\<lparr>rn_main := MTop\<rparr> \<and> s' = s\<lparr>sh_disabled := True\<rparr>
      \<or> rn_main r = MSleep \<and> r' = r\<lparr>rn_main := MTop\<rparr> \<and> s' = s \<or> rn_main r = MTop \<and> (if sh_state s = stateReady then r' = spawn r else r' = r\<lparr>rn_main := MIdle\<rparr>) \<and> s' = s"
    by (cases "rn_main r") (auto simp: runner_step_def)
  with RGo start awake spawn idle show ?thesis by (metis (full_types))
next
  case RCtrlWait
  with assms have "rn_main r = MWait" "\<exists>a rest t. sh_ctrl s = a # rest \<and> (r', t) = wait_ctrl a (r, s\<lparr>sh_ctrl := rest\<rparr>) \<and> s' = on_return r' t"
    by (auto simp: runner_step_def returning_def split: if_splits list.splits)
  with RCtrlWait wait_ctrl show ?thesis by blast
next
  case RCtrlIdle
  with assms have "rn_main r = MIdle" "\<exists>a rest t. sh_ctrl s = a # rest \<and> (r', t) = idle_ctrl a (r, s\<lparr>sh_ctrl := rest\<rparr>) \<and> s' = on_return r' t"
    by (auto simp: runner_step_def returning_def split: if_splits list.splits)
  with RCtrlIdle idle_ctrl show ?thesis by blast
next
  case RDone
  with assms have "job_done r" "s' = on_return r' s"
      "\<exists>pc. r' = (if rn_done r then r else r\<lparr>rn_child := None\<rparr>)\<lparr>rn_main := pc\<rparr>
      \<and> (rn_main r = MWait \<and> pc = MIdle \<or> (\<exists>k. rn_main r = MDrain k \<and> pc = after_pc k))"
    by (cases "rn_main r"; auto simp: runner_step_def returning_def Let_def split: if_splits)+
  with RDone finished show ?thesis by blast
next
  case RTake
  with assms have "rn_child r = Some ChSem" "sh_tokens s < jf_concurrent cfg"
      "r' = r\<lparr>rn_child := Some begin_wrapper, rn_holds := True\<rparr>" "s' = s\<lparr>sh_tokens := Suc (sh_tokens s)\<rparr>"
    by (simp_all add: runner_step_def split: option.splits child.splits stage.splits if_splits)
  with RTake take show ?thesis by blast
next
  case RBypass
  with assms have "rn_child r = Some ChSem" "rn_bypass r"
      "r' = r\<lparr>rn_child := Some begin_wrapper, rn_bypass := False\<rparr>" "s' = s"
    by (simp_all add: runner_step_def split: option.splits child.splits stage.splits if_splits)
  with RBypass bypass show ?thesis by blast
next
  case RKill
  with assms have "rn_child r = Some ChSem" "rn_kill r" "r' = r\<lparr>rn_child := Some ChKilledEarly\<rparr>" "s' = s"
    by (simp_all add: runner_step_def split: option.splits child.splits stage.splits if_splits)
  with RKill kill show ?thesis by blast
next
  case (RStage a)
  with assms obtain stg where stg: "rn_child r = Some (ChAt stg)"
    by (cases "rn_child r") (simp_all add: runner_step_def split: child.splits)
  show ?thesis
  proof (cases "stage_step cfg (rn_kill r) (sh_state s) stg a")
    case (Goes c sz)
    with RStage assms stg show ?thesis by (intro stage [of a stg c sz]) (auto simp: runner_step_stage)
  next
    case Crashes
    with RStage assms stg show ?thesis by (intro crash [of a stg]) (auto simp: runner_step_stage)
  next
    case Stays
    with RStage assms stg show ?thesis by (simp add: runner_step_stage)
  qed
next
  case RPush
  with assms have "\<exists>m stg. rn_child r = Some (ChSending m stg) \<and> length (sh_chan s) < chan_cap
      \<and> r' = r\<lparr>rn_child := Some (ChAt stg)\<rparr> \<and> s' = s\<lparr>sh_chan := sh_chan s @ [m]\<rparr>"
    by (simp add: runner_step_def split: option.splits child.splits stage.splits if_splits)
  with RPush push show ?thesis by blast
next
  case RReturn
  with assms have "rn_child r = Some (ChAt StReturn)"
      "r' = r\<lparr>rn_child := None, rn_done := True, rn_holds := False\<rparr>"
      "s' = (if rn_holds r then s\<lparr>sh_releasing := Suc (sh_releasing s)\<rparr> else s)"
    by (auto simp: runner_step_def split: option.splits child.splits stage.splits)
  with RReturn return show ?thesis by blast
qed

lemma runner_step_ok:
  assumes "runner_step cfg l (r, s) = Some (r', s')" and "runner_ok r"
  shows "runner_ok r'"
  using assms(1)
proof (cases rule: runner_step_cases)
  case (wait_ctrl a rest t)
  with assms(2) show ?thesis by (cases a) (auto simp: runner_ok_def)
next
  case (idle_ctrl a rest t)
  with assms(2) show ?thesis by (cases a) (auto simp: runner_ok_def)
next
  case (finished pc)
  then show ?thesis
    using assms(2) by (auto simp: runner_ok_def job_done_def elim: after_pc.elims)
next
  case (stage a stg c sz)
  then show ?thesis
    using assms(2) stage_step_child [OF stage(3)] by (auto simp: runner_ok_def)
qed (use assms(2) in \<open>auto simp: runner_ok_def spawn_def\<close>)

text \<open>Every token in the semaphore is held by a goroutine or is being given back.\<close>

lemma runner_step_tokens:
  assumes "runner_step cfg l (r, s) = Some (r', s')" and "runner_ok r"
  shows "sh_tokens s' + sh_releasing s + of_bool (rn_holds r) = sh_tokens s + sh_releasing s' + of_bool (rn_holds r')
    \<and> (sh_tokens s \<le> jf_concurrent cfg \<longrightarrow> sh_tokens s' \<le> jf_concurrent cfg)
    \<and> (length (sh_chan s) \<le> chan_cap \<longrightarrow> length (sh_chan s') \<le> chan_cap)
    \<and> length (sh_ctrl s') \<le> length (sh_ctrl s) \<and> set (sh_ctrl s') \<subseteq> set (sh_ctrl s)"
  using assms(1)
proof (cases rule: runner_step_cases)
  case (wait_ctrl a rest t)
  then show ?thesis by (cases a) auto
next
  case (idle_ctrl a rest t)
  then show ?thesis by (cases a) auto
next
  case (stage a stg c sz)
  then show ?thesis by (cases sz) auto
qed (use assms(2) in \<open>auto simp: runner_ok_def spawn_def\<close>)

theorem goroutine_performs_wrapper_witness:
  "emits \<lparr>jf_name = ''debian'', jf_retry = 2, jf_timeout = 0, jf_concurrent = 1\<rparr> begin_wrapper
     (out_msgs (runJobWrapper (sample_job []) sample_start)) (end_of (out_end (runJobWrapper (sample_job []) sample_start)))"
  by (rule goroutine_performs_wrapper) (simp add: runs_for_def)

end
