(* ===== verification/Worker_Schedule.thy ===== *)
theory Worker_Schedule
  imports Go_Prelude
begin

text \<open>
  The worker's one-slot timer, \<open>worker/schedule.go\<close>: the record, its four operations and
  the contract the scheduling loop relies on.

  The embedded \<open>sync.Mutex\<close> is the field \<open>sq_locked\<close>.  A Go mutex is not reentrant:
  locking a mutex that is held blocks the caller until its holder unlocks it.  An operation
  returns \<open>Done\<close> with its value and the new queue, or \<open>Blocked\<close> with the queue as it is
  while the caller waits.
\<close>

section \<open>The queue and its operations\<close>

record 'j schedule =
  sq_locked :: bool
  sq_job :: "'j option"
  sq_nextScheduled :: int
  sq_sched :: bool

datatype ('a, 'j) locked_op = Done 'a "'j schedule" | Blocked "'j schedule"

definition newSchedule :: "'j schedule" where
  "newSchedule = \<lparr>sq_locked = False, sq_job = None, sq_nextScheduled = 0, sq_sched = False\<rparr>"

text \<open>\<open>GetJob\<close> reads without taking the lock.\<close>

definition GetJob :: "'j schedule \<Rightarrow> int" where
  "GetJob q = (if sq_sched q then sq_nextScheduled q else 0)"

text \<open>The body of an operation runs between \<open>Lock\<close> and the deferred \<open>Unlock\<close>.\<close>

definition with_lock :: "('j schedule \<Rightarrow> ('a, 'j) locked_op) \<Rightarrow> 'j schedule \<Rightarrow> ('a, 'j) locked_op" where
  "with_lock body q =
     (if sq_locked q then Blocked q
      else (case body (q\<lparr>sq_locked := True\<rparr>) of
              Done a q' \<Rightarrow> Done a (q'\<lparr>sq_locked := False\<rparr>)
            | Blocked q' \<Rightarrow> Blocked q'))"

definition Remove :: "'j schedule \<Rightarrow> (unit, 'j) locked_op" where
  "Remove = with_lock (\<lambda>q. Done () (q\<lparr>sq_sched := False\<rparr>))"

definition AddJob :: "int \<Rightarrow> 'j \<Rightarrow> 'j schedule \<Rightarrow> (unit, 'j) locked_op" where
  "AddJob schedTime job =
     with_lock (\<lambda>q.
       case (if sq_sched q then Remove q else Done () q) of
         Blocked q' \<Rightarrow> Blocked q'
       | Done _ q' \<Rightarrow>
           Done () (q'\<lparr>sq_job := Some job, sq_sched := True, sq_nextScheduled := schedTime\<rparr>))"

text \<open>\<open>Pop\<close> at the time \<open>now\<close>, in nanoseconds: the slot's time is whole seconds.\<close>

definition Pop :: "int \<Rightarrow> 'j schedule \<Rightarrow> ('j option, 'j) locked_op" where
  "Pop now =
     with_lock (\<lambda>q.
       if \<not> sq_sched q then Done None q
       else if sq_nextScheduled q * Second < now
            then Done (sq_job q) (q\<lparr>sq_sched := False\<rparr>)
            else Done None q)"

lemmas schedule_op_defs = with_lock_def Remove_def AddJob_def Pop_def GetJob_def newSchedule_def

section \<open>The contract of a one-slot timer\<close>

text \<open>
  What the scheduling loop relies on: \<open>pending\<close> is the time of the slot, \<open>free\<close> says that
  no caller holds the queue.  Adding is promised only for an empty slot.
\<close>

locale one_slot_timer =
  fixes add :: "int \<Rightarrow> 'j \<Rightarrow> 'q \<Rightarrow> 'q option"
    and pop :: "int \<Rightarrow> 'q \<Rightarrow> ('j option \<times> 'q) option"
    and remove :: "'q \<Rightarrow> 'q option"
    and pending :: "'q \<Rightarrow> (int \<times> 'j) option"
    and free :: "'q \<Rightarrow> bool"
  assumes add_empty: "free q \<Longrightarrow> pending q = None \<Longrightarrow>
      \<exists>q'. add t j q = Some q' \<and> free q' \<and> pending q' = Some (t, j)"
    and pop_due: "free q \<Longrightarrow> pending q = Some (t, j) \<Longrightarrow> t * Second < now \<Longrightarrow>
      \<exists>q'. pop now q = Some (Some j, q') \<and> free q' \<and> pending q' = None"
    and pop_not_due: "free q \<Longrightarrow> (\<And>t j. pending q = Some (t, j) \<Longrightarrow> \<not> t * Second < now) \<Longrightarrow>
      \<exists>q'. pop now q = Some (None, q') \<and> free q' \<and> pending q' = pending q"
    and remove_empty: "free q \<Longrightarrow> \<exists>q'. remove q = Some q' \<and> free q' \<and> pending q' = None"
begin

text \<open>A due job comes out exactly once.\<close>

lemma pop_twice:
  assumes "free q" and "pending q = Some (t, j)" and "t * Second < now" and "now \<le> later"
  shows "\<exists>q' q''. pop now q = Some (Some j, q') \<and> pop later q' = Some (None, q'')
           \<and> pending q'' = None"
proof -
  obtain q' where q': "pop now q = Some (Some j, q')" "free q'" "pending q' = None"
    using pop_due [OF assms(1-3)] by blast
  then obtain q'' where "pop later q' = Some (None, q'')" "pending q'' = None"
    using pop_not_due [of q' later] by auto
  with q' show ?thesis by blast
qed

lemma add_then_pop:
  assumes "free q" and "pending q = None"
  shows "\<exists>q' q''. add t j q = Some q' \<and>
           pop now q' = Some (if t * Second < now then Some j else None, q'') \<and>
           pending q'' = (if t * Second < now then None else Some (t, j))"
proof -
  obtain q' where q': "add t j q = Some q'" "free q'" "pending q' = Some (t, j)"
    using add_empty [OF assms] by blast
  then show ?thesis
    using pop_due [of q' t j now] pop_not_due [of q' now] by (cases "t * Second < now") auto
qed

lemma remove_then_pop:
  assumes "free q"
  shows "\<exists>q' q''. remove q = Some q' \<and> pop now q' = Some (None, q'') \<and> pending q'' = None"
  using remove_empty [OF assms] pop_not_due by (metis option.distinct(1))

end

text \<open>The queue as a provider of that contract: an operation that blocks gives no result.\<close>

fun op_result :: "('a, 'j) locked_op \<Rightarrow> ('a \<times> 'j schedule) option" where
  "op_result (Done a q) = Some (a, q)"
| "op_result (Blocked q) = None"

definition slot :: "'j schedule \<Rightarrow> (int \<times> 'j) option" where
  "slot q = (if sq_sched q then map_option (\<lambda>j. (sq_nextScheduled q, j)) (sq_job q) else None)"

text \<open>The representation invariant: a set flag comes with a job, and nobody holds the lock.\<close>

definition sched_ok :: "'j schedule \<Rightarrow> bool" where
  "sched_ok q \<longleftrightarrow> \<not> sq_locked q \<and> (sq_sched q \<longrightarrow> sq_job q \<noteq> None)"

interpretation queue: one_slot_timer
  "\<lambda>t j q. map_option snd (op_result (AddJob t j q))"
  "\<lambda>now q. op_result (Pop now q)"
  "\<lambda>q. map_option snd (op_result (Remove q))"
  slot sched_ok
  by unfold_locales
    (auto simp: schedule_op_defs slot_def sched_ok_def split: if_splits)

lemma newSchedule_ok: "sched_ok newSchedule \<and> slot newSchedule = None"
  by (simp add: sched_ok_def slot_def newSchedule_def)

section \<open>Adding to an occupied slot\<close>

text \<open>
  The branch of \<open>AddJob\<close> for an occupied slot calls \<open>Remove\<close>, which locks the mutex
  \<open>AddJob\<close> already holds.
\<close>

lemma AddJob_occupied:
  "\<not> sq_locked q \<Longrightarrow> sq_sched q \<Longrightarrow> AddJob t j q = Blocked (q\<lparr>sq_locked := True\<rparr>)"
  by (simp add: schedule_op_defs)

lemma blocked_forever:
  "sq_locked q \<Longrightarrow> Remove q = Blocked q \<and> Pop now q = Blocked q \<and> AddJob t j q = Blocked q"
  by (simp add: schedule_op_defs)

text \<open>Each operation, where it is not blocked, keeps the invariant.\<close>

lemma ops_keep_ok:
  assumes "sched_ok q"
  shows "Remove q = Done () q' \<Longrightarrow> sched_ok q'"
    and "AddJob t j q = Done () q' \<Longrightarrow> sched_ok q'"
    and "Pop now q = Done r q' \<Longrightarrow> sched_ok q'"
  using assms by (auto simp: schedule_op_defs sched_ok_def split: if_splits)

lemma Remove_ok: "sched_ok q \<Longrightarrow> Remove q = Done () (q\<lparr>sq_sched := False\<rparr>)"
  by (simp add: schedule_op_defs sched_ok_def)

lemma AddJob_empty:
  "sched_ok q \<Longrightarrow> \<not> sq_sched q \<Longrightarrow>
     AddJob t j q = Done () (q\<lparr>sq_job := Some j, sq_sched := True, sq_nextScheduled := t\<rparr>)"
  by (simp add: schedule_op_defs sched_ok_def)

section \<open>The queue against its specification\<close>

text \<open>
  A sequence of calls by the goroutines of the worker, and what each call returns; a call that
  blocks never returns, and the calls after it come from other goroutines.
\<close>

datatype 'j call = CAdd int 'j | CPop int | CRemove | CGet
datatype 'j answer = AUnit | AJob "'j option" | ATime int | ANever

fun call_queue :: "'j call \<Rightarrow> 'j schedule \<Rightarrow> 'j answer \<times> 'j schedule" where
  "call_queue (CAdd t j) q = (case AddJob t j q of Done _ q' \<Rightarrow> (AUnit, q') | Blocked q' \<Rightarrow> (ANever, q'))"
| "call_queue (CPop now) q = (case Pop now q of Done r q' \<Rightarrow> (AJob r, q') | Blocked q' \<Rightarrow> (ANever, q'))"
| "call_queue CRemove q = (case Remove q of Done _ q' \<Rightarrow> (AUnit, q') | Blocked q' \<Rightarrow> (ANever, q'))"
| "call_queue CGet q = (ATime (GetJob q), q)"

fun call_all :: "'j call list \<Rightarrow> 'j schedule \<Rightarrow> 'j answer list" where
  "call_all [] q = []"
| "call_all (c # cs) q = (let (a, q') = call_queue c q in a # call_all cs q')"

text \<open>
  The specification: one optional appointment, and a jam that nothing leaves.  \<open>Jammed\<close>
  remembers the appointment, which the lock-free \<open>GetJob\<close> still reports.
\<close>

datatype 'j slot_spec = Free "(int \<times> 'j) option" | Jammed int

fun spec_call :: "'j call \<Rightarrow> 'j slot_spec \<Rightarrow> 'j answer \<times> 'j slot_spec" where
  "spec_call CGet (Jammed t) = (ATime t, Jammed t)"
| "spec_call CGet (Free a) = (ATime (case a of None \<Rightarrow> 0 | Some (t, _) \<Rightarrow> t), Free a)"
| "spec_call _ (Jammed t) = (ANever, Jammed t)"
| "spec_call (CAdd t j) (Free None) = (AUnit, Free (Some (t, j)))"
| "spec_call (CAdd t j) (Free (Some (t', _))) = (ANever, Jammed t')"
| "spec_call CRemove (Free _) = (AUnit, Free None)"
| "spec_call (CPop now) (Free None) = (AJob None, Free None)"
| "spec_call (CPop now) (Free (Some (t, j))) =
     (if t * Second < now then (AJob (Some j), Free None) else (AJob None, Free (Some (t, j))))"

fun spec_all :: "'j call list \<Rightarrow> 'j slot_spec \<Rightarrow> 'j answer list" where
  "spec_all [] a = []"
| "spec_all (c # cs) a = (let (r, a') = spec_call c a in r # spec_all cs a')"

definition abs_slot :: "'j schedule \<Rightarrow> 'j slot_spec" where
  "abs_slot q = (if sq_locked q then Jammed (GetJob q) else Free (slot q))"

definition sched_rep :: "'j schedule \<Rightarrow> bool" where
  "sched_rep q \<longleftrightarrow> (sq_sched q \<longrightarrow> sq_job q \<noteq> None)"

lemma call_queue_refines:
  assumes "sched_rep q"
  shows "let (r, q') = call_queue c q in sched_rep q' \<and> spec_call c (abs_slot q) = (r, abs_slot q')"
  using assms
  by (cases c) (auto simp: schedule_op_defs abs_slot_def slot_def sched_rep_def)

lemma call_all_refines: "sched_rep q \<Longrightarrow> call_all cs q = spec_all cs (abs_slot q)"
proof (induction cs arbitrary: q)
  case (Cons c cs)
  then show ?case using call_queue_refines [OF Cons.prems, of c] by (auto split: prod.splits)
qed simp

text \<open>
  C2: For every sequence of calls the queue answers as the one-appointment specification does: a
  call is answered at once unless some earlier \<open>AddJob\<close> met an occupied slot, and from that
  call on every locking operation is answered never.
\<close>

theorem schedule_refines_spec: "call_all cs newSchedule = spec_all cs (Free None)"
  using call_all_refines [of newSchedule cs]
  by (simp add: sched_rep_def abs_slot_def slot_def newSchedule_def)

end
