(* ===== verification/Worker_Loop.thy ===== *)
theory Worker_Loop
  imports Worker_Job Worker_Schedule
begin

text \<open>
  The worker process, \<open>worker/worker.go\<close>: the scheduling loop \<open>runSchedule\<close>, the handler of the
  control server, \<open>Halt\<close>, and the goroutines of the job, sharing the queue, the channels and the
  mutex \<open>w.L\<close>.  A label names the goroutine that moves and what its environment answers; \<open>exec\<close>
  performs one move, or is \<open>None\<close> where it blocks.

  Only the holder of \<open>w.L\<close> is represented: a handler that waits for the mutex has done nothing
  yet.  The body of \<open>runSchedule\<close> under the mutex at the start is one move, since nobody else can
  reach the queue or the state then.
\<close>

section \<open>The process\<close>

record worker_cfg =
  wc_job :: job_cfg
  wc_interval :: int

text \<open>What the worker posts to the manager.\<close>

datatype report = RStatus SyncStatus uint64 string | RSchedule int

text \<open>
  \<open>SStuck\<close>: the scheduling loop waits for the queue's mutex.  \<open>SFlush\<close> and \<open>SFlushing\<close>: the
  branch of \<open>w.exit\<close> before and after it has taken \<open>w.L\<close>.
\<close>

datatype sched_pc =
    SBoot
  | SInfo
  | SLoop
  | SMsg jobMessage
  | SMsgHalting jobMessage
  | SUpdate jobMessage
  | SStart
  | SStuck
  | SFlush
  | SFlushing
  | SReturned

text \<open>The holder of \<open>w.L\<close>: nobody, a handler, \<open>Halt\<close>, or the scheduling loop while it flushes.\<close>

datatype holder =
    Nobody
  | HBody CmdVerb bool
  | HSend ctrlAction
  | HStuck
  | HHalt
  | HHaltWait
  | HFlusher

record sys = shared +
  sy_runners :: "runner list"
  sy_queue :: "unit schedule"
  sy_sched :: sched_pc
  sy_lock :: holder
  sy_exit :: bool
  sy_reports :: "report list"

definition init_sys :: sys where
  "init_sys = \<lparr>sh_state = stateNone, sh_size = 0, sh_ctrl = [], sh_chan = [], sh_tokens = 0,
     sh_releasing = 0, sh_disabled = False, sh_crashed = False, sy_runners = [], sy_queue = newSchedule, sy_sched = SBoot,
     sy_lock = Nobody, sy_exit = False, sy_reports = []\<rparr>"

text \<open>\<open>go w.job.Run(...)\<close>\<close>

definition go_Run :: "sys \<Rightarrow> sys" where
  "go_Run s = s\<lparr>sy_runners := sy_runners s @ [new_runner]\<rparr>"

text \<open>How many goroutines \<open>jobsDone\<close> counts.\<close>

definition jobsDone :: "sys \<Rightarrow> nat" where
  "jobsDone s = length (filter (\<lambda>r. rn_main r \<noteq> MStart \<and> rn_main r \<noteq> MExit) (sy_runners s))"

definition push_ctrl :: "ctrlAction \<Rightarrow> sys \<Rightarrow> sys option" where
  "push_ctrl a s = (if length (sh_ctrl s) < ctrl_cap then Some (s\<lparr>sh_ctrl := sh_ctrl s @ [a]\<rparr>) else None)"

section \<open>The scheduling loop\<close>

definition schedule_at :: "int \<Rightarrow> sys \<Rightarrow> sys" where
  "schedule_at t s =
     (case AddJob t () (sy_queue s) of
        Done _ q \<Rightarrow> s\<lparr>sy_queue := q, sy_sched := SInfo\<rparr>
      | Blocked q \<Rightarrow> s\<lparr>sy_queue := q, sy_sched := SStuck\<rparr>)"

text \<open>
  \<open>int64(d.Seconds())\<close>, towards zero; the float in between is exact for the whole seconds of a
  mirror's interval.
\<close>

definition whole_seconds :: "int \<Rightarrow> int" where
  "whole_seconds d = sgn d * (\<bar>d\<bar> div Second)"

definition boot :: "worker_cfg \<Rightarrow> SyncStatus \<Rightarrow> int \<Rightarrow> sys \<Rightarrow> sys" where
  "boot cfg status lastUpdate s =
     (if status = Disabled then s\<lparr>sh_state := stateDisabled, sy_sched := SInfo\<rparr>
      else if status = Paused then (go_Run (s\<lparr>sh_state := statePaused\<rparr>))\<lparr>sy_sched := SInfo\<rparr>
      else schedule_at (lastUpdate + whole_seconds (wc_interval cfg)) (go_Run (s\<lparr>sh_state := stateNone\<rparr>)))"

definition updateSchedInfo :: "sys \<Rightarrow> sys" where
  "updateSchedInfo s = s\<lparr>sy_reports := sy_reports s @ [RSchedule (GetJob (sy_queue s))]\<rparr>"

definition updateStatus :: "jobMessage \<Rightarrow> sys \<Rightarrow> sys" where
  "updateStatus m s = s\<lparr>sy_reports := sy_reports s @ [RStatus (jm_status m) (sh_size s) (jm_msg m)]\<rparr>"

text \<open>\<open>now\<close> is \<open>time.Now()\<close> in nanoseconds.\<close>

definition handle_message :: "worker_cfg \<Rightarrow> int \<Rightarrow> jobMessage \<Rightarrow> sys \<Rightarrow> sys" where
  "handle_message cfg now m s =
     (let s' = updateStatus m s in
      if jm_schedule m then schedule_at ((now + wc_interval cfg) div Second) s'
      else s'\<lparr>sy_sched := SInfo\<rparr>)"

definition tick_pop :: "int \<Rightarrow> sys \<Rightarrow> sys" where
  "tick_pop now s =
     (case Pop now (sy_queue s) of
        Done None q \<Rightarrow> s\<lparr>sy_queue := q\<rparr>
      | Done (Some _) q \<Rightarrow> s\<lparr>sy_queue := q, sy_sched := SStart\<rparr>
      | Blocked q \<Rightarrow> s\<lparr>sy_sched := SStuck\<rparr>)"

definition flush_message :: "jobMessage \<Rightarrow> sys \<Rightarrow> sys" where
  "flush_message m s = (if jm_status m = Failed \<or> jm_status m = Success then updateStatus m s else s)"

datatype sched_label =
    LBoot SyncStatus int | LInfo | LRecv | LCheck | LUpdate int | LTick int | LSendStart
  | LExit | LFlush | LFlushRecv | LFlushEnd

fun sched_step :: "worker_cfg \<Rightarrow> sched_label \<Rightarrow> sys \<Rightarrow> sys option" where
  "sched_step cfg (LBoot status lastUpdate) s =
     (if sy_sched s = SBoot \<and> sy_lock s = Nobody then Some (boot cfg status lastUpdate s) else None)"
| "sched_step cfg LInfo s =
     (if sy_sched s = SInfo then Some ((updateSchedInfo s)\<lparr>sy_sched := SLoop\<rparr>) else None)"
| "sched_step cfg LRecv s =
     (case (sy_sched s, sh_chan s) of
        (SLoop, m # ms) \<Rightarrow> Some (s\<lparr>sh_chan := ms, sy_sched := SMsg m\<rparr>)
      | _ \<Rightarrow> None)"
| "sched_step cfg LCheck s =
     (case sy_sched s of
        SMsg m \<Rightarrow> Some (s\<lparr>sy_sched := if sh_state s = stateReady then SUpdate m else SMsgHalting m\<rparr>)
      | SMsgHalting m \<Rightarrow> Some (s\<lparr>sy_sched := if sh_state s = stateHalting then SUpdate m else SLoop\<rparr>)
      | _ \<Rightarrow> None)"
| "sched_step cfg (LUpdate now) s =
     (case sy_sched s of SUpdate m \<Rightarrow> Some (handle_message cfg now m s) | _ \<Rightarrow> None)"
| "sched_step cfg (LTick now) s = (if sy_sched s = SLoop then Some (tick_pop now s) else None)"
| "sched_step cfg LSendStart s =
     (if sy_sched s = SStart then map_option (\<lambda>s'. s'\<lparr>sy_sched := SLoop\<rparr>) (push_ctrl jobStart s) else None)"
| "sched_step cfg LExit s = (if sy_sched s = SLoop \<and> sy_exit s then Some (s\<lparr>sy_sched := SFlush\<rparr>) else None)"
| "sched_step cfg LFlush s =
     (if sy_sched s = SFlush \<and> sy_lock s = Nobody then Some (s\<lparr>sy_sched := SFlushing, sy_lock := HFlusher\<rparr>) else None)"
| "sched_step cfg LFlushRecv s =
     (case (sy_sched s, sh_chan s) of
        (SFlushing, m # ms) \<Rightarrow> Some (flush_message m (s\<lparr>sh_chan := ms\<rparr>))
      | _ \<Rightarrow> None)"
| "sched_step cfg LFlushEnd s =
     (if sy_sched s = SFlushing \<and> sh_chan s = [] then Some (s\<lparr>sy_sched := SReturned, sy_lock := Nobody\<rparr>) else None)"

section \<open>The control server and \<open>Halt\<close>\<close>

text \<open>No matter what command, the existing schedule is flushed.\<close>

definition accept :: "CmdVerb \<Rightarrow> bool \<Rightarrow> sys \<Rightarrow> sys" where
  "accept cmd force s =
     (case Remove (sy_queue s) of
        Done _ q \<Rightarrow> s\<lparr>sy_queue := q, sy_lock := HBody cmd force\<rparr>
      | Blocked q \<Rightarrow> s\<lparr>sy_lock := HStuck\<rparr>)"

fun action_for :: "CmdVerb \<Rightarrow> bool \<Rightarrow> job_state \<Rightarrow> holder" where
  "action_for CmdStart force st = HSend (if force then jobForceStart else jobStart)"
| "action_for CmdRestart force st = HSend jobRestart"
| "action_for CmdStop force st = (if st \<noteq> stateDisabled then HSend jobStop else Nobody)"
| "action_for CmdPing force st = Nobody"
| "action_for CmdUpdate force st = Nobody"

text \<open>A start or restart of a disabled job first starts its control loop again.\<close>

definition command :: "CmdVerb \<Rightarrow> bool \<Rightarrow> sys \<Rightarrow> sys" where
  "command cmd force s =
     (let s' = (if cmd \<in> {CmdStart, CmdRestart} \<and> sh_state s = stateDisabled then go_Run s else s)
      in s'\<lparr>sy_lock := action_for cmd force (sh_state s)\<rparr>)"

datatype ctl_label = LCmd CmdVerb bool | LBody | LCmdSend | LHalt | LHaltSend | LHaltWait

fun ctl_step :: "ctl_label \<Rightarrow> sys \<Rightarrow> sys option" where
  "ctl_step (LCmd cmd force) s = (if sy_lock s = Nobody then Some (accept cmd force s) else None)"
| "ctl_step LBody s =
     (case sy_lock s of HBody cmd force \<Rightarrow> Some (command cmd force s) | _ \<Rightarrow> None)"
| "ctl_step LCmdSend s =
     (case sy_lock s of HSend a \<Rightarrow> map_option (\<lambda>s'. s'\<lparr>sy_lock := Nobody\<rparr>) (push_ctrl a s) | _ \<Rightarrow> None)"
| "ctl_step LHalt s =
     (if sy_lock s = Nobody
      then Some (s\<lparr>sy_lock := if sh_state s \<noteq> stateDisabled then HHalt else HHaltWait\<rparr>) else None)"
| "ctl_step LHaltSend s =
     (if sy_lock s = HHalt then map_option (\<lambda>s'. s'\<lparr>sy_lock := HHaltWait\<rparr>) (push_ctrl jobHalt s) else None)"
| "ctl_step LHaltWait s =
     (if sy_lock s = HHaltWait \<and> jobsDone s = 0
      then Some (s\<lparr>sy_lock := Nobody, sh_crashed := sy_exit s, sy_exit := True\<rparr>)
      else None)"

section \<open>Moves of the process\<close>

definition run_step :: "worker_cfg \<Rightarrow> nat \<Rightarrow> runner_label \<Rightarrow> sys \<Rightarrow> sys option" where
  "run_step cfg i l s =
     (if i < length (sy_runners s)
      then map_option (\<lambda>(r, s'). s'\<lparr>sy_runners := (sy_runners s)[i := r]\<rparr>)
             (runner_step (wc_job cfg) l (sy_runners s ! i, s))
      else None)"

text \<open>The deferred receive from the semaphore of a finished \<open>runJob\<close>.\<close>

definition release :: "sys \<Rightarrow> sys option" where
  "release s =
     (if 0 < sh_releasing s \<and> 0 < sh_tokens s
      then Some (s\<lparr>sh_releasing := sh_releasing s - 1, sh_tokens := sh_tokens s - 1\<rparr>) else None)"

datatype label = LSched sched_label | LCtl ctl_label | LRun nat runner_label | LRelease

definition exec :: "worker_cfg \<Rightarrow> sys \<Rightarrow> label \<Rightarrow> sys option" where
  "exec cfg s l =
     (if sh_crashed s then None
      else case l of
        LSched sl \<Rightarrow> sched_step cfg sl s
      | LCtl cl \<Rightarrow> ctl_step cl s
      | LRun i rl \<Rightarrow> run_step cfg i rl s
      | LRelease \<Rightarrow> release s)"

text \<open>
  \<open>steps P cfg s s'\<close>: moves with labels that satisfy \<open>P\<close> lead from \<open>s\<close> to \<open>s'\<close>.
\<close>

inductive steps :: "(label \<Rightarrow> bool) \<Rightarrow> worker_cfg \<Rightarrow> sys \<Rightarrow> sys \<Rightarrow> bool" for P cfg where
  steps_refl: "steps P cfg s s"
| steps_step: "steps P cfg s s' \<Longrightarrow> P l \<Longrightarrow> exec cfg s' l = Some s'' \<Longrightarrow> steps P cfg s s''"

definition reachable :: "worker_cfg \<Rightarrow> sys \<Rightarrow> bool" where
  "reachable cfg s \<longleftrightarrow> steps (\<lambda>_. True) cfg init_sys s"

fun exec_all :: "worker_cfg \<Rightarrow> label list \<Rightarrow> sys \<Rightarrow> sys option" where
  "exec_all cfg [] s = Some s"
| "exec_all cfg (l # ls) s = (case exec cfg s l of None \<Rightarrow> None | Some s' \<Rightarrow> exec_all cfg ls s')"

lemma steps_invariant:
  assumes "steps P cfg s s'" and "I s" and "\<And>s l s'. P l \<Longrightarrow> I s \<Longrightarrow> exec cfg s l = Some s' \<Longrightarrow> I s'"
  shows "I s'"
  using assms(1,2)
proof (induction rule: steps.induct)
  case (steps_step s s' l s'')
  then show ?case using assms(3) by blast
qed

lemma steps_trans: "steps P cfg t u \<Longrightarrow> steps P cfg s t \<Longrightarrow> steps P cfg s u"
proof (induction rule: steps.induct)
  case (steps_step t u l v)
  then show ?case by (blast intro: steps.steps_step)
qed

lemma exec_all_steps:
  "exec_all cfg ls s = Some s' \<Longrightarrow> list_all P ls \<Longrightarrow> steps P cfg s s'"
proof (induction ls arbitrary: s)
  case (Cons l ls)
  then obtain t where t: "exec cfg s l = Some t" "exec_all cfg ls t = Some s'"
    by (auto split: option.splits)
  with Cons have "steps P cfg t s'" by simp
  moreover have "steps P cfg s t"
    using steps_step [OF steps_refl, of P l cfg s t] t Cons.prems by simp
  ultimately show ?case by (rule steps_trans)
qed (simp add: steps_refl)

section \<open>The moves, read backwards\<close>

lemma push_ctrl_iff:
  "push_ctrl a s = Some s' \<longleftrightarrow> length (sh_ctrl s) < ctrl_cap \<and> s' = s\<lparr>sh_ctrl := sh_ctrl s @ [a]\<rparr>"
  by (auto simp: push_ctrl_def)

lemma sched_step_iff:
  "sched_step cfg (LBoot st lu) s = Some s' \<longleftrightarrow>
     sy_sched s = SBoot \<and> sy_lock s = Nobody \<and> s' = boot cfg st lu s"
  "sched_step cfg LInfo s = Some s' \<longleftrightarrow> sy_sched s = SInfo \<and> s' = (updateSchedInfo s)\<lparr>sy_sched := SLoop\<rparr>"
  "sched_step cfg LRecv s = Some s' \<longleftrightarrow>
     (\<exists>m ms. sy_sched s = SLoop \<and> sh_chan s = m # ms \<and> s' = s\<lparr>sh_chan := ms, sy_sched := SMsg m\<rparr>)"
  "sched_step cfg LCheck s = Some s' \<longleftrightarrow>
     (\<exists>m. sy_sched s = SMsg m \<and> s' = s\<lparr>sy_sched := if sh_state s = stateReady then SUpdate m else SMsgHalting m\<rparr>)
   \<or> (\<exists>m. sy_sched s = SMsgHalting m \<and> s' = s\<lparr>sy_sched := if sh_state s = stateHalting then SUpdate m else SLoop\<rparr>)"
  "sched_step cfg (LUpdate now) s = Some s' \<longleftrightarrow> (\<exists>m. sy_sched s = SUpdate m \<and> s' = handle_message cfg now m s)"
  "sched_step cfg (LTick now) s = Some s' \<longleftrightarrow> sy_sched s = SLoop \<and> s' = tick_pop now s"
  "sched_step cfg LSendStart s = Some s' \<longleftrightarrow>
     (\<exists>t. sy_sched s = SStart \<and> push_ctrl jobStart s = Some t \<and> s' = t\<lparr>sy_sched := SLoop\<rparr>)"
  "sched_step cfg LExit s = Some s' \<longleftrightarrow> sy_sched s = SLoop \<and> sy_exit s \<and> s' = s\<lparr>sy_sched := SFlush\<rparr>"
  "sched_step cfg LFlush s = Some s' \<longleftrightarrow>
     sy_sched s = SFlush \<and> sy_lock s = Nobody \<and> s' = s\<lparr>sy_sched := SFlushing, sy_lock := HFlusher\<rparr>"
  "sched_step cfg LFlushRecv s = Some s' \<longleftrightarrow>
     (\<exists>m ms. sy_sched s = SFlushing \<and> sh_chan s = m # ms \<and> s' = flush_message m (s\<lparr>sh_chan := ms\<rparr>))"
  "sched_step cfg LFlushEnd s = Some s' \<longleftrightarrow>
     sy_sched s = SFlushing \<and> sh_chan s = [] \<and> s' = s\<lparr>sy_sched := SReturned, sy_lock := Nobody\<rparr>"
  by (cases "sy_sched s"; cases "sh_chan s"; auto simp: Let_def)+

lemma ctl_step_iff:
  "ctl_step (LCmd cmd force) s = Some s' \<longleftrightarrow> sy_lock s = Nobody \<and> s' = accept cmd force s"
  "ctl_step LBody s = Some s' \<longleftrightarrow> (\<exists>cmd force. sy_lock s = HBody cmd force \<and> s' = command cmd force s)"
  "ctl_step LCmdSend s = Some s' \<longleftrightarrow>
     (\<exists>a t. sy_lock s = HSend a \<and> push_ctrl a s = Some t \<and> s' = t\<lparr>sy_lock := Nobody\<rparr>)"
  "ctl_step LHalt s = Some s' \<longleftrightarrow>
     sy_lock s = Nobody \<and> s' = s\<lparr>sy_lock := if sh_state s \<noteq> stateDisabled then HHalt else HHaltWait\<rparr>"
  "ctl_step LHaltSend s = Some s' \<longleftrightarrow>
     (\<exists>t. sy_lock s = HHalt \<and> push_ctrl jobHalt s = Some t \<and> s' = t\<lparr>sy_lock := HHaltWait\<rparr>)"
  "ctl_step LHaltWait s = Some s' \<longleftrightarrow> sy_lock s = HHaltWait \<and> jobsDone s = 0
     \<and> s' = s\<lparr>sy_lock := Nobody, sh_crashed := sy_exit s, sy_exit := True\<rparr>"
  by (cases "sy_lock s"; auto)+

text \<open>What the operations of the loop and of the handler leave alone.\<close>

lemma schedule_at_sel [simp]:
  "sy_runners (schedule_at t s) = sy_runners s" "sh_state (schedule_at t s) = sh_state s"
  "sh_ctrl (schedule_at t s) = sh_ctrl s" "sh_chan (schedule_at t s) = sh_chan s"
  "sy_lock (schedule_at t s) = sy_lock s" "sy_exit (schedule_at t s) = sy_exit s"
  "sh_crashed (schedule_at t s) = sh_crashed s" "sy_sched (schedule_at t s) \<noteq> SBoot"
  by (simp_all add: schedule_at_def split: locked_op.split)

lemma updates_sel [simp]:
  "sy_runners (updateStatus m s) = sy_runners s" "sh_state (updateStatus m s) = sh_state s"
  "sh_ctrl (updateStatus m s) = sh_ctrl s" "sh_chan (updateStatus m s) = sh_chan s"
  "sy_lock (updateStatus m s) = sy_lock s" "sy_exit (updateStatus m s) = sy_exit s"
  "sy_sched (updateStatus m s) = sy_sched s" "sy_queue (updateStatus m s) = sy_queue s"
  "sy_runners (updateSchedInfo s) = sy_runners s" "sh_state (updateSchedInfo s) = sh_state s"
  "sh_ctrl (updateSchedInfo s) = sh_ctrl s" "sh_chan (updateSchedInfo s) = sh_chan s"
  "sy_lock (updateSchedInfo s) = sy_lock s" "sy_exit (updateSchedInfo s) = sy_exit s"
  "sy_queue (updateSchedInfo s) = sy_queue s"
  by (simp_all add: updateStatus_def updateSchedInfo_def)

lemma handle_message_sel [simp]:
  "sy_runners (handle_message cfg now m s) = sy_runners s" "sh_state (handle_message cfg now m s) = sh_state s"
  "sh_ctrl (handle_message cfg now m s) = sh_ctrl s" "sh_chan (handle_message cfg now m s) = sh_chan s"
  "sy_lock (handle_message cfg now m s) = sy_lock s" "sy_exit (handle_message cfg now m s) = sy_exit s"
  "sy_sched (handle_message cfg now m s) \<noteq> SBoot"
  by (simp_all add: handle_message_def Let_def)

lemma flush_message_sel [simp]:
  "sy_runners (flush_message m s) = sy_runners s" "sh_state (flush_message m s) = sh_state s"
  "sh_ctrl (flush_message m s) = sh_ctrl s" "sh_chan (flush_message m s) = sh_chan s"
  "sy_lock (flush_message m s) = sy_lock s" "sy_exit (flush_message m s) = sy_exit s"
  "sy_sched (flush_message m s) = sy_sched s" "sy_queue (flush_message m s) = sy_queue s"
  by (simp_all add: flush_message_def)

lemma action_for_sel [simp]: "action_for c f st \<noteq> HSend jobDisable" "action_for c f st \<noteq> HStuck"
  by (cases c; simp)+

lemma command_enabled:
  "sh_state s \<noteq> stateDisabled \<Longrightarrow> command c f s = s\<lparr>sy_lock := action_for c f (sh_state s)\<rparr>"
  by (simp add: command_def)

lemma tick_pop_sel [simp]:
  "sy_runners (tick_pop now s) = sy_runners s" "sh_state (tick_pop now s) = sh_state s"
  "sh_ctrl (tick_pop now s) = sh_ctrl s" "sh_chan (tick_pop now s) = sh_chan s"
  "sy_lock (tick_pop now s) = sy_lock s" "sy_exit (tick_pop now s) = sy_exit s"
  "sy_sched (tick_pop now s) = SBoot \<longleftrightarrow> sy_sched s = SBoot \<and> (\<exists>q. Pop now (sy_queue s) = Done None q)"
  by (simp_all add: tick_pop_def split: locked_op.split option.split)

lemma accept_sel [simp]:
  "sy_runners (accept c f s) = sy_runners s" "sh_state (accept c f s) = sh_state s"
  "sh_ctrl (accept c f s) = sh_ctrl s" "sh_chan (accept c f s) = sh_chan s"
  "sy_sched (accept c f s) = sy_sched s" "sy_exit (accept c f s) = sy_exit s"
  "sy_lock (accept c f s) \<noteq> HSend a"
  by (simp_all add: accept_def split: locked_op.split)

section \<open>Capacities and tokens\<close>

definition within_bounds :: "worker_cfg \<Rightarrow> sys \<Rightarrow> bool" where
  "within_bounds cfg s \<longleftrightarrow>
     length (sh_ctrl s) \<le> ctrl_cap \<and> length (sh_chan s) \<le> chan_cap
   \<and> sh_tokens s \<le> jf_concurrent (wc_job cfg)
   \<and> sh_tokens s = length (filter rn_holds (sy_runners s)) + sh_releasing s
   \<and> list_all runner_ok (sy_runners s)"

lemma filter_update:
  "i < length xs \<Longrightarrow>
     length (filter P (xs[i := x])) + of_bool (P (xs ! i)) = length (filter P xs) + of_bool (P x)"
proof (induction xs arbitrary: i)
  case (Cons y ys)
  then show ?case by (cases i) auto
qed simp

lemma list_all_update: "list_all P xs \<Longrightarrow> P x \<Longrightarrow> list_all P (xs[i := x])"
  by (auto simp: list_all_iff dest: set_update_subset_insert [THEN subsetD])

lemma on_return_frame [simp]:
  "sy_runners (on_return r s) = sy_runners s" "sy_queue (on_return r s) = sy_queue s"
  "sy_sched (on_return r s) = sy_sched s" "sy_lock (on_return r s) = sy_lock s"
  "sy_exit (on_return r s) = sy_exit s" "sy_reports (on_return r s) = sy_reports s"
  by (simp_all add: on_return_def)

lemma runner_step_frame:
  assumes "runner_step cfg l (r, s) = Some (r', s')"
  shows "sy_runners s' = sy_runners s \<and> sy_queue s' = sy_queue s \<and> sy_sched s' = sy_sched s
    \<and> sy_lock s' = sy_lock s \<and> sy_exit s' = sy_exit s \<and> sy_reports s' = sy_reports s"
  using assms
proof (cases rule: runner_step_cases)
  case (wait_ctrl a rest t)
  then show ?thesis by (cases a) auto
next
  case (idle_ctrl a rest t)
  then show ?thesis by (cases a) auto
next
  case (stage a stg c sz)
  then show ?thesis by (cases sz) auto
qed auto

lemma run_step_cases:
  assumes "run_step cfg i l s = Some s'"
  obtains r t where "i < length (sy_runners s)" "runner_step (wc_job cfg) l (sy_runners s ! i, s) = Some (r, t)"
    "s' = t\<lparr>sy_runners := (sy_runners s)[i := r]\<rparr>"
  using assms by (auto simp: run_step_def split: if_splits)

lemma run_step_bounds:
  assumes "run_step cfg i l s = Some s'" and "within_bounds cfg s"
  shows "within_bounds cfg s'"
proof -
  obtain r t where rt: "i < length (sy_runners s)"
      "runner_step (wc_job cfg) l (sy_runners s ! i, s) = Some (r, t)"
      "s' = t\<lparr>sy_runners := (sy_runners s)[i := r]\<rparr>"
    using assms(1) by (rule run_step_cases)
  have ok: "runner_ok (sy_runners s ! i)" using rt(1) assms(2) by (simp add: within_bounds_def list_all_length)
  show ?thesis
    using runner_step_tokens [OF rt(2) ok] runner_step_ok [OF rt(2) ok] assms(2) rt
      filter_update [OF rt(1), of rn_holds r]
    by (auto simp: within_bounds_def list_all_update)
qed

lemma bounds_frame [simp]:
  "within_bounds cfg (s\<lparr>sy_queue := q\<rparr>) = within_bounds cfg s"
  "within_bounds cfg (s\<lparr>sy_sched := pc\<rparr>) = within_bounds cfg s"
  "within_bounds cfg (s\<lparr>sy_lock := h\<rparr>) = within_bounds cfg s"
  "within_bounds cfg (s\<lparr>sy_exit := b\<rparr>) = within_bounds cfg s"
  "within_bounds cfg (s\<lparr>sy_reports := rs\<rparr>) = within_bounds cfg s"
  "within_bounds cfg (s\<lparr>sh_state := st\<rparr>) = within_bounds cfg s"
  "within_bounds cfg (s\<lparr>sh_crashed := c\<rparr>) = within_bounds cfg s"
  "within_bounds cfg (go_Run s) = within_bounds cfg s"
  by (simp_all add: within_bounds_def go_Run_def) (simp add: new_runner_def)

lemma bounds_ops [simp]:
  "within_bounds cfg (schedule_at t s) = within_bounds cfg s"
  "within_bounds cfg (boot cf st lu s) = within_bounds cfg s"
  "within_bounds cfg (updateSchedInfo s) = within_bounds cfg s"
  "within_bounds cfg (updateStatus m s) = within_bounds cfg s"
  "within_bounds cfg (handle_message cf now m s) = within_bounds cfg s"
  "within_bounds cfg (tick_pop now s) = within_bounds cfg s"
  "within_bounds cfg (flush_message m s) = within_bounds cfg s"
  "within_bounds cfg (accept c f s) = within_bounds cfg s"
  "within_bounds cfg (command c f s) = within_bounds cfg s"
proof -
  show at: "within_bounds cfg (schedule_at t s) = within_bounds cfg s" for t s
    by (simp add: schedule_at_def split: locked_op.split)
  show "within_bounds cfg (boot cf st lu s) = within_bounds cfg s" by (simp add: boot_def at)
  show info: "within_bounds cfg (updateSchedInfo s) = within_bounds cfg s" by (simp add: updateSchedInfo_def)
  show status: "within_bounds cfg (updateStatus m s) = within_bounds cfg s" for m s by (simp add: updateStatus_def)
  show "within_bounds cfg (handle_message cf now m s) = within_bounds cfg s"
    by (simp add: handle_message_def Let_def at status)
  show "within_bounds cfg (tick_pop now s) = within_bounds cfg s"
    by (simp add: tick_pop_def split: locked_op.split option.split)
  show "within_bounds cfg (flush_message m s) = within_bounds cfg s" by (simp add: flush_message_def status)
  show "within_bounds cfg (accept c f s) = within_bounds cfg s" by (simp add: accept_def split: locked_op.split)
  show "within_bounds cfg (command c f s) = within_bounds cfg s" by (simp add: command_def Let_def)
qed

lemma push_bounds: "push_ctrl a s = Some s' \<Longrightarrow> within_bounds cfg s \<Longrightarrow> within_bounds cfg s'"
  by (auto simp: push_ctrl_def within_bounds_def split: if_splits)

lemma recv_bounds: "within_bounds cfg s \<Longrightarrow> sh_chan s = m # ms \<Longrightarrow> within_bounds cfg (s\<lparr>sh_chan := ms\<rparr>)"
  by (simp add: within_bounds_def)

lemma sched_step_bounds:
  assumes "sched_step cfg' l s = Some s'" and "within_bounds cfg s"
  shows "within_bounds cfg s'"
  using assms
  by (cases l) (auto simp: sched_step_iff recv_bounds simp del: sched_step.simps dest: push_bounds)

lemma ctl_step_bounds:
  assumes "ctl_step l s = Some s'" and "within_bounds cfg s"
  shows "within_bounds cfg s'"
  using assms
  by (cases l) (auto simp: ctl_step_iff simp del: ctl_step.simps dest: push_bounds)

lemma release_bounds: "release s = Some s' \<Longrightarrow> within_bounds cfg s \<Longrightarrow> within_bounds cfg s'"
  by (auto simp: release_def within_bounds_def split: if_splits)

text \<open>A property every kind of move keeps is kept by \<open>exec\<close>.\<close>

lemma exec_cases:
  assumes "exec cfg s l = Some s'"
  obtains (sched) sl where "l = LSched sl" "sched_step cfg sl s = Some s'"
  | (ctl) cl where "l = LCtl cl" "ctl_step cl s = Some s'"
  | (runner) i rl where "l = LRun i rl" "run_step cfg i rl s = Some s'"
  | (release) "l = LRelease" "release s = Some s'"
  using assms by (cases l) (auto simp: exec_def split: if_splits)

lemma exec_bounds: "exec cfg s l = Some s' \<Longrightarrow> within_bounds cfg s \<Longrightarrow> within_bounds cfg s'"
  by (erule exec_cases) (auto intro: run_step_bounds sched_step_bounds ctl_step_bounds release_bounds)

lemma init_bounds: "within_bounds cfg init_sys"
  by (simp add: within_bounds_def init_sys_def)

text \<open>
  C11: Whatever commands arrive and however the goroutines interleave, the control channel holds at
  most one command, the manager channel at most 32 messages, and at most \<open>Concurrent\<close> tokens are
  in the semaphore; every token belongs to a running synchronisation or is being given back.
\<close>

theorem reachable_within_bounds:
  assumes "reachable cfg s"
  shows "length (sh_ctrl s) \<le> 1 \<and> length (sh_chan s) \<le> 32 \<and> sh_tokens s \<le> jf_concurrent (wc_job cfg)
    \<and> sh_tokens s = length (filter rn_holds (sy_runners s)) + sh_releasing s"
proof -
  have "within_bounds cfg s"
    by (rule steps_invariant [OF assms [unfolded reachable_def], where I = "within_bounds cfg", OF init_bounds])
      (rule exec_bounds)
  then show ?thesis by (simp add: within_bounds_def ctrl_cap_def chan_cap_def)
qed

section \<open>One control loop\<close>

text \<open>
  Unless the manager reported the job as disabled when the worker started, nothing ever disables
  it, and so the handler never starts a second control loop.
\<close>

definition not_disabled :: "label \<Rightarrow> bool" where
  "not_disabled l = (case l of LSched (LBoot st _) \<Rightarrow> st \<noteq> Disabled | _ \<Rightarrow> True)"

definition solo :: "sys \<Rightarrow> bool" where
  "solo s \<longleftrightarrow> length (sy_runners s) \<le> 1 \<and> (sy_sched s = SBoot \<longrightarrow> sy_runners s = [])
     \<and> sh_state s \<noteq> stateDisabled \<and> jobDisable \<notin> set (sh_ctrl s) \<and> sy_lock s \<noteq> HSend jobDisable"

lemma runner_step_state:
  assumes "runner_step cfg l (r, s) = Some (r', s')" and "jobDisable \<notin> set (sh_ctrl s)"
    and "sh_state s \<noteq> stateDisabled"
  shows "sh_state s' \<noteq> stateDisabled \<and> jobDisable \<notin> set (sh_ctrl s')"
  using assms(1)
proof (cases rule: runner_step_cases)
  case (wait_ctrl a rest t)
  with assms(2,3) show ?thesis by (cases a) auto
next
  case (idle_ctrl a rest t)
  with assms(2,3) show ?thesis by (cases a) auto
next
  case (stage a stg c sz)
  with assms(2,3) show ?thesis by (cases sz) auto
qed (use assms(2,3) in auto)

lemma boot_solo: "solo s \<Longrightarrow> sy_sched s = SBoot \<Longrightarrow> st \<noteq> Disabled \<Longrightarrow> solo (boot cfg st lu s)"
  by (simp add: boot_def solo_def go_Run_def)

lemma solo_frame:
  assumes "solo s" and "sy_runners s' = sy_runners s" and "sh_state s' = sh_state s"
    and "jobDisable \<notin> set (sh_ctrl s')" and "sy_lock s' \<noteq> HSend jobDisable"
    and "sy_sched s' = SBoot \<Longrightarrow> sy_sched s = SBoot"
  shows "solo s'"
  using assms by (simp add: solo_def)

lemma sched_step_solo:
  assumes "sched_step cfg l s = Some s'" and "solo s" and "not_disabled (LSched l)"
  shows "solo s'"
proof (cases "\<exists>st lu. l = LBoot st lu")
  case True
  with assms show ?thesis by (auto simp: sched_step_iff not_disabled_def boot_solo simp del: sched_step.simps)
next
  case False
  have s: "jobDisable \<notin> set (sh_ctrl s)" "sy_lock s \<noteq> HSend jobDisable" using assms(2) by (simp_all add: solo_def)
  show ?thesis
  proof (rule solo_frame [OF assms(2)])
    show "sy_runners s' = sy_runners s"
      using assms(1) False by (cases l) (auto simp: sched_step_iff push_ctrl_iff simp del: sched_step.simps)
    show "sh_state s' = sh_state s"
      using assms(1) False by (cases l) (auto simp: sched_step_iff push_ctrl_iff simp del: sched_step.simps)
    show "jobDisable \<notin> set (sh_ctrl s')"
      using assms(1) False s by (cases l) (auto simp: sched_step_iff push_ctrl_iff simp del: sched_step.simps)
    show "sy_lock s' \<noteq> HSend jobDisable"
      using assms(1) False s by (cases l) (auto simp: sched_step_iff push_ctrl_iff simp del: sched_step.simps)
    show "sy_sched s' = SBoot \<Longrightarrow> sy_sched s = SBoot"
      using assms(1) False by (cases l) (auto simp: sched_step_iff simp del: sched_step.simps split: if_splits)
  qed
qed

lemma ctl_step_solo:
  assumes "ctl_step l s = Some s'" and "solo s"
  shows "solo s'"
proof -
  have s: "sh_state s \<noteq> stateDisabled" "jobDisable \<notin> set (sh_ctrl s)" "sy_lock s \<noteq> HSend jobDisable"
    using assms(2) by (simp_all add: solo_def)
  show ?thesis
    using assms(1) s by (cases l)
      (auto simp: ctl_step_iff command_enabled push_ctrl_iff simp del: ctl_step.simps
        intro!: solo_frame [OF assms(2)] split: if_splits)
qed

lemma run_step_solo:
  assumes "run_step cfg i l s = Some s'" and "solo s"
  shows "solo s'"
proof -
  obtain r t where rt: "i < length (sy_runners s)"
      "runner_step (wc_job cfg) l (sy_runners s ! i, s) = Some (r, t)"
      "s' = t\<lparr>sy_runners := (sy_runners s)[i := r]\<rparr>"
    using assms(1) by (rule run_step_cases)
  with assms(2) runner_step_state [OF rt(2)] runner_step_frame [OF rt(2)] show ?thesis
    by (auto simp: solo_def)
qed

lemma exec_solo: "exec cfg s l = Some s' \<Longrightarrow> not_disabled l \<Longrightarrow> solo s \<Longrightarrow> solo s'"
proof (erule exec_cases)
  assume "release s = Some s'" "solo s"
  then show "solo s'" by (auto simp: release_def solo_def split: if_splits)
qed (auto intro: sched_step_solo ctl_step_solo run_step_solo)

lemma init_solo: "solo init_sys"
  by (simp add: solo_def init_sys_def)

text \<open>
  C12: A worker that was not told at its start that its job is disabled runs at most one control loop
  for it, whatever commands arrive, and hence at most one synchronisation at a time.
\<close>

theorem one_control_loop:
  assumes "steps not_disabled cfg init_sys s"
  shows "length (sy_runners s) \<le> 1 \<and> sh_state s \<noteq> stateDisabled"
proof -
  have "solo s"
    by (rule steps_invariant [OF assms, where I = solo, OF init_solo]) (rule exec_solo)
  then show ?thesis by (simp add: solo_def)
qed

section \<open>The appointment\<close>

text \<open>
  How many claims to a next synchronisation are around: an occupied slot of the queue, a start
  command under way, a synchronisation that has not yet sent its last message, or a message that
  will ask for an appointment.
\<close>

definition starts :: "ctrlAction \<Rightarrow> bool" where
  "starts a \<longleftrightarrow> a \<in> {jobStart, jobForceStart, jobRestart}"

fun stage_weight :: "stage \<Rightarrow> nat" where
  "stage_weight StReturn = 0"
| "stage_weight _ = 1"

fun child_weight :: "child \<Rightarrow> nat" where
  "child_weight ChSem = 1"
| "child_weight (ChSending m stg) = of_bool (jm_schedule m) + stage_weight stg"
| "child_weight (ChAt stg) = stage_weight stg"
| "child_weight ChKilledEarly = 0"

fun main_weight :: "job_state \<Rightarrow> main_pc \<Rightarrow> nat" where
  "main_weight st MStart = of_bool (st = stateReady)"
| "main_weight st MTop = of_bool (st = stateReady)"
| "main_weight st MSleep = 1"
| "main_weight st (MDrain ThenRestart) = 1"
| "main_weight st _ = 0"

definition runner_weight :: "job_state \<Rightarrow> runner \<Rightarrow> nat" where
  "runner_weight st r = main_weight st (rn_main r) + (case rn_child r of None \<Rightarrow> 0 | Some c \<Rightarrow> child_weight c)"

fun sched_weight :: "sched_pc \<Rightarrow> nat" where
  "sched_weight SBoot = 1"
| "sched_weight (SMsg m) = of_bool (jm_schedule m)"
| "sched_weight (SMsgHalting m) = of_bool (jm_schedule m)"
| "sched_weight (SUpdate m) = of_bool (jm_schedule m)"
| "sched_weight SStart = 1"
| "sched_weight _ = 0"

fun lock_weight :: "holder \<Rightarrow> nat" where
  "lock_weight (HBody cmd force) = of_bool (cmd \<in> {CmdStart, CmdRestart})"
| "lock_weight (HSend a) = of_bool (starts a)"
| "lock_weight _ = 0"

definition channel_weight :: "'a shared_scheme \<Rightarrow> nat" where
  "channel_weight s = length (filter starts (sh_ctrl s)) + length (filter jm_schedule (sh_chan s))"

definition weight :: "sys \<Rightarrow> nat" where
  "weight s = of_bool (sq_sched (sy_queue s)) + sched_weight (sy_sched s) + lock_weight (sy_lock s)
     + channel_weight s + sum_list (map (runner_weight (sh_state s)) (sy_runners s))"

lemma stage_step_weight: "stage_step cfg kill st stg a = Goes c sz \<Longrightarrow> child_weight c \<le> stage_weight stg"
  by (induction cfg kill st stg a rule: stage_step.induct)
    (auto simp: next_try_def syncing_message_def split: if_splits option.splits)

text \<open>No move of a runner creates a claim.\<close>

lemma runner_step_weight:
  assumes "runner_step cfg l (r, s) = Some (r', s')" and "runner_ok r"
  shows "runner_weight (sh_state s') r' + channel_weight s' \<le> runner_weight (sh_state s) r + channel_weight s"
  using assms(1)
proof (cases rule: runner_step_cases)
  case start
  then show ?thesis by (auto simp: runner_weight_def channel_weight_def)
next
  case spawn
  with assms(2) show ?thesis by (simp add: runner_weight_def channel_weight_def runner_ok_def spawn_def)
next
  case (wait_ctrl a rest t)
  then show ?thesis by (cases a) (auto simp: runner_weight_def channel_weight_def starts_def)
next
  case (idle_ctrl a rest t)
  then show ?thesis by (cases a) (auto simp: runner_weight_def channel_weight_def starts_def)
next
  case (finished pc)
  have "main_weight st (after_pc k) \<le> main_weight st (MDrain k)" for st k by (cases k) simp_all
  with finished show ?thesis by (auto simp: runner_weight_def channel_weight_def job_done_def)
next
  case (stage a stg c sz)
  then show ?thesis
    using stage_step_weight [OF stage(3)] by (cases sz) (auto simp: runner_weight_def channel_weight_def)
qed (auto simp: runner_weight_def channel_weight_def begin_wrapper_def)

section \<open>Left alone, the worker never blocks itself\<close>

text \<open>Moves other than the arrival of a start or restart command, or a start as disabled.\<close>

definition calm :: "label \<Rightarrow> bool" where
  "calm l =
     (case l of
        LSched (LBoot st _) \<Rightarrow> st \<noteq> Disabled
      | LCtl (LCmd cmd _) \<Rightarrow> cmd \<notin> {CmdStart, CmdRestart}
      | _ \<Rightarrow> True)"

definition unblocked :: "sys \<Rightarrow> bool" where
  "unblocked s \<longleftrightarrow> \<not> sq_locked (sy_queue s) \<and> sy_sched s \<noteq> SStuck \<and> sy_lock s \<noteq> HStuck"

lemma calm_not_disabled: "calm l \<Longrightarrow> not_disabled l"
  by (simp add: calm_def not_disabled_def split: label.splits sched_label.splits)

text \<open>The queue while nobody holds its mutex.\<close>

lemma schedule_at_empty:
  assumes "\<not> sq_locked (sy_queue s)" and "\<not> sq_sched (sy_queue s)"
  shows "schedule_at t s = s\<lparr>sy_queue := (sy_queue s)\<lparr>sq_job := Some (), sq_sched := True, sq_nextScheduled := t\<rparr>,
    sy_sched := SInfo\<rparr>"
  using assms by (simp add: schedule_at_def schedule_op_defs)

lemma tick_pop_unlocked:
  assumes "\<not> sq_locked (sy_queue s)"
  shows "tick_pop now s = s
    \<or> sq_sched (sy_queue s) \<and> (\<exists>pc. pc \<in> {SStart, sy_sched s}
        \<and> tick_pop now s = s\<lparr>sy_queue := (sy_queue s)\<lparr>sq_sched := False\<rparr>, sy_sched := pc\<rparr>)"
  using assms by (auto simp: tick_pop_def schedule_op_defs split: option.splits)

lemma accept_unlocked:
  assumes "\<not> sq_locked (sy_queue s)"
  shows "accept c f s = s\<lparr>sy_queue := (sy_queue s)\<lparr>sq_sched := False\<rparr>, sy_lock := HBody c f\<rparr>"
  using assms by (simp add: accept_def schedule_op_defs)

lemma sched_step_weight:
  assumes "sched_step cfg l s = Some s'" and "solo s" and "unblocked s" and "weight s \<le> 1"
    and "\<forall>st t. l = LBoot st t \<longrightarrow> st \<noteq> Disabled"
  shows "weight s' \<le> weight s \<and> unblocked s'"
proof (cases l)
  case (LBoot st t)
  with assms have boot: "sy_sched s = SBoot" "sy_lock s = Nobody" "s' = boot cfg st t s" "sy_runners s = []"
    by (auto simp: sched_step_iff solo_def simp del: sched_step.simps)
  with assms have "\<not> sq_sched (sy_queue s)" "\<not> sq_locked (sy_queue s)" by (auto simp: weight_def unblocked_def)
  with boot LBoot assms(5) show ?thesis
    by (auto simp: boot_def schedule_at_empty go_Run_def weight_def unblocked_def channel_weight_def
        runner_weight_def new_runner_def)
next
  case (LUpdate now)
  with assms obtain m where m: "sy_sched s = SUpdate m" "s' = handle_message cfg now m s"
    by (auto simp: sched_step_iff simp del: sched_step.simps)
  with assms have "jm_schedule m \<longrightarrow> \<not> sq_sched (sy_queue s)" "\<not> sq_locked (sy_queue s)"
    by (auto simp: weight_def unblocked_def)
  with m assms(3) show ?thesis
    by (auto simp: handle_message_def Let_def schedule_at_empty weight_def unblocked_def channel_weight_def updateStatus_def)
next
  case (LTick now)
  with assms have t: "sy_sched s = SLoop" "s' = tick_pop now s" "\<not> sq_locked (sy_queue s)"
    by (auto simp: sched_step_iff unblocked_def simp del: sched_step.simps)
  with tick_pop_unlocked [OF t(3), of now] assms(3) show ?thesis
    by (auto simp: weight_def unblocked_def channel_weight_def)
next
  case LRecv
  with assms(1,3) show ?thesis
    by (auto simp: sched_step_iff weight_def unblocked_def channel_weight_def simp del: sched_step.simps)
next
  case LFlushRecv
  with assms(1,3) show ?thesis
    by (auto simp: sched_step_iff weight_def unblocked_def channel_weight_def simp del: sched_step.simps)
next
  case LSendStart
  with assms show ?thesis
    by (auto simp: sched_step_iff push_ctrl_iff weight_def unblocked_def channel_weight_def starts_def
        simp del: sched_step.simps)
next
  case LCheck
  with assms(1) obtain pc where "s' = s\<lparr>sy_sched := pc\<rparr>" "pc \<noteq> SStuck" "sched_weight pc \<le> sched_weight (sy_sched s)"
    by (auto simp: sched_step_iff simp del: sched_step.simps)
  with assms(3) show ?thesis by (simp add: weight_def unblocked_def channel_weight_def)
qed (use assms(1,3) in \<open>auto simp: sched_step_iff weight_def unblocked_def channel_weight_def updateSchedInfo_def
      simp del: sched_step.simps\<close>)

lemma action_weight: "sh_state s \<noteq> stateDisabled \<Longrightarrow> lock_weight (action_for c f st) \<le> lock_weight (HBody c f)"
  by (cases c) (auto simp: starts_def)

lemma ctl_step_weight:
  assumes "ctl_step l s = Some s'" and "solo s" and "unblocked s" and "calm (LCtl l)"
  shows "weight s' \<le> weight s \<and> unblocked s'"
proof (cases l)
  case (LCmd c f)
  with assms have "s' = accept c f s" "\<not> sq_locked (sy_queue s)" "sy_lock s = Nobody" "c \<notin> {CmdStart, CmdRestart}"
    by (auto simp: ctl_step_iff unblocked_def calm_def simp del: ctl_step.simps)
  then show ?thesis
    using assms(3) by (auto simp: accept_unlocked weight_def unblocked_def channel_weight_def)
next
  case LBody
  with assms obtain c f where b: "sy_lock s = HBody c f" "s' = command c f s"
    by (auto simp: ctl_step_iff simp del: ctl_step.simps)
  have "sh_state s \<noteq> stateDisabled" using assms(2) by (simp add: solo_def)
  with b assms(3) action_weight [of s c f "sh_state s"] show ?thesis
    by (simp add: command_enabled weight_def unblocked_def channel_weight_def)
qed (use assms in \<open>auto simp: ctl_step_iff push_ctrl_iff weight_def unblocked_def channel_weight_def starts_def
      simp del: ctl_step.simps\<close>)

lemma run_step_weight:
  assumes "run_step cfg i l s = Some s'" and "solo s" and "unblocked s" and "within_bounds cfg s"
  shows "weight s' \<le> weight s \<and> unblocked s'"
proof -
  obtain r t where rt: "i < length (sy_runners s)"
      "runner_step (wc_job cfg) l (sy_runners s ! i, s) = Some (r, t)"
      "s' = t\<lparr>sy_runners := (sy_runners s)[i := r]\<rparr>"
    using assms(1) by (rule run_step_cases)
  then obtain r0 where one: "sy_runners s = [r0]" "i = 0"
    using assms(2) by (cases "sy_runners s") (auto simp: solo_def)
  then have "runner_ok r0" using assms(4) by (simp add: within_bounds_def)
  with runner_step_weight [OF rt(2)] runner_step_frame [OF rt(2)] rt one assms(3) show ?thesis
    by (auto simp: weight_def unblocked_def channel_weight_def)
qed

lemma exec_weight:
  assumes "exec cfg s l = Some s'" and "calm l" and "solo s" and "unblocked s" and "within_bounds cfg s"
    and "weight s \<le> 1"
  shows "weight s' \<le> weight s \<and> unblocked s'"
  using assms(1)
proof (cases rule: exec_cases)
  case (sched sl)
  then have "\<forall>st t. sl = LBoot st t \<longrightarrow> st \<noteq> Disabled" using assms(2) by (auto simp: calm_def)
  with sched show ?thesis using sched_step_weight assms by blast
next
  case (ctl cl)
  then show ?thesis using ctl_step_weight assms by blast
next
  case (runner i rl)
  then show ?thesis using run_step_weight assms by blast
next
  case release
  then show ?thesis
    using assms(4) by (auto simp: release_def weight_def unblocked_def channel_weight_def split: if_splits)
qed

definition healthy :: "worker_cfg \<Rightarrow> nat \<Rightarrow> sys \<Rightarrow> bool" where
  "healthy cfg n s \<longleftrightarrow> solo s \<and> unblocked s \<and> within_bounds cfg s \<and> weight s \<le> n"

lemma exec_healthy:
  "n \<le> 1 \<Longrightarrow> calm l \<Longrightarrow> healthy cfg n s \<Longrightarrow> exec cfg s l = Some s' \<Longrightarrow> healthy cfg n s'"
  using exec_weight [of cfg s l s'] exec_solo [of cfg s l s'] exec_bounds [of cfg s l s'] calm_not_disabled
  unfolding healthy_def by force

lemma steps_healthy: "steps calm cfg s s' \<Longrightarrow> n \<le> 1 \<Longrightarrow> healthy cfg n s \<Longrightarrow> healthy cfg n s'"
  using steps_invariant [of calm cfg s s' "healthy cfg n"] exec_healthy by blast

lemma init_healthy: "healthy cfg 1 init_sys"
  by (simp add: healthy_def init_solo init_bounds)
    (simp add: unblocked_def weight_def init_sys_def newSchedule_def channel_weight_def)

text \<open>
  C10: As long as no start or restart command arrives, whatever pings, stops and halts do, there is
  at most one claim to a next synchronisation, and neither the scheduling loop nor a handler
  ever blocks on the queue.
\<close>

theorem never_blocks_itself:
  assumes "steps calm cfg init_sys s"
  shows "weight s \<le> 1 \<and> sy_sched s \<noteq> SStuck \<and> sy_lock s \<noteq> HStuck"
  using steps_healthy [OF assms _ init_healthy] by (simp add: healthy_def unblocked_def)

section \<open>A ping takes the appointment away\<close>

lemma weight_zero_idle:
  "weight s = 0 \<Longrightarrow> r \<in> set (sy_runners s) \<Longrightarrow> rn_child r = Some c \<Longrightarrow> child_weight c = 0"
  by (force simp: weight_def runner_weight_def)

text \<open>
  C37: The handler flushes the slot whatever the command is.  A ping that arrives while the next
  synchronisation waits in the slot therefore cancels it: until a start or restart command
  arrives, no synchronisation is under way ever again.
\<close>

theorem ping_stops_syncing:
  assumes "steps calm cfg init_sys s" and "sq_sched (sy_queue s)"
    and "exec_all cfg [LCtl (LCmd CmdPing f), LCtl LBody] s = Some t" and "steps calm cfg t u"
  shows "weight u = 0 \<and> (\<forall>r \<in> set (sy_runners u). rn_child r \<noteq> Some ChSem \<and> rn_child r \<noteq> Some begin_wrapper)"
proof -
  have h: "healthy cfg 1 s" using steps_healthy [OF assms(1) _ init_healthy] by simp
  obtain s1 where s1: "exec cfg s (LCtl (LCmd CmdPing f)) = Some s1" "exec cfg s1 (LCtl LBody) = Some t"
    using assms(3) by (auto split: option.splits)
  then have "s1 = s\<lparr>sy_queue := (sy_queue s)\<lparr>sq_sched := False\<rparr>, sy_lock := HBody CmdPing f\<rparr>" "sy_lock s = Nobody"
    using h by (auto simp: exec_def healthy_def unblocked_def accept_unlocked split: if_splits)
  then have "weight s1 = 0" using h assms(2) by (auto simp: healthy_def weight_def channel_weight_def)
  moreover have "healthy cfg 1 s1" using exec_healthy [OF _ _ h s1(1)] by (simp add: calm_def)
  ultimately have "healthy cfg 0 s1" by (simp add: healthy_def)
  then have "healthy cfg 0 t" using exec_healthy [OF _ _ _ s1(2), of 0] by (simp add: calm_def)
  then have "weight u = 0" using steps_healthy [OF assms(4), of 0] by (simp add: healthy_def)
  then show ?thesis using weight_zero_idle [of u] by (fastforce simp: begin_wrapper_def)
qed

section \<open>Sample runs of the process\<close>

definition sample_cfg :: "nat \<Rightarrow> worker_cfg" where
  "sample_cfg n = \<lparr>wc_job = \<lparr>jf_name = ''debian'', jf_retry = 1, jf_timeout = 0, jf_concurrent = n\<rparr>,
     wc_interval = 60 * Minute\<rparr>"

abbreviation scheduler :: "sched_label list \<Rightarrow> label list" where
  "scheduler \<equiv> map LSched"

abbreviation runner0 :: "runner_label list \<Rightarrow> label list" where
  "runner0 \<equiv> map (LRun 0)"

text \<open>Started with a job that was last synchronised at time 0; the first appointment is due.\<close>

definition boot_trace :: "label list" where
  "boot_trace = scheduler [LBoot Success 0, LInfo] @ runner0 [RGo, RGo]"

definition due_trace :: "label list" where
  "due_trace = scheduler [LTick (3601 * Second), LSendStart] @ runner0 [RCtrlIdle, RGo]"

text \<open>A synchronisation up to the start of the provider, and the scheduler handling one message.\<close>

definition begin_trace :: "runner_label list" where
  "begin_trace = [RTake, RPush, RStage (HooksRan None), RStage (HooksRan None), RPush]"

definition handle_trace :: "sched_label list" where
  "handle_trace = [LRecv, LCheck, LUpdate (3700 * Second), LInfo]"

definition success_trace :: "runner_label list" where
  "success_trace = [RStage (RunDone False None), RStage (HooksRan None), RStage (StateRead 1024), RPush]"

text \<open>A restart during the last attempt.\<close>

definition restart_trace :: "label list" where
  "restart_trace = boot_trace @ due_trace @ runner0 begin_trace
     @ map LCtl [LCmd CmdRestart False, LBody, LCmdSend]
     @ runner0 [RCtrlWait, RStage (RunKilled None), RStage (HooksRan None), RStage (StateRead 0), RPush, RReturn, RDone]
     @ [LRelease] @ runner0 [RGo, RGo] @ runner0 begin_trace @ runner0 success_trace
     @ scheduler (concat (replicate 5 handle_trace) @ [LRecv, LCheck, LUpdate (3700 * Second)])"

lemma restart_trace_jams:
  "map_option (\<lambda>s. (sy_sched s, sq_locked (sy_queue s))) (exec_all (sample_cfg 1) restart_trace init_sys)
     = Some (SStuck, True)"
  by code_simp


lemma exec_stuck:
  assumes "exec cfg s l = Some s'" and "sy_sched s = SStuck \<and> sq_locked (sy_queue s)"
  shows "sy_sched s' = SStuck \<and> sq_locked (sy_queue s')"
  using assms(1)
proof (cases rule: exec_cases)
  case (sched sl)
  then show ?thesis using assms(2) by (cases sl) (auto simp: sched_step_iff simp del: sched_step.simps)
next
  case (ctl cl)
  then show ?thesis
    using assms(2)
    by (cases cl) (auto simp: ctl_step_iff push_ctrl_iff accept_def command_def go_Run_def Let_def
        schedule_op_defs simp del: ctl_step.simps)
next
  case (runner i rl)
  obtain r t where "runner_step (wc_job cfg) rl (sy_runners s ! i, s) = Some (r, t)"
      "s' = t\<lparr>sy_runners := (sy_runners s)[i := r]\<rparr>"
    using runner(2) by (rule run_step_cases)
  with assms(2) runner_step_frame [of "wc_job cfg" rl _ s r t] show ?thesis by simp
next
  case release
  then show ?thesis using assms(2) by (auto simp: release_def split: if_splits)
qed

text \<open>
  C34: Once the scheduling loop waits for the queue it waits for ever, whatever arrives; and every
  command that arrives then leaves its handler waiting for the queue too.
\<close>

theorem stuck_for_ever:
  assumes "sy_sched s = SStuck" and "sq_locked (sy_queue s)" and "steps P cfg s t"
  shows "sy_sched t = SStuck \<and> (sy_lock t = Nobody \<longrightarrow> sy_lock (accept c f t) = HStuck)"
proof -
  have "sy_sched t = SStuck \<and> sq_locked (sy_queue t)"
    by (rule steps_invariant [OF assms(3), where I = "\<lambda>s. sy_sched s = SStuck \<and> sq_locked (sy_queue s)"])
      (use assms exec_stuck in auto)
  then show ?thesis by (simp add: accept_def schedule_op_defs)
qed

theorem stuck_for_ever_witness:
  "\<exists>s. exec_all (sample_cfg 1) restart_trace init_sys = Some s
     \<and> sy_lock (accept CmdStop False s) = HStuck"
proof -
  obtain s where s: "exec_all (sample_cfg 1) restart_trace init_sys = Some s"
      "sy_sched s = SStuck" "sq_locked (sy_queue s)"
    using restart_trace_jams by auto
  have "map_option sy_lock (exec_all (sample_cfg 1) restart_trace init_sys) = Some Nobody" by code_simp
  with s have "sy_lock s = Nobody" by simp
  with s stuck_for_ever [OF s(2,3) steps_refl] show ?thesis by blast
qed

theorem ping_stops_syncing_witness:
  "\<exists>t. exec_all (sample_cfg 1) (boot_trace @ map LCtl [LCmd CmdPing False, LBody]) init_sys = Some t
     \<and> weight t = 0"
proof -
  let ?cfg = "sample_cfg 1"
  have "map_option (\<lambda>s. sq_sched (sy_queue s)) (exec_all ?cfg boot_trace init_sys) = Some True" by code_simp
  then obtain s where s: "exec_all ?cfg boot_trace init_sys = Some s" "sq_sched (sy_queue s)" by auto
  have "map_option (\<lambda>s. exec_all ?cfg [LCtl (LCmd CmdPing False), LCtl LBody] s \<noteq> None)
      (exec_all ?cfg boot_trace init_sys) = Some True"
    by code_simp
  with s obtain t where t: "exec_all ?cfg [LCtl (LCmd CmdPing False), LCtl LBody] s = Some t" by auto
  have "steps calm ?cfg init_sys s"
    using s(1) by (rule exec_all_steps) (simp add: boot_trace_def calm_def status_simps)
  from ping_stops_syncing [OF this s(2) t steps_refl] have "weight t = 0" by blast
  moreover have "exec_all c (xs @ ys) s = Option.bind (exec_all c xs s) (exec_all c ys)" for c xs ys s
    by (induction xs arbitrary: s) (auto split: option.split)
  ultimately show ?thesis using s t by simp
qed

definition two_starts_trace :: "label list" where
  "two_starts_trace = scheduler [LBoot Disabled 0, LInfo]
     @ map LCtl [LCmd CmdStart False, LBody, LCmdSend, LCmd CmdStart False, LBody]
     @ runner0 [RGo, RGo, RCtrlIdle] @ [LCtl LCmdSend] @ runner0 [RGo] @ map (LRun 1) [RGo, RGo]
     @ runner0 begin_trace @ map (LRun 1) begin_trace"

text \<open>
  A job the manager reported as disabled has no control loop.  Two start commands that arrive
  before the first new loop has made the job ready start two loops, and both synchronise the
  mirror at the same time.
\<close>

theorem two_loops_at_once:
  "map_option (\<lambda>s. map rn_child (sy_runners s)) (exec_all (sample_cfg 2) two_starts_trace init_sys)
     = Some [Some (ChAt (StRun 0)), Some (ChAt (StRun 0))]"
  by code_simp

definition stop_trace :: "label list" where
  "stop_trace = boot_trace @ due_trace @ runner0 begin_trace @ runner0 success_trace @ runner0 [RReturn, RDone]
     @ scheduler (concat (replicate 2 handle_trace))
     @ map LCtl [LCmd CmdStop False, LBody] @ scheduler handle_trace @ [LCtl LCmdSend]
     @ runner0 [RCtrlIdle, RGo]"

definition resume_trace :: "label list" where
  "resume_trace = scheduler [LTick (9999 * Second), LSendStart] @ runner0 [RCtrlIdle, RGo] @ [LRelease] @ runner0 begin_trace"

text \<open>
  A stop command that arrives while the message of the last synchronisation is still queued does
  not stop the job: the message occupies the slot the handler has just flushed, the job is
  paused, and the next tick starts it again although no start command ever arrived.
\<close>

theorem stopped_job_resumes:
  "list_all calm (stop_trace @ resume_trace)
   \<and> map_option sh_state (exec_all (sample_cfg 1) stop_trace init_sys) = Some statePaused
   \<and> map_option (\<lambda>s. map rn_child (sy_runners s)) (exec_all (sample_cfg 1) (stop_trace @ resume_trace) init_sys)
       = Some [Some (ChAt (StRun 0))]"
proof (intro conjI)
  show "list_all calm (stop_trace @ resume_trace)" by code_simp
  show "map_option sh_state (exec_all (sample_cfg 1) stop_trace init_sys) = Some statePaused" by code_simp
  show "map_option (\<lambda>s. map rn_child (sy_runners s)) (exec_all (sample_cfg 1) (stop_trace @ resume_trace) init_sys)
       = Some [Some (ChAt (StRun 0))]"
    by code_simp
qed

theorem reachable_within_bounds_witness:
  "\<exists>s. exec_all (sample_cfg 1) restart_trace init_sys = Some s \<and> sh_tokens s \<le> 1"
proof -
  obtain s where s: "exec_all (sample_cfg 1) restart_trace init_sys = Some s"
    using restart_trace_jams by auto
  then have "reachable (sample_cfg 1) s"
    unfolding reachable_def by (rule exec_all_steps) (simp add: list_all_iff)
  from reachable_within_bounds [OF this] s show ?thesis by (simp add: sample_cfg_def)
qed

theorem one_control_loop_witness:
  "\<exists>s. exec_all (sample_cfg 1) restart_trace init_sys = Some s \<and> length (sy_runners s) \<le> 1"
proof -
  obtain s where s: "exec_all (sample_cfg 1) restart_trace init_sys = Some s"
    using restart_trace_jams by auto
  then have "steps not_disabled (sample_cfg 1) init_sys s"
    by (rule exec_all_steps) code_simp
  from one_control_loop [OF this] s show ?thesis by blast
qed

theorem never_blocks_itself_witness:
  "\<exists>s. exec_all (sample_cfg 1) (stop_trace @ resume_trace) init_sys = Some s \<and> sy_sched s \<noteq> SStuck"
proof -
  have "map_option (\<lambda>_. ()) (exec_all (sample_cfg 1) (stop_trace @ resume_trace) init_sys) = Some ()" by code_simp
  then obtain s where s: "exec_all (sample_cfg 1) (stop_trace @ resume_trace) init_sys = Some s" by auto
  moreover have "list_all calm (stop_trace @ resume_trace)" by code_simp
  ultimately have "steps calm (sample_cfg 1) init_sys s" by (rule exec_all_steps)
  from never_blocks_itself [OF this] s show ?thesis by blast
qed

end
