(* ===== verification/Worker_Appointment.thy ===== *)
theory Worker_Appointment
  imports Worker_Loop
begin

text \<open>
  The claim to the next synchronisation is neither lost nor doubled: as long as no command
  arrives and the provider can be terminated, a worker started with an active job has exactly one
  claim at any moment, whatever the provider and the hooks do.
\<close>

section \<open>Moves of an undisturbed worker\<close>

text \<open>
  No command and no halt; the job is neither disabled nor paused; \<open>Terminate\<close> does not fail; and
  the control loop does not receive a start command before it has noticed that the previous
  synchronisation is over (such a start is dropped).
\<close>

definition smooth :: "label \<Rightarrow> bool" where
  "smooth l =
     (case l of
        LSched (LBoot st _) \<Rightarrow> st \<noteq> Disabled \<and> st \<noteq> Paused
      | LCtl _ \<Rightarrow> False
      | LRun _ RCtrlWait \<Rightarrow> False
      | LRun _ (RStage (RunTimeout (Some _))) \<Rightarrow> False
      | LRun _ (RStage (RunKilled (Some _))) \<Rightarrow> False
      | _ \<Rightarrow> True)"

lemma smooth_calm: "smooth l \<Longrightarrow> calm l"
  by (simp add: smooth_def calm_def split: label.splits sched_label.splits)

section \<open>What the goroutines keep\<close>

fun stage_good :: "job_cfg \<Rightarrow> stage \<Rightarrow> bool" where
  "stage_good cfg (StPreExec r) = (int r < jf_retry cfg)"
| "stage_good cfg (StRun r) = (int r < jf_retry cfg)"
| "stage_good cfg (StPost r e k) = (int r < jf_retry cfg \<and> \<not> k)"
| "stage_good cfg (StFinal r e k) = (int r < jf_retry cfg \<and> \<not> k)"
| "stage_good cfg _ = True"

fun child_good :: "job_cfg \<Rightarrow> child \<Rightarrow> bool" where
  "child_good cfg ChSem = True"
| "child_good cfg (ChSending m stg) = stage_good cfg stg"
| "child_good cfg (ChAt stg) = stage_good cfg stg"
| "child_good cfg ChKilledEarly = False"

definition runner_good :: "job_cfg \<Rightarrow> job_state \<Rightarrow> runner \<Rightarrow> bool" where
  "runner_good cfg st r \<longleftrightarrow> runner_ok r \<and> \<not> rn_kill r \<and> rn_main r \<in> {MStart, MTop, MWait, MIdle}
     \<and> (\<forall>c. rn_child r = Some c \<longrightarrow> st = stateReady \<and> child_good cfg c)"

lemma stage_step_exact:
  assumes "stage_step cfg False stateReady stg a = Goes c sz" and "1 \<le> jf_retry cfg" and "stage_good cfg stg"
    and "\<forall>e. a \<noteq> RunTimeout (Some e)"
  shows "child_weight c = stage_weight stg \<and> child_good cfg c"
  using assms
  by (induction cfg "False" stateReady stg a rule: stage_step.induct)
    (auto simp: next_try_def syncing_message_def split: if_splits option.splits)

lemma runner_step_exact:
  assumes "runner_step cfg l (r, s) = Some (r', s')" and "1 \<le> jf_retry cfg" and "smooth (LRun i l)"
    and "runner_good cfg (sh_state s) r" and "set (sh_ctrl s) \<subseteq> {jobStart}"
    and "sh_state s \<in> {stateNone, stateReady}"
  shows "runner_weight (sh_state s') r' + channel_weight s' = runner_weight (sh_state s) r + channel_weight s
    \<and> runner_good cfg (sh_state s') r' \<and> set (sh_ctrl s') \<subseteq> {jobStart}
    \<and> sh_state s' \<in> {stateNone, stateReady} \<and> (sh_state s = stateReady \<longrightarrow> sh_state s' = stateReady)
    \<and> (sh_state s' = stateNone \<longrightarrow> sh_chan s' = sh_chan s)"
proof -
  have ok: "runner_ok r'" using runner_step_ok [OF assms(1)] assms(4) by (simp add: runner_good_def)
  have g: "\<not> rn_kill r" "rn_main r \<in> {MStart, MTop, MWait, MIdle}"
      "\<forall>c. rn_child r = Some c \<longrightarrow> sh_state s = stateReady \<and> child_good cfg c"
      "rn_main r \<in> {MStart, MTop, MIdle} \<longrightarrow> rn_child r = None"
    using assms(4) by (auto simp: runner_good_def runner_ok_def)
  note st = assms(5,6)
  show ?thesis
    using assms(1)
  proof (cases rule: runner_step_cases)
    case (wait_ctrl a rest t)
    with assms(3) show ?thesis by (simp add: smooth_def)
  next
    case (idle_ctrl a rest t)
    with assms(5) have "a = jobStart" by simp
    with idle_ctrl g st ok show ?thesis
      by (simp add: runner_weight_def channel_weight_def runner_good_def starts_def)
  next
    case (stage a stg c sz)
    have "\<forall>e. a \<noteq> RunTimeout (Some e)" using assms(3) stage(1) by (auto simp: smooth_def)
    moreover have "sh_state s = stateReady" "\<not> rn_kill r" "stage_good cfg stg"
      using assms(4) stage(2) by (auto simp: runner_good_def)
    ultimately have "child_weight c = stage_weight stg \<and> child_good cfg c"
      using stage_step_exact [of cfg stg a c sz] stage(3) assms(2) by simp
    with stage g st ok show ?thesis
      by (cases sz) (simp_all add: runner_weight_def channel_weight_def runner_good_def)
  next
    case start
    then have "rn_main r = MStart" using g by auto
    with start g st ok show ?thesis by (simp add: runner_weight_def channel_weight_def runner_good_def)
  next
    case spawn
    with g st ok show ?thesis by (simp add: runner_weight_def channel_weight_def runner_good_def spawn_def)
  next
    case idle
    with g st ok show ?thesis by (simp add: runner_weight_def channel_weight_def runner_good_def)
  next
    case (finished pc)
    then have "rn_main r = MWait" "pc = MIdle" "rn_child r = None" using g assms(4)
      by (auto simp: runner_good_def runner_ok_def job_done_def)
    with finished g st ok show ?thesis
      by (simp add: runner_weight_def channel_weight_def runner_good_def)
  next
    case (push m stg)
    with g st ok show ?thesis by (simp add: runner_weight_def channel_weight_def runner_good_def)
  next
    case return
    with g st ok show ?thesis by (simp add: runner_weight_def channel_weight_def runner_good_def)
  next
    case crash
    with g st ok show ?thesis by (simp add: runner_weight_def channel_weight_def runner_good_def)
  qed (use g st ok in \<open>simp_all add: runner_weight_def channel_weight_def runner_good_def begin_wrapper_def\<close>)
qed

section \<open>What the process keeps\<close>

fun carries :: "sched_pc \<Rightarrow> bool" where
  "carries (SMsg m) = True"
| "carries (SMsgHalting m) = True"
| "carries (SUpdate m) = True"
| "carries _ = False"

definition flushes :: "sched_pc \<Rightarrow> bool" where
  "flushes pc \<longleftrightarrow> pc = SFlush \<or> pc = SFlushing \<or> pc = SReturned"

definition steady :: "worker_cfg \<Rightarrow> sys \<Rightarrow> bool" where
  "steady cfg s \<longleftrightarrow> healthy cfg 1 s \<and> weight s = 1 \<and> sy_lock s = Nobody \<and> \<not> sy_exit s \<and> \<not> flushes (sy_sched s)
     \<and> set (sh_ctrl s) \<subseteq> {jobStart} \<and> sh_state s \<in> {stateNone, stateReady}
     \<and> (sh_state s = stateNone \<longrightarrow> sh_chan s = [] \<and> \<not> carries (sy_sched s))
     \<and> (sy_sched s = SBoot \<longrightarrow> sh_state s = stateNone) \<and> (\<forall>m. sy_sched s \<noteq> SMsgHalting m) \<and> (sq_sched (sy_queue s) \<longrightarrow> sq_job (sy_queue s) = Some ())
     \<and> (\<forall>r \<in> set (sy_runners s). runner_good (wc_job cfg) (sh_state s) r)"

lemma init_steady: "steady cfg init_sys"
  using init_healthy [of cfg]
  by (simp add: steady_def) (simp add: weight_def init_sys_def newSchedule_def channel_weight_def flushes_def)

lemma tick_pop_exact:
  assumes "\<not> sq_locked (sy_queue s)" and "sq_sched (sy_queue s) \<longrightarrow> sq_job (sy_queue s) = Some ()"
  shows "tick_pop now s = s
    \<or> sq_sched (sy_queue s) \<and> tick_pop now s = s\<lparr>sy_queue := (sy_queue s)\<lparr>sq_sched := False\<rparr>, sy_sched := SStart\<rparr>"
  using assms by (auto simp: tick_pop_def schedule_op_defs)

text \<open>The parts of \<open>steady\<close> that a scheduler move has to establish anew.\<close>

lemma steady_sched:
  assumes "steady cfg s" and "healthy cfg 1 s'" and "weight s' = weight s"
    and "sy_lock s' = sy_lock s" "sy_exit s' = sy_exit s" "sy_runners s' = sy_runners s" "sh_state s' = sh_state s"
    and "set (sh_ctrl s') \<subseteq> {jobStart}"
    and "sh_state s = stateNone \<Longrightarrow> sh_chan s' = [] \<and> \<not> carries (sy_sched s')"
    and "\<And>m. sy_sched s' \<noteq> SMsgHalting m" and "sy_sched s' \<noteq> SBoot \<and> \<not> flushes (sy_sched s')"
    and "sq_sched (sy_queue s') \<Longrightarrow> sq_job (sy_queue s') = Some ()"
  shows "steady cfg s'"
  using assms by (simp add: steady_def)

lemma sched_step_steady:
  assumes "sched_step cfg l s = Some s'" and "steady cfg s" and "smooth (LSched l)" and h: "healthy cfg 1 s'"
  shows "steady cfg s'"
proof -
  have s: "\<not> sq_locked (sy_queue s)" "solo s" "weight s = 1" "sy_lock s = Nobody" "\<not> sy_exit s"
      "set (sh_ctrl s) \<subseteq> {jobStart}" "sh_state s = stateNone \<longrightarrow> sh_chan s = [] \<and> \<not> carries (sy_sched s)"
      "\<forall>m. sy_sched s \<noteq> SMsgHalting m" "sq_sched (sy_queue s) \<longrightarrow> sq_job (sy_queue s) = Some ()"
      "sh_state s \<in> {stateNone, stateReady}" "sy_sched s = SBoot \<longrightarrow> sh_state s = stateNone"
      "\<not> flushes (sy_sched s)"
    using assms(2) by (simp_all add: steady_def healthy_def unblocked_def)
  note keep = steady_sched [OF assms(2) h]
  show ?thesis
  proof (cases l)
    case (LBoot st t)
    with assms(1) s(2) have b: "sy_sched s = SBoot" "s' = boot cfg st t s" "sy_runners s = []"
      by (auto simp: sched_step_iff solo_def simp del: sched_step.simps)
    then have "\<not> sq_sched (sy_queue s)" using s(3) by (auto simp: weight_def)
    moreover have "st \<noteq> Disabled" "st \<noteq> Paused" using assms(3) LBoot by (simp_all add: smooth_def)
    ultimately show ?thesis
      using b s h
      by (simp add: boot_def schedule_at_empty go_Run_def steady_def weight_def channel_weight_def runner_weight_def
          runner_good_def flushes_def)
        (simp add: new_runner_def)
  next
    case (LUpdate now)
    with assms(1) obtain m where m: "sy_sched s = SUpdate m" "s' = handle_message cfg now m s"
      by (auto simp: sched_step_iff simp del: sched_step.simps)
    moreover have "jm_schedule m \<longrightarrow> \<not> sq_sched (sy_queue s)" using m s(3) by (auto simp: weight_def)
    ultimately show ?thesis
      using s by (intro keep)
        (auto simp: handle_message_def Let_def schedule_at_empty weight_def channel_weight_def updateStatus_def
          flushes_def)
  next
    case (LTick now)
    with assms(1) have t: "sy_sched s = SLoop" "s' = tick_pop now s"
      by (auto simp: sched_step_iff simp del: sched_step.simps)
    with tick_pop_exact [OF s(1,9), of now] s show ?thesis
      by (intro keep) (auto simp: weight_def channel_weight_def flushes_def)
  next
    case LCheck
    with assms(1) s obtain m where "sy_sched s = SMsg m" "s' = s\<lparr>sy_sched := SUpdate m\<rparr>"
      by (auto simp: sched_step_iff simp del: sched_step.simps)
    with s show ?thesis by (intro keep) (auto simp: weight_def channel_weight_def flushes_def)
  next
    case LRecv
    with assms(1) s(4-12) show ?thesis
      by (intro keep) (auto simp: sched_step_iff weight_def channel_weight_def flushes_def simp del: sched_step.simps)
  next
    case LSendStart
    with assms(1) s show ?thesis
      by (intro keep) (auto simp: sched_step_iff push_ctrl_iff weight_def channel_weight_def starts_def flushes_def
          simp del: sched_step.simps)
  next
    case LInfo
    with assms(1) s show ?thesis
      by (intro keep) (auto simp: sched_step_iff weight_def channel_weight_def updateSchedInfo_def flushes_def
          simp del: sched_step.simps)
  qed (use assms(1) s in \<open>auto simp: sched_step_iff flushes_def simp del: sched_step.simps\<close>)
qed

lemma run_step_steady:
  assumes "run_step cfg i l s = Some s'" and "steady cfg s" and "smooth (LRun i l)"
    and "1 \<le> jf_retry (wc_job cfg)" and h: "healthy cfg 1 s'"
  shows "steady cfg s'"
proof -
  obtain r t where rt: "i < length (sy_runners s)"
      "runner_step (wc_job cfg) l (sy_runners s ! i, s) = Some (r, t)"
      "s' = t\<lparr>sy_runners := (sy_runners s)[i := r]\<rparr>"
    using assms(1) by (rule run_step_cases)
  then obtain r0 where one: "sy_runners s = [r0]" "i = 0"
    using assms(2) by (cases "sy_runners s") (auto simp: steady_def healthy_def solo_def)
  have s: "runner_good (wc_job cfg) (sh_state s) r0" "set (sh_ctrl s) \<subseteq> {jobStart}"
      "sh_state s \<in> {stateNone, stateReady}"
    using assms(2) one by (simp_all add: steady_def)
  have "sy_sched s \<noteq> SBoot" using assms(2) one by (auto simp: steady_def healthy_def solo_def)
  moreover have "runner_step (wc_job cfg) l (r0, s) = Some (r, t)" using rt one by simp
  moreover note runner_step_exact [OF this assms(4,3) s] runner_step_frame [OF this]
  ultimately show ?thesis
    using assms(2) rt one h by (auto simp: steady_def weight_def channel_weight_def)
qed

lemma exec_steady:
  assumes "exec cfg s l = Some s'" and "smooth l" and "steady cfg s" and "1 \<le> jf_retry (wc_job cfg)"
  shows "steady cfg s'"
proof -
  have h: "healthy cfg 1 s'"
    using exec_healthy [OF _ smooth_calm [OF assms(2)] _ assms(1)] assms(3) by (simp add: steady_def)
  show ?thesis
    using assms(1)
  proof (cases rule: exec_cases)
    case (sched sl)
    then show ?thesis using sched_step_steady assms h by blast
  next
    case (ctl cl)
    then show ?thesis using assms(2) by (simp add: smooth_def)
  next
    case (runner i rl)
    then show ?thesis using run_step_steady assms h by blast
  next
    case release
    then show ?thesis
      using assms(3) h by (auto simp: release_def steady_def weight_def channel_weight_def split: if_splits)
  qed
qed



end
