(* ===== verification/Worker_Halt.thy ===== *)
theory Worker_Halt
  imports Worker_Loop
begin

text \<open>
  Shutting the worker down: how \<open>Halt\<close> of \<open>worker/worker.go\<close> and the deferred function of
  \<open>mirrorJob.Run\<close> in \<open>worker/job.go\<close> interact.  Commands may start two control loops for one job,
  so it is not obvious that a loop that returns finds \<open>m.disabled\<close> open; an invariant over the
  number of loops and of halt commands shows that it does.  The same count shows that \<open>Halt\<close> never
  returns when it is called while two loops run.
\<close>

section \<open>Counting the loops\<close>

definition loops :: "(main_pc \<Rightarrow> bool) \<Rightarrow> sys \<Rightarrow> nat" where
  "loops P s = length (filter (\<lambda>r. P (rn_main r)) (sy_runners s))"

definition counted :: "main_pc \<Rightarrow> bool" where
  "counted m \<longleftrightarrow> m \<noteq> MStart \<and> m \<noteq> MExit"

definition inside :: "main_pc \<Rightarrow> bool" where
  "inside m \<longleftrightarrow> counted m \<and> m \<noteq> MDrain ThenReturn"

lemmas pc_simps = inside_def counted_def

lemma jobsDone_loops: "jobsDone s = loops counted s"
  by (simp add: jobsDone_def loops_def counted_def)

text \<open>Halt commands on their way: in the channel, or received by a loop that has yet to return.\<close>

abbreviation fresh :: "sys \<Rightarrow> nat" where
  "fresh \<equiv> loops (\<lambda>m. m = MStart)"

abbreviation leaving :: "sys \<Rightarrow> nat" where
  "leaving \<equiv> loops (\<lambda>m. m = MDrain ThenReturn)"

definition halts :: "ctrlAction list \<Rightarrow> nat" where
  "halts as = length (filter (\<lambda>a. a = jobHalt) as)"

definition others :: "ctrlAction list \<Rightarrow> nat" where
  "others as = length (filter (\<lambda>a. a \<noteq> jobHalt) as)"

definition sending :: "holder \<Rightarrow> bool" where
  "sending h \<longleftrightarrow> (\<exists>a. h = HSend a)"

lemma halts_simps [simp]:
  "halts [] = 0" "halts (a # as) = of_bool (a = jobHalt) + halts as" "halts (as @ bs) = halts as + halts bs"
  "others [] = 0" "others (a # as) = of_bool (a \<noteq> jobHalt) + others as" "others (as @ bs) = others as + others bs"
  by (simp_all add: halts_def others_def)

lemma halts_others: "halts as + others as = length as"
  by (induction as) auto

lemma loops_mono: "(\<And>m. P m \<Longrightarrow> Q m) \<Longrightarrow> loops P s \<le> loops Q s"
proof -
  assume PQ: "\<And>m. P m \<Longrightarrow> Q m"
  have "length (filter (\<lambda>r. P (rn_main r)) rs) \<le> length (filter (\<lambda>r. Q (rn_main r)) rs)" for rs
    by (induction rs) (auto dest: PQ)
  then show ?thesis by (simp add: loops_def)
qed

lemma loops_split: "loops counted s = loops inside s + leaving s"
proof -
  have "length (filter (\<lambda>r. counted (rn_main r)) rs)
      = length (filter (\<lambda>r. inside (rn_main r)) rs) + length (filter (\<lambda>r. rn_main r = MDrain ThenReturn) rs)" for rs
    by (induction rs) (auto simp: pc_simps)
  then show ?thesis by (simp add: loops_def)
qed

lemma loops_pos: "i < length (sy_runners s) \<Longrightarrow> P (rn_main (sy_runners s ! i)) \<Longrightarrow> 0 < loops P s"
  by (auto simp: loops_def filter_empty_conv)

lemma loops_go_Run: "loops P (go_Run s) = loops P s + of_bool (P MStart)"
  by (simp add: loops_def go_Run_def new_runner_def)

lemma loops_update:
  assumes "i < length (sy_runners s)"
  shows "loops P (t\<lparr>sy_runners := (sy_runners s)[i := r]\<rparr>) + of_bool (P (rn_main (sy_runners s ! i)))
    = loops P s + of_bool (P (rn_main r))"
  using filter_update [OF assms, of "\<lambda>r. P (rn_main r)" r] by (simp add: loops_def)

text \<open>
  What the counts obey: while the job is disabled every loop answers a command that has not been
  received; afterwards at most one loop has yet to begin and at most two exist; with two loops
  around, a halt command is under way only while \<open>Halt\<close> waits; and a loop that is running finds
  \<open>m.disabled\<close> open unless it can no longer be told to halt.
\<close>

definition tally :: "bool \<Rightarrow> bool \<Rightarrow> holder \<Rightarrow> nat \<Rightarrow> nat \<Rightarrow> nat \<Rightarrow> nat \<Rightarrow> nat \<Rightarrow> bool" where
  "tally disabled opened lock f c d h n \<longleftrightarrow>
     (if disabled then f + c \<le> n + of_bool (sending lock) \<and> d = 0 \<and> lock \<noteq> HHalt else f \<le> 1 \<and> f + c \<le> 2)
   \<and> h + n \<le> 1 \<and> d \<le> c
   \<and> (0 < h + d \<longrightarrow> lock = HHaltWait \<or> f + c \<le> 1)
   \<and> (2 \<le> f + c \<longrightarrow> h + d \<le> 1)
   \<and> (\<not> opened \<longrightarrow> c = 0 \<or> lock = HHaltWait \<and> h + d = 0)"

definition orderly :: "sys \<Rightarrow> bool" where
  "orderly s \<longleftrightarrow>
     tally (sh_state s = stateDisabled) (sh_disabled s) (sy_lock s) (fresh s) (loops counted s) (leaving s)
       (halts (sh_ctrl s)) (others (sh_ctrl s))
   \<and> set (sh_ctrl s) \<inter> {jobDisable, jobPing} = {}
   \<and> (\<forall>a. sy_lock s = HSend a \<longrightarrow> a \<notin> {jobDisable, jobPing, jobHalt})
   \<and> (sy_sched s = SBoot \<longrightarrow> sy_runners s = [] \<and> sh_state s \<noteq> stateDisabled)
   \<and> (sy_sched s = SFlushing \<longrightarrow> sy_lock s = HFlusher)"

section \<open>What a move of a loop does to the counts\<close>

text \<open>
  A loop begins, goes on, receives a command that makes the job enabled, starts to leave, or returns.
\<close>

datatype loop_move = Begins | GoesOn | Obeys | StartsLeaving | Returns


fun moves :: "loop_move \<Rightarrow> main_pc \<times> 'a shared_scheme \<Rightarrow> main_pc \<times> 'a shared_scheme \<Rightarrow> bool" where
  "moves Begins (m, s) (m', s') \<longleftrightarrow> m = MStart \<and> inside m' \<and> sh_disabled s' \<and> sh_ctrl s' = sh_ctrl s
     \<and> sh_state s' = sh_state s"
| "moves GoesOn (m, s) (m', s') \<longleftrightarrow> (m' = m \<or> inside m \<and> inside m') \<and> sh_disabled s' = sh_disabled s
     \<and> sh_ctrl s' = sh_ctrl s \<and> sh_state s' = sh_state s"
| "moves Obeys (m, s) (m', s') \<longleftrightarrow> inside m \<and> inside m' \<and> sh_disabled s' = sh_disabled s
     \<and> sh_state s' \<noteq> stateDisabled \<and> (\<exists>a. a \<noteq> jobHalt \<and> sh_ctrl s = a # sh_ctrl s')"
| "moves StartsLeaving (m, s) (m', s') \<longleftrightarrow> inside m \<and> m' = MDrain ThenReturn \<and> sh_disabled s' = sh_disabled s
     \<and> sh_state s' \<noteq> stateDisabled \<and> sh_ctrl s = jobHalt # sh_ctrl s'"
| "moves Returns (m, s) (m', s') \<longleftrightarrow> m' = MExit \<and> sh_state s' = sh_state s
     \<and> (inside m \<and> sh_ctrl s = jobHalt # sh_ctrl s' \<or> m = MDrain ThenReturn \<and> sh_ctrl s' = sh_ctrl s)
     \<and> \<not> sh_disabled s' \<and> sh_crashed s' = (sh_crashed s \<or> \<not> sh_disabled s)"


lemma runner_step_moves:
  assumes "runner_step cfg l (r, s) = Some (r', s')" and "set (sh_ctrl s) \<inter> {jobDisable, jobPing} = {}"
  shows "\<exists>k. moves k (rn_main r, s) (rn_main r', s')"
  using assms(1)
proof (cases rule: runner_step_cases)
  case start
  then have "moves Begins (rn_main r, s) (rn_main r', s')" by (simp add: pc_simps)
  then show ?thesis ..
next
  case spawn
  then have "moves GoesOn (rn_main r, s) (rn_main r', s')" by (simp add: pc_simps spawn_def)
  then show ?thesis ..
next
  case (wait_ctrl a rest t)
  then have "moves (if a = jobHalt then StartsLeaving else Obeys) (rn_main r, s) (rn_main r', s')"
    using assms(2) by (cases a) (auto simp: pc_simps on_return_def)
  then show ?thesis ..
next
  case (idle_ctrl a rest t)
  then have "moves (if a = jobHalt then Returns else Obeys) (rn_main r, s) (rn_main r', s')"
    using assms(2) by (cases a) (auto simp: pc_simps on_return_def)
  then show ?thesis ..
next
  case (finished pc)
  then have "moves (if pc = MExit then Returns else GoesOn) (rn_main r, s) (rn_main r', s')"
    by (auto simp: pc_simps on_return_def elim!: after_pc.elims)
  then show ?thesis ..
next
  case (stage a stg c sz)
  then have "moves GoesOn (rn_main r, s) (rn_main r', s')" by (cases sz) (simp_all add: pc_simps)
  then show ?thesis ..
qed (auto simp: pc_simps intro!: exI [of _ GoesOn])

text \<open>The same on the counts alone.\<close>

lemma tally_open: "tally dis opn lk f c d h n \<Longrightarrow> 0 < c \<Longrightarrow> 0 < h + d \<Longrightarrow> opn"
  by (auto simp: tally_def)

lemma tally_begins: "tally dis opn lk (Suc f) c d h n \<Longrightarrow> tally dis True lk f (Suc c) d h n"
  by (cases dis) (auto simp: tally_def)

lemma tally_obeys: "tally dis opn lk f c d h (Suc n) \<Longrightarrow> 0 < c \<Longrightarrow> tally False opn lk f c d h n"
  by (cases dis; cases "sending lk") (auto simp: tally_def)

lemma tally_leaves: "tally dis opn lk f c d (Suc h) n \<Longrightarrow> d < c \<Longrightarrow> tally False opn lk f c (Suc d) h n"
  by (cases dis; cases "sending lk") (auto simp: tally_def)

lemma tally_returns_idle:
  "tally dis opn lk f (Suc c) d (Suc h) n \<Longrightarrow> d \<le> c \<Longrightarrow> tally dis False lk f c d h n"
  by (cases dis; cases "sending lk") (auto simp: tally_def)

lemma tally_returns_drained: "tally dis opn lk f (Suc c) (Suc d) h n \<Longrightarrow> tally dis False lk f c d h n"
  by (cases dis) (auto simp: tally_def)

lemma run_step_orderly:
  assumes "run_step cfg i l s = Some s'" and "orderly s"
  shows "orderly s'"
proof -
  obtain r t where rt: "i < length (sy_runners s)"
      "runner_step (wc_job cfg) l (sy_runners s ! i, s) = Some (r, t)"
      "s' = t\<lparr>sy_runners := (sy_runners s)[i := r]\<rparr>"
    using assms(1) by (rule run_step_cases)
  let ?m = "rn_main (sy_runners s ! i)"
  have s: "set (sh_ctrl s) \<inter> {jobDisable, jobPing} = {}" "sy_sched s \<noteq> SBoot"
      "\<forall>a. sy_lock s = HSend a \<longrightarrow> a \<notin> {jobDisable, jobPing, jobHalt}"
      "sy_sched s = SFlushing \<longrightarrow> sy_lock s = HFlusher"
    using assms(2) rt(1) by (auto simp: orderly_def)
  have tl: "tally (sh_state s = stateDisabled) (sh_disabled s) (sy_lock s) (fresh s) (loops counted s) (leaving s)
      (halts (sh_ctrl s)) (others (sh_ctrl s))"
    using assms(2) by (simp add: orderly_def)
  have frame: "sy_lock s' = sy_lock s" "sy_sched s' = sy_sched s" "sh_state s' = sh_state t" "sh_ctrl s' = sh_ctrl t"
      "sh_disabled s' = sh_disabled t"
    using runner_step_frame [OF rt(2)] rt(3) by simp_all
  have count: "loops P s' + of_bool (P ?m) = loops P s + of_bool (P (rn_main r))" for P
    using loops_update [OF rt(1), where P = P and t = t and r = r] rt(3) by simp
  obtain k where k: "moves k (?m, s) (rn_main r, t)" using runner_step_moves [OF rt(2) s(1)] ..
  have within: "leaving s < loops counted s" if "inside ?m"
    using that loops_pos [OF rt(1), of inside] loops_split [of s] by simp
  have "tally (sh_state s' = stateDisabled) (sh_disabled s') (sy_lock s') (fresh s') (loops counted s') (leaving s')
      (halts (sh_ctrl s')) (others (sh_ctrl s'))"
  proof (cases k)
    case Begins
    then have "fresh s = Suc (fresh s')" "loops counted s' = Suc (loops counted s)" "leaving s' = leaving s"
      using k count [of "\<lambda>m. m = MStart"] count [of counted] count [of "\<lambda>m. m = MDrain ThenReturn"]
      by (auto simp: pc_simps)
    with Begins k tl show ?thesis by (simp add: frame tally_begins)
  next
    case GoesOn
    then have "fresh s = fresh s'" "loops counted s' = loops counted s" "leaving s' = leaving s"
      using k count [of "\<lambda>m. m = MStart"] count [of counted] count [of "\<lambda>m. m = MDrain ThenReturn"]
      by (auto simp: pc_simps)
    with GoesOn k tl show ?thesis by (simp add: frame)
  next
    case Obeys
    then have "fresh s = fresh s'" "loops counted s' = loops counted s" "leaving s' = leaving s"
      using k count [of "\<lambda>m. m = MStart"] count [of counted] count [of "\<lambda>m. m = MDrain ThenReturn"]
      by (auto simp: pc_simps)
    with Obeys k tl within show ?thesis by (auto simp: frame intro: tally_obeys)
  next
    case StartsLeaving
    then have "fresh s = fresh s'" "loops counted s' = loops counted s" "leaving s' = Suc (leaving s)"
      using k count [of "\<lambda>m. m = MStart"] count [of counted] count [of "\<lambda>m. m = MDrain ThenReturn"]
      by (auto simp: pc_simps)
    with StartsLeaving k tl within show ?thesis by (auto simp: frame intro: tally_leaves)
  next
    case Returns
    then have "fresh s = fresh s'" "loops counted s = Suc (loops counted s')"
        "leaving s = leaving s' + of_bool (?m = MDrain ThenReturn)"
      using k count [of "\<lambda>m. m = MStart"] count [of counted] count [of "\<lambda>m. m = MDrain ThenReturn"]
      by (auto simp: pc_simps)
    with Returns k tl within show ?thesis
      by (auto simp: frame pc_simps intro: tally_returns_idle tally_returns_drained)
  qed
  moreover have "set (sh_ctrl s') \<subseteq> set (sh_ctrl s)" using k frame(4) by (cases k) auto
  ultimately show ?thesis using s frame by (auto simp: orderly_def)
qed

section \<open>The other moves\<close>

lemma orderly_same:
  assumes "orderly s" and "sy_runners s' = sy_runners s" and "sh_state s' = sh_state s"
    and "sh_ctrl s' = sh_ctrl s" and "sh_disabled s' = sh_disabled s" and "sy_lock s' = sy_lock s"
    and "sy_sched s' \<in> {SBoot, SFlushing} \<Longrightarrow> sy_sched s = sy_sched s'"
  shows "orderly s'"
  using assms by (auto simp: orderly_def loops_def)

lemma not_flushing [simp]:
  "sy_sched (schedule_at t s) \<noteq> SFlushing" "sy_sched (handle_message cfg now m s) \<noteq> SFlushing"
  "sy_sched (boot cfg st lu s) \<noteq> SFlushing"
proof -
  show at: "sy_sched (schedule_at t s) \<noteq> SFlushing" for t s by (simp add: schedule_at_def split: locked_op.split)
  show "sy_sched (handle_message cfg now m s) \<noteq> SFlushing" by (simp add: handle_message_def Let_def at)
  show "sy_sched (boot cfg st lu s) \<noteq> SFlushing" by (simp add: boot_def at)
qed

lemma tick_pop_flushing: "sy_sched (tick_pop now s) = SFlushing \<Longrightarrow> sy_sched s = SFlushing"
  by (simp add: tick_pop_def split: locked_op.splits option.splits)

lemma disabled_sel [simp]:
  "sh_disabled (schedule_at t s) = sh_disabled s" "sh_disabled (updateStatus m s) = sh_disabled s"
  "sh_disabled (updateSchedInfo s) = sh_disabled s" "sh_disabled (handle_message cfg now m s) = sh_disabled s"
  "sh_disabled (flush_message m s) = sh_disabled s" "sh_disabled (tick_pop now s) = sh_disabled s"
  "sh_disabled (accept c f s) = sh_disabled s"
proof -
  show at: "sh_disabled (schedule_at t s) = sh_disabled s" for t s
    by (simp add: schedule_at_def split: locked_op.split)
  show st: "sh_disabled (updateStatus m s) = sh_disabled s" for m s by (simp add: updateStatus_def)
  show "sh_disabled (updateSchedInfo s) = sh_disabled s" by (simp add: updateSchedInfo_def)
  show "sh_disabled (handle_message cfg now m s) = sh_disabled s" by (simp add: handle_message_def Let_def at st)
  show "sh_disabled (flush_message m s) = sh_disabled s" by (simp add: flush_message_def st)
  show "sh_disabled (tick_pop now s) = sh_disabled s"
    by (simp add: tick_pop_def split: locked_op.split option.split)
  show "sh_disabled (accept c f s) = sh_disabled s" by (simp add: accept_def split: locked_op.split)
qed

text \<open>A command that is not a halt command enters the channel.\<close>

lemma push_orderly:
  assumes "push_ctrl a s = Some s'" and "orderly s" and "a \<notin> {jobDisable, jobPing, jobHalt}"
  shows "orderly s'"
proof -
  have "sh_ctrl s = []" "s' = s\<lparr>sh_ctrl := [a]\<rparr>"
    using assms(1) by (auto simp: push_ctrl_iff ctrl_cap_def)
  with assms(2,3) show ?thesis by (auto simp: orderly_def tally_def loops_def)
qed

lemma tally_lock:
  "tally dis opn lk f c d h n \<Longrightarrow> lk \<noteq> HHaltWait \<Longrightarrow> \<not> sending lk \<Longrightarrow> dis \<longrightarrow> lk' \<noteq> HHalt \<Longrightarrow>
     tally dis opn lk' f c d h n"
  by (cases dis) (auto simp: tally_def)

lemma orderly_lock:
  assumes "orderly s" and "sy_lock s \<notin> {HHaltWait, HFlusher}" and "\<not> sending (sy_lock s)"
    and "sh_state s = stateDisabled \<longrightarrow> lk \<noteq> HHalt"
    and "\<forall>a. lk = HSend a \<longrightarrow> a \<notin> {jobDisable, jobPing, jobHalt}"
  shows "orderly (s\<lparr>sy_lock := lk\<rparr>)"
  using assms by (auto simp: orderly_def loops_def intro: tally_lock)

lemma sending_simps [simp]:
  "sending (HSend a)" "\<not> sending Nobody" "\<not> sending (HBody c f)" "\<not> sending HStuck" "\<not> sending HHalt"
  "\<not> sending HHaltWait" "\<not> sending HFlusher"
  by (simp_all add: sending_def)

lemma boot_orderly:
  assumes "orderly s" and "sy_sched s = SBoot" and "sy_lock s = Nobody"
  shows "orderly (boot cfg st lu s)"
proof -
  have s: "sy_runners s = []" "halts (sh_ctrl s) + others (sh_ctrl s) \<le> 1"
      "set (sh_ctrl s) \<inter> {jobDisable, jobPing} = {}"
    using assms by (auto simp: orderly_def tally_def)
  let ?go = "\<lambda>q. go_Run (s\<lparr>sh_state := q\<rparr>)"
  have go: "orderly s'" if "sy_runners s' = [new_runner]" "sh_state s' \<noteq> stateDisabled" "sh_ctrl s' = sh_ctrl s"
      "sy_lock s' = Nobody" "sy_sched s' \<noteq> SBoot" "sy_sched s' \<noteq> SFlushing" for s'
    using that s by (auto simp: orderly_def tally_def loops_def new_runner_def counted_def)
  have "orderly (s\<lparr>sh_state := stateDisabled, sy_sched := SInfo\<rparr>)"
    using s assms(3) by (auto simp: orderly_def tally_def loops_def)
  then show ?thesis using s(1) assms(3) by (auto simp: boot_def go_Run_def intro!: go)
qed

lemma sched_step_orderly:
  assumes "sched_step cfg l s = Some s'" and "orderly s"
  shows "orderly s'"
proof (cases l)
  case (LBoot st lu)
  with assms show ?thesis by (auto simp: sched_step_iff boot_orderly simp del: sched_step.simps)
next
  case LSendStart
  with assms obtain t where "push_ctrl jobStart s = Some t" "s' = t\<lparr>sy_sched := SLoop\<rparr>" "sy_sched s = SStart"
    by (auto simp: sched_step_iff simp del: sched_step.simps)
  with push_orderly [of jobStart s t] assms(2) show ?thesis by (auto intro: orderly_same [of t])
next
  case LFlush
  with assms obtain "sy_lock s = Nobody" "s' = (s\<lparr>sy_lock := HFlusher\<rparr>)\<lparr>sy_sched := SFlushing\<rparr>"
    by (auto simp: sched_step_iff simp del: sched_step.simps)
  with assms(2) show ?thesis by (auto simp: orderly_def loops_def intro: tally_lock)
next
  case LFlushEnd
  with assms have "sy_lock s = HFlusher" "s' = s\<lparr>sy_sched := SReturned, sy_lock := Nobody\<rparr>"
    by (auto simp: sched_step_iff orderly_def simp del: sched_step.simps)
  with assms(2) show ?thesis by (auto simp: orderly_def loops_def intro: tally_lock)
qed (use assms in \<open>auto simp: sched_step_iff simp del: sched_step.simps intro!: orderly_same [OF assms(2)]
      dest: tick_pop_flushing split: if_splits\<close>)

lemma tally_start: "tally True opn lk f c d h n \<Longrightarrow> \<not> sending lk \<Longrightarrow> lk \<noteq> HHaltWait \<Longrightarrow> tally True opn (HSend a) (Suc f) c d h n"
  by (auto simp: tally_def)

lemma tally_sent: "tally dis opn (HSend a) f c d 0 0 \<Longrightarrow> tally dis opn Nobody f c d 0 (Suc 0)"
  by (cases dis) (auto simp: tally_def)

lemma tally_halt: "tally dis opn HHalt f c d 0 0 \<Longrightarrow> tally dis opn HHaltWait f c d (Suc 0) 0"
  by (cases dis) (auto simp: tally_def)

lemma tally_halted: "tally dis opn HHaltWait f 0 d h n \<Longrightarrow> tally dis opn Nobody f 0 d h n"
  by (cases dis) (auto simp: tally_def)

lemma action_for_actions: "action_for c f st = HSend a \<Longrightarrow> a \<notin> {jobDisable, jobPing, jobHalt}"
  by (cases c) (auto split: if_splits)

lemma action_for_not [simp]: "action_for c f st \<noteq> HHalt" "action_for c f st \<noteq> HHaltWait" "action_for c f st \<noteq> HFlusher"
  by (cases c; simp)+

lemma command_orderly:
  assumes "orderly s" and "sy_lock s = HBody c f"
  shows "orderly (command c f s)"
proof (cases "c \<in> {CmdStart, CmdRestart} \<and> sh_state s = stateDisabled")
  case True
  then obtain a where a: "action_for c f stateDisabled = HSend a" by auto
  let ?s = "(go_Run s)\<lparr>sy_lock := HSend a\<rparr>"
  have loops: "loops P ?s = loops P s + of_bool (P MStart)" for P
    using loops_go_Run [of P s] by (simp add: loops_def)
  have sel: "sh_state ?s = sh_state s" "sh_disabled ?s = sh_disabled s" "sh_ctrl ?s = sh_ctrl s"
      "sy_sched ?s = sy_sched s" "sy_lock ?s = HSend a"
    by (simp_all add: go_Run_def)
  have "orderly ?s"
    using assms True action_for_actions [OF a] unfolding orderly_def loops sel
    by (auto simp: counted_def intro: tally_start)
  with True a show ?thesis by (simp add: command_def)
next
  case False
  then have "command c f s = s\<lparr>sy_lock := action_for c f (sh_state s)\<rparr>" by (auto simp: command_def)
  with assms show ?thesis by (auto dest: action_for_actions intro!: orderly_lock)
qed

lemma ctl_step_orderly:
  assumes "ctl_step l s = Some s'" and "orderly s"
  shows "orderly s'"
proof (cases l)
  case (LCmd c f)
  with assms have s': "sy_lock s = Nobody" "s' = accept c f s" by (auto simp: ctl_step_iff simp del: ctl_step.simps)
  let ?t = "s\<lparr>sy_lock := sy_lock s'\<rparr>"
  have "sy_lock s' = HBody c f \<or> sy_lock s' = HStuck" using s'(2) by (simp add: accept_def split: locked_op.split)
  then have "orderly ?t" using s'(1) by (intro orderly_lock [OF assms(2)]) auto
  then show ?thesis using s'(2) by (auto intro: orderly_same [of ?t])
next
  case LCmdSend
  with assms obtain a where "sy_lock s = HSend a" "sh_ctrl s = []" "s' = s\<lparr>sh_ctrl := [a], sy_lock := Nobody\<rparr>"
    by (auto simp: ctl_step_iff push_ctrl_iff ctrl_cap_def simp del: ctl_step.simps)
  with assms(2) show ?thesis by (auto simp: orderly_def loops_def intro: tally_sent)
next
  case LHaltSend
  with assms obtain "sy_lock s = HHalt" "sh_ctrl s = []" "s' = s\<lparr>sh_ctrl := [jobHalt], sy_lock := HHaltWait\<rparr>"
    by (auto simp: ctl_step_iff push_ctrl_iff ctrl_cap_def simp del: ctl_step.simps)
  with assms(2) show ?thesis by (auto simp: orderly_def loops_def intro: tally_halt)
next
  case LHaltWait
  with assms have h: "sy_lock s = HHaltWait" "loops counted s = 0"
      "s' = s\<lparr>sy_lock := Nobody, sh_crashed := sy_exit s, sy_exit := True\<rparr>"
    by (auto simp: ctl_step_iff jobsDone_loops simp del: ctl_step.simps)
  have "loops P s' = loops P s" for P using h(3) by (simp add: loops_def)
  with assms(2) h show ?thesis by (auto simp: orderly_def intro: tally_halted)
qed (use assms in \<open>auto simp: ctl_step_iff command_orderly simp del: ctl_step.simps intro!: orderly_lock [OF assms(2)]\<close>)

lemma exec_orderly: "exec cfg s l = Some s' \<Longrightarrow> orderly s \<Longrightarrow> orderly s'"
proof (erule exec_cases)
  assume "release s = Some s'" "orderly s"
  then show "orderly s'" by (auto simp: release_def split: if_splits intro: orderly_same [of s])
qed (auto intro: sched_step_orderly ctl_step_orderly run_step_orderly)

lemma init_orderly: "orderly init_sys"
  by (simp add: orderly_def tally_def init_sys_def loops_def)

lemma reachable_orderly:
  assumes "reachable cfg s"
  shows "orderly s"
  by (rule steps_invariant [OF assms [unfolded reachable_def], where I = orderly, OF init_orderly])
    (rule exec_orderly)

lemma orderly_tally:
  "orderly s \<Longrightarrow> tally (sh_state s = stateDisabled) (sh_disabled s) (sy_lock s) (fresh s) (loops counted s) (leaving s)
     (halts (sh_ctrl s)) (others (sh_ctrl s))"
  by (simp add: orderly_def)

section \<open>The deferred close\<close>

definition control_label :: "runner_label \<Rightarrow> bool" where
  "control_label l \<longleftrightarrow> l \<in> {RGo, RCtrlWait, RCtrlIdle, RDone}"

lemma control_crash:
  assumes "runner_step cfg l (r, s) = Some (r', s')" and "control_label l"
    and "set (sh_ctrl s) \<inter> {jobDisable, jobPing} = {}" and "\<not> sh_crashed s" and "sh_crashed s'"
  shows "\<not> sh_disabled s \<and> counted (rn_main r) \<and> (jobHalt \<in> set (sh_ctrl s) \<or> rn_main r = MDrain ThenReturn)"
  using assms(1)
proof (cases rule: runner_step_cases)
  case (wait_ctrl a rest t)
  with assms(3-5) show ?thesis by (cases a) (auto simp: on_return_def counted_def split: if_splits)
next
  case (idle_ctrl a rest t)
  with assms(3-5) show ?thesis by (cases a) (auto simp: on_return_def counted_def split: if_splits)
next
  case (finished pc)
  moreover have "after_pc k = MExit \<Longrightarrow> k = ThenReturn" for k by (cases k) simp_all
  ultimately show ?thesis using assms(4,5) by (auto simp: on_return_def counted_def split: if_splits)
qed (use assms(2,4,5) in \<open>auto simp: control_label_def\<close>)

text \<open>
  C13: Whatever commands arrive and however the goroutines interleave, no move of a control loop panics:
  although two loops may share \<open>m.disabled\<close>, the deferred function of \<open>Run\<close> never closes it twice.
\<close>

theorem disabled_closed_once:
  assumes "reachable cfg s" and "exec cfg s (LRun i l) = Some s'" and "control_label l"
  shows "\<not> sh_crashed s'"
proof
  assume crash: "sh_crashed s'"
  have alive: "\<not> sh_crashed s" and run: "run_step cfg i l s = Some s'"
    using assms(2) by (auto simp: exec_def split: if_splits)
  obtain r t where rt: "i < length (sy_runners s)"
      "runner_step (wc_job cfg) l (sy_runners s ! i, s) = Some (r, t)"
      "s' = t\<lparr>sy_runners := (sy_runners s)[i := r]\<rparr>"
    using run by (rule run_step_cases)
  let ?m = "rn_main (sy_runners s ! i)"
  have ord: "orderly s" using assms(1) by (rule reachable_orderly)
  then have "\<not> sh_disabled s" "counted ?m" "jobHalt \<in> set (sh_ctrl s) \<or> ?m = MDrain ThenReturn"
    using control_crash [OF rt(2) assms(3) _ alive] crash rt(3) by (auto simp: orderly_def)
  moreover have "0 < loops counted s" using loops_pos [OF rt(1), of counted] \<open>counted ?m\<close> by simp
  moreover have "0 < halts (sh_ctrl s) + leaving s"
    using calculation(3) loops_pos [OF rt(1), of "\<lambda>m. m = MDrain ThenReturn"]
    by (auto simp: halts_def filter_empty_conv)
  ultimately show False using tally_open [OF orderly_tally [OF ord]] by simp
qed

section \<open>Halting with two loops\<close>

definition hanging :: "sys \<Rightarrow> bool" where
  "hanging s \<longleftrightarrow> sy_lock s = HHalt \<and> halts (sh_ctrl s) + leaving s = 0 \<and> 2 \<le> loops counted s
     \<or> sy_lock s = HHaltWait \<and> halts (sh_ctrl s) + leaving s < loops counted s"

lemma run_step_hanging:
  assumes "run_step cfg i l s = Some s'" and "orderly s" and "hanging s"
  shows "hanging s'"
proof -
  obtain r t where rt: "i < length (sy_runners s)"
      "runner_step (wc_job cfg) l (sy_runners s ! i, s) = Some (r, t)"
      "s' = t\<lparr>sy_runners := (sy_runners s)[i := r]\<rparr>"
    using assms(1) by (rule run_step_cases)
  let ?m = "rn_main (sy_runners s ! i)"
  have frame: "sy_lock s' = sy_lock s" "sh_ctrl s' = sh_ctrl t" using runner_step_frame [OF rt(2)] rt(3) by simp_all
  have count: "loops P s' + of_bool (P ?m) = loops P s + of_bool (P (rn_main r))" for P
    using loops_update [OF rt(1), where P = P and t = t and r = r] rt(3) by simp
  obtain k where k: "moves k (?m, s) (rn_main r, t)"
    using runner_step_moves [OF rt(2)] assms(2) by (auto simp: orderly_def)
  have "halts (sh_ctrl s') + leaving s' + of_bool (k = Returns) = halts (sh_ctrl s) + leaving s"
    using k count [of "\<lambda>m. m = MDrain ThenReturn"] by (cases k) (auto simp: frame pc_simps)
  moreover have "loops counted s' + of_bool (k = Returns) = loops counted s + of_bool (k = Begins)"
    using k count [of counted] by (cases k) (auto simp: pc_simps)
  ultimately show ?thesis using assms(3) by (auto simp: hanging_def frame of_bool_def split: if_splits)
qed


lemma exec_hanging:
  assumes "exec cfg s l = Some s'" and "orderly s" and "hanging s"
  shows "hanging s' \<and> sy_exit s' = sy_exit s"
  using assms(1)
proof (cases rule: exec_cases)
  case (sched sl)
  have "sy_lock s \<noteq> Nobody" "sy_lock s \<noteq> HFlusher" using assms(3) by (auto simp: hanging_def)
  moreover have "halts (sh_ctrl s') = halts (sh_ctrl s) \<and> sy_runners s' = sy_runners s \<and> sy_lock s' = sy_lock s
      \<and> sy_exit s' = sy_exit s"
    using sched(2) calculation assms(2)
    by (cases sl) (auto simp: sched_step_iff push_ctrl_iff orderly_def simp del: sched_step.simps)
  ultimately show ?thesis using assms(3) by (simp add: hanging_def loops_def)
next
  case (ctl cl)
  then show ?thesis
    using assms(3)
    by (cases cl) (auto simp: hanging_def ctl_step_iff push_ctrl_iff jobsDone_loops loops_def simp del: ctl_step.simps)
next
  case (runner i rl)
  obtain r t where "runner_step (wc_job cfg) rl (sy_runners s ! i, s) = Some (r, t)"
      "s' = t\<lparr>sy_runners := (sy_runners s)[i := r]\<rparr>"
    using runner(2) by (rule run_step_cases)
  then show ?thesis
    using run_step_hanging [OF runner(2) assms(2,3)] runner_step_frame [of "wc_job cfg" rl _ s r t] by simp
next
  case release
  then show ?thesis using assms(3) by (auto simp: release_def hanging_def loops_def split: if_splits)
qed

text \<open>
  C35: \<open>Halt\<close> called while two control loops run never returns, whatever happens afterwards: its one
  halt command ends one loop, \<open>jobsDone\<close> still counts the other, and \<open>Halt\<close> keeps \<open>w.L\<close> while it
  waits.
\<close>

theorem halt_hangs:
  assumes "reachable cfg s" and "sy_lock s = HHalt" and "2 \<le> jobsDone s" and "steps P cfg s t"
  shows "sy_lock t \<in> {HHalt, HHaltWait} \<and> 0 < jobsDone t \<and> sy_exit t = sy_exit s"
proof -
  have s: "orderly s" using assms(1) by (rule reachable_orderly)
  then have "hanging s"
    using orderly_tally [OF s] assms(2,3) by (auto simp: hanging_def tally_def jobsDone_loops)
  then have "orderly t \<and> hanging t \<and> sy_exit t = sy_exit s"
    using s exec_orderly exec_hanging
    by (intro steps_invariant [OF assms(4), where I = "\<lambda>u. orderly u \<and> hanging u \<and> sy_exit u = sy_exit s"]) auto
  then show ?thesis by (auto simp: hanging_def jobsDone_loops)
qed

theorem disabled_closed_once_witness:
  "\<exists>s s'. reachable (sample_cfg 1) s \<and> exec (sample_cfg 1) s (LRun 0 RCtrlIdle) = Some s' \<and> \<not> sh_crashed s'
     \<and> map rn_main (sy_runners s') = [MExit]"
proof -
  let ?ls = "boot_trace @ map LCtl [LHalt, LHaltSend]"
  have "map_option (\<lambda>s. map_option (\<lambda>s'. map rn_main (sy_runners s')) (exec (sample_cfg 1) s (LRun 0 RCtrlIdle)))
      (exec_all (sample_cfg 1) ?ls init_sys) = Some (Some [MExit])"
    by code_simp
  then obtain s s' where s: "exec_all (sample_cfg 1) ?ls init_sys = Some s"
      "exec (sample_cfg 1) s (LRun 0 RCtrlIdle) = Some s'" "map rn_main (sy_runners s') = [MExit]"
    by auto
  have "reachable (sample_cfg 1) s"
    unfolding reachable_def using s(1) by (rule exec_all_steps) (simp add: list_all_iff)
  with s disabled_closed_once [OF this s(2)] show ?thesis by (auto simp: control_label_def)
qed

theorem halt_hangs_witness:
  "\<exists>s. exec_all (sample_cfg 2) (two_starts_trace @ [LCtl LHalt]) init_sys = Some s
     \<and> sy_lock s \<in> {HHalt, HHaltWait} \<and> 0 < jobsDone s"
proof -
  let ?ls = "two_starts_trace @ [LCtl LHalt]"
  have "map_option (\<lambda>s. (sy_lock s, jobsDone s)) (exec_all (sample_cfg 2) ?ls init_sys) = Some (HHalt, 2)"
    by code_simp
  then obtain s where s: "exec_all (sample_cfg 2) ?ls init_sys = Some s" "sy_lock s = HHalt" "jobsDone s = 2" by auto
  have "reachable (sample_cfg 2) s"
    unfolding reachable_def using s(1) by (rule exec_all_steps) (simp add: list_all_iff)
  with s halt_hangs [OF this s(2) _ steps_refl] show ?thesis by auto
qed

end
