(* ===== verification/Worker_Config.thy ===== *)
theory Worker_Config
  imports Go_Prelude
begin

text \<open>
  The configuration a worker reads from its environment: \<open>LoadConfig\<close> of \<open>worker/config.go\<close>
  and the readers of environment variables of \<open>worker/util.go\<close>.  The environment is a partial
  map, an unset variable being undefined.
\<close>

section \<open>Reading the environment\<close>

type_synonym environment = "string \<rightharpoonup> string"

definition GetStringEnv :: "environment \<Rightarrow> string \<Rightarrow> string \<Rightarrow> string" where
  "GetStringEnv e key def = (case e key of None \<Rightarrow> def | Some v \<Rightarrow> if v = [] then def else v)"

definition GetIntEnv :: "environment \<Rightarrow> string \<Rightarrow> int \<Rightarrow> int" where
  "GetIntEnv e key def =
     (case e key of
        None \<Rightarrow> def
      | Some v \<Rightarrow> (case Atoi v of (i, ok) \<Rightarrow> if \<not> ok \<or> i = 0 then def else i))"

definition GetBoolEnv :: "environment \<Rightarrow> string \<Rightarrow> bool" where
  "GetBoolEnv e key =
     (case e key of None \<Rightarrow> False | Some v \<Rightarrow> (case ParseBool v of None \<Rightarrow> False | Some b \<Rightarrow> b))"

text \<open>The nil slice, which some callers tell apart from an empty one, is \<open>None\<close>.\<close>

definition GetListEnv :: "environment \<Rightarrow> string \<Rightarrow> string list option" where
  "GetListEnv e key =
     (case e key of None \<Rightarrow> None | Some v \<Rightarrow> if v = [] then None else Some (Split v (CHR '';'')))"

section \<open>The configuration\<close>

record Config =
  cfg_Name :: string
  cfg_Provider :: string
  cfg_Upstream :: string
  cfg_LogDir :: string
  cfg_MirrorDir :: string
  cfg_MirrorPath :: string
  cfg_Concurrent :: int
  cfg_Interval :: int
  cfg_Retry :: int
  cfg_Timeout :: int
  cfg_Command :: string
  cfg_FailOnMatch :: string
  cfg_SizePattern :: string
  cfg_UseIPv6 :: bool
  cfg_UseIPv4 :: bool
  cfg_ExcludeFile :: string
  cfg_RsyncNoTimeo :: bool
  cfg_RsyncTimeout :: int
  cfg_RsyncOptions :: "string list option"
  cfg_RsyncOverride :: "string list option"
  cfg_Stage1Profile :: string
  cfg_ExecOnSuccess :: "string list option"
  cfg_ExecOnFailure :: "string list option"
  cfg_APIBase :: string
  cfg_Addr :: string
  cfg_ZFSEnable :: bool
  cfg_Zpool :: string
  cfg_BtrfsEnable :: bool
  cfg_SnapshotPath :: string
  cfg_Verbose :: bool
  cfg_Debug :: bool

definition zeroConfig :: Config where
  "zeroConfig =
     \<lparr>cfg_Name = [], cfg_Provider = [], cfg_Upstream = [], cfg_LogDir = [], cfg_MirrorDir = [], cfg_MirrorPath = [],
      cfg_Concurrent = 0, cfg_Interval = 0, cfg_Retry = 0, cfg_Timeout = 0, cfg_Command = [], cfg_FailOnMatch = [],
      cfg_SizePattern = [], cfg_UseIPv6 = False, cfg_UseIPv4 = False, cfg_ExcludeFile = [], cfg_RsyncNoTimeo = False,
      cfg_RsyncTimeout = 0, cfg_RsyncOptions = None, cfg_RsyncOverride = None, cfg_Stage1Profile = [],
      cfg_ExecOnSuccess = None, cfg_ExecOnFailure = None, cfg_APIBase = [], cfg_Addr = [], cfg_ZFSEnable = False,
      cfg_Zpool = [], cfg_BtrfsEnable = False, cfg_SnapshotPath = [], cfg_Verbose = False, cfg_Debug = False\<rparr>"

definition LoadConfig :: "environment \<Rightarrow> Config \<times> err" where
  "LoadConfig e =
     (let cfg = zeroConfig
          \<lparr>cfg_Verbose := GetBoolEnv e ''VERBOSE'', cfg_Debug := GetBoolEnv e ''DEBUG'',
           cfg_Name := GetStringEnv e ''NAME'' [], cfg_Provider := GetStringEnv e ''PROVIDER'' ''rsync'',
           cfg_Upstream := GetStringEnv e ''UPSTREAM'' [], cfg_LogDir := GetStringEnv e ''LOG_DIR'' ''/var/log'',
           cfg_MirrorDir := GetStringEnv e ''MIRROR_DIR'' ''/data'', cfg_MirrorPath := GetStringEnv e ''MIRROR_PATH'' []\<rparr>
      in if cfg_Name cfg = [] \<or> cfg_Provider cfg = [] \<or> cfg_Upstream cfg = []
         then (cfg, Some ''failed to get mirror config'')
         else (cfg
          \<lparr>cfg_Concurrent := GetIntEnv e ''CONCURRENT'' 3, cfg_Interval := GetIntEnv e ''INTERVAL'' 1440,
           cfg_Retry := GetIntEnv e ''RETRY'' 0, cfg_Timeout := GetIntEnv e ''TIMEOUT'' 0,
           cfg_Command := GetStringEnv e ''COMMAND'' [], cfg_FailOnMatch := GetStringEnv e ''FAIL_ON_MATCH'' [],
           cfg_SizePattern := GetStringEnv e ''SIZE_PATTERN'' [], cfg_UseIPv6 := GetBoolEnv e ''IPV6'',
           cfg_UseIPv4 := GetBoolEnv e ''IPV4'', cfg_ExcludeFile := GetStringEnv e ''EXCLUDE_FILE'' [],
           cfg_RsyncNoTimeo := GetBoolEnv e ''RSYNC_NO_TIMEOUT'', cfg_RsyncTimeout := GetIntEnv e ''RSYNC_TIMEOUT'' 0,
           cfg_RsyncOptions := GetListEnv e ''RSYNC_OPTIONS'', cfg_RsyncOverride := GetListEnv e ''RSYNC_OVERRIDE'',
           cfg_Stage1Profile := GetStringEnv e ''STAGE1_PROFILE'' [],
           cfg_ExecOnSuccess := GetListEnv e ''EXEC_ON_SUCCESS'', cfg_ExecOnFailure := GetListEnv e ''EXEC_ON_FAILURE'',
           cfg_APIBase := GetStringEnv e ''API'' ''http://manager:3000'', cfg_Addr := GetStringEnv e ''ADDR'' '':6000'',
           cfg_ZFSEnable := GetBoolEnv e ''ZFS'', cfg_Zpool := GetStringEnv e ''ZPOOL'' [],
           cfg_BtrfsEnable := GetBoolEnv e ''BTRFS'', cfg_SnapshotPath := GetStringEnv e ''SNAPSHOT_PATH'' []\<rparr>, None))"

lemma LoadConfig_ok_iff:
  "snd (LoadConfig e) = None \<longleftrightarrow> GetStringEnv e ''NAME'' [] \<noteq> [] \<and> GetStringEnv e ''UPSTREAM'' [] \<noteq> []"
proof -
  have "GetStringEnv e ''PROVIDER'' ''rsync'' \<noteq> []" by (simp add: GetStringEnv_def split: option.split)
  then show ?thesis by (simp add: LoadConfig_def Let_def zeroConfig_def)
qed

lemma GetIntEnv_Itoa:
  assumes "e key = Some (Itoa i)" "- (2 ^ 63) \<le> i" "i < 2 ^ 63"
  shows "GetIntEnv e key def = (if i = 0 then def else i)"
  using assms by (simp add: GetIntEnv_def Atoi_Itoa)

end
