(* ===== verification/Worker_Provider.thy ===== *)
theory Worker_Provider
  imports Worker_Base Worker_Config
begin

text \<open>
  The three providers (\<open>worker/rsync_provider.go\<close>, \<open>two_stage_rsync_provider.go\<close>,
  \<open>cmd_provider.go\<close>) and the constructor that chooses one, \<open>newMirrorProvider\<close>.

  Splitting a command line, compiling a regular expression and rendering the template of the log
  directory are parameters, as is what the operating system answers; the size found in the log of
  a run is an argument of the run.
\<close>

section \<open>Exit codes of rsync\<close>

text \<open>What waiting for a process can fail with: an exit of the process, or anything else, with its text.\<close>

datatype cmd_error = ExitError int (error_text: string) | OtherError (error_text: string)

definition rsyncExitValues :: "(int \<times> string) list" where
  "rsyncExitValues =
     [(0, ''Success''), (1, ''Syntax or usage error''), (2, ''Protocol incompatibility''),
      (3, ''Errors selecting input/output files, dirs''),
      (4, ''Requested action not supported: an attempt was made to manipulate 64-bit files on a platform that cannot support them; or an option was specified that is supported by the client and not by the server.''),
      (5, ''Error starting client-server protocol''), (6, ''Daemon unable to append to log-file''),
      (10, ''Error in socket I/O''), (11, ''Error in file I/O''), (12, ''Error in rsync protocol data stream''),
      (13, ''Errors with program diagnostics''), (14, ''Error in IPC code''), (20, ''Received SIGUSR1 or SIGINT''),
      (21, ''Some error returned by waitpid()''), (22, ''Error allocating core memory buffers''),
      (23, ''Partial transfer due to error''), (24, ''Partial transfer due to vanished source files''),
      (25, ''The --max-delete limit stopped deletions''), (30, ''Timeout in data send/receive''),
      (35, ''Timeout waiting for daemon connection'')]"

definition TranslateRsyncErrorCode :: "cmd_error \<Rightarrow> int \<times> string" where
  "TranslateRsyncErrorCode e =
     (case e of
        OtherError _ \<Rightarrow> (0, [])
      | ExitError code _ \<Rightarrow>
          (code, case map_of rsyncExitValues code of None \<Rightarrow> [] | Some s \<Rightarrow> ''rsync error: '' @ s))"

section \<open>Options\<close>

definition defaultMaxRetry :: int where "defaultMaxRetry = 2"

text \<open>The options both rsync providers append in the same way.\<close>

definition timeout_options :: "bool \<Rightarrow> int \<Rightarrow> string list" where
  "timeout_options never v = (if never then [] else [''--timeout='' @ Itoa (if v > 0 then v else 120)])"

definition ip_options :: "bool \<Rightarrow> bool \<Rightarrow> string list" where
  "ip_options v6 v4 = (if v6 then [''-6''] else if v4 then [''-4''] else [])"

definition exclude_options :: "string \<Rightarrow> string list" where
  "exclude_options f = (if f \<noteq> [] then [''--exclude-from'', f] else [])"

definition stage1Options :: "string list" where
  "stage1Options = [''-aHvh'', ''--no-o'', ''--no-g'', ''--stats'', ''--filter'', ''risk .~tmp~/'',
     ''--exclude'', ''.~tmp~/'', ''--safe-links'']"

definition stage2Options :: "string list" where
  "stage2Options = [''-aHvh'', ''--no-o'', ''--no-g'', ''--stats'', ''--filter'', ''risk .~tmp~/'',
     ''--exclude'', ''.~tmp~/'', ''--delete'', ''--delete-after'', ''--delay-updates'', ''--safe-links'']"

section \<open>Configurations and providers\<close>

record rsyncConfig =
  rc_name :: string
  rc_rsyncCmd :: string
  rc_upstreamURL :: string
  rc_excludeFile :: string
  rc_extraOptions :: "string list option"
  rc_overriddenOptions :: "string list option"
  rc_rsyncNeverTimeout :: bool
  rc_rsyncTimeoutValue :: int
  rc_workingDir :: string
  rc_logDir :: string
  rc_logFile :: string
  rc_useIPv6 :: bool
  rc_useIPv4 :: bool
  rc_interval :: int
  rc_retry :: int
  rc_timeout :: int

record twoStageRsyncConfig =
  tc_name :: string
  tc_rsyncCmd :: string
  tc_stage1Profile :: string
  tc_upstreamURL :: string
  tc_excludeFile :: string
  tc_extraOptions :: "string list option"
  tc_rsyncNeverTimeout :: bool
  tc_rsyncTimeoutValue :: int
  tc_workingDir :: string
  tc_logDir :: string
  tc_logFile :: string
  tc_useIPv6 :: bool
  tc_useIPv4 :: bool
  tc_interval :: int
  tc_retry :: int
  tc_timeout :: int

record cmdConfig =
  cc_name :: string
  cc_upstreamURL :: string
  cc_command :: string
  cc_workingDir :: string
  cc_logDir :: string
  cc_logFile :: string
  cc_interval :: int
  cc_retry :: int
  cc_timeout :: int
  cc_failOnMatch :: string
  cc_sizePattern :: string

record rsyncProvider =
  rp_base :: baseProvider
  rp_config :: rsyncConfig
  rp_options :: "string list"
  rp_dataSize :: uint64

record twoStageRsyncProvider =
  tp_base :: baseProvider
  tp_config :: twoStageRsyncConfig
  tp_dataSize :: uint64

text \<open>A compiled regular expression is its text.\<close>

record cmdProvider =
  cp_base :: baseProvider
  cp_config :: cmdConfig
  cp_command :: "string list"
  cp_dataSize :: uint64
  cp_failOnMatch :: "string option"
  cp_sizePattern :: "string option"

text \<open>The embedded base provider with the three paths set in its context.\<close>

definition new_base :: "string \<Rightarrow> int \<Rightarrow> int \<Rightarrow> int \<Rightarrow> string \<Rightarrow> string \<Rightarrow> string \<Rightarrow> baseProvider" where
  "new_base name interval retry timeout wd ld lf =
     \<lparr>bp_ctx = Some (set_paths wd ld lf), bp_name = name, bp_interval = interval, bp_retry = retry,
      bp_timeout = timeout, bp_cmd = None, bp_logFileFd = None, bp_isRunning = False, bp_zfs = None, bp_hooks = []\<rparr>"

definition or_default_retry :: "int \<Rightarrow> int" where
  "or_default_retry r = (if r = 0 then defaultMaxRetry else r)"

definition newRsyncProvider :: "rsyncConfig \<Rightarrow> string + rsyncProvider" where
  "newRsyncProvider c0 =
     (if \<not> HasSuffix (rc_upstreamURL c0) ''/'' then Inl ''rsync upstream URL should ends with /''
      else let c = c0\<lparr>rc_retry := or_default_retry (rc_retry c0)\<rparr>;
               options = (case rc_overriddenOptions c of Some os \<Rightarrow> os | None \<Rightarrow> stage2Options)
                 @ timeout_options (rc_rsyncNeverTimeout c) (rc_rsyncTimeoutValue c)
                 @ ip_options (rc_useIPv6 c) (rc_useIPv4 c)
                 @ exclude_options (rc_excludeFile c)
                 @ (case rc_extraOptions c of Some os \<Rightarrow> os | None \<Rightarrow> [])
           in Inr \<lparr>rp_base = new_base (rc_name c) (rc_interval c) (rc_retry c) (rc_timeout c)
                              (rc_workingDir c) (rc_logDir c) (rc_logFile c),
                   rp_config = c\<lparr>rc_rsyncCmd := if rc_rsyncCmd c = [] then ''rsync'' else rc_rsyncCmd c\<rparr>,
                   rp_options = options, rp_dataSize = 0\<rparr>)"

definition newTwoStageRsyncProvider :: "twoStageRsyncConfig \<Rightarrow> string + twoStageRsyncProvider" where
  "newTwoStageRsyncProvider c0 =
     (if \<not> HasSuffix (tc_upstreamURL c0) ''/'' then Inl ''rsync upstream URL should ends with /''
      else let c = c0\<lparr>tc_retry := or_default_retry (tc_retry c0)\<rparr>
           in Inr \<lparr>tp_base = new_base (tc_name c) (tc_interval c) (tc_retry c) (tc_timeout c)
                              (tc_workingDir c) (tc_logDir c) (tc_logFile c),
                   tp_config = c\<lparr>tc_rsyncCmd := if tc_rsyncCmd c = [] then ''rsync'' else tc_rsyncCmd c\<rparr>,
                   tp_dataSize = 0\<rparr>)"

definition rsyncStage1Profiles :: "(string \<times> string list) list" where
  "rsyncStage1Profiles =
     [(''debian'', [''--include=*.diff/'', ''--exclude=*.diff/Index'', ''--exclude=Packages*'', ''--exclude=Sources*'',
        ''--exclude=Release*'', ''--exclude=InRelease'', ''--include=i18n/by-hash'', ''--exclude=i18n/*'', ''--exclude=ls-lR*'']),
      (''debian-oldstyle'', [''--exclude=Packages*'', ''--exclude=Sources*'', ''--exclude=Release*'',
        ''--exclude=InRelease'', ''--exclude=i18n/*'', ''--exclude=ls-lR*'', ''--exclude=dep11/*''])]"

definition Options :: "twoStageRsyncProvider \<Rightarrow> int \<Rightarrow> string + string list" where
  "Options p stage =
     (let c = tp_config p;
          common = timeout_options (tc_rsyncNeverTimeout c) (tc_rsyncTimeoutValue c)
            @ ip_options (tc_useIPv6 c) (tc_useIPv4 c) @ exclude_options (tc_excludeFile c)
      in if stage = 1
         then case map_of rsyncStage1Profiles (tc_stage1Profile c) of
                None \<Rightarrow> Inl ''Invalid Stage 1 Profile''
              | Some profile \<Rightarrow> Inr (stage1Options @ profile @ common)
         else if stage = 2
         then Inr (stage2Options @ (case tc_extraOptions c of Some os \<Rightarrow> os | None \<Rightarrow> []) @ common)
         else Inl (''Invalid stage: '' @ Itoa stage))"

definition newCmdProvider ::
  "(string \<Rightarrow> string + string list) \<Rightarrow> (string \<Rightarrow> err) \<Rightarrow> cmdConfig \<Rightarrow> string + cmdProvider" where
  "newCmdProvider shlex compile c0 =
     (let c = c0\<lparr>cc_retry := or_default_retry (cc_retry c0)\<rparr>
      in case shlex (cc_command c) of
           Inl e \<Rightarrow> Inl e
         | Inr cmd \<Rightarrow>
             (case (if 0 < length (cc_failOnMatch c) then compile (cc_failOnMatch c) else None) of
                Some e \<Rightarrow> Inl (''fail-on-match regexp error: '' @ e)
              | None \<Rightarrow>
                  (case (if 0 < length (cc_sizePattern c) then compile (cc_sizePattern c) else None) of
                     Some e \<Rightarrow> Inl (''size-pattern regexp error: '' @ e)
                   | None \<Rightarrow>
                       Inr \<lparr>cp_base = new_base (cc_name c) (cc_interval c) (cc_retry c) (cc_timeout c)
                                       (cc_workingDir c) (cc_logDir c) (cc_logFile c),
                            cp_config = c, cp_command = cmd, cp_dataSize = 0,
                            cp_failOnMatch = if 0 < length (cc_failOnMatch c) then Some (cc_failOnMatch c) else None,
                            cp_sizePattern = if 0 < length (cc_sizePattern c) then Some (cc_sizePattern c) else None\<rparr>)))"

section \<open>Runs\<close>

text \<open>
  What the operating system answers to one process: whether the working directory has to be made,
  and the outcomes of opening the log, of starting the process and of waiting for it.
\<close>

record os_answers =
  oa_dirMissing :: bool
  oa_opened :: err
  oa_started :: "string + nat"
  oa_waited :: "cmd_error option"

text \<open>The part the three providers have in common: make the command, open the log, start.\<close>

definition start_process ::
  "string list \<Rightarrow> os_answers \<Rightarrow> string list \<Rightarrow> string \<Rightarrow> (string \<times> string) list \<Rightarrow> bool \<Rightarrow> baseProvider \<Rightarrow>
     (baseProvider \<times> err) go" where
  "start_process osEnviron a command wd env appending b =
     go_bind (newCmdJob osEnviron (oa_dirMissing a) command wd env) (\<lambda>(c, _).
       go_bind (prepareLogFile (oa_opened a) appending (b\<lparr>bp_cmd := Some c\<rparr>)) (\<lambda>(b, e).
         case (e, bp_cmd b) of
           (Some m, _) \<Rightarrow> Ret (b, Some m)
         | (None, None) \<Rightarrow> Panic nilDeref
         | (None, Some c) \<Rightarrow>
             (case cmdJob_Start (oa_started a) c of
                (c, Some m) \<Rightarrow> Ret (b\<lparr>bp_cmd := Some c\<rparr>, Some m)
              | (c, None) \<Rightarrow> Ret (b\<lparr>bp_cmd := Some c, bp_isRunning := True\<rparr>, None))))"

definition already_running :: string where "already_running = ''provider is currently running''"

definition rsync_Start :: "string list \<Rightarrow> os_answers \<Rightarrow> rsyncProvider \<Rightarrow> (rsyncProvider \<times> err) go" where
  "rsync_Start osEnviron a p =
     (if bp_isRunning (rp_base p) then Ret (p, Some already_running)
      else go_bind (WorkingDir (rp_base p)) (\<lambda>wd.
        go_bind (start_process osEnviron a
                   (rc_rsyncCmd (rp_config p) # rp_options p @ [rc_upstreamURL (rp_config p), wd]) wd [] False (rp_base p))
          (\<lambda>(b, e). Ret (p\<lparr>rp_base := b\<rparr>, e))))"

text \<open>What a run leaves: the provider, the error, the \<open>started\<close> signals and the lines added to the log.\<close>

record 'p run_result =
  rr_provider :: 'p
  rr_err :: err
  rr_started :: nat
  rr_logged :: "string list"

definition run_result :: "'p \<Rightarrow> err \<Rightarrow> nat \<Rightarrow> string list \<Rightarrow> 'p run_result" where
  "run_result p e n ls = \<lparr>rr_provider = p, rr_err = e, rr_started = n, rr_logged = ls\<rparr>"

text \<open>The line about a failed rsync, written while the log is open.\<close>

definition rsync_error_line :: "cmd_error \<Rightarrow> baseProvider \<Rightarrow> string list" where
  "rsync_error_line e b =
     (case TranslateRsyncErrorCode e of
        (code, msg) \<Rightarrow> if code \<noteq> 0 \<and> bp_logFileFd b \<noteq> None then [msg] else [])"

definition rsync_Run :: "string list \<Rightarrow> os_answers \<Rightarrow> uint64 \<Rightarrow> rsyncProvider \<Rightarrow> rsyncProvider run_result go" where
  "rsync_Run osEnviron a logSize p =
     (let close = (\<lambda>p. p\<lparr>rp_base := closeLogFile (rp_base p)\<rparr>)
      in go_bind (rsync_Start osEnviron a (p\<lparr>rp_dataSize := 0\<rparr>)) (\<lambda>(p, e).
           case e of
             Some m \<Rightarrow> Ret (run_result (close p) (Some m) 0 [])
           | None \<Rightarrow>
               go_bind (base_Wait (map_option error_text (oa_waited a)) (rp_base p)) (\<lambda>(b, we).
                 let p = p\<lparr>rp_base := b\<rparr> in
                 case (we, oa_waited a) of
                   (Some m, Some ce) \<Rightarrow> Ret (run_result (close p) (Some m) 1 (rsync_error_line ce b))
                 | _ \<Rightarrow> Ret (run_result (close (p\<lparr>rp_dataSize := logSize\<rparr>)) None 1 []))))"

text \<open>One stage of the two-stage provider; the first opens the log anew, the second appends.\<close>

definition run_stage ::
  "string list \<Rightarrow> os_answers \<Rightarrow> int \<Rightarrow> twoStageRsyncProvider \<Rightarrow> twoStageRsyncProvider run_result go" where
  "run_stage osEnviron a stage p =
     (case Options p stage of
        Inl m \<Rightarrow> Ret (run_result p (Some m) 0 [])
      | Inr options \<Rightarrow>
          go_bind (WorkingDir (tp_base p)) (\<lambda>wd.
            go_bind (start_process osEnviron a
                       (tc_rsyncCmd (tp_config p) # options @ [tc_upstreamURL (tp_config p), wd]) wd [] (stage > 1) (tp_base p))
              (\<lambda>(b, e).
                case e of
                  Some m \<Rightarrow> Ret (run_result (p\<lparr>tp_base := b\<rparr>) (Some m) 0 [])
                | None \<Rightarrow>
                    go_bind (base_Wait (map_option error_text (oa_waited a)) b) (\<lambda>(b, we).
                      case (we, oa_waited a) of
                        (Some m, Some ce) \<Rightarrow> Ret (run_result (p\<lparr>tp_base := b\<rparr>) (Some m) 1 (rsync_error_line ce b))
                      | _ \<Rightarrow> Ret (run_result (p\<lparr>tp_base := b\<rparr>) None 1 [])))))"

text \<open>
  Whether a stage gets past \<open>prepareLogFile\<close>, after which the closing of the log is deferred to the
  end of the run; a stage that fails before leaves the log as it is.
\<close>

definition log_deferred :: "os_answers \<Rightarrow> int \<Rightarrow> twoStageRsyncProvider \<Rightarrow> bool" where
  "log_deferred a stage p =
     (case Options p stage of
        Inl _ \<Rightarrow> False
      | Inr _ \<Rightarrow> (case LogFile (tp_base p) of Panic _ \<Rightarrow> False | Ret f \<Rightarrow> f = ''/dev/null'' \<or> oa_opened a = None))"

definition two_stage_Run ::
  "string list \<Rightarrow> os_answers \<Rightarrow> os_answers \<Rightarrow> uint64 \<Rightarrow> twoStageRsyncProvider \<Rightarrow> twoStageRsyncProvider run_result go" where
  "two_stage_Run osEnviron a1 a2 logSize p =
     (let close = (\<lambda>r. r\<lparr>rr_provider := (rr_provider r)\<lparr>tp_base := closeLogFile (tp_base (rr_provider r))\<rparr>\<rparr>)
      in if bp_isRunning (tp_base p) then Ret (run_result p (Some already_running) 0 [])
         else go_bind (run_stage osEnviron a1 1 (p\<lparr>tp_dataSize := 0\<rparr>)) (\<lambda>r1.
                if rr_err r1 \<noteq> None then Ret (if log_deferred a1 1 p then close r1 else r1)
                else go_bind (run_stage osEnviron a2 2 (rr_provider r1)) (\<lambda>r2.
                       let r = r2\<lparr>rr_started := rr_started r1 + rr_started r2, rr_logged := rr_logged r1 @ rr_logged r2\<rparr>
                       in Ret (close (if rr_err r2 \<noteq> None then r
                                      else r\<lparr>rr_provider := (rr_provider r)\<lparr>tp_dataSize := logSize\<rparr>\<rparr>)))))"

text \<open>
  \<open>FindAllSubmatchInFile\<close>, as the number of matches; the error of reading the file is lost,
  because the test declares a variable of its own.
\<close>

definition FindAllSubmatchInFile :: "string \<Rightarrow> err \<Rightarrow> nat \<Rightarrow> nat \<times> err" where
  "FindAllSubmatchInFile fileName read_err found =
     (if fileName = ''/dev/null'' then (0, Some ''Invalid log file'')
      else case read_err of None \<Rightarrow> (found, None) | Some _ \<Rightarrow> (0, None))"

definition cmd_environment :: "cmdProvider \<Rightarrow> (string \<times> string) list go" where
  "cmd_environment p =
     go_bind (WorkingDir (cp_base p)) (\<lambda>wd. go_bind (LogDir (cp_base p)) (\<lambda>ld. go_bind (LogFile (cp_base p)) (\<lambda>lf.
       Ret [(''TUNASYNC_MIRROR_NAME'', bp_name (cp_base p)), (''TUNASYNC_WORKING_DIR'', wd),
            (''TUNASYNC_UPSTREAM_URL'', cc_upstreamURL (cp_config p)), (''TUNASYNC_LOG_DIR'', ld),
            (''TUNASYNC_LOG_FILE'', lf)])))"

definition cmd_Start :: "string list \<Rightarrow> os_answers \<Rightarrow> cmdProvider \<Rightarrow> (cmdProvider \<times> err) go" where
  "cmd_Start osEnviron a p =
     (if bp_isRunning (cp_base p) then Ret (p, Some already_running)
      else go_bind (cmd_environment p) (\<lambda>env. go_bind (WorkingDir (cp_base p)) (\<lambda>wd.
        go_bind (start_process osEnviron a (cp_command p) wd env False (cp_base p)) (\<lambda>(b, e).
          Ret (p\<lparr>cp_base := b\<rparr>, e)))))"

text \<open>The test of the log after a successful process.\<close>

definition fail_on_match :: "cmdProvider \<Rightarrow> err \<Rightarrow> nat \<Rightarrow> err go" where
  "fail_on_match p read_err found =
     (case cp_failOnMatch p of
        None \<Rightarrow> Ret None
      | Some _ \<Rightarrow> go_bind (LogFile (cp_base p)) (\<lambda>lf.
          case FindAllSubmatchInFile lf read_err found of
            (_, Some m) \<Rightarrow> Ret (Some m)
          | (n, None) \<Rightarrow>
              Ret (if n \<noteq> 0 then Some (''Fail-on-match regexp found '' @ Itoa (int n) @ '' matches'') else None)))"

definition cmd_Run ::
  "string list \<Rightarrow> os_answers \<Rightarrow> err \<Rightarrow> nat \<Rightarrow> uint64 \<Rightarrow> cmdProvider \<Rightarrow> cmdProvider run_result go" where
  "cmd_Run osEnviron a read_err found dataSize p =
     (let close = (\<lambda>p. p\<lparr>cp_base := closeLogFile (cp_base p)\<rparr>)
      in go_bind (cmd_Start osEnviron a (p\<lparr>cp_dataSize := 0\<rparr>)) (\<lambda>(p, e).
           case e of
             Some m \<Rightarrow> Ret (run_result (close p) (Some m) 0 [])
           | None \<Rightarrow>
               go_bind (base_Wait (map_option error_text (oa_waited a)) (cp_base p)) (\<lambda>(b, we).
                 let p = p\<lparr>cp_base := b\<rparr> in
                 case we of
                   Some m \<Rightarrow> Ret (run_result (close p) (Some m) 1 [])
                 | None \<Rightarrow>
                     go_bind (fail_on_match p read_err found) (\<lambda>fe.
                       case fe of
                         Some m \<Rightarrow> Ret (run_result (close p) (Some m) 1 [])
                       | None \<Rightarrow> Ret (run_result (close (p\<lparr>cp_dataSize := dataSize\<rparr>)) None 1 [])))))"

section \<open>Choosing a provider\<close>

datatype mirrorProvider =
  RsyncProvider rsyncProvider | TwoStageRsyncProvider twoStageRsyncProvider | CmdProvider cmdProvider

fun prov_base :: "mirrorProvider \<Rightarrow> baseProvider" where
  "prov_base (RsyncProvider p) = rp_base p"
| "prov_base (TwoStageRsyncProvider p) = tp_base p"
| "prov_base (CmdProvider p) = cp_base p"

fun on_base :: "(baseProvider \<Rightarrow> baseProvider) \<Rightarrow> mirrorProvider \<Rightarrow> mirrorProvider" where
  "on_base f (RsyncProvider p) = RsyncProvider (p\<lparr>rp_base := f (rp_base p)\<rparr>)"
| "on_base f (TwoStageRsyncProvider p) = TwoStageRsyncProvider (p\<lparr>tp_base := f (tp_base p)\<rparr>)"
| "on_base f (CmdProvider p) = CmdProvider (p\<lparr>cp_base := f (cp_base p)\<rparr>)"

definition or_panic :: "string + 'a \<Rightarrow> 'a go" where
  "or_panic r = (case r of Inl m \<Rightarrow> Panic m | Inr a \<Rightarrow> Ret a)"

definition mirror_dir :: "Config \<Rightarrow> string" where
  "mirror_dir cfg = (if cfg_MirrorPath cfg \<noteq> [] then cfg_MirrorPath cfg else filepath_Join [cfg_MirrorDir cfg, cfg_Name cfg])"

definition interval_of :: "Config \<Rightarrow> int" where
  "interval_of cfg = int64 (cfg_Interval cfg * Minute)"

definition timeout_of :: "Config \<Rightarrow> int" where
  "timeout_of cfg = int64 (cfg_Timeout cfg * Second)"

definition choose_provider ::
  "(string \<Rightarrow> string + string list) \<Rightarrow> (string \<Rightarrow> err) \<Rightarrow> Config \<Rightarrow> string \<Rightarrow> mirrorProvider go" where
  "choose_provider shlex compile cfg logDir =
     (let logFile = filepath_Join [logDir, ''latest.log'']
      in if cfg_Provider cfg = ''command''
         then go_bind (or_panic (newCmdProvider shlex compile
                \<lparr>cc_name = cfg_Name cfg, cc_upstreamURL = cfg_Upstream cfg, cc_command = cfg_Command cfg,
                 cc_workingDir = mirror_dir cfg, cc_logDir = logDir, cc_logFile = logFile, cc_interval = interval_of cfg,
                 cc_retry = cfg_Retry cfg, cc_timeout = timeout_of cfg, cc_failOnMatch = cfg_FailOnMatch cfg,
                 cc_sizePattern = cfg_SizePattern cfg\<rparr>)) (\<lambda>p. Ret (CmdProvider p))
         else if cfg_Provider cfg = ''rsync''
         then go_bind (or_panic (newRsyncProvider
                \<lparr>rc_name = cfg_Name cfg, rc_rsyncCmd = cfg_Command cfg, rc_upstreamURL = cfg_Upstream cfg,
                 rc_excludeFile = cfg_ExcludeFile cfg, rc_extraOptions = cfg_RsyncOptions cfg,
                 rc_overriddenOptions = cfg_RsyncOverride cfg, rc_rsyncNeverTimeout = cfg_RsyncNoTimeo cfg,
                 rc_rsyncTimeoutValue = cfg_RsyncTimeout cfg, rc_workingDir = mirror_dir cfg, rc_logDir = logDir,
                 rc_logFile = logFile, rc_useIPv6 = cfg_UseIPv6 cfg, rc_useIPv4 = cfg_UseIPv4 cfg,
                 rc_interval = interval_of cfg, rc_retry = cfg_Retry cfg, rc_timeout = timeout_of cfg\<rparr>))
                (\<lambda>p. Ret (RsyncProvider p))
         else if cfg_Provider cfg = ''two-stage-rsync''
         then go_bind (or_panic (newTwoStageRsyncProvider
                \<lparr>tc_name = cfg_Name cfg, tc_rsyncCmd = cfg_Command cfg, tc_stage1Profile = cfg_Stage1Profile cfg,
                 tc_upstreamURL = cfg_Upstream cfg, tc_excludeFile = cfg_ExcludeFile cfg,
                 tc_extraOptions = cfg_RsyncOptions cfg, tc_rsyncNeverTimeout = cfg_RsyncNoTimeo cfg,
                 tc_rsyncTimeoutValue = cfg_RsyncTimeout cfg, tc_workingDir = mirror_dir cfg, tc_logDir = logDir,
                 tc_logFile = logFile, tc_useIPv6 = cfg_UseIPv6 cfg, tc_useIPv4 = cfg_UseIPv4 cfg,
                 tc_interval = interval_of cfg, tc_retry = cfg_Retry cfg, tc_timeout = timeout_of cfg\<rparr>))
                (\<lambda>p. Ret (TwoStageRsyncProvider p))
         else Panic ''Invalid mirror provider'')"

definition newExecPostHook :: "(string \<Rightarrow> string + string list) \<Rightarrow> exec_on \<Rightarrow> string \<Rightarrow> string + jobHook" where
  "newExecPostHook shlex execOn command =
     (case shlex command of Inl m \<Rightarrow> Inl m | Inr cmd \<Rightarrow> Inr (ExecPostHook execOn cmd))"

definition newBtrfsSnapshotHook :: "string \<Rightarrow> string \<Rightarrow> jobHook" where
  "newBtrfsSnapshotHook name snapshotPath = BtrfsSnapshotHook (filepath_Join [snapshotPath, name])"

fun addHookFromCmdList ::
  "(string \<Rightarrow> string + string list) \<Rightarrow> exec_on \<Rightarrow> string list \<Rightarrow> mirrorProvider \<Rightarrow> mirrorProvider go" where
  "addHookFromCmdList shlex execOn [] p = Ret p"
| "addHookFromCmdList shlex execOn (c # cs) p =
     go_bind (or_panic (newExecPostHook shlex execOn c)) (\<lambda>h.
       addHookFromCmdList shlex execOn cs (on_base (AddHook h) p))"

text \<open>The hooks every provider has, and those of the file systems.\<close>

definition add_fs_hooks :: "Config \<Rightarrow> mirrorProvider \<Rightarrow> mirrorProvider" where
  "add_fs_hooks cfg p =
     (let p = on_base (AddHook LogLimiter) p;
          p = (if cfg_ZFSEnable cfg then on_base (AddHook (ZfsHook (cfg_Zpool cfg))) p else p)
      in if cfg_BtrfsEnable cfg then on_base (AddHook (newBtrfsSnapshotHook (cfg_Name cfg) (cfg_SnapshotPath cfg))) p else p)"

definition newMirrorProvider ::
  "(string \<Rightarrow> string + string list) \<Rightarrow> (string \<Rightarrow> err) \<Rightarrow> (string \<Rightarrow> string + string) \<Rightarrow> Config \<Rightarrow> mirrorProvider go" where
  "newMirrorProvider shlex compile render cfg =
     go_bind (or_panic (render (cfg_LogDir cfg))) (\<lambda>logDir.
     go_bind (choose_provider shlex compile cfg logDir) (\<lambda>p.
     go_bind (addHookFromCmdList shlex execOnSuccess (case_option [] id (cfg_ExecOnSuccess cfg)) (add_fs_hooks cfg p)) (\<lambda>p.
       addHookFromCmdList shlex execOnFailure (case_option [] id (cfg_ExecOnFailure cfg)) p)))"

section \<open>Chosen providers are well formed\<close>

lemma new_base_sel [simp]:
  "bp_ctx (new_base n i r t wd ld lf) = Some (set_paths wd ld lf)" "bp_name (new_base n i r t wd ld lf) = n"
  "bp_interval (new_base n i r t wd ld lf) = i" "bp_retry (new_base n i r t wd ld lf) = r"
  "bp_timeout (new_base n i r t wd ld lf) = t" "bp_isRunning (new_base n i r t wd ld lf) = False"
  "bp_hooks (new_base n i r t wd ld lf) = []"
  by (simp_all add: new_base_def)

lemma or_panic_Ret: "or_panic r = Ret a \<longleftrightarrow> r = Inr a"
  by (simp add: or_panic_def split: sum.split)

text \<open>The base of the provider a configuration asks for, before any hook is added.\<close>

definition fresh_base :: "Config \<Rightarrow> string \<Rightarrow> baseProvider" where
  "fresh_base cfg logDir =
     new_base (cfg_Name cfg) (interval_of cfg) (or_default_retry (cfg_Retry cfg)) (timeout_of cfg)
       (mirror_dir cfg) logDir (filepath_Join [logDir, ''latest.log''])"

lemma new_provider_base:
  "newRsyncProvider rc = Inr rp \<Longrightarrow> rp_base rp = new_base (rc_name rc) (rc_interval rc) (or_default_retry (rc_retry rc))
     (rc_timeout rc) (rc_workingDir rc) (rc_logDir rc) (rc_logFile rc)"
  "newTwoStageRsyncProvider tc = Inr tp \<Longrightarrow> tp_base tp = new_base (tc_name tc) (tc_interval tc)
     (or_default_retry (tc_retry tc)) (tc_timeout tc) (tc_workingDir tc) (tc_logDir tc) (tc_logFile tc)"
  "newCmdProvider shlex compile cc = Inr cp \<Longrightarrow> cp_base cp = new_base (cc_name cc) (cc_interval cc)
     (or_default_retry (cc_retry cc)) (cc_timeout cc) (cc_workingDir cc) (cc_logDir cc) (cc_logFile cc)"
  by (auto simp: newRsyncProvider_def newTwoStageRsyncProvider_def newCmdProvider_def Let_def
      split: if_splits sum.splits option.splits)

lemma choose_provider_base:
  "choose_provider shlex compile cfg logDir = Ret p \<Longrightarrow> prov_base p = fresh_base cfg logDir"
  by (auto simp: choose_provider_def Let_def go_bind_Ret_iff or_panic_Ret fresh_base_def
      dest!: new_provider_base split: if_splits)

lemma prov_base_on_base [simp]: "prov_base (on_base f p) = f (prov_base p)"
  by (cases p) simp_all

fun add_hooks :: "jobHook list \<Rightarrow> baseProvider \<Rightarrow> baseProvider" where
  "add_hooks [] b = b"
| "add_hooks (h # hs) b = add_hooks hs (AddHook h b)"

lemma AddHook_frame [simp]:
  "bp_ctx (AddHook h b) = bp_ctx b" "bp_name (AddHook h b) = bp_name b" "bp_interval (AddHook h b) = bp_interval b"
  "bp_retry (AddHook h b) = bp_retry b" "bp_timeout (AddHook h b) = bp_timeout b"
  "bp_isRunning (AddHook h b) = bp_isRunning b" "bp_hooks (AddHook h b) = bp_hooks b @ [h]"
  by (auto simp: AddHook_def Let_def split: jobHook.split)

lemma add_hooks_frame [simp]:
  "bp_ctx (add_hooks hs b) = bp_ctx b" "bp_name (add_hooks hs b) = bp_name b"
  "bp_interval (add_hooks hs b) = bp_interval b" "bp_retry (add_hooks hs b) = bp_retry b"
  "bp_timeout (add_hooks hs b) = bp_timeout b" "bp_isRunning (add_hooks hs b) = bp_isRunning b"
  "bp_hooks (add_hooks hs b) = bp_hooks b @ hs"
  by (induction hs arbitrary: b) simp_all

lemma add_hooks_append: "add_hooks (hs @ ks) b = add_hooks ks (add_hooks hs b)"
  by (induction hs arbitrary: b) simp_all

text \<open>The hooks a list of commands stands for, if every command splits.\<close>

definition exec_hooks :: "(string \<Rightarrow> string + string list) \<Rightarrow> exec_on \<Rightarrow> string list option \<Rightarrow> jobHook list" where
  "exec_hooks shlex on cs = map (\<lambda>c. ExecPostHook on (projr (shlex c))) (case_option [] id cs)"

definition commands_split :: "(string \<Rightarrow> string + string list) \<Rightarrow> string list option \<Rightarrow> bool" where
  "commands_split shlex cs = list_all (\<lambda>c. \<not> isl (shlex c)) (case_option [] id cs)"

lemma addHookFromCmdList_Ret:
  "addHookFromCmdList shlex on cs p = Ret p' \<Longrightarrow>
     list_all (\<lambda>c. \<not> isl (shlex c)) cs
     \<and> prov_base p' = add_hooks (map (\<lambda>c. ExecPostHook on (projr (shlex c))) cs) (prov_base p)"
  by (induction cs arbitrary: p)
    (auto simp: go_bind_Ret_iff or_panic_Ret newExecPostHook_def split: sum.splits)

lemma addHookFromCmdList_total:
  "list_all (\<lambda>c. \<not> isl (shlex c)) cs \<Longrightarrow> \<exists>p'. addHookFromCmdList shlex on cs p = Ret p'"
  by (induction cs arbitrary: p)
    (auto simp: go_bind_Ret_iff or_panic_Ret newExecPostHook_def split: sum.splits)

definition hooks_of :: "(string \<Rightarrow> string + string list) \<Rightarrow> Config \<Rightarrow> jobHook list" where
  "hooks_of shlex cfg =
     LogLimiter # (if cfg_ZFSEnable cfg then [ZfsHook (cfg_Zpool cfg)] else [])
     @ (if cfg_BtrfsEnable cfg then [newBtrfsSnapshotHook (cfg_Name cfg) (cfg_SnapshotPath cfg)] else [])
     @ exec_hooks shlex execOnSuccess (cfg_ExecOnSuccess cfg) @ exec_hooks shlex execOnFailure (cfg_ExecOnFailure cfg)"

lemma newMirrorProvider_base:
  assumes "newMirrorProvider shlex compile render cfg = Ret p"
  obtains logDir where "render (cfg_LogDir cfg) = Inr logDir"
    "prov_base p = add_hooks (hooks_of shlex cfg) (fresh_base cfg logDir)"
proof -
  obtain logDir p0 p1 where r: "render (cfg_LogDir cfg) = Inr logDir"
    and p0: "choose_provider shlex compile cfg logDir = Ret p0"
    and p1: "addHookFromCmdList shlex execOnSuccess (case_option [] id (cfg_ExecOnSuccess cfg)) (add_fs_hooks cfg p0) = Ret p1"
    and p: "addHookFromCmdList shlex execOnFailure (case_option [] id (cfg_ExecOnFailure cfg)) p1 = Ret p"
    using assms by (auto simp: newMirrorProvider_def go_bind_Ret_iff or_panic_Ret)
  have "prov_base p = add_hooks (hooks_of shlex cfg) (fresh_base cfg logDir)"
    using addHookFromCmdList_Ret [OF p1] addHookFromCmdList_Ret [OF p] choose_provider_base [OF p0]
    by (simp add: hooks_of_def exec_hooks_def add_hooks_append add_fs_hooks_def Let_def)
  with r that show thesis by blast
qed

text \<open>
  C18: Every provider a configuration yields is ready to run: idle, with its paths readable, a
  number of attempts that is not zero, and the hooks in the order log limiter, ZFS, Btrfs, commands on
  success, commands on failure.
\<close>

theorem newMirrorProvider_ready:
  assumes "newMirrorProvider shlex compile render cfg = Ret p"
  shows "prov_ok (prov_base p) \<and> WorkingDir (prov_base p) = Ret (mirror_dir cfg) \<and> \<not> bp_isRunning (prov_base p)
    \<and> bp_name (prov_base p) = cfg_Name cfg \<and> bp_retry (prov_base p) \<noteq> 0
    \<and> bp_hooks (prov_base p) = hooks_of shlex cfg"
proof -
  obtain logDir where "prov_base p = add_hooks (hooks_of shlex cfg) (fresh_base cfg logDir)"
    using assms by (rule newMirrorProvider_base)
  then show ?thesis
    by (simp add: fresh_base_def or_default_retry_def defaultMaxRetry_def prov_ok_def ctx_ok_def has_path_def
        WorkingDir_def ctx_path_def)
qed

text \<open>A configuration the worker starts with; any other makes it panic.\<close>

definition acceptable :: "(string \<Rightarrow> string + string list) \<Rightarrow> (string \<Rightarrow> err) \<Rightarrow> (string \<Rightarrow> string + string) \<Rightarrow> Config \<Rightarrow> bool" where
  "acceptable shlex compile render cfg \<longleftrightarrow>
     \<not> isl (render (cfg_LogDir cfg))
     \<and> (if cfg_Provider cfg = ''command''
        then \<not> isl (shlex (cfg_Command cfg)) \<and> (cfg_FailOnMatch cfg = [] \<or> compile (cfg_FailOnMatch cfg) = None)
          \<and> (cfg_SizePattern cfg = [] \<or> compile (cfg_SizePattern cfg) = None)
        else (cfg_Provider cfg = ''rsync'' \<or> cfg_Provider cfg = ''two-stage-rsync'') \<and> HasSuffix (cfg_Upstream cfg) ''/'')
     \<and> commands_split shlex (cfg_ExecOnSuccess cfg) \<and> commands_split shlex (cfg_ExecOnFailure cfg)"

lemma choose_provider_Ret:
  "(\<exists>p. choose_provider shlex compile cfg logDir = Ret p) \<longleftrightarrow>
     (if cfg_Provider cfg = ''command''
      then \<not> isl (shlex (cfg_Command cfg)) \<and> (cfg_FailOnMatch cfg = [] \<or> compile (cfg_FailOnMatch cfg) = None)
        \<and> (cfg_SizePattern cfg = [] \<or> compile (cfg_SizePattern cfg) = None)
      else (cfg_Provider cfg = ''rsync'' \<or> cfg_Provider cfg = ''two-stage-rsync'') \<and> HasSuffix (cfg_Upstream cfg) ''/'')"
  by (auto simp: choose_provider_def Let_def go_bind_Ret_iff or_panic_Ret newRsyncProvider_def
      newTwoStageRsyncProvider_def newCmdProvider_def split: sum.split option.split)

lemma newMirrorProvider_Ret_iff:
  "(\<exists>p. newMirrorProvider shlex compile render cfg = Ret p) \<longleftrightarrow> acceptable shlex compile render cfg"
proof
  assume "\<exists>p. newMirrorProvider shlex compile render cfg = Ret p"
  then obtain logDir p0 p1 p where "render (cfg_LogDir cfg) = Inr logDir" "choose_provider shlex compile cfg logDir = Ret p0"
    and hooks: "addHookFromCmdList shlex execOnSuccess (case_option [] id (cfg_ExecOnSuccess cfg)) (add_fs_hooks cfg p0) = Ret p1"
      "addHookFromCmdList shlex execOnFailure (case_option [] id (cfg_ExecOnFailure cfg)) p1 = Ret p"
    by (auto simp: newMirrorProvider_def go_bind_Ret_iff or_panic_Ret)
  with choose_provider_Ret [of shlex compile cfg logDir] show "acceptable shlex compile render cfg"
    using addHookFromCmdList_Ret [OF hooks(1)] addHookFromCmdList_Ret [OF hooks(2)]
    by (auto simp: acceptable_def commands_split_def)
next
  assume ok: "acceptable shlex compile render cfg"
  then obtain logDir where logDir: "render (cfg_LogDir cfg) = Inr logDir"
    by (cases "render (cfg_LogDir cfg)") (auto simp: acceptable_def)
  moreover obtain p0 where p0: "choose_provider shlex compile cfg logDir = Ret p0"
    using ok choose_provider_Ret [of shlex compile cfg logDir] by (auto simp: acceptable_def)
  moreover obtain p1 where p1: "addHookFromCmdList shlex execOnSuccess (case_option [] id (cfg_ExecOnSuccess cfg)) (add_fs_hooks cfg p0) = Ret p1"
    using ok addHookFromCmdList_total unfolding acceptable_def commands_split_def by blast
  moreover obtain p where "addHookFromCmdList shlex execOnFailure (case_option [] id (cfg_ExecOnFailure cfg)) p1 = Ret p"
    using ok addHookFromCmdList_total unfolding acceptable_def commands_split_def by blast
  ultimately show "\<exists>p. newMirrorProvider shlex compile render cfg = Ret p"
    by (simp add: newMirrorProvider_def or_panic_def)
qed

text \<open>
  The worker gets a provider exactly from the acceptable configurations; an rsync upstream without the
  final slash, an unknown provider, a bad pattern or a command that does not split makes it
  panic.
\<close>

lemma newMirrorProvider_returns_iff:
  "(\<exists>p. newMirrorProvider shlex compile render cfg = Ret p) \<longleftrightarrow> acceptable shlex compile render cfg"
  by (rule newMirrorProvider_Ret_iff)

text \<open>A worker for Debian, with commands split at blanks.\<close>

definition blank_split :: "string \<Rightarrow> string + string list" where
  "blank_split s = Inr (Split s (CHR '' ''))"

definition sample_config :: Config where
  "sample_config = zeroConfig\<lparr>cfg_Name := ''debian'', cfg_Provider := ''two-stage-rsync'',
     cfg_Upstream := ''rsync://ftp.debian.org/debian/'', cfg_LogDir := ''/var/log'', cfg_MirrorDir := ''/data'',
     cfg_Stage1Profile := ''debian'', cfg_Interval := 1440, cfg_BtrfsEnable := True, cfg_SnapshotPath := ''/snap'',
     cfg_ExecOnFailure := Some [''notify failed'']\<rparr>"

lemma sample_acceptable: "acceptable blank_split (\<lambda>_. None) Inr sample_config"
  by (simp add: acceptable_def sample_config_def zeroConfig_def blank_split_def commands_split_def go_simps)

theorem newMirrorProvider_ready_witness:
  "\<exists>p. newMirrorProvider blank_split (\<lambda>_. None) Inr sample_config = Ret p \<and> prov_ok (prov_base p)
     \<and> WorkingDir (prov_base p) = Ret (mirror_dir sample_config)
     \<and> bp_hooks (prov_base p) = [LogLimiter, newBtrfsSnapshotHook ''debian'' ''/snap'', ExecPostHook execOnFailure [''notify'', ''failed'']]"
proof -
  obtain p where p: "newMirrorProvider blank_split (\<lambda>_. None) Inr sample_config = Ret p"
    using newMirrorProvider_Ret_iff sample_acceptable by blast
  from newMirrorProvider_ready [OF p] p show ?thesis
    by (auto simp: hooks_of_def exec_hooks_def sample_config_def zeroConfig_def blank_split_def)
qed

section \<open>Runs of the providers\<close>

text \<open>Starting a process never panics on a well-formed provider with a command.\<close>

lemma start_process_cases:
  assumes ok: "prov_ok b" and cmd: "command \<noteq> []"
  obtains (fails) b' m where "start_process osEnviron a command wd env app b = Ret (b', Some m)"
      "bp_isRunning b' = bp_isRunning b" "bp_ctx b' = bp_ctx b"
  | (starts) b' c where "start_process osEnviron a command wd env app b = Ret (b', None)" "bp_isRunning b'"
      "bp_ctx b' = bp_ctx b" "bp_cmd b' = Some c" "cj_finished c = OpenChan" "cj_args c = command"
proof -
  obtain lf where lf: "LogFile (b\<lparr>bp_cmd := x\<rparr>) = Ret lf" for x
    using prov_ok_paths(3) [OF ok] by (auto simp: LogFile_def ctx_path_def)
  have "(\<exists>b' m. start_process osEnviron a command wd env app b = Ret (b', Some m)
      \<and> bp_isRunning b' = bp_isRunning b \<and> bp_ctx b' = bp_ctx b)
    \<or> (\<exists>b' c. start_process osEnviron a command wd env app b = Ret (b', None) \<and> bp_isRunning b' \<and> bp_ctx b' = bp_ctx b
      \<and> bp_cmd b' = Some c \<and> cj_finished c = OpenChan \<and> cj_args c = command)"
    using cmd by (auto simp: start_process_def newCmdJob_def prepareLogFile_def lf cmdJob_Start_def cmdJob_SetLogFile_def
        Let_def split: option.split sum.split)
  then show thesis using that by blast
qed

lemma base_Wait_open:
  assumes "bp_cmd b = Some c" "cj_finished c = OpenChan"
  shows "\<exists>b'. base_Wait w b = Ret (b', w) \<and> \<not> bp_isRunning b' \<and> bp_ctx b' = bp_ctx b"
  using assms by (simp add: base_Wait_def cmdJob_Wait_def)

lemma closeLogFile_sel [simp]:
  "bp_isRunning (closeLogFile b) = bp_isRunning b" "bp_ctx (closeLogFile b) = bp_ctx b" "bp_logFileFd (closeLogFile b) = None"
  by (simp_all add: closeLogFile_def)

lemma run_result_sel [simp]:
  "rr_provider (run_result p e n ls) = p" "rr_err (run_result p e n ls) = e"
  "rr_started (run_result p e n ls) = n" "rr_logged (run_result p e n ls) = ls"
  by (simp_all add: run_result_def)

lemma run_stage_total:
  assumes "prov_ok (tp_base p)" "\<not> bp_isRunning (tp_base p)"
  shows "\<exists>r. run_stage osEnviron a stage p = Ret r \<and> \<not> bp_isRunning (tp_base (rr_provider r))
    \<and> bp_ctx (tp_base (rr_provider r)) = bp_ctx (tp_base p) \<and> tp_config (rr_provider r) = tp_config p
    \<and> tp_dataSize (rr_provider r) = tp_dataSize p
    \<and> rr_started r \<le> 1 \<and> (rr_err r = None \<longrightarrow> rr_started r = 1 \<and> oa_waited a = None)"
proof (cases "Options p stage")
  case (Inr os)
  obtain wd where wd: "WorkingDir (tp_base p) = Ret wd" using prov_ok_paths(1) [OF assms(1)] by blast
  let ?cmd = "tc_rsyncCmd (tp_config p) # os @ [tc_upstreamURL (tp_config p), wd]"
  have ne: "?cmd \<noteq> []" by simp
  show ?thesis
  proof (cases rule: start_process_cases [OF assms(1) ne, of osEnviron a wd "[]" "1 < stage"])
    case (1 b' m)
    then show ?thesis using assms by (simp add: run_stage_def Inr wd)
  next
    case starts: (2 b' c)
    obtain b'' where "base_Wait (map_option error_text (oa_waited a)) b' = Ret (b'', map_option error_text (oa_waited a))"
      "\<not> bp_isRunning b''" "bp_ctx b'' = bp_ctx b'"
      using base_Wait_open [OF starts(4,5)] by blast
    with starts show ?thesis by (cases "oa_waited a") (simp_all add: run_stage_def Inr wd)
  qed
qed (use assms in \<open>simp add: run_stage_def\<close>)

lemma start_process_unopened:
  assumes "LogFile b = Ret f" "f \<noteq> ''/dev/null''" "oa_opened a = Some m" "command \<noteq> []"
  shows "\<exists>b'. start_process osEnviron a command wd env app b = Ret (b', Some m) \<and> bp_logFileFd b' = bp_logFileFd b"
proof -
  have "LogFile (b\<lparr>bp_cmd := x\<rparr>) = Ret f" for x using assms(1) by (simp add: LogFile_def ctx_path_def)
  then show ?thesis
    using assms(2-4) by (simp add: start_process_def newCmdJob_def prepareLogFile_def Let_def split: prod.split)
qed

lemma run_stage_undeferred:
  assumes "prov_ok (tp_base p)" "\<not> log_deferred a stage p" "run_stage osEnviron a stage p = Ret r"
  shows "bp_logFileFd (tp_base (rr_provider r)) = bp_logFileFd (tp_base p)"
proof (cases "Options p stage")
  case (Inr os)
  obtain wd where wd: "WorkingDir (tp_base p) = Ret wd" using prov_ok_paths(1) [OF assms(1)] by blast
  obtain f where f: "LogFile (tp_base p) = Ret f" using prov_ok_paths(3) [OF assms(1)] by blast
  let ?cmd = "tc_rsyncCmd (tp_config p) # os @ [tc_upstreamURL (tp_config p), wd]"
  obtain m where m: "f \<noteq> ''/dev/null''" "oa_opened a = Some m" using assms(2) by (auto simp: log_deferred_def Inr f)
  have "?cmd \<noteq> []" by simp
  from start_process_unopened [OF f m this, of osEnviron wd "[]" "1 < stage"]
  show ?thesis using assms(3) by (auto simp: run_stage_def Inr wd)
qed (use assms in \<open>auto simp: run_stage_def\<close>)

lemma log_deferred_dataSize [simp]: "log_deferred a stage (p\<lparr>tp_dataSize := n\<rparr>) = log_deferred a stage p"
proof -
  have "Options (p\<lparr>tp_dataSize := n\<rparr>) stage = Options p stage" by (simp add: Options_def)
  then show ?thesis by (cases "Options p stage") (simp_all add: log_deferred_def)
qed

lemma prov_ok_cong: "bp_ctx b = bp_ctx b' \<Longrightarrow> prov_ok b = prov_ok b'"
  by (simp add: prov_ok_def)


definition sample_two_stage :: twoStageRsyncProvider where
  "sample_two_stage =
     \<lparr>tp_base = new_base ''debian'' (1440 * Minute) 2 0 ''/data/debian'' ''/var/log'' ''/var/log/latest.log'',
      tp_config = \<lparr>tc_name = ''debian'', tc_rsyncCmd = ''rsync'', tc_stage1Profile = ''debian'',
        tc_upstreamURL = ''rsync://ftp.debian.org/debian/'', tc_excludeFile = [], tc_extraOptions = None,
        tc_rsyncNeverTimeout = False, tc_rsyncTimeoutValue = 0, tc_workingDir = ''/data/debian'', tc_logDir = ''/var/log'',
        tc_logFile = ''/var/log/latest.log'', tc_useIPv6 = True, tc_useIPv4 = False, tc_interval = 1440 * Minute,
        tc_retry = 2, tc_timeout = 0\<rparr>,
      tp_dataSize = 0\<rparr>"

definition smooth_process :: os_answers where
  "smooth_process = \<lparr>oa_dirMissing = False, oa_opened = None, oa_started = Inr 7, oa_waited = None\<rparr>"


text \<open>The command line of rsync.\<close>

definition rsync_command :: "rsyncProvider \<Rightarrow> string \<Rightarrow> string list" where
  "rsync_command p wd = rc_rsyncCmd (rp_config p) # rp_options p @ [rc_upstreamURL (rp_config p), wd]"

text \<open>
  C17: A run of the rsync provider always returns and leaves the provider idle with its log closed;
  the process, if it starts, is given the options, the upstream and the working directory, and
  the run fails with the error of the process and no size.
\<close>

theorem rsync_run_returns:
  assumes "prov_ok (rp_base p)" "\<not> bp_isRunning (rp_base p)" "WorkingDir (rp_base p) = Ret wd"
  shows "\<exists>r. rsync_Run osEnviron a logSize p = Ret r \<and> \<not> bp_isRunning (rp_base (rr_provider r))
    \<and> bp_logFileFd (rp_base (rr_provider r)) = None \<and> bp_ctx (rp_base (rr_provider r)) = bp_ctx (rp_base p)
    \<and> (if rr_started r = 1
       then (\<exists>c. bp_cmd (rp_base (rr_provider r)) = Some c \<and> cj_args c = rsync_command p wd)
         \<and> rr_err r = map_option error_text (oa_waited a)
       else rr_started r = 0 \<and> rr_err r \<noteq> None)
    \<and> rp_dataSize (rr_provider r) = (if rr_err r = None then logSize else 0)"
proof -
  have ne: "rsync_command p wd \<noteq> []" by (simp add: rsync_command_def)
  show ?thesis
  proof (cases rule: start_process_cases [OF assms(1) ne, of osEnviron a wd "[]" False])
    case (1 b' m)
    then show ?thesis using assms by (simp add: rsync_Run_def rsync_Start_def rsync_command_def Let_def)
  next
    case starts: (2 b' c)
    then show ?thesis
      using assms
      by (cases "oa_waited a")
        (simp_all add: rsync_Run_def rsync_Start_def rsync_command_def base_Wait_def cmdJob_Wait_def closeLogFile_def Let_def)
  qed
qed

definition sample_rsync_config :: rsyncConfig where
  "sample_rsync_config = \<lparr>rc_name = ''arch'', rc_rsyncCmd = [], rc_upstreamURL = ''rsync://mirror.example.org/arch/'',
     rc_excludeFile = [], rc_extraOptions = Some [''--bwlimit=1000''], rc_overriddenOptions = None, rc_rsyncNeverTimeout = False,
     rc_rsyncTimeoutValue = 0, rc_workingDir = ''/data/arch'', rc_logDir = ''/var/log'', rc_logFile = ''/var/log/latest.log'',
     rc_useIPv6 = False, rc_useIPv4 = True, rc_interval = 1440 * Minute, rc_retry = 0, rc_timeout = 0\<rparr>"

theorem rsync_run_returns_witness:
  "\<exists>p r. newRsyncProvider sample_rsync_config = Inr p \<and> rsync_Run [] smooth_process 9 p = Ret r
     \<and> rr_started r \<le> 1 \<and> rp_dataSize (rr_provider r) = (if rr_err r = None then 9 else 0)
     \<and> rsync_command p ''/data/arch'' = ''rsync'' # stage2Options
          @ [''--timeout=120'', ''-4'', ''--bwlimit=1000'', ''rsync://mirror.example.org/arch/'', ''/data/arch'']"
proof -
  obtain p where p: "newRsyncProvider sample_rsync_config = Inr p"
    by (simp add: newRsyncProvider_def sample_rsync_config_def go_simps Let_def)
  then have ok: "prov_ok (rp_base p)" "\<not> bp_isRunning (rp_base p)" "WorkingDir (rp_base p) = Ret ''/data/arch''"
    and cmd: "rsync_command p ''/data/arch'' = ''rsync'' # stage2Options
          @ [''--timeout=120'', ''-4'', ''--bwlimit=1000'', ''rsync://mirror.example.org/arch/'', ''/data/arch'']"
    by (auto simp: newRsyncProvider_def sample_rsync_config_def go_simps Let_def prov_ok_def ctx_ok_def has_path_def
        WorkingDir_def ctx_path_def rsync_command_def timeout_options_def ip_options_def exclude_options_def
        Itoa_def dec_nat.simps digit_def char_of_def bit_0)
  from rsync_run_returns [OF ok, of "[]" smooth_process 9] p cmd show ?thesis by (auto split: if_splits)
qed

end
