(* ===== verification/Manager_Routes.thy ===== *)
theory Manager_Routes
  imports Go_Prelude
begin

text \<open>
  The routes the manager registers (\<open>GetTUNASyncManager\<close> of \<open>manager/server.go\<close>) and the requests a
  worker sends to them (\<open>worker/worker.go\<close>).  How the router matches a path is not modelled: a
  request is compared with the pattern of a route in which \<open>:id\<close> is replaced by the identifier.
\<close>

datatype http_method = GET | HEAD | POST | PATCH | DELETE

datatype handler =
  HPing | HListJob | HMirrorZ | HDeleteJob | HGetJob | HGetJobConfig | HGetJobLatestLog | HCreateJob | HRegisterMirror
| HUpdateJob | HUpdateMirrorSize | HUpdateSchedule | HEnableJob | HDisableJob | HHandleClientCmd
| HListAnnouncement | HCreateAnnouncement | HDeleteAnnouncement | HGetAnnouncement
| HListFile | HUpdateFile | HDeleteFile | HGetFile

text \<open>A route has its group, which takes an identifier or none, and the rest of the path.\<close>

datatype pattern = Plain string | WithID string string

record route =
  rt_method :: http_method
  rt_pattern :: pattern
  rt_handler :: handler

fun fill :: "string \<Rightarrow> pattern \<Rightarrow> string" where
  "fill i (Plain p) = p"
| "fill i (WithID grp rest) = grp @ i @ rest"

definition plain_routes :: "bool \<Rightarrow> route list" where
  "plain_routes mirrorz =
     [\<lparr>rt_method = GET, rt_pattern = Plain ''/ping'', rt_handler = HPing\<rparr>,
      \<lparr>rt_method = GET, rt_pattern = Plain ''/jobs'', rt_handler = HListJob\<rparr>,
      \<lparr>rt_method = GET, rt_pattern = Plain ''/api/mirrors'', rt_handler = HListJob\<rparr>]
     @ (if mirrorz then [\<lparr>rt_method = GET, rt_pattern = Plain ''/api/mirrorz.json'', rt_handler = HMirrorZ\<rparr>] else [])
     @ [\<lparr>rt_method = GET, rt_pattern = Plain ''/announcements'', rt_handler = HListAnnouncement\<rparr>,
        \<lparr>rt_method = GET, rt_pattern = Plain ''/api/news'', rt_handler = HListAnnouncement\<rparr>,
        \<lparr>rt_method = GET, rt_pattern = Plain ''/files'', rt_handler = HListFile\<rparr>,
        \<lparr>rt_method = GET, rt_pattern = Plain ''/api/files'', rt_handler = HListFile\<rparr>]"

definition job_route :: "http_method \<Rightarrow> string \<Rightarrow> handler \<Rightarrow> route" where
  "job_route m rest h = \<lparr>rt_method = m, rt_pattern = WithID ''/job/'' rest, rt_handler = h\<rparr>"

definition job_routes :: "route list" where
  "job_routes =
     [job_route DELETE [] HDeleteJob, job_route GET [] HGetJob, job_route GET ''/config'' HGetJobConfig,
      job_route GET ''/log'' HGetJobLatestLog, job_route POST [] HCreateJob, job_route HEAD [] HRegisterMirror,
      job_route PATCH [] HUpdateJob, job_route POST ''/size'' HUpdateMirrorSize,
      job_route POST ''/schedule'' HUpdateSchedule, job_route POST ''/enable'' HEnableJob,
      job_route POST ''/disable'' HDisableJob, job_route POST ''/cmd'' HHandleClientCmd]"

definition page_routes :: "route list" where
  "page_routes =
     [\<lparr>rt_method = POST, rt_pattern = WithID ''/announcement/'' [], rt_handler = HCreateAnnouncement\<rparr>,
      \<lparr>rt_method = DELETE, rt_pattern = WithID ''/announcement/'' [], rt_handler = HDeleteAnnouncement\<rparr>,
      \<lparr>rt_method = GET, rt_pattern = WithID ''/announcement/'' [], rt_handler = HGetAnnouncement\<rparr>,
      \<lparr>rt_method = POST, rt_pattern = WithID ''/file/'' [], rt_handler = HUpdateFile\<rparr>,
      \<lparr>rt_method = DELETE, rt_pattern = WithID ''/file/'' [], rt_handler = HDeleteFile\<rparr>,
      \<lparr>rt_method = GET, rt_pattern = WithID ''/file/'' [], rt_handler = HGetFile\<rparr>]"

text \<open>All routes; that of the MirrorZ document exists only with such a document.\<close>

definition routes :: "bool \<Rightarrow> route list" where
  "routes mirrorz = plain_routes mirrorz @ job_routes @ page_routes"

section \<open>The requests of a worker\<close>

record request =
  rq_method :: http_method
  rq_url :: string

definition registerWorker_request :: "string \<Rightarrow> string \<Rightarrow> request" where
  "registerWorker_request apiBase name = \<lparr>rq_method = HEAD, rq_url = apiBase @ ''/job/'' @ name\<rparr>"

definition updateStatus_request :: "string \<Rightarrow> string \<Rightarrow> request" where
  "updateStatus_request apiBase name = \<lparr>rq_method = PATCH, rq_url = apiBase @ ''/job/'' @ name\<rparr>"

definition updateSchedInfo_request :: "string \<Rightarrow> string \<Rightarrow> request" where
  "updateSchedInfo_request apiBase name = \<lparr>rq_method = POST, rq_url = apiBase @ ''/job/'' @ name @ ''/schedule''\<rparr>"

definition fetchJobStatus_request :: "string \<Rightarrow> string \<Rightarrow> request" where
  "fetchJobStatus_request apiBase name = \<lparr>rq_method = GET, rq_url = apiBase @ ''/job/'' @ name\<rparr>"

text \<open>The handlers a request to the server at an address is meant for.\<close>

definition handlers_for :: "bool \<Rightarrow> string \<Rightarrow> string \<Rightarrow> request \<Rightarrow> handler list" where
  "handlers_for mirrorz apiBase i rq =
     map rt_handler (filter (\<lambda>r. rt_method r = rq_method rq \<and> apiBase @ fill i (rt_pattern r) = rq_url rq) (routes mirrorz))"

text \<open>Each request of a worker has exactly one handler, the one it is meant for.\<close>

lemma worker_requests_handled:
  "handlers_for mz api n (registerWorker_request api n) = [HRegisterMirror]"
  "handlers_for mz api n (updateStatus_request api n) = [HUpdateJob]"
  "handlers_for mz api n (updateSchedInfo_request api n) = [HUpdateSchedule]"
  "handlers_for mz api n (fetchJobStatus_request api n) = [HGetJob]"
  by (simp_all add: handlers_for_def routes_def plain_routes_def job_routes_def page_routes_def job_route_def
      registerWorker_request_def updateStatus_request_def updateSchedInfo_request_def fetchJobStatus_request_def)

end
