(* ===== verification/Worker_Assembly.thy ===== *)
theory Worker_Assembly
  imports Worker_Halt Worker_Provider Manager_Routes
begin

text \<open>
  Putting a worker together: \<open>NewTUNASyncWorker\<close> and the requests to the manager of
  \<open>worker/worker.go\<close>, the request helpers of \<open>worker/util.go\<close>, and \<open>startWorker\<close> of
  \<open>worker/cmd/main.go\<close>.

  The HTTP client, the JSON codec and the operating system are parameters, collected in a record;
  \<open>'w\<close> is the state of the network.
\<close>

section \<open>Requests to the manager\<close>

text \<open>
  What the packages a request passes through answer: the encoder of a body, the parser of the
  address, the client itself, and the decoder of a job's status, which may have filled part of the
  value when it fails.
\<close>

record response =
  rs_status :: nat
  rs_body :: string
  rs_readErr :: err

record 'w transport =
  tr_encode :: "string option \<Rightarrow> err"
  tr_newRequest :: "request \<Rightarrow> err"
  tr_do :: "request \<Rightarrow> 'w \<Rightarrow> 'w \<times> (string + response)"
  tr_decode :: "string \<Rightarrow> JobStatus \<times> err"

text \<open>
  The body is the kind of message, \<open>None\<close> where there is none.  The status of the answer plays no
  part.
\<close>

definition HandleRequest ::
  "'w transport \<Rightarrow> request \<Rightarrow> string option \<Rightarrow> 'w \<Rightarrow> 'w \<times> (string + response)" where
  "HandleRequest tr rq obj w =
     (case (if obj \<noteq> None then tr_encode tr obj else None) of
        Some e \<Rightarrow> (w, Inl e)
      | None \<Rightarrow>
          (case tr_newRequest tr rq of
             Some e \<Rightarrow> (w, Inl e)
           | None \<Rightarrow> tr_do tr rq w))"

definition GetJSON :: "'w transport \<Rightarrow> request \<Rightarrow> JobStatus \<Rightarrow> 'w \<Rightarrow> 'w \<times> JobStatus \<times> err" where
  "GetJSON tr rq obj w =
     (case tr_do tr rq w of
        (w', Inl e) \<Rightarrow> (w', obj, Some e)
      | (w', Inr resp) \<Rightarrow>
          if rs_status resp \<noteq> 200 then (w', obj, Some ''HTTP status code is not 200'')
          else (case rs_readErr resp of
                  Some e \<Rightarrow> (w', obj, Some e)
                | None \<Rightarrow> (w', tr_decode tr (rs_body resp))))"

definition fetchJobStatus :: "'w transport \<Rightarrow> string \<Rightarrow> string \<Rightarrow> 'w \<Rightarrow> 'w \<times> JobStatus" where
  "fetchJobStatus tr apiBase name w =
     (case GetJSON tr (fetchJobStatus_request apiBase name) zeroJobStatus w of (w', st, _) \<Rightarrow> (w', st))"

text \<open>
  The loop of \<open>registerWorker\<close> with the attempts that are left; the world passes through the
  sleeps between them.
\<close>

fun register_loop ::
  "'w transport \<Rightarrow> ('w \<Rightarrow> 'w) \<Rightarrow> request \<Rightarrow> nat \<Rightarrow> 'w \<Rightarrow> 'w \<times> nat" where
  "register_loop tr sleep rq 0 w = (w, 0)"
| "register_loop tr sleep rq (Suc retry) w =
     (case HandleRequest tr rq None w of
        (w', Inr _) \<Rightarrow> (w', 1)
      | (w', Inl _) \<Rightarrow>
          (case register_loop tr sleep rq retry (if retry > 0 then sleep w' else w') of
             (w'', n) \<Rightarrow> (w'', Suc n)))"

definition registerWorker :: "'w transport \<Rightarrow> ('w \<Rightarrow> 'w) \<Rightarrow> string \<Rightarrow> string \<Rightarrow> 'w \<Rightarrow> 'w \<times> nat" where
  "registerWorker tr sleep apiBase name w = register_loop tr sleep (registerWorker_request apiBase name) 10 w"

section \<open>The log page\<close>

text \<open>The route \<open>/log\<close> of the worker: the status, and the file that is sent.\<close>

definition log_page :: "(string \<Rightarrow> bool) \<Rightarrow> Config \<Rightarrow> nat \<times> string option" where
  "log_page exists cfg =
     (let filePath = filepath_Join [cfg_LogDir cfg, ''latest'']
      in if \<not> exists filePath then (404, None) else (200, Some filePath))"

section \<open>The worker\<close>

record worker =
  wk_cfg :: Config
  wk_provider :: mirrorProvider
  wk_loop :: worker_cfg
  wk_sys :: sys

text \<open>What the loops of the worker read from the provider and the configuration.\<close>

definition loop_cfg :: "Config \<Rightarrow> baseProvider \<Rightarrow> worker_cfg" where
  "loop_cfg cfg b =
     \<lparr>wc_job = \<lparr>jf_name = bp_name b, jf_retry = bp_retry b, jf_timeout = bp_timeout b,
                jf_concurrent = nat (cfg_Concurrent cfg)\<rparr>,
      wc_interval = bp_interval b\<rparr>"

text \<open>Making a channel of negative capacity panics.\<close>

definition NewTUNASyncWorker ::
  "(string \<Rightarrow> string + string list) \<Rightarrow> (string \<Rightarrow> err) \<Rightarrow> (string \<Rightarrow> string + string) \<Rightarrow> Config \<Rightarrow> worker go" where
  "NewTUNASyncWorker shlex compile render cfg0 =
     (let cfg = (if cfg_Retry cfg0 = 0 then cfg0\<lparr>cfg_Retry := defaultMaxRetry\<rparr> else cfg0)
      in if cfg_Concurrent cfg < 0 then Panic ''makechan: size out of range''
         else go_bind (newMirrorProvider shlex compile render cfg) (\<lambda>p.
           Ret \<lparr>wk_cfg = cfg, wk_provider = p, wk_loop = loop_cfg cfg (prov_base p), wk_sys = init_sys\<rparr>))"


text \<open>
  \<open>Worker.Run\<close> up to the loops: the worker registers, and the scheduling loop boots with the status
  it fetches.
\<close>

definition worker_Run :: "'w transport \<Rightarrow> ('w \<Rightarrow> 'w) \<Rightarrow> worker \<Rightarrow> 'w \<Rightarrow> 'w \<times> sys" where
  "worker_Run tr sleep wk w =
     (let cfg = wk_cfg wk;
          w1 = fst (registerWorker tr sleep (cfg_APIBase cfg) (cfg_Name cfg) w);
          (w2, st) = fetchJobStatus tr (cfg_APIBase cfg) (cfg_Name cfg) w1
      in (w2, boot (wk_loop wk) (Status st) (LastUpdate st) (wk_sys wk)))"

section \<open>The command line\<close>

datatype log_level = NOTICE | INFO | DEBUG

definition InitLogger :: "bool \<Rightarrow> bool \<Rightarrow> log_level" where
  "InitLogger verbose debug = (if debug then DEBUG else if verbose then INFO else NOTICE)"

record worker_flags =
  wf_verbose :: bool
  wf_debug :: bool
  wf_profPath :: string

datatype started = Exits int | Runs log_level bool worker

text \<open>\<open>isDir\<close> tells whether the profiling path is a directory; the flag of \<open>Runs\<close> is gin's release mode.\<close>

definition startWorker ::
  "(string \<Rightarrow> string + string list) \<Rightarrow> (string \<Rightarrow> err) \<Rightarrow> (string \<Rightarrow> string + string) \<Rightarrow> (string \<Rightarrow> bool) \<Rightarrow>
     worker_flags \<Rightarrow> environment \<Rightarrow> started go" where
  "startWorker shlex compile render isDir fl e =
     (case LoadConfig e of
        (_, Some _) \<Rightarrow> Ret (Exits 1)
      | (cfg, None) \<Rightarrow>
          let debug = (wf_debug fl \<or> cfg_Debug cfg);
              level = InitLogger (wf_verbose fl \<or> cfg_Verbose cfg) debug
          in go_bind (NewTUNASyncWorker shlex compile render cfg) (\<lambda>wk.
               if wf_profPath fl \<noteq> [] \<and> \<not> isDir (wf_profPath fl) then Ret (Exits 1)
               else Ret (Runs level (\<not> debug) wk)))"

section \<open>What a worker is made of\<close>

lemma acceptable_retry [simp]:
  "acceptable shlex compile render (cfg\<lparr>cfg_Retry := r\<rparr>) = acceptable shlex compile render cfg"
  by (simp add: acceptable_def)

lemma NewTUNASyncWorker_Ret_iff:
  "(\<exists>wk. NewTUNASyncWorker shlex compile render cfg = Ret wk) \<longleftrightarrow>
     0 \<le> cfg_Concurrent cfg \<and> acceptable shlex compile render cfg"
  using newMirrorProvider_Ret_iff [of shlex compile render cfg]
    newMirrorProvider_Ret_iff [of shlex compile render "cfg\<lparr>cfg_Retry := defaultMaxRetry\<rparr>"]
  by (auto simp: NewTUNASyncWorker_def Let_def go_bind_Ret_iff)

lemma NewTUNASyncWorker_loop:
  assumes "NewTUNASyncWorker shlex compile render cfg = Ret wk"
  shows "wk_sys wk = init_sys \<and> wk_loop wk =
    \<lparr>wc_job = \<lparr>jf_name = cfg_Name cfg, jf_retry = (if cfg_Retry cfg = 0 then 2 else cfg_Retry cfg),
               jf_timeout = timeout_of cfg, jf_concurrent = nat (cfg_Concurrent cfg)\<rparr>,
     wc_interval = interval_of cfg\<rparr>"
proof -
  let ?c = "if cfg_Retry cfg = 0 then cfg\<lparr>cfg_Retry := defaultMaxRetry\<rparr> else cfg"
  obtain p where p: "newMirrorProvider shlex compile render ?c = Ret p" "wk_loop wk = loop_cfg ?c (prov_base p)"
      "wk_sys wk = init_sys"
    using assms by (auto simp: NewTUNASyncWorker_def Let_def go_bind_Ret_iff split: if_splits)
  obtain logDir where b: "prov_base p = add_hooks (hooks_of shlex ?c) (fresh_base ?c logDir)"
    using p(1) by (rule newMirrorProvider_base)
  show ?thesis
    by (simp add: p(2,3) b loop_cfg_def fresh_base_def or_default_retry_def defaultMaxRetry_def interval_of_def timeout_of_def)
qed

lemma register_loop_bound: "snd (register_loop tr sleep rq n w) \<le> n"
  by (induction n arbitrary: w) (auto simp: case_prod_beta split: sum.split)

lemma register_loop_positive: "0 < n \<Longrightarrow> 0 < snd (register_loop tr sleep rq n w)"
  by (cases n) (auto split: prod.split sum.split)

text \<open>The request is answered for whatever state of the network the loop meets.\<close>

lemma register_loop_first:
  "HandleRequest tr rq None w = (w', Inr resp) \<Longrightarrow> register_loop tr sleep rq (Suc n) w = (w', 1)"
  by simp

lemma boot_unknown:
  "boot cfg [] lastUpdate init_sys =
     (go_Run init_sys)\<lparr>sy_queue := newSchedule\<lparr>sq_job := Some (), sq_sched := True,
        sq_nextScheduled := lastUpdate + whole_seconds (wc_interval cfg)\<rparr>, sy_sched := SInfo\<rparr>"
  by (simp add: boot_def status_simps schedule_at_def go_Run_def init_sys_def schedule_op_defs newSchedule_def)


lemma LoadConfig_Concurrent:
  "snd (LoadConfig e) = None \<Longrightarrow> cfg_Concurrent (fst (LoadConfig e)) = GetIntEnv e ''CONCURRENT'' 3"
  by (auto simp: LoadConfig_def Let_def split: if_splits)

lemma startWorker_Runs_iff:
  "(\<exists>level rel wk. startWorker shlex compile render isDir fl e = Ret (Runs level rel wk)) \<longleftrightarrow>
     GetStringEnv e ''NAME'' [] \<noteq> [] \<and> GetStringEnv e ''UPSTREAM'' [] \<noteq> []
     \<and> 0 \<le> GetIntEnv e ''CONCURRENT'' 3 \<and> acceptable shlex compile render (fst (LoadConfig e))
     \<and> (wf_profPath fl = [] \<or> isDir (wf_profPath fl))"
proof (cases "LoadConfig e")
  case (Pair cfg er)
  then show ?thesis
    using LoadConfig_ok_iff [of e] LoadConfig_Concurrent [of e] NewTUNASyncWorker_Ret_iff [of shlex compile render cfg]
    by (cases er) (auto simp: startWorker_def Let_def go_bind_Ret_iff)
qed

text \<open>
  C31: When the worker starts: the name and the upstream are set, the number of concurrent
  synchronisations is not negative, the configuration is acceptable to its provider, and the
  profiling path is absent or a directory.  In every other case it exits or panics.
\<close>

theorem startWorker_starts_iff:
  "(\<exists>level rel wk. startWorker shlex compile render isDir fl e = Ret (Runs level rel wk)) \<longleftrightarrow>
     GetStringEnv e ''NAME'' [] \<noteq> [] \<and> GetStringEnv e ''UPSTREAM'' [] \<noteq> []
     \<and> 0 \<le> GetIntEnv e ''CONCURRENT'' 3 \<and> acceptable shlex compile render (fst (LoadConfig e))
     \<and> (wf_profPath fl = [] \<or> isDir (wf_profPath fl))"
  by (rule startWorker_Runs_iff)

text \<open>
  C36: A worker that does not learn the status of its job treats it like a new one: whatever made the
  request fail, it starts the control loop and appoints a synchronisation for a time that is
  \<open>Interval\<close> after the epoch, even if the manager holds the job as disabled or paused.
\<close>

theorem missing_status_starts_job:
  assumes "wk_sys wk = init_sys"
    and "rq = fetchJobStatus_request (cfg_APIBase (wk_cfg wk)) (cfg_Name (wk_cfg wk))"
    and "\<forall>w. case snd (tr_do tr rq w) of Inl _ \<Rightarrow> True | Inr resp \<Rightarrow> rs_status resp \<noteq> 200 \<or> rs_readErr resp \<noteq> None"
    and "worker_Run tr sleep wk w = (w', s)"
  shows "sy_runners s = [new_runner] \<and> sh_state s \<noteq> stateDisabled \<and> sh_state s \<noteq> statePaused
    \<and> sq_sched (sy_queue s) \<and> GetJob (sy_queue s) = whole_seconds (wc_interval (wk_loop wk))"
proof -
  have "snd (fetchJobStatus tr (cfg_APIBase (wk_cfg wk)) (cfg_Name (wk_cfg wk)) v) = zeroJobStatus" for v
    using assms(3) [rule_format, of v]
    by (auto simp: fetchJobStatus_def GetJSON_def assms(2) case_prod_beta split: sum.splits option.splits)
  then have "s = boot (wk_loop wk) [] 0 init_sys"
    using assms(4) unfolding worker_Run_def Let_def case_prod_beta assms(1) by (auto simp: zeroJobStatus_def)
  then show ?thesis
    unfolding boot_unknown by (simp add: go_Run_def init_sys_def GetJob_def newSchedule_def)
qed

text \<open>
  \<open>registerWorker\<close> always returns: it makes at least one request and at most ten, and an answer of
  any status ends it, so the worker goes on whether or not the manager knows it.
\<close>

theorem registerWorker_attempts:
  "1 \<le> snd (registerWorker tr sleep api name w) \<and> snd (registerWorker tr sleep api name w) \<le> 10
   \<and> (\<forall>resp w'. tr_newRequest tr (registerWorker_request api name) = None \<and>
        tr_do tr (registerWorker_request api name) w = (w', Inr resp) \<longrightarrow> registerWorker tr sleep api name w = (w', 1))"
proof -
  let ?rq = "registerWorker_request api name"
  have ten: "registerWorker tr sleep api name w = register_loop tr sleep ?rq (Suc 9) w"
    by (simp add: registerWorker_def)
  have "registerWorker tr sleep api name w = (w', 1)"
    if "tr_newRequest tr ?rq = None" "tr_do tr ?rq w = (w', Inr resp)" for w' resp
    unfolding ten by (rule register_loop_first) (simp add: HandleRequest_def that)
  then show ?thesis
    using register_loop_bound [of tr sleep ?rq "Suc 9" w] register_loop_positive [of "Suc 9" tr sleep ?rq w]
    by (auto simp: ten)
qed


text \<open>A manager that cannot be reached, and one that answers every request with an error page.\<close>

definition dead_transport :: "unit transport" where
  "dead_transport = \<lparr>tr_encode = (\<lambda>_. None), tr_newRequest = (\<lambda>_. None), tr_do = (\<lambda>_ w. (w, Inl ''connection refused'')),
     tr_decode = (\<lambda>_. (zeroJobStatus, None))\<rparr>"

definition failing_transport :: "unit transport" where
  "failing_transport = dead_transport\<lparr>tr_do := (\<lambda>_ w. (w, Inr \<lparr>rs_status = 500, rs_body = [], rs_readErr = None\<rparr>))\<rparr>"

theorem missing_status_starts_job_witness:
  "\<exists>wk s. NewTUNASyncWorker blank_split (\<lambda>_. None) Inr sample_config = Ret wk
     \<and> worker_Run dead_transport id wk () = ((), s) \<and> sy_runners s = [new_runner]
     \<and> GetJob (sy_queue s) = whole_seconds (1440 * Minute)"
proof -
  have "0 \<le> cfg_Concurrent sample_config" "interval_of sample_config = 1440 * Minute"
    by (simp_all add: sample_config_def zeroConfig_def interval_of_def Minute_def Second_def int64_def)
  then obtain wk where wk: "NewTUNASyncWorker blank_split (\<lambda>_. None) Inr sample_config = Ret wk"
    using NewTUNASyncWorker_Ret_iff sample_acceptable by blast
  obtain s where s: "worker_Run dead_transport id wk () = ((), s)" by (cases "worker_Run dead_transport id wk ()") simp
  have "sy_runners s = [new_runner] \<and> sh_state s \<noteq> stateDisabled \<and> sh_state s \<noteq> statePaused
      \<and> sq_sched (sy_queue s) \<and> GetJob (sy_queue s) = whole_seconds (wc_interval (wk_loop wk))"
    by (rule missing_status_starts_job [OF _ refl _ s]) (use NewTUNASyncWorker_loop [OF wk] in \<open>simp_all add: dead_transport_def\<close>)
  with wk s NewTUNASyncWorker_loop [OF wk] \<open>interval_of sample_config = 1440 * Minute\<close> show ?thesis by auto
qed

theorem registerWorker_attempts_witness:
  "registerWorker failing_transport id ''http://manager:3000'' ''debian'' () = ((), 1)
   \<and> snd (registerWorker dead_transport id ''http://manager:3000'' ''debian'' ()) = 10"
proof
  show "registerWorker failing_transport id ''http://manager:3000'' ''debian'' () = ((), 1)"
    using registerWorker_attempts [of failing_transport id "''http://manager:3000''" "''debian''" "()"]
    by (simp add: failing_transport_def dead_transport_def)
  show "snd (registerWorker dead_transport id ''http://manager:3000'' ''debian'' ()) = 10"
    by code_simp
qed

end
