(* ===== verification/Manager_Gin.thy ===== *)
theory Manager_Gin
  imports Api_Types
begin

text \<open>
  What the handlers of the manager (\<open>manager/server.go\<close>) work with: the request context of the
  web framework with the replies written so far, and the clients of the cluster and of the
  workers, which are parameters.

  A handler maps a context to an \<open>outcome\<close>: it returns, or it panics in some context.  The
  framework itself is not part of the sources; \<open>Recovery\<close> says what the manager relies on, that
  a panic ends the request with status 500 and nothing else.
\<close>

named_theorems gin_simps \<open>what the request context records\<close>

section \<open>The request context\<close>

text \<open>The bodies the handlers write: \<open>gin.H\<close> values with one key, and the listed records.\<close>

datatype body =
  Info string | Error string | Text string | NoBody | EmptyObject
| StatusBody JobStatus | ConfigBody MirrorConfig | JobBody Job | MirrorsBody "MirrorStatus list"
| NewsBody AnnouncementInfo | NewsListBody "AnnouncementInfo list"
| FileBody FileListing | FilesBody "FileListing list" | ZBody MirrorZ | ZPackBody "MirrorZ list"

type_synonym reply = "nat \<times> body"

record 'w gin =
  gin_replies :: "reply list"
  gin_errors :: "string list"
  gin_world :: 'w

definition new_request :: "'w \<Rightarrow> 'w gin" where
  "new_request w = \<lparr>gin_replies = [], gin_errors = [], gin_world = w\<rparr>"

datatype 'q outcome = Done 'q | Crashed string 'q

definition c_JSON :: "nat \<Rightarrow> body \<Rightarrow> 'w gin \<Rightarrow> 'w gin" where
  [gin_simps]: "c_JSON code b q = q\<lparr>gin_replies := gin_replies q @ [(code, b)]\<rparr>"

definition c_Error :: "string \<Rightarrow> 'w gin \<Rightarrow> 'w gin" where
  [gin_simps]: "c_Error e q = q\<lparr>gin_errors := gin_errors q @ [e]\<rparr>"

definition c_AbortWithError :: "nat \<Rightarrow> string \<Rightarrow> 'w gin \<Rightarrow> 'w gin" where
  [gin_simps]: "c_AbortWithError code e q = c_Error e (c_JSON code NoBody q)"

text \<open>
  \<open>c.BindJSON\<close> leaves a value behind, which the handlers take as an argument, and on an error
  has already answered with status 400; no handler looks at the error.
\<close>

definition c_BindJSON :: "err \<Rightarrow> 'w gin \<Rightarrow> 'w gin" where
  [gin_simps]: "c_BindJSON e q = (case e of None \<Rightarrow> q | Some m \<Rightarrow> c_AbortWithError 400 m q)"

definition returnErrJSON :: "nat \<Rightarrow> string \<Rightarrow> 'w gin \<Rightarrow> 'w gin" where
  [gin_simps]: "returnErrJSON code e q = c_JSON code (Error e) q"

text \<open>The three lines with which most handlers report an error.\<close>

definition fail_with :: "string \<Rightarrow> 'w gin \<Rightarrow> 'w gin" where
  [gin_simps]: "fail_with e q = returnErrJSON 500 e (c_Error e q)"

text \<open>Following a pointer.\<close>

definition deref :: "'a option \<Rightarrow> 'w gin \<Rightarrow> ('a \<Rightarrow> 'w gin outcome) \<Rightarrow> 'w gin outcome" where
  "deref p q k =
     (case p of None \<Rightarrow> Crashed ''nil pointer dereference'' q | Some a \<Rightarrow> k a)"

lemma deref_simps [simp]:
  "deref None q k = Crashed ''nil pointer dereference'' q" "deref (Some a) q k = k a"
  by (simp_all add: deref_def)

text \<open>The first reply decides the status; a handler that writes none answers 200.\<close>

definition response_code :: "'w gin \<Rightarrow> nat" where
  "response_code q = (case gin_replies q of [] \<Rightarrow> 200 | r # _ \<Rightarrow> fst r)"

definition Recovery :: "'w gin outcome \<Rightarrow> 'w gin" where
  "Recovery out = (case out of Done q \<Rightarrow> q | Crashed m q \<Rightarrow> c_JSON 500 NoBody q)"

lemma gin_frames [simp]:
  "gin_world (c_JSON code b q) = gin_world q" "gin_world (c_Error e q) = gin_world q"
  "gin_world (c_AbortWithError code e q) = gin_world q" "gin_world (c_BindJSON be q) = gin_world q"
  "gin_world (returnErrJSON code e q) = gin_world q" "gin_world (fail_with e q) = gin_world q"
  "gin_replies (c_JSON code b q) = gin_replies q @ [(code, b)]" "gin_replies (c_Error e q) = gin_replies q"
  "gin_replies (fail_with e q) = gin_replies q @ [(500, Error e)]"
  "gin_replies (returnErrJSON code e q) = gin_replies q @ [(code, Error e)]"
  by (simp_all add: gin_simps split: option.split)

lemma new_request_simps [simp]:
  "gin_world (new_request w) = w" "gin_replies (new_request w) = []" "gin_errors (new_request w) = []"
  by (simp_all add: new_request_def)

section \<open>The cluster and the network\<close>

text \<open>
  The cached client of the cluster, for objects of type \<open>'o\<close>.  A status update also refreshes
  the object it is given; a listing that fails leaves the items it had.
\<close>

record ('w, 'o) client =
  cl_Get :: "string \<Rightarrow> 'w \<Rightarrow> string + 'o"
  cl_List :: "'w \<Rightarrow> 'o list \<times> err"
  cl_Patch :: "'o \<Rightarrow> 'w \<Rightarrow> err \<times> 'w"
  cl_Status_Update :: "'o \<Rightarrow> 'w \<Rightarrow> err \<times> 'o \<times> 'w"
  cl_Delete :: "'o \<Rightarrow> 'w \<Rightarrow> err \<times> 'w"

text \<open>An answer to an HTTP request: the status, the text read of the body and the error of reading it.\<close>

record http_response =
  hr_StatusCode :: nat
  hr_Body :: string
  hr_ReadErr :: err

record 'w env =
  env_jobs :: "('w, Job) client"
  env_news :: "('w, AnnouncementRes) client"
  env_files :: "('w, FileRes) client"
  env_http_Get :: "string \<Rightarrow> 'w \<Rightarrow> string + http_response"
  env_http_Post :: "string \<Rightarrow> ClientCmd \<Rightarrow> 'w \<Rightarrow> (string + http_response) \<times> 'w"

text \<open>
  A cluster for concrete runs: the list of its objects, where a status update only reaches an
  existing object and a patch keeps the status of the object it replaces.
\<close>

definition store_client ::
  "('o \<Rightarrow> string) \<Rightarrow> ('o \<Rightarrow> 'o \<Rightarrow> 'o) \<Rightarrow> ('o \<Rightarrow> 'o \<Rightarrow> 'o) \<Rightarrow> ('o list, 'o) client" where
  "store_client nm with_status with_spec =
     (let has = (\<lambda>ob w. list_ex (\<lambda>x. nm x = nm ob) w);
          change = (\<lambda>f ob w. map (\<lambda>x. if nm x = nm ob then f ob x else x) w)
      in \<lparr>cl_Get = (\<lambda>n w. case find (\<lambda>x. nm x = n) w of None \<Rightarrow> Inl ''not found'' | Some x \<Rightarrow> Inr x),
          cl_List = (\<lambda>w. (w, None)),
          cl_Patch = (\<lambda>ob w. (None, if has ob w then change with_spec ob w else w @ [ob])),
          cl_Status_Update = (\<lambda>ob w. if has ob w then (None, ob, change with_status ob w)
                                         else (Some ''not found'', ob, w)),
          cl_Delete = (\<lambda>ob w. if has ob w then (None, filter (\<lambda>x. nm x \<noteq> nm ob) w)
                                  else (Some ''not found'', w))\<rparr>)"

text \<open>A cluster without objects of some type.\<close>

definition no_client :: "('w, 'o) client" where
  "no_client = \<lparr>cl_Get = (\<lambda>n w. Inl ''not found''), cl_List = (\<lambda>w. ([], None)),
     cl_Patch = (\<lambda>ob w. (Some ''not found'', w)), cl_Status_Update = (\<lambda>ob w. (Some ''not found'', ob, w)),
     cl_Delete = (\<lambda>ob w. (Some ''not found'', w))\<rparr>"

lemma store_client_get:
  "cl_Get (store_client nm st sp) n w = Inr x \<longleftrightarrow> find (\<lambda>x. nm x = n) w = Some x"
  by (simp add: store_client_def Let_def split: option.split)

lemma find_map_update:
  assumes "find (\<lambda>x. nm x = n) (map (\<lambda>x. if nm x = k then f x else x) w) = Some y" "\<And>x. nm (f x) = nm x"
  shows "find (\<lambda>x. nm x = n) w = Some y \<or> (\<exists>x. find (\<lambda>x. nm x = n) w = Some x \<and> y = f x)"
  using assms(1) by (induction w) (auto simp: assms(2) split: if_splits)

lemma find_filter_other:
  "find (\<lambda>x. nm x = n) (filter (\<lambda>x. nm x \<noteq> k) w) = Some y \<Longrightarrow> find (\<lambda>x. nm x = n) w = Some y"
proof (cases "k = n")
  case True
  then have "find (\<lambda>x. nm x = n) (filter (\<lambda>x. nm x \<noteq> k) w) = None" by (simp add: find_None_iff)
  moreover assume "find (\<lambda>x. nm x = n) (filter (\<lambda>x. nm x \<noteq> k) w) = Some y"
  ultimately show ?thesis by simp
next
  case False
  then show "find (\<lambda>x. nm x = n) (filter (\<lambda>x. nm x \<noteq> k) w) = Some y \<Longrightarrow> ?thesis"
    by (induction w) (auto split: if_splits)
qed

text \<open>Such a cluster is read as the manager relies on.\<close>

lemma store_client_status:
  assumes "cl_Get (store_client nm st sp) n (snd (snd (cl_Status_Update (store_client nm st sp) ob w))) = Inr y"
    and "\<And>a b. nm (st a b) = nm b"
  shows "cl_Get (store_client nm st sp) n w = Inr y \<or> (\<exists>x. y = st ob x)"
  using assms(1) find_map_update [of nm n "nm ob" "st ob" w y] assms(2)
  unfolding store_client_get by (auto simp: store_client_def Let_def split: if_splits)

lemma store_client_delete:
  assumes "cl_Get (store_client nm st sp) n (snd (cl_Delete (store_client nm st sp) ob w)) = Inr y"
  shows "cl_Get (store_client nm st sp) n w = Inr y"
  using assms find_filter_other [of nm n "nm ob" w y]
  unfolding store_client_get by (auto simp: store_client_def Let_def split: if_splits)


lemma store_client_patch:
  assumes "cl_Get (store_client nm st sp) n (snd (cl_Patch (store_client nm st sp) ob w)) = Inr y"
    and "\<And>a b. nm (sp a b) = nm b"
  shows "cl_Get (store_client nm st sp) n w = Inr y \<or> (\<exists>x. cl_Get (store_client nm st sp) n w = Inr x \<and> y = sp ob x) \<or> y = ob"
proof (cases "list_ex (\<lambda>x. nm x = nm ob) w")
  case True
  with assms(1) find_map_update [of nm n "nm ob" "sp ob" w y] assms(2) show ?thesis
    unfolding store_client_get by (auto simp: store_client_def Let_def)
next
  case False
  have "find (\<lambda>x. nm x = n) (w @ [ob]) = Some y \<Longrightarrow> find (\<lambda>x. nm x = n) w = Some y \<or> y = ob"
    by (induction w) (auto split: if_splits)
  with False assms(1) show ?thesis unfolding store_client_get by (auto simp: store_client_def Let_def)
qed

end
