(* ===== verification/File_Recognizer.thy ===== *)
theory File_Recognizer
  imports Api_Types
begin

text \<open>
  Recognising image files by their names, \<open>internal/recognizer.go\<close>: one definition per family
  of names, the dispatch over their prefixes, and the display name.

  An index that the surrounding test of the length keeps in range is written with \<open>!\<close>; any other
  is \<open>idx\<close>, which panics out of range as Go does.
\<close>

section \<open>The display name\<close>

definition combine :: "string list \<Rightarrow> string \<Rightarrow> string" where
  "combine s e = TrimSuffix (fold (\<lambda>v r. if v \<noteq> [] then r @ v @ e else r) s []) e"

definition display_name :: "FileInfo \<Rightarrow> FileInfo" where
  "display_name f =
     (let part = (if 0 < fi_Part f then ''Part '' @ Itoa (fi_Part f) else []) in
      if fi_MajorVersion f \<noteq> [] \<or> fi_Version f \<noteq> []
      then let name = combine [fi_MajorVersion f, fi_Version f] '' '' @ '' ('' @
                        combine [fi_Arch f, fi_Edition f, fi_EditionType f, part] '', '' @ '')''
           in f\<lparr>fi_Name := if HasSuffix name ''()'' then TrimSuffix name '' ()'' else name\<rparr>
      else f)"

section \<open>The families of names\<close>

definition slice_from :: "'a list \<Rightarrow> nat \<Rightarrow> 'a list go" where
  "slice_from xs i = (if i \<le> length xs then Ret (drop i xs) else Panic ''slice bounds out of range'')"

definition dash :: "string \<Rightarrow> string \<Rightarrow> string" where
  "dash a b = a @ ''-'' @ b"

definition rec_centos :: "string \<Rightarrow> FileInfo \<Rightarrow> FileInfo go" where
  "rec_centos name0 f =
     (let name1 = TrimPrefix name0 ''CentOS-''; stream = HasPrefix name1 ''Stream-'';
          name = (if stream then TrimPrefix name1 ''Stream-'' else name1);
          n = Split name (CHR ''-''); f = f\<lparr>fi_MajorVersion := n ! 0\<rparr>
      in Ret (if length n > 3
              then if fi_MajorVersion f = ''6'' \<or> fi_MajorVersion f = ''7''
                   then f\<lparr>fi_Arch := n ! 1, fi_Edition := n ! 2, fi_Version := Join (drop 3 n) ''-''\<rparr>
                   else f\<lparr>fi_Version := if stream then dash ''Stream'' (n ! 1) else n ! 1,
                          fi_Arch := n ! 2, fi_Edition := n ! 3\<rparr>
              else f))"

definition rec_debian :: "string \<Rightarrow> FileInfo \<Rightarrow> FileInfo go" where
  "rec_debian name f =
     (let n = Split (TrimPrefix name ''debian-'') (CHR ''-'') in
      if length n < 3 then Ret f
      else go_bind (idx (n ! 0) 0) (\<lambda>c.
        let named = (of_char c < (48::nat) \<or> 57 < (of_char c :: nat));
            start = (if named then 1 else 0);
            f = (if named then f\<lparr>fi_Edition := n ! 0\<rparr> else f);
            f = f\<lparr>fi_Version := n ! start, fi_Arch := n ! (start + 1)\<rparr>
        in Ret (if length n < start + 3 then f
                else let f = f\<lparr>fi_EditionType := n ! (start + 2)\<rparr>;
                         f = (if fi_Edition f = ''live''
                              then f\<lparr>fi_Edition := fi_EditionType f, fi_EditionType := fi_Edition f\<rparr> else f);
                         f = (if fi_Arch f = ''source'' then f\<lparr>fi_Edition := fi_Arch f, fi_Arch := []\<rparr> else f)
                     in if length n = start + 4 then f\<lparr>fi_Part := fst (Atoi (n ! (start + 3)))\<rparr> else f)))"

text \<open>The flavours of Ubuntu, whose own name takes one part of the file name or two.\<close>

definition rec_flavour :: "nat \<Rightarrow> string \<Rightarrow> FileInfo \<Rightarrow> FileInfo go" where
  "rec_flavour parts name f =
     (let n = Split name (CHR ''-'') in
      if length n < parts + 3 then Ret f
      else let f = f\<lparr>fi_MajorVersion := if parts = 1 then n ! 0 else dash (n ! 0) (n ! 1),
                     fi_Version := n ! parts, fi_Edition := n ! (parts + 1)\<rparr>;
               beta = (fi_Edition f = ''beta''); start = (if beta then parts + 3 else parts + 2);
               f = (if beta then f\<lparr>fi_Version := dash (n ! parts) (n ! (parts + 1)),
                                   fi_Edition := n ! (parts + 2)\<rparr> else f)
           in Ret (if start + 1 \<le> length n then f\<lparr>fi_Arch := n ! start\<rparr> else f))"

definition rec_ubuntu :: "string \<Rightarrow> FileInfo \<Rightarrow> FileInfo go" where
  "rec_ubuntu name f =
     (let n = Split (TrimPrefix name ''ubuntu-'') (CHR ''-'') in
      if length n < 3 then Ret f
      else let beta = (n ! 1 = ''beta''); start1 = (if beta then 2 else 1);
               f = f\<lparr>fi_Version := if beta then dash (n ! 0) ''beta'' else n ! 0\<rparr>;
               start = (if n ! start1 = ''live'' then start1 + 1 else start1)
           in go_bind (idx n start) (\<lambda>here.
                if here = ''src'' then
                  go_bind (idx n (start + 1)) (\<lambda>p.
                    Ret (f\<lparr>fi_Edition := ''src'', fi_Part := fst (Atoi p)\<rparr>))
                else if length n < start + 2 then Ret f
                else let legacy = (here = ''legacy'');
                         edition = (if legacy then dash here (n ! (start + 1)) else here);
                         start' = (if legacy then start + 1 else start)
                     in go_bind (idx n (start' + 1)) (\<lambda>arch.
                          go_bind (if arch = ''legacy''
                                   then go_bind (idx n (start' + 2)) (\<lambda>a. Ret (dash edition ''legacy'', a))
                                   else Ret (edition, arch)) (\<lambda>(edition, arch).
                            Ret (f\<lparr>fi_Edition := edition,
                                   fi_Arch := if HasSuffix arch ''+intel'' then dash arch ''iot'' else arch\<rparr>)))))"

definition rec_fedora :: "string \<Rightarrow> FileInfo \<Rightarrow> FileInfo go" where
  "rec_fedora name f =
     (let n = Split (TrimPrefix name ''Fedora-'') (CHR ''-'') in
      Ret (if 5 \<le> length n
           then f\<lparr>fi_Edition := n ! 0, fi_EditionType := n ! 1, fi_Arch := n ! 2,
                  fi_MajorVersion := n ! 3, fi_Version := n ! 4\<rparr>
           else f))"

definition rec_deepin :: "string \<Rightarrow> FileInfo \<Rightarrow> FileInfo go" where
  "rec_deepin name f =
     (let n = Split (TrimPrefix name ''deepin-'') (CHR ''-'') in
      Ret (if 4 \<le> length n
           then f\<lparr>fi_Edition := n ! 0, fi_EditionType := n ! 1,
                  fi_Version := Join (drop 2 (butlast n)) ''-'', fi_Arch := last n\<rparr>
           else f))"

definition rec_kali :: "string \<Rightarrow> FileInfo \<Rightarrow> FileInfo go" where
  "rec_kali name f =
     (let n = Split (TrimPrefix name ''kali-linux-'') (CHR ''-''); f = f\<lparr>fi_Version := n ! 0\<rparr> in
      if length n < 3 then Ret f
      else go_bind (idx (n ! 1) 0) (\<lambda>c.
        let weekly = (c = CHR ''W''); start = (if weekly then 2 else 1);
            f = (if weekly then f\<lparr>fi_Version := dash (n ! 0) (n ! 1)\<rparr> else f)
        in Ret (if length n = start + 2
                then f\<lparr>fi_Edition := if n ! start = ''installer'' then [] else n ! start, fi_Arch := n ! (start + 1)\<rparr>
                else if length n = start + 3
                then f\<lparr>fi_Edition := n ! (start + 1), fi_Arch := n ! (start + 2)\<rparr>
                else f)))"

definition rec_leap :: "string list \<Rightarrow> FileInfo \<Rightarrow> FileInfo go" where
  "rec_leap n f =
     (if length n < 3 then Ret f
      else let f = f\<lparr>fi_Version := n ! 1, fi_EditionType := n ! 2\<rparr>;
               numbered = (n ! 2 \<noteq> ''Rescue'' \<and> n ! 2 \<noteq> ''CR'' \<and> snd (Atoi (n ! 2)));
               f = (if numbered then f\<lparr>fi_Version := dash (n ! 1) (n ! 2)\<rparr> else f)
           in go_bind (if n ! 2 = ''CR'' \<or> numbered
                       then go_bind (idx n 3) (\<lambda>e. Ret (f\<lparr>fi_EditionType := e\<rparr>, 4))
                       else Ret (f, if n ! 2 = ''Rescue'' then 4 else 3)) (\<lambda>(f, start).
                if length n < start + 1 then Ret f
                else go_bind (idx n (if n ! start = ''Live'' then start + 1 else start)) (\<lambda>a.
                       Ret (f\<lparr>fi_Arch := a\<rparr>))))"

definition rec_tumbleweed :: "string list \<Rightarrow> FileInfo \<Rightarrow> FileInfo go" where
  "rec_tumbleweed n f =
     (if length n < 2 then Ret f
      else go_bind (if n ! 1 = ''Rescue''
                    then go_bind (idx n 2) (\<lambda>e. Ret (f\<lparr>fi_EditionType := dash (n ! 1) e\<rparr>, 3))
                    else Ret (f\<lparr>fi_EditionType := n ! 1\<rparr>, 2)) (\<lambda>(f, start).
             let start = (if start < length n \<and> n ! start = ''Live'' then start + 1 else start) in
             if HasPrefix (fi_EditionType f) ''Yomi''
             then let et = Split (fi_EditionType f) (CHR ''.'') in
                  Ret (if length et = 2 then f\<lparr>fi_Arch := et ! 1, fi_EditionType := et ! 0\<rparr> else f)
             else go_bind (idx n start) (\<lambda>a. Ret (f\<lparr>fi_Arch := a\<rparr>))))"

definition rec_opensuse :: "string \<Rightarrow> FileInfo \<Rightarrow> FileInfo go" where
  "rec_opensuse name f =
     (if \<not> Contains name ''Micro'' \<and> HasSuffix name ''-Current''
      then let n = Split (TrimPrefix name ''openSUSE-'') (CHR ''-''); f = f\<lparr>fi_MajorVersion := n ! 0\<rparr> in
           if n ! 0 = ''Leap'' then rec_leap n f
           else if n ! 0 = ''Tumbleweed'' then rec_tumbleweed n f
           else if n ! 0 = ''Kubic''
           then Ret (if 3 \<le> length n then f\<lparr>fi_EditionType := n ! 1, fi_Arch := n ! 2\<rparr> else f)
           else Ret f
      else Ret f)"

definition rec_arch :: "string \<Rightarrow> FileInfo \<Rightarrow> FileInfo go" where
  "rec_arch name f =
     (let n = Split (TrimPrefix name ''archlinux-'') (CHR ''-'') in
      Ret (if 1 < length n then f\<lparr>fi_Version := n ! 0, fi_Arch := n ! 1\<rparr> else f))"

definition rec_alpine :: "string \<Rightarrow> FileInfo \<Rightarrow> FileInfo go" where
  "rec_alpine name f =
     (let n = Split (TrimPrefix name ''alpine-'') (CHR ''-'') in
      Ret (if length n = 2 then f\<lparr>fi_Version := n ! 0, fi_Arch := n ! 1\<rparr>
           else if length n = 3 then f\<lparr>fi_Edition := n ! 0, fi_Version := n ! 1, fi_Arch := n ! 2\<rparr>
           else f))"

definition rec_proxmox :: "string \<Rightarrow> FileInfo \<Rightarrow> FileInfo go" where
  "rec_proxmox name f =
     (let n = Split name (CHR ''_'') in
      Ret (if length n = 2 then f\<lparr>fi_MajorVersion := n ! 0, fi_Version := n ! 1\<rparr> else f))"

definition rec_alma :: "string \<Rightarrow> FileInfo \<Rightarrow> FileInfo go" where
  "rec_alma name f =
     (let n = Split (TrimPrefix name ''AlmaLinux-'') (CHR ''-''); f = f\<lparr>fi_Version := n ! 0\<rparr> in
      if length n < 3 then Ret f
      else let start = (if n ! 1 = ''latest'' then 2 else 1); f = f\<lparr>fi_Arch := n ! start\<rparr> in
           go_bind (idx n (start + 1)) (\<lambda>e.
             let f = f\<lparr>fi_EditionType := e\<rparr> in
             if e = ''Live''
             then go_bind (slice_from n (start + 2)) (\<lambda>rest. Ret (f\<lparr>fi_Edition := Join rest ''-''\<rparr>))
             else Ret f))"

definition rec_texlive :: "string \<Rightarrow> FileInfo \<Rightarrow> FileInfo go" where
  "rec_texlive name f =
     (let n = Split (TrimPrefix name ''texlive'') (CHR ''-'') in
      Ret (if 1 < length n then f\<lparr>fi_Version := n ! 1\<rparr> else f))"

section \<open>The dispatch\<close>

text \<open>The cases of the \<open>switch\<close> in their order: the first prefix that matches decides.\<close>

definition families :: "(string list \<times> (string \<Rightarrow> FileInfo \<Rightarrow> FileInfo go)) list" where
  "families =
     [([''CentOS-''], rec_centos),
      ([''debian-''], rec_debian),
      ([''edubuntu-'', ''kubuntu-'', ''lubuntu-'', ''mythbuntu-'', ''ubuntucinnamon-'', ''ubuntukylin-'',
        ''ubuntustudio-'', ''xubuntu-''], rec_flavour 1),
      ([''ubuntu-budgie-'', ''ubuntu-gnome-'', ''ubuntu-mate-'', ''ubuntu-unity-''], rec_flavour 2),
      ([''ubuntu-''], rec_ubuntu),
      ([''Fedora-''], rec_fedora),
      ([''deepin-''], rec_deepin),
      ([''kali-linux-''], rec_kali),
      ([''openSUSE-''], rec_opensuse),
      ([''archlinux-''], rec_arch),
      ([''alpine-''], rec_alpine),
      ([''proxmox-''], rec_proxmox),
      ([''AlmaLinux-''], rec_alma),
      ([''texlive''], rec_texlive)]"

fun dispatch ::
  "(string list \<times> (string \<Rightarrow> FileInfo \<Rightarrow> FileInfo go)) list \<Rightarrow> string \<Rightarrow> FileInfo \<Rightarrow> FileInfo go" where
  "dispatch [] name f = Ret f"
| "dispatch ((ps, act) # rest) name f =
     (if list_ex (HasPrefix name) ps then act name f else dispatch rest name f)"

definition Recognizer :: "string \<Rightarrow> FileInfo go" where
  "Recognizer filepath =
     (let ext = path_Ext filepath; name = TrimSuffix (path_Base filepath) ext
      in go_bind (dispatch families name (zeroFileInfo\<lparr>fi_Path := filepath, fi_Ext := ext\<rparr>)) (\<lambda>f.
           Ret (display_name f)))"

section \<open>What is recognised\<close>

lemma TrimSuffix_Nil [simp]: "TrimSuffix s [] = s" "TrimSuffix [] e = []"
  by (simp_all add: go_simps)

lemma fold_combine:
  "fold (\<lambda>v r. if v \<noteq> [] then r @ v @ e else r) s r
     = r @ concat (map (\<lambda>v. v @ e) (filter (\<lambda>v. v \<noteq> []) s))"
  by (induction s arbitrary: r) auto

lemma concat_Join: "ws \<noteq> [] \<Longrightarrow> concat (map (\<lambda>v. v @ e) ws) = Join ws e @ e"
  by (induction ws rule: induct_list012) auto

lemma combine_Join: "combine s e = Join (filter (\<lambda>v. v \<noteq> []) s) e"
proof (cases "filter (\<lambda>v. v \<noteq> []) s = []")
  case False
  then show ?thesis by (simp add: combine_def fold_combine concat_Join)
qed (simp add: combine_def fold_combine)

text \<open>What every family leaves alone.\<close>

definition file_frame :: "FileInfo \<Rightarrow> string \<times> string \<times> uint64 \<times> string \<times> string" where
  "file_frame f = (fi_Path f, fi_Ext f, fi_Size f, fi_SizeStr f, fi_Name f)"

lemma file_frame_updates [simp]:
  "file_frame (f\<lparr>fi_MajorVersion := v\<rparr>) = file_frame f" "file_frame (f\<lparr>fi_Version := v\<rparr>) = file_frame f"
  "file_frame (f\<lparr>fi_Arch := v\<rparr>) = file_frame f" "file_frame (f\<lparr>fi_Edition := v\<rparr>) = file_frame f"
  "file_frame (f\<lparr>fi_EditionType := v\<rparr>) = file_frame f" "file_frame (f\<lparr>fi_Part := i\<rparr>) = file_frame f"
  "file_frame (if b then f else g) = (if b then file_frame f else file_frame g)"
  by (simp_all add: file_frame_def)

text \<open>A family result: a panic, or a record with the same frame.\<close>

definition framed :: "FileInfo \<Rightarrow> FileInfo go \<Rightarrow> bool" where
  "framed f r = (case r of Ret g \<Rightarrow> file_frame g = file_frame f | Panic m \<Rightarrow> True)"

lemma framed_Ret: "file_frame g = file_frame f \<Longrightarrow> framed f (Ret g)"
  by (simp add: framed_def)

lemma framed_if: "(b \<Longrightarrow> framed f x) \<Longrightarrow> (\<not> b \<Longrightarrow> framed f y) \<Longrightarrow> framed f (if b then x else y)"
  by simp

lemma framed_bind: "(\<And>a. framed f (k a)) \<Longrightarrow> framed f (go_bind x k)"
  by (cases x) (simp_all add: framed_def)

definition framed_at :: "FileInfo \<Rightarrow> (FileInfo \<times> nat) go \<Rightarrow> bool" where
  "framed_at f r = (case r of Ret g \<Rightarrow> file_frame (fst g) = file_frame f | Panic m \<Rightarrow> True)"

lemma framed_at_Ret: "file_frame g = file_frame f \<Longrightarrow> framed_at f (Ret (g, i))"
  by (simp add: framed_at_def)

lemma framed_at_if:
  "(b \<Longrightarrow> framed_at f x) \<Longrightarrow> (\<not> b \<Longrightarrow> framed_at f y) \<Longrightarrow> framed_at f (if b then x else y)"
  by simp

lemma framed_at_bind: "(\<And>a. framed_at f (k a)) \<Longrightarrow> framed_at f (go_bind x k)"
  by (cases x) (simp_all add: framed_at_def)

lemma framed_bind_at:
  assumes "framed_at f x" and "\<And>g i. file_frame g = file_frame f \<Longrightarrow> framed f (k g i)"
  shows "framed f (go_bind x (\<lambda>(g, i). k g i))"
  using assms by (cases x) (auto simp: framed_at_def framed_def split: prod.split)

lemma framed_split: "(\<And>a b. framed f (k a b)) \<Longrightarrow> framed f (case p of (a, b) \<Rightarrow> k a b)"
  by (simp split: prod.split)

lemma framed_cong: "framed g r \<Longrightarrow> file_frame g = file_frame f \<Longrightarrow> framed f r"
  by (cases r) (simp_all add: framed_def)

lemmas framed_rules = framed_Ret framed_if framed_bind framed_split

lemmas framed_at_rules = framed_at_Ret framed_at_if framed_at_bind

lemma rec_leap_framed: "framed f (rec_leap n f)"
  unfolding rec_leap_def Let_def
  by (intro framed_Ret framed_if framed_bind_at framed_at_rules;
      (simp only: file_frame_updates if_cancel)?; intro framed_rules; simp only: file_frame_updates)

lemma rec_tumbleweed_framed: "framed f (rec_tumbleweed n f)"
  unfolding rec_tumbleweed_def Let_def
  by (intro framed_Ret framed_if framed_bind_at framed_at_rules;
      (simp only: file_frame_updates if_cancel)?; intro framed_rules; simp only: file_frame_updates if_cancel)

lemma rec_ubuntu_framed: "framed f (rec_ubuntu name f)"
  unfolding rec_ubuntu_def Let_def by (intro framed_rules; simp only: file_frame_updates if_cancel)

lemma rec_debian_framed: "framed f (rec_debian name f)"
  unfolding rec_debian_def Let_def by (intro framed_rules; simp only: file_frame_updates if_cancel)

lemma rec_kali_framed: "framed f (rec_kali name f)"
  unfolding rec_kali_def Let_def by (intro framed_rules; simp only: file_frame_updates if_cancel)

lemma rec_alma_framed: "framed f (rec_alma name f)"
  unfolding rec_alma_def Let_def by (intro framed_rules; simp only: file_frame_updates if_cancel)

lemma rec_opensuse_framed: "framed f (rec_opensuse name f)"
  unfolding rec_opensuse_def Let_def
  by (intro framed_if framed_Ret framed_cong [OF rec_leap_framed] framed_cong [OF rec_tumbleweed_framed];
      simp only: file_frame_updates if_cancel)

lemma rec_plain_framed:
  "framed f (rec_centos name f)" "framed f (rec_flavour p name f)" "framed f (rec_fedora name f)"
  "framed f (rec_deepin name f)" "framed f (rec_arch name f)" "framed f (rec_alpine name f)"
  "framed f (rec_proxmox name f)" "framed f (rec_texlive name f)"
  unfolding rec_centos_def rec_flavour_def rec_fedora_def rec_deepin_def rec_arch_def rec_alpine_def
    rec_proxmox_def rec_texlive_def Let_def
  by (intro framed_rules; simp only: file_frame_updates if_cancel)+

lemmas families_framed = rec_plain_framed rec_opensuse_framed rec_alma_framed rec_kali_framed
  rec_debian_framed rec_ubuntu_framed

lemma dispatch_framed: "framed f (dispatch families name f)"
  by (simp add: families_def families_framed framed_Ret)

lemma Recognizer_keeps_path: "Recognizer p = Ret f \<Longrightarrow> fi_Path f = p"
  using dispatch_framed [of "zeroFileInfo\<lparr>fi_Path := p, fi_Ext := path_Ext p\<rparr>" "TrimSuffix (path_Base p) (path_Ext p)"]
  by (auto simp: Recognizer_def Let_def go_bind_Ret_iff framed_def file_frame_def display_name_def)

text \<open>
  A recognised file keeps its path and extension, its size is left to the caller, and it has a
  name exactly when a version was found in it: the caller lists no other file.
\<close>

lemma Recognizer_frame:
  assumes "Recognizer p = Ret f"
  shows "fi_Path f = p \<and> fi_Ext f = path_Ext p \<and> fi_Size f = 0
    \<and> (fi_Name f \<noteq> [] \<longleftrightarrow> fi_MajorVersion f \<noteq> [] \<or> fi_Version f \<noteq> [])"
proof -
  let ?f0 = "zeroFileInfo\<lparr>fi_Path := p, fi_Ext := path_Ext p\<rparr>"
  obtain g where g: "dispatch families (TrimSuffix (path_Base p) (path_Ext p)) ?f0 = Ret g" "f = display_name g"
    using assms by (auto simp: Recognizer_def Let_def go_bind_Ret_iff)
  have "file_frame g = file_frame ?f0"
    using dispatch_framed [of ?f0 "TrimSuffix (path_Base p) (path_Ext p)"] by (simp add: g(1) framed_def)
  moreover have "Join (filter (\<lambda>v. v \<noteq> []) [a, b]) '' '' \<noteq> []" if "a \<noteq> [] \<or> b \<noteq> []" for a b
    using that by auto
  ultimately show ?thesis
    using g(2) by (auto simp: display_name_def file_frame_def zeroFileInfo_def Let_def combine_Join go_simps)
qed

lemma Recognizer_frame_witness:
  "(\<exists>f. Recognizer ''/iso/debian-12.5.0-amd64-DVD-1.iso'' = Ret f
      \<and> fi_Name f = ''12.5.0 (amd64, DVD, Part 1)'' \<and> fi_Version f \<noteq> [])
   \<and> (\<exists>f. Recognizer ''/iso/README.txt'' = Ret f \<and> fi_Name f = [] \<and> fi_Version f = [])"
proof -
  have 1: "Recognizer ''/iso/debian-12.5.0-amd64-DVD-1.iso''
      = Ret (zeroFileInfo\<lparr>fi_Path := ''/iso/debian-12.5.0-amd64-DVD-1.iso'', fi_Ext := ''.iso'',
          fi_Name := ''12.5.0 (amd64, DVD, Part 1)'', fi_Version := ''12.5.0'', fi_Arch := ''amd64'',
          fi_EditionType := ''DVD'', fi_Part := 1\<rparr>)"
    and 2: "Recognizer ''/iso/README.txt''
      = Ret (zeroFileInfo\<lparr>fi_Path := ''/iso/README.txt'', fi_Ext := ''.txt''\<rparr>)"
    by code_simp+
  show ?thesis using Recognizer_frame [OF 1] Recognizer_frame [OF 2] by (auto simp: 1 2 zeroFileInfo_def)
qed

text \<open>
  The loop that appends the separator after every part and trims the last one joins the parts
  that are not empty.
\<close>

lemma combine_is_Join: "combine s e = Join (filter (\<lambda>v. v \<noteq> []) s) e"
  by (rule combine_Join)

lemma path_Ext_rev_dot: "CHR ''/'' \<notin> set e \<Longrightarrow> CHR ''.'' \<notin> set e \<Longrightarrow>
    path_Ext_rev (e @ CHR ''.'' # s) acc = CHR ''.'' # rev e @ acc"
  by (induction e arbitrary: acc) auto

lemma path_Ext_dot: "CHR ''/'' \<notin> set e \<Longrightarrow> CHR ''.'' \<notin> set e \<Longrightarrow> path_Ext (s @ CHR ''.'' # e) = CHR ''.'' # e"
  by (simp add: path_Ext_def path_Ext_rev_dot)

lemma path_Base_plain: "s \<noteq> [] \<Longrightarrow> CHR ''/'' \<notin> set s \<Longrightarrow> path_Base s = s"
  by (cases s rule: rev_cases) (auto simp: path_Base_def Split_atom)

lemma dispatch_archlinux: "dispatch families (''archlinux-'' @ s) f = rec_arch (''archlinux-'' @ s) f"
  by (simp add: families_def go_simps)

lemma rec_arch_parts:
  assumes "CHR ''-'' \<notin> set v" "CHR ''-'' \<notin> set a"
  shows "rec_arch (''archlinux-'' @ v @ CHR ''-'' # a) f = Ret (f\<lparr>fi_Version := v, fi_Arch := a\<rparr>)"
  using assms by (simp add: rec_arch_def TrimPrefix_def HasPrefix_def Split_append_sep Split_atom)

text \<open>
  The names Arch Linux releases are read back: a version and an architecture without dashes or
  slashes (the architecture not ending in a parenthesis) come out as they went in, together with the display name made of them.
\<close>

lemma archlinux_recognised:
  assumes "v \<noteq> []" "a \<noteq> []" "CHR ''-'' \<notin> set (v @ a)" "CHR ''/'' \<notin> set (v @ a)" "last a \<noteq> CHR ''(''"
  shows "Recognizer (''archlinux-'' @ v @ ''-'' @ a @ ''.iso'')
    = Ret (zeroFileInfo\<lparr>fi_Path := ''archlinux-'' @ v @ ''-'' @ a @ ''.iso'', fi_Ext := ''.iso'',
        fi_Name := v @ '' ('' @ a @ '')'', fi_Version := v, fi_Arch := a\<rparr>)"
proof -
  let ?n = "''archlinux-'' @ v @ CHR ''-'' # a"
  have ext: "path_Ext (?n @ ''.iso'') = ''.iso''" by (rule path_Ext_dot) simp_all
  have base: "path_Base (?n @ ''.iso'') = ?n @ ''.iso''" using assms by (intro path_Base_plain) simp_all
  have suffix: "\<not> HasSuffix (v @ '' ('' @ a @ '')'') ''()''"
    using assms by (cases a rule: rev_cases) (auto simp: go_simps)
  have "Recognizer (?n @ ''.iso'')
      = Ret (display_name (zeroFileInfo\<lparr>fi_Path := ?n @ ''.iso'', fi_Ext := ''.iso'', fi_Version := v, fi_Arch := a\<rparr>))"
    unfolding Recognizer_def Let_def ext base TrimSuffix_append dispatch_archlinux
    using assms by (subst rec_arch_parts) simp_all
  moreover have "display_name (zeroFileInfo\<lparr>fi_Path := ?n @ ''.iso'', fi_Ext := ''.iso'', fi_Version := v, fi_Arch := a\<rparr>)
      = zeroFileInfo\<lparr>fi_Path := ?n @ ''.iso'', fi_Ext := ''.iso'',
        fi_Name := v @ '' ('' @ a @ '')'', fi_Version := v, fi_Arch := a\<rparr>"
    using assms suffix by (simp add: display_name_def zeroFileInfo_def Let_def combine_Join)
  ultimately show ?thesis by simp
qed

lemma archlinux_recognised_witness:
  "Recognizer ''archlinux-2024.01.01-x86_64.iso''
    = Ret (zeroFileInfo\<lparr>fi_Path := ''archlinux-2024.01.01-x86_64.iso'', fi_Ext := ''.iso'',
        fi_Name := ''2024.01.01 (x86_64)'', fi_Version := ''2024.01.01'', fi_Arch := ''x86_64''\<rparr>)"
  using archlinux_recognised [of "''2024.01.01''" "''x86_64''"] by simp


end
