(* ===== verification/Size_Format.thy ===== *)
theory Size_Format
  imports Go_Prelude
begin

text \<open>
  Sizes as text, \<open>ParseSize\<close> of \<open>internal/types.go\<close>.  Go converts the byte count to a
  float, divides by a power of two and prints two decimals.  The division is exact, so two
  roundings remain, both to nearest with ties to even: the conversion to the 53 bits of a float,
  and the printing.
\<close>

section \<open>Rounding\<close>

definition round_half_even :: "nat \<Rightarrow> nat \<Rightarrow> nat" where
  "round_half_even a b =
     (let q = a div b; r = a mod b in if 2 * r < b \<or> (2 * r = b \<and> even q) then q else q + 1)"

fun bit_len :: "nat \<Rightarrow> nat" where
  "bit_len n = (if n = 0 then 0 else 1 + bit_len (n div 2))"

declare bit_len.simps [simp del]

text \<open>The value of \<open>float64(n)\<close>, a whole number for every whole \<open>n\<close>.\<close>

definition float53 :: "nat \<Rightarrow> nat" where
  "float53 n = (let e = bit_len n - 53 in round_half_even n (2 ^ e) * 2 ^ e)"

text \<open>\<open>%.2f\<close> of \<open>n / unit\<close>.\<close>

definition hundredths :: "nat \<Rightarrow> nat \<Rightarrow> nat" where
  "hundredths n u = round_half_even (100 * n) u"

definition fixed2 :: "nat \<Rightarrow> string" where
  "fixed2 c = dec_nat (c div 100) @ ''.'' @ [digit (c mod 100 div 10), digit (c mod 10)]"

section \<open>ParseSize\<close>

definition size_K :: nat where "size_K = 1024"
definition size_M :: nat where "size_M = 1024 * size_K"
definition size_G :: nat where "size_G = 1024 * size_M"
definition size_T :: nat where "size_T = 1024 * size_G"

lemmas size_units = size_K_def size_M_def size_G_def size_T_def

definition ParseSize :: "uint64 \<Rightarrow> string" where
  "ParseSize sz =
     (let n = unat sz; scaled = (\<lambda>u. fixed2 (hundredths (float53 n) u)) in
      if n > size_T then scaled size_T @ ''T''
      else if n > size_G then scaled size_G @ ''G''
      else if n > size_M then scaled size_M @ ''M''
      else if n > size_K then scaled size_K @ ''K''
      else if n \<noteq> 0 then dec_nat n @ ''B''
      else [])"

section \<open>How far the text is from the size\<close>

lemma round_half_even_close:
  assumes "0 < b"
  shows "2 * \<bar>int a - int (round_half_even a b * b)\<bar> \<le> int b"
proof -
  have r: "a mod b < b" and a: "int a = int (a div b) * int b + int (a mod b)"
    using assms by (simp_all flip: of_nat_mult of_nat_add)
  then show ?thesis
    by (auto simp: round_half_even_def Let_def algebra_simps abs_if)
qed

lemma bit_len_bound: "n < 2 ^ bit_len n"
proof (induction n rule: bit_len.induct)
  case (1 n)
  then show ?case by (subst bit_len.simps) auto
qed

lemma bit_len_le: "n < 2 ^ k \<Longrightarrow> bit_len n \<le> k"
proof (induction n arbitrary: k rule: bit_len.induct)
  case (1 n)
  show ?case
  proof (cases n)
    case (Suc m)
    with 1(2) obtain j where "k = Suc j" by (cases k) auto
    with Suc 1 show ?thesis by (subst bit_len.simps) auto
  qed (simp add: bit_len.simps)
qed

lemma float53_exact: "n < 2 ^ 53 \<Longrightarrow> float53 n = n"
  using bit_len_le [of n 53] by (simp add: float53_def round_half_even_def Let_def)

lemma float53_close:
  assumes "n < 2 ^ 64"
  shows "\<bar>int n - int (float53 n)\<bar> \<le> 1024"
proof -
  let ?e = "bit_len n - 53"
  have "?e \<le> 11" using bit_len_le [OF assms] by simp
  then have "(2::int) ^ ?e \<le> 2 ^ 11" by (rule power_increasing) simp
  with round_half_even_close [of "2 ^ ?e" n] show ?thesis by (simp add: float53_def Let_def)
qed

lemma hundredths_close:
  assumes "n < 2 ^ 64" "0 < u"
  shows "2 * \<bar>100 * int n - int (hundredths (float53 n) u) * int u\<bar> \<le> int u + 204800"
proof -
  have "2 * \<bar>100 * a - p\<bar> \<le> w + 204800" if "2 * \<bar>100 * b - p\<bar> \<le> w" "\<bar>a - b\<bar> \<le> 1024" for a b p w :: int
  proof -
    have "100 * a - p = (100 * b - p) + 100 * (a - b)" by simp
    then have "\<bar>100 * a - p\<bar> \<le> \<bar>100 * b - p\<bar> + 100 * \<bar>a - b\<bar>"
      by (metis abs_mult abs_numeral abs_triangle_ineq)
    moreover have "2 * x \<le> w + 204800" if "2 * y \<le> w" "z \<le> 1024" "x \<le> y + 100 * z" for x y z :: int
      using that by linarith
    ultimately show ?thesis using that by blast
  qed
  moreover have "2 * \<bar>100 * int (float53 n) - int (hundredths (float53 n) u) * int u\<bar> \<le> int u"
    using round_half_even_close [OF assms(2), of "100 * float53 n"] by (simp only: hundredths_def of_nat_mult of_nat_numeral)
  ultimately show ?thesis using float53_close [OF assms(1)] by blast
qed

lemma ParseSize_scaled:
  "1024 ^ 1 < unat sz \<Longrightarrow> unat sz \<le> 1024 ^ 2 \<Longrightarrow>
     ParseSize sz = fixed2 (hundredths (float53 (unat sz)) (1024 ^ 1)) @ ''K''"
  "1024 ^ 2 < unat sz \<Longrightarrow> unat sz \<le> 1024 ^ 3 \<Longrightarrow>
     ParseSize sz = fixed2 (hundredths (float53 (unat sz)) (1024 ^ 2)) @ ''M''"
  "1024 ^ 3 < unat sz \<Longrightarrow> unat sz \<le> 1024 ^ 4 \<Longrightarrow>
     ParseSize sz = fixed2 (hundredths (float53 (unat sz)) (1024 ^ 3)) @ ''G''"
  "1024 ^ 4 < unat sz \<Longrightarrow>
     ParseSize sz = fixed2 (hundredths (float53 (unat sz)) (1024 ^ 4)) @ ''T''"
  by (simp_all add: ParseSize_def Let_def size_units)

lemma scaled_witness:
  assumes "ParseSize sz = fixed2 (hundredths (float53 (unat sz)) (1024 ^ k)) @ [u]" "(k, u) \<in> L"
    "1024 ^ k < unat sz" "k < 4 \<longrightarrow> unat sz \<le> 1024 ^ (k + 1)"
  shows "\<exists>c k u. ParseSize sz = fixed2 c @ [u] \<and> (k, u) \<in> L
    \<and> 1024 ^ k < unat sz \<and> (k < 4 \<longrightarrow> unat sz \<le> 1024 ^ (k + 1))
    \<and> 2 * \<bar>100 * int (unat sz) - int c * 1024 ^ k\<bar> \<le> 1024 ^ k + 204800"
proof (intro exI conjI)
  show "2 * \<bar>100 * int (unat sz) - int (hundredths (float53 (unat sz)) (1024 ^ k)) * 1024 ^ k\<bar> \<le> 1024 ^ k + 204800"
    using hundredths_close [of "unat sz" "1024 ^ k"] unsigned_less [of sz] by simp
qed (fact assms)+

text \<open>
  C27: The text names a unit the size exceeds and a number of hundredths of it that is off by at most
  half a hundredth, give or take the 1024 bytes the conversion to a float may cost; up to one
  kibibyte the text is the exact number of bytes, and nothing for an empty mirror.
\<close>

theorem ParseSize_accurate:
  "ParseSize 0 = []
   \<and> (0 < unat sz \<and> unat sz \<le> 1024 \<longrightarrow> ParseSize sz = dec_nat (unat sz) @ ''B'')
   \<and> (1024 < unat sz \<longrightarrow>
        (\<exists>c k u. ParseSize sz = fixed2 c @ [u]
           \<and> (k, u) \<in> {(1, CHR ''K''), (2, CHR ''M''), (3, CHR ''G''), (4, CHR ''T'')}
           \<and> 1024 ^ k < unat sz \<and> (k < 4 \<longrightarrow> unat sz \<le> 1024 ^ (k + 1))
           \<and> 2 * \<bar>100 * int (unat sz) - int c * 1024 ^ k\<bar> \<le> 1024 ^ k + 204800))"
proof (intro conjI impI)
  let ?n = "unat sz"
  assume "1024 < ?n"
  consider "1024 ^ 4 < ?n" | "1024 ^ 3 < ?n" "?n \<le> 1024 ^ 4" | "1024 ^ 2 < ?n" "?n \<le> 1024 ^ 3"
    | "1024 ^ 1 < ?n" "?n \<le> 1024 ^ 2"
    using \<open>1024 < ?n\<close> by (metis not_le power_one_right)
  then show "\<exists>c k u. ParseSize sz = fixed2 c @ [u]
      \<and> (k, u) \<in> {(1, CHR ''K''), (2, CHR ''M''), (3, CHR ''G''), (4, CHR ''T'')}
      \<and> 1024 ^ k < ?n \<and> (k < 4 \<longrightarrow> ?n \<le> 1024 ^ (k + 1))
      \<and> 2 * \<bar>100 * int ?n - int c * 1024 ^ k\<bar> \<le> 1024 ^ k + 204800"
  proof cases
    case 1
    then show ?thesis by (intro scaled_witness [OF ParseSize_scaled(4)]) simp_all
  next
    case 2
    then show ?thesis by (intro scaled_witness [OF ParseSize_scaled(3)]) simp_all
  next
    case 3
    then show ?thesis by (intro scaled_witness [OF ParseSize_scaled(2)]) simp_all
  next
    case 4
    then show ?thesis by (intro scaled_witness [OF ParseSize_scaled(1)]) simp_all
  qed
qed (simp_all add: ParseSize_def Let_def size_units)

theorem ParseSize_accurate_witness:
  "0 < unat (1024 :: uint64) \<and> ParseSize 1024 = ''1024B''
   \<and> 1024 < unat (1610612736 :: uint64) \<and> ParseSize 1610612736 = ''1.50G''
   \<and> (\<exists>c (k :: nat) u. ParseSize 1610612736 = fixed2 c @ [u]
        \<and> 1024 ^ k < (1610612736 :: nat)
        \<and> 2 * \<bar>100 * 1610612736 - int c * 1024 ^ k\<bar> \<le> 1024 ^ k + 204800)"
proof -
  have v: "unat (1610612736 :: uint64) = 1610612736" "unat (1024 :: uint64) = 1024" by simp_all
  have big: "(1024 :: nat) < 1610612736" by simp
  have "ParseSize 1610612736 = ''1.50G''"
    by (simp add: ParseSize_def Let_def size_units float53_exact hundredths_def round_half_even_def
        fixed2_def dec_nat.simps digit_def char_of_def bit_0)
  moreover have "\<exists>c (k :: nat) u. ParseSize 1610612736 = fixed2 c @ [u] \<and> 1024 ^ k < (1610612736 :: nat)
        \<and> 2 * \<bar>100 * 1610612736 - int c * 1024 ^ k\<bar> \<le> 1024 ^ k + 204800"
    using ParseSize_accurate [of 1610612736, unfolded v of_nat_numeral, THEN conjunct2, THEN conjunct2, THEN mp, OF big]
    by (elim exE conjE) (intro exI conjI, assumption+)
  moreover have "ParseSize 1024 = ''1024B''"
    by (simp add: ParseSize_def Let_def size_units dec_nat.simps digit_def char_of_def bit_0)
  ultimately show ?thesis unfolding v by simp
qed


end
