(* ===== verification/Manager_Pages.thy ===== *)
theory Manager_Pages
  imports Manager_Gin File_Recognizer Size_Format
    "HOL-Library.List_Lexorder" "HOL-Library.Char_ord" "HOL-Library.Multiset"
begin

text \<open>
  The handlers of \<open>manager/server.go\<close> for announcements and image files.

  \<open>sort.Slice\<close> is modelled by a stable sort; Go leaves the order of equal elements open, so no
  lemma speaks of it.
\<close>

section \<open>Announcements\<close>

definition GetAnnouncement :: "'w env \<Rightarrow> string \<Rightarrow> 'w gin \<Rightarrow> AnnouncementRes option \<times> err \<times> 'w gin" where
  "GetAnnouncement e i q =
     (case cl_Get (env_news e) i (gin_world q) of
        Inl m \<Rightarrow> let er = ''failed to get announcement: '' @ m in (None, Some er, fail_with er q)
      | Inr news \<Rightarrow> (Some news, None, q))"

definition new_announcement :: "string \<Rightarrow> string \<Rightarrow> string \<Rightarrow> string \<Rightarrow> AnnouncementRes" where
  "new_announcement i title author content =
     \<lparr>ann_Name = i, ann_Title = title, ann_Author = author, ann_Content = content, ann_PubTime = 0, ann_EditTime = 0\<rparr>"

text \<open>
  The body is decoded as a specification (title, author, content) for a new announcement and as a
  map of strings for an existing one.
\<close>

definition createAnnouncement ::
  "'w env \<Rightarrow> string \<Rightarrow> (string \<times> string \<times> string) \<times> err \<Rightarrow> (string \<rightharpoonup> string) \<times> err \<Rightarrow> 'w gin \<Rightarrow> 'w gin outcome" where
  "createAnnouncement e i as_spec as_map q =
     (let (news, q) =
        (case cl_Get (env_news e) i (gin_world q) of
           Inl _ \<Rightarrow> (case as_spec of ((title, author, content), be) \<Rightarrow>
                       (new_announcement i title author content, c_BindJSON be q))
         | Inr old \<Rightarrow> (case as_map of (m, be) \<Rightarrow>
                       let given = (\<lambda>k v. case m k of Some v' \<Rightarrow> v' | None \<Rightarrow> v)
                       in (new_announcement i (given ''title'' (ann_Title old)) (given ''author'' (ann_Author old))
                             (given ''content'' (ann_Content old)), c_BindJSON be q)))
      in case cl_Patch (env_news e) news (gin_world q) of
           (er, w) \<Rightarrow>
             let q = q\<lparr>gin_world := w\<rparr>
             in case er of
                  Some m \<Rightarrow> Done (fail_with (''failed to patch announcement '' @ i @ '': '' @ m) q)
                | None \<Rightarrow> Done (c_JSON 200 (Info (''patch '' @ i @ '' succeed'')) q))"

definition announcement_info :: "string \<Rightarrow> AnnouncementRes \<Rightarrow> AnnouncementInfo" where
  "announcement_info i a = \<lparr>ai_ID = i, ai_Title = ann_Title a, ai_Author = ann_Author a,
     ai_Content = ann_Content a, ai_PubTime = ann_PubTime a, ai_EditTime = ann_EditTime a\<rparr>"

definition listAnnouncement :: "'w env \<Rightarrow> 'w gin \<Rightarrow> 'w gin outcome" where
  "listAnnouncement e q =
     (case cl_List (env_news e) (gin_world q) of
        (items, er) \<Rightarrow>
          let ws = sort_key ai_PubTime (map (\<lambda>v. announcement_info (ann_Name v) v) items)
          in case er of
               Some m \<Rightarrow> Done (fail_with (''failed to list announcements: '' @ m) q)
             | None \<Rightarrow> Done (c_JSON 200 (NewsListBody ws) q))"

definition getAnnouncement :: "'w env \<Rightarrow> string \<Rightarrow> 'w gin \<Rightarrow> 'w gin outcome" where
  "getAnnouncement e i q =
     (case GetAnnouncement e i q of
        (a, Some er, q) \<Rightarrow> Done (fail_with (''failed to get announcement '' @ i @ '': '' @ er) q)
      | (a, None, q) \<Rightarrow> deref a q (\<lambda>a. Done (c_JSON 200 (NewsBody (announcement_info i a)) q)))"

definition deleteAnnouncement :: "'w env \<Rightarrow> string \<Rightarrow> 'w gin \<Rightarrow> 'w gin outcome" where
  "deleteAnnouncement e i q =
     (case GetAnnouncement e i q of
        (a, Some er, q) \<Rightarrow> Done q
      | (a, None, q) \<Rightarrow> deref a q (\<lambda>a.
          case cl_Delete (env_news e) a (gin_world q) of
            (er, w) \<Rightarrow>
              let q = q\<lparr>gin_world := w\<rparr>
              in case er of
                   Some m \<Rightarrow> Done (fail_with (''failed to delete announcement: '' @ m) q)
                 | None \<Rightarrow> Done (c_JSON 200 (Info ''deleted'') q)))"

section \<open>Image files\<close>

definition GetFile :: "'w env \<Rightarrow> string \<Rightarrow> 'w gin \<Rightarrow> FileRes option \<times> err \<times> 'w gin" where
  "GetFile e i q =
     (case cl_Get (env_files e) i (gin_world q) of
        Inl m \<Rightarrow> let er = ''failed to get file: '' @ m in (None, Some er, fail_with er q)
      | Inr f \<Rightarrow> (Some f, None, q))"

text \<open>The files of a request that are recognised, with their sizes.\<close>

fun recognise_all :: "(string \<times> uint64) list \<Rightarrow> FileInfo list go" where
  "recognise_all [] = Ret []"
| "recognise_all ((k, v) # rest) =
     go_bind (Recognizer k) (\<lambda>info.
       go_bind (recognise_all rest) (\<lambda>infos.
         Ret (if fi_Name info \<noteq> [] then info\<lparr>fi_Size := v, fi_SizeStr := ParseSize v\<rparr> # infos else infos)))"

definition zeroFile :: FileRes where
  "zeroFile = \<lparr>file_Name = [], file_Type = [], file_Alias = [], file_Files = [], file_UpdateTime = 0\<rparr>"

text \<open>The type and alias the request leaves open come from the stored file; a new file is an image.\<close>

definition file_spec :: "FileBase \<Rightarrow> FileRes option \<Rightarrow> FileType \<times> string" where
  "file_spec nFile old =
     (case old of
        None \<Rightarrow> (if fb_Type nFile = [] then OS else fb_Type nFile, fb_Alias nFile)
      | Some f \<Rightarrow> (if fb_Type nFile = [] then file_Type f else fb_Type nFile,
                   if fb_Alias nFile = [] then file_Alias f else fb_Alias nFile))"

definition update_file_list :: "'w env \<Rightarrow> string \<Rightarrow> FileInfo list \<Rightarrow> int \<Rightarrow> FileRes \<Rightarrow> 'w gin \<Rightarrow> 'w gin" where
  "update_file_list e i infos now oFile q =
     (let ok = c_JSON 200 (Info (''update '' @ i @ '' succeed''))
      in if 0 < length infos
         then case cl_Status_Update (env_files e) (oFile\<lparr>file_Files := infos, file_UpdateTime := now\<rparr>) (gin_world q) of
                (er, _, w) \<Rightarrow>
                  let q = q\<lparr>gin_world := w\<rparr>
                  in case er of
                       Some m \<Rightarrow> fail_with (''failed to update file '' @ i @ '' list: '' @ m) q
                     | None \<Rightarrow> ok q
         else ok q)"

definition store_file :: "'w env \<Rightarrow> string \<Rightarrow> FileBase \<Rightarrow> FileInfo list \<Rightarrow> int \<Rightarrow> 'w gin \<Rightarrow> 'w gin" where
  "store_file e i nFile infos now q =
     (let old = (case cl_Get (env_files e) i (gin_world q) of Inl _ \<Rightarrow> None | Inr f \<Rightarrow> Some f);
          oFile = (case old of None \<Rightarrow> zeroFile | Some f \<Rightarrow> f);
          (ty, alias) = file_spec nFile old
      in if ty \<noteq> file_Type oFile \<or> alias \<noteq> file_Alias oFile
         then case cl_Patch (env_files e) (zeroFile\<lparr>file_Name := i, file_Type := ty, file_Alias := alias\<rparr>) (gin_world q) of
                (er, w) \<Rightarrow>
                  let q = q\<lparr>gin_world := w\<rparr>
                  in case er of
                       Some m \<Rightarrow> fail_with (''failed to patch file '' @ i @ '' info: '' @ m) q
                     | None \<Rightarrow>
                         if 0 < length infos
                         then case cl_Get (env_files e) i (gin_world q) of
                                Inl m \<Rightarrow> fail_with (''failed to get file: '' @ m) q
                              | Inr f \<Rightarrow> update_file_list e i infos now f q
                         else update_file_list e i infos now oFile q
         else update_file_list e i infos now oFile q)"

definition updateFile :: "'w env \<Rightarrow> string \<Rightarrow> FileBase \<Rightarrow> err \<Rightarrow> int \<Rightarrow> 'w gin \<Rightarrow> 'w gin outcome" where
  "updateFile e i nFile bind_err now q =
     (let q = c_BindJSON bind_err q
      in case recognise_all (fb_Files nFile) of
           Panic m \<Rightarrow> Crashed m q
         | Ret infos \<Rightarrow> Done (store_file e i nFile infos now q))"

definition file_listing :: "string \<Rightarrow> FileRes \<Rightarrow> FileListing" where
  "file_listing i f = \<lparr>fl_ID = i, fl_Type = file_Type f, fl_Alias = file_Alias f, fl_Files = file_Files f,
     fl_UpdateTime = file_UpdateTime f\<rparr>"

definition listFile :: "'w env \<Rightarrow> 'w gin \<Rightarrow> 'w gin outcome" where
  "listFile e q =
     (case cl_List (env_files e) (gin_world q) of
        (items, er) \<Rightarrow>
          let ws = sort_key fl_ID
                (map (\<lambda>v. file_listing (file_Name v) (v\<lparr>file_Files := sort_key fi_Name (file_Files v)\<rparr>))
                  (filter (\<lambda>v. 0 < length (file_Files v)) items))
          in case er of
               Some m \<Rightarrow> Done (fail_with (''failed to list files: '' @ m) q)
             | None \<Rightarrow> Done (c_JSON 200 (FilesBody ws) q))"

definition getFile :: "'w env \<Rightarrow> string \<Rightarrow> 'w gin \<Rightarrow> 'w gin outcome" where
  "getFile e i q =
     (case GetFile e i q of
        (f, Some er, q) \<Rightarrow> Done (fail_with (''failed to get file '' @ i @ '': '' @ er) q)
      | (f, None, q) \<Rightarrow> deref f q (\<lambda>f. Done (c_JSON 200 (FileBody (file_listing i f)) q)))"

definition deleteFile :: "'w env \<Rightarrow> string \<Rightarrow> 'w gin \<Rightarrow> 'w gin outcome" where
  "deleteFile e i q =
     (case GetFile e i q of
        (f, Some er, q) \<Rightarrow> Done q
      | (f, None, q) \<Rightarrow> deref f q (\<lambda>f.
          case cl_Delete (env_files e) f (gin_world q) of
            (er, w) \<Rightarrow>
              let q = q\<lparr>gin_world := w\<rparr>
              in case er of
                   Some m \<Rightarrow> Done (fail_with (''failed to delete file: '' @ m) q)
                 | None \<Rightarrow> Done (c_JSON 200 (Info ''deleted'') q)))"

section \<open>What the listings contain\<close>

lemma str_less_lex: "str_less a b \<longleftrightarrow> a < b"
  by (induction a b rule: str_less.induct) (auto simp: Let_def Cons_less_Cons less_char_def)

lemma sorted_key_str: "sorted_wrt (\<lambda>a b. \<not> str_less (f b) (f a)) (sort_key f xs)"
  using sorted_sort_key [of f xs] by (simp add: str_less_lex not_less sorted_map)

text \<open>
  The page of image files lists every file that has images, once and with all its images; the
  files are in the bytewise order of their identifiers and the images in that of their names.
\<close>

lemma listFile_lists_sorted:
  assumes "cl_List (env_files e) w = (items, None)"
  shows "\<exists>ws. listFile e (new_request w) = Done (c_JSON 200 (FilesBody ws) (new_request w))
    \<and> mset (map fl_ID ws) = mset (map file_Name (filter (\<lambda>v. file_Files v \<noteq> []) items))
    \<and> sorted_wrt (\<lambda>a b. \<not> str_less (fl_ID b) (fl_ID a)) ws
    \<and> (\<forall>l \<in> set ws. sorted_wrt (\<lambda>a b. \<not> str_less (fi_Name b) (fi_Name a)) (fl_Files l)
         \<and> (\<exists>v \<in> set items. fl_ID l = file_Name v \<and> mset (fl_Files l) = mset (file_Files v)))"
proof -
  let ?entry = "\<lambda>v. file_listing (file_Name v) (v\<lparr>file_Files := sort_key fi_Name (file_Files v)\<rparr>)"
  let ?ws = "sort_key fl_ID (map ?entry (filter (\<lambda>v. 0 < length (file_Files v)) items))"
  have "mset (map fl_ID ?ws) = mset (map file_Name (filter (\<lambda>v. file_Files v \<noteq> []) items))"
    by (simp add: file_listing_def image_mset.compositionality comp_def)
  moreover have "listFile e (new_request w) = Done (c_JSON 200 (FilesBody ?ws) (new_request w))"
    using assms by (simp add: listFile_def)
  ultimately show ?thesis
    by (intro exI [of _ ?ws]) (auto simp: sorted_key_str file_listing_def)
qed

text \<open>A cluster with files only.\<close>

definition file_env :: "FileRes list env" where
  "file_env =
     \<lparr>env_jobs = no_client, env_news = no_client,
      env_files = store_client file_Name
        (\<lambda>new old. old\<lparr>file_Files := file_Files new, file_UpdateTime := file_UpdateTime new\<rparr>)
        (\<lambda>new old. old\<lparr>file_Type := file_Type new, file_Alias := file_Alias new\<rparr>),
      env_http_Get = (\<lambda>u w. Inl ''no route to host''), env_http_Post = (\<lambda>u c w. (Inl ''no route to host'', w))\<rparr>"

definition sample_files :: "FileRes list" where
  "sample_files = map (\<lambda>n. zeroFile\<lparr>file_Name := n, file_Type := OS,
     file_Files := [zeroFileInfo\<lparr>fi_Name := ''b''\<rparr>, zeroFileInfo\<lparr>fi_Name := ''a''\<rparr>]\<rparr>) [''debian'', ''arch'']"

lemma listFile_lists_sorted_witness:
  "\<exists>ws. listFile file_env (new_request sample_files) = Done (c_JSON 200 (FilesBody ws) (new_request sample_files))
     \<and> mset (map fl_ID ws) = {#''arch'', ''debian''#}"
proof -
  have "cl_List (env_files file_env) sample_files = (sample_files, None)" by (simp add: file_env_def store_client_def)
  from listFile_lists_sorted [OF this] show ?thesis
    by (auto simp: sample_files_def zeroFile_def add_mset_commute)
qed

lemma recognise_all_Ret:
  assumes "recognise_all fs = Ret infos"
  shows "map (\<lambda>f. (fi_Path f, fi_Size f)) infos
      = filter (\<lambda>(k, _). \<exists>f. Recognizer k = Ret f \<and> fi_Name f \<noteq> []) fs
    \<and> (\<forall>f \<in> set infos. fi_SizeStr f = ParseSize (fi_Size f))"
  using assms
proof (induction fs arbitrary: infos)
  case (Cons kv fs)
  obtain k v where kv: "kv = (k, v)" by (cases kv)
  from Cons.prems obtain info rest where r: "Recognizer k = Ret info" "recognise_all fs = Ret rest"
    "infos = (if fi_Name info \<noteq> [] then info\<lparr>fi_Size := v, fi_SizeStr := ParseSize v\<rparr> # rest else rest)"
    by (auto simp: kv go_bind_Ret_iff)
  with Recognizer_keeps_path [OF r(1)] Cons.IH [OF r(2)] show ?case by (auto simp: kv)
qed simp

lemma recognise_all_total: "(\<exists>infos. recognise_all fs = Ret infos) \<longleftrightarrow> (\<forall>k \<in> fst ` set fs. \<exists>f. Recognizer k = Ret f)"
  by (induction fs) (auto simp: go_bind_Ret_iff)

text \<open>
  Updating the images of a file returns exactly when no name in the request makes the recogniser
  panic: one such name loses the whole update.
\<close>

lemma updateFile_returns_iff:
  "(\<exists>q'. updateFile e i nFile be now q = Done q')
     \<longleftrightarrow> (\<forall>k \<in> fst ` set (fb_Files nFile). \<exists>f. Recognizer k = Ret f)"
  unfolding recognise_all_total [symmetric]
  by (cases "recognise_all (fb_Files nFile)") (simp_all add: updateFile_def Let_def)

lemma updateFile_returns_iff_witness:
  "(\<exists>q. updateFile file_env ''debian'' \<lparr>fb_Type = [], fb_Alias = [], fb_Files = [(''x/archlinux-2024-x86.iso'', 5)]\<rparr>
          None 7 (new_request sample_files) = Done q)
   \<and> \<not> (\<exists>q. updateFile file_env ''debian''
          \<lparr>fb_Type = [], fb_Alias = [], fb_Files = [(''archlinux-2024-x86.iso'', 5), (''debian--amd64-netinst.iso'', 5)]\<rparr>
          None 7 (new_request sample_files) = Done q)"
proof -
  have "case Recognizer ''x/archlinux-2024-x86.iso'' of Ret f \<Rightarrow> True | Panic m \<Rightarrow> False"
    and p: "Recognizer ''debian--amd64-netinst.iso'' = Panic ''index out of range''"
    by code_simp+
  then obtain f where "Recognizer ''x/archlinux-2024-x86.iso'' = Ret f" by (auto split: go.splits)
  with p show ?thesis by (simp add: updateFile_returns_iff)
qed

text \<open>
  C23: The images of an update are served back: after an update that leaves type and alias open, the
  file is listed with the recognised names of the request, in the order they were visited, with
  their paths, sizes and the texts of the sizes.
\<close>

theorem updateFile_then_getFile:
  assumes "recognise_all (fb_Files nFile) = Ret infos" "infos \<noteq> []" "fb_Type nFile = []" "fb_Alias nFile = []"
    and "cl_Get (env_files e) i w = Inr f" and f': "f' = f\<lparr>file_Files := infos, file_UpdateTime := now\<rparr>"
    and "cl_Status_Update (env_files e) f' w = (None, f', w')" and "cl_Get (env_files e) i w' = Inr f'"
  shows "\<exists>q l. updateFile e i nFile None now (new_request w) = Done q \<and> gin_replies q = [(200, Info (''update '' @ i @ '' succeed''))]
    \<and> getFile e i (new_request (gin_world q)) = Done (c_JSON 200 (FileBody l) (new_request w'))
    \<and> map (\<lambda>f. (fi_Path f, fi_Size f)) (fl_Files l)
        = filter (\<lambda>(k, _). \<exists>f. Recognizer k = Ret f \<and> fi_Name f \<noteq> []) (fb_Files nFile)
    \<and> (\<forall>f \<in> set (fl_Files l). fi_SizeStr f = ParseSize (fi_Size f)) \<and> fl_UpdateTime l = now"
  using assms recognise_all_Ret [OF assms(1)]
  by (simp add: updateFile_def store_file_def update_file_list_def file_spec_def getFile_def GetFile_def
      file_listing_def c_BindJSON_def Let_def new_request_def c_JSON_def)

theorem updateFile_then_getFile_witness:
  "\<exists>q l. updateFile file_env ''debian''
       \<lparr>fb_Type = [], fb_Alias = [], fb_Files = [(''archlinux-2024-x86.iso'', 5), (''README'', 9)]\<rparr> None 7 (new_request sample_files)
       = Done q
     \<and> gin_replies (Recovery (getFile file_env ''debian'' (new_request (gin_world q)))) = [(200, FileBody l)]
     \<and> map (\<lambda>f. (fi_Path f, fi_Size f)) (fl_Files l) = [(''archlinux-2024-x86.iso'', 5)] \<and> fl_UpdateTime l = 7"
proof -
  let ?n = "\<lparr>fb_Type = [], fb_Alias = [], fb_Files = [(''archlinux-2024-x86.iso'', 5), (''README'', 9)]\<rparr>"
  let ?i = "zeroFileInfo\<lparr>fi_Path := ''archlinux-2024-x86.iso'', fi_Ext := ''.iso'', fi_Name := ''2024 (x86)'',
    fi_Version := ''2024'', fi_Arch := ''x86''\<rparr>"
  let ?f = "(hd sample_files)\<lparr>file_Files := [?i\<lparr>fi_Size := 5, fi_SizeStr := ParseSize 5\<rparr>], file_UpdateTime := 7\<rparr>"
  have rec: "Recognizer ''archlinux-2024-x86.iso'' = Ret ?i" "Recognizer ''README'' = Ret (zeroFileInfo\<lparr>fi_Path := ''README''\<rparr>)"
    by code_simp+
  have "recognise_all (fb_Files ?n) = Ret [?i\<lparr>fi_Size := 5, fi_SizeStr := ParseSize 5\<rparr>]"
    by (simp add: rec zeroFileInfo_def)
  moreover have "cl_Get (env_files file_env) ''debian'' sample_files = Inr (hd sample_files)"
    "cl_Status_Update (env_files file_env) ?f sample_files = (None, ?f, ?f # tl sample_files)"
    "cl_Get (env_files file_env) ''debian'' (?f # tl sample_files) = Inr ?f"
    by (simp_all add: file_env_def store_client_def sample_files_def zeroFile_def Let_def)
  ultimately show ?thesis
    using updateFile_then_getFile [of ?n _ file_env "''debian''" sample_files "hd sample_files" ?f 7] rec
    by (fastforce simp: Recovery_def zeroFileInfo_def)
qed

end
