(* ===== verification/Manager_External.thy ===== *)
theory Manager_External
  imports Manager_Gin Size_Format "HOL-Library.Monad_Syntax"
begin

text \<open>
  Mirrors listed by another service, \<open>manager/external\<close>.  What the service answers and how its
  JSON decodes are parameters; the time stamps are parsed by \<open>time.Parse\<close> with the layout of
  RFC 3339, which is modelled here.
\<close>

section \<open>Package time: RFC 3339\<close>

text \<open>\<open>getnum\<close>: one or two digits, or exactly two.\<close>

definition getnum :: "bool \<Rightarrow> string \<Rightarrow> (nat \<times> string) option" where
  "getnum fixed s =
     (case s of
        [] \<Rightarrow> None
      | a # r \<Rightarrow>
          (case digit_val a of
             None \<Rightarrow> None
           | Some x \<Rightarrow>
               (case r of
                  [] \<Rightarrow> if fixed then None else Some (x, r)
                | b # r' \<Rightarrow>
                    (case digit_val b of
                       None \<Rightarrow> if fixed then None else Some (x, r)
                     | Some y \<Rightarrow> Some (10 * x + y, r')))))"

definition skip :: "string \<Rightarrow> string \<Rightarrow> string option" where
  "skip p s = (if HasPrefix s p then Some (TrimPrefix s p) else None)"

definition is_digit :: "char \<Rightarrow> bool" where
  "is_digit c = (digit_val c \<noteq> None)"

text \<open>A fraction of a second is allowed although the layout has none.\<close>

definition skip_fraction :: "string \<Rightarrow> string" where
  "skip_fraction s =
     (case s of
        p # d # r \<Rightarrow> if (p = CHR ''.'' \<or> p = CHR '','') \<and> is_digit d then dropWhile is_digit r else s
      | _ \<Rightarrow> s)"

definition parse_zone :: "string \<Rightarrow> (int \<times> string) option" where
  "parse_zone s =
     (if HasPrefix s ''Z'' then Some (0, drop 1 s)
      else if length s < 6 \<or> s ! 3 \<noteq> CHR '':'' then None
      else case (getnum True (take 2 (drop 1 s)), getnum True (take 2 (drop 4 s))) of
             (Some (hr, _), Some (mm, _)) \<Rightarrow>
               if hr > 24 \<or> mm > 60 then None
               else let off = int ((hr * 60 + mm) * 60)
                    in if hd s = CHR ''+'' then Some (off, drop 6 s)
                       else if hd s = CHR ''-'' then Some (- off, drop 6 s) else None
           | _ \<Rightarrow> None)"

definition is_leap :: "nat \<Rightarrow> bool" where
  "is_leap y = (y mod 4 = 0 \<and> (y mod 100 \<noteq> 0 \<or> y mod 400 = 0))"

definition days_in :: "nat \<Rightarrow> nat \<Rightarrow> nat" where
  "days_in m y = (if m = 2 then if is_leap y then 29 else 28 else if m \<in> {4, 6, 9, 11} then 30 else 31)"

text \<open>Days since the epoch of a date of the Gregorian calendar.\<close>

definition days_before_year :: "nat \<Rightarrow> int" where
  "days_before_year y =
     (let p = int y - 1 in 365 * p + p div 4 - p div 100 + p div 400 - 719162)"

definition days_since_epoch :: "nat \<Rightarrow> nat \<Rightarrow> nat \<Rightarrow> int" where
  "days_since_epoch y m d = days_before_year y + int (sum_list (map (\<lambda>k. days_in k y) [1..<m])) + int d - 1"

definition parse_year :: "string \<Rightarrow> (nat \<times> string) option" where
  "parse_year s =
     (if length s < 4 then None
      else case parse_digits 0 (take 4 s) of None \<Rightarrow> None | Some y \<Rightarrow> Some (y, drop 4 s))"

definition unix_time :: "nat \<Rightarrow> nat \<Rightarrow> nat \<Rightarrow> nat \<Rightarrow> nat \<Rightarrow> nat \<Rightarrow> int \<Rightarrow> int" where
  "unix_time y mo d h mi s off = days_since_epoch y mo d * 86400 + int (h * 3600 + mi * 60 + s) - off"

text \<open>\<open>time.Parse(time.RFC3339, s)\<close>, as seconds since the epoch.\<close>

definition parse_RFC3339 :: "string \<Rightarrow> int option" where
  "parse_RFC3339 s0 = do {
     (y, s) \<leftarrow> parse_year s0; s \<leftarrow> skip ''-'' s;
     (mo, s) \<leftarrow> getnum True s; s \<leftarrow> skip ''-'' s;
     (d, s) \<leftarrow> getnum True s; s \<leftarrow> skip ''T'' s;
     (h, s) \<leftarrow> getnum False s; s \<leftarrow> skip '':'' s;
     (mi, s) \<leftarrow> getnum True s; s \<leftarrow> skip '':'' s;
     (sec, s) \<leftarrow> getnum True s;
     (off, s) \<leftarrow> parse_zone (skip_fraction s);
     (if s = [] \<and> 1 \<le> mo \<and> mo \<le> 12 \<and> 1 \<le> d \<and> d \<le> days_in mo y \<and> h < 24 \<and> mi < 60 \<and> sec < 60
      then Some (unix_time y mo d h mi sec off) else None) }"

section \<open>Gitea\<close>

record giteaRepo =
  gr_ID :: int
  gr_Name :: string
  gr_FullName :: string
  gr_Desc :: string
  gr_Empty :: bool
  gr_Size :: uint64
  gr_CloneUrl :: string
  gr_OriginalUrl :: string
  gr_Interval :: string
  gr_Updated :: string

record giteaMsg =
  gm_OK :: bool
  gm_Data :: "giteaRepo list"

definition getStatus :: "giteaRepo \<Rightarrow> SyncStatus" where
  "getStatus r = (if gr_Empty r then Syncing else Success)"

definition getTime :: "giteaRepo \<Rightarrow> int option" where
  "getTime r = parse_RFC3339 (gr_Updated r)"

text \<open>\<open>r.getTime().Unix()\<close>: the method call follows the pointer.\<close>

definition getTime_Unix :: "giteaRepo \<Rightarrow> int go" where
  "getTime_Unix r = (case getTime r of None \<Rightarrow> Panic ''nil pointer dereference'' | Some t \<Rightarrow> Ret t)"

definition getStatusZ :: "giteaRepo \<Rightarrow> string go" where
  "getStatusZ r = (if gr_Empty r then Ret ''U'' else go_bind (getTime_Unix r) (\<lambda>t. Ret (''S'' @ Itoa t)))"

text \<open>
  \<open>fetch\<close>, on the answer to the search request (an error of parsing the address included) and
  the decoder of its body.
\<close>

definition fetch :: "string + http_response \<Rightarrow> (string \<Rightarrow> string + giteaMsg) \<Rightarrow> string + giteaMsg" where
  "fetch answer decode =
     (case answer of
        Inl m \<Rightarrow> Inl m
      | Inr resp \<Rightarrow>
          if hr_StatusCode resp \<noteq> 200 then Inl ''HTTP status code is not 200''
          else case hr_ReadErr resp of
                 Some m \<Rightarrow> Inl m
               | None \<Rightarrow>
                   (case decode (hr_Body resp) of
                      Inl m \<Rightarrow> Inl m
                    | Inr info \<Rightarrow> if gm_OK info then Inr info else Inl ''gitea not ok''))"

definition gitea_status :: "giteaRepo \<Rightarrow> MirrorStatus go" where
  "gitea_status v =
     go_bind (getTime_Unix v) (\<lambda>t.
       Ret \<lparr>mi_ID = gr_Name v, mi_Alias = [], mi_Desc = gr_Desc v, mi_Url = gr_CloneUrl v, mi_HelpUrl = [],
            mi_Type = ''git'', mi_SizeStr = ParseSize (gr_Size v * 1024),
            mi_JobStatus = zeroJobStatus\<lparr>Status := getStatus v, LastUpdate := t, Upstream := gr_OriginalUrl v,
                                         Size := gr_Size v * 1024\<rparr>\<rparr>)"

definition gitea_mirror :: "giteaRepo \<Rightarrow> ZMirror go" where
  "gitea_mirror v =
     go_bind (getStatusZ v) (\<lambda>s.
       Ret \<lparr>zm_Cname = ToLower (gr_Name v) @ ''.git'', zm_Desc = gr_Desc v, zm_Url = gr_CloneUrl v, zm_Status = s,
            zm_Help = [], zm_Upstream = gr_OriginalUrl v, zm_Size = ParseSize (gr_Size v * 1024), zm_Disable = False\<rparr>)"

fun go_map :: "('a \<Rightarrow> 'b go) \<Rightarrow> 'a list \<Rightarrow> 'b list go" where
  "go_map f [] = Ret []"
| "go_map f (x # xs) = go_bind (f x) (\<lambda>y. go_bind (go_map f xs) (\<lambda>ys. Ret (y # ys)))"

text \<open>Both listings are empty when the service cannot be asked; the callers drop the error.\<close>

definition gitea_List :: "string + giteaMsg \<Rightarrow> MirrorStatus list go" where
  "gitea_List info = (case info of Inl _ \<Rightarrow> Ret [] | Inr m \<Rightarrow> go_map gitea_status (gm_Data m))"

definition gitea_ListZ :: "string + giteaMsg \<Rightarrow> ZMirror list go" where
  "gitea_ListZ info = (case info of Inl _ \<Rightarrow> Ret [] | Inr m \<Rightarrow> go_map gitea_mirror (gm_Data m))"

section \<open>The provider of a job\<close>

text \<open>\<open>Provider\<close> knows one kind of service; for any other the interface value is nil.\<close>

definition Provider :: "JobConfig \<Rightarrow> string option" where
  "Provider cfg = (if jc_Provider cfg = ''gitea'' then Some (jc_Upstream cfg) else None)"

text \<open>Asking the provider of a job: \<open>ask\<close> is \<open>fetch\<close> at the address the job configures.\<close>

definition external_List :: "(string \<Rightarrow> string + giteaMsg) \<Rightarrow> JobConfig \<Rightarrow> MirrorStatus list go" where
  "external_List ask cfg =
     (case Provider cfg of None \<Rightarrow> Panic ''nil pointer dereference'' | Some u \<Rightarrow> gitea_List (ask u))"

definition external_ListZ :: "(string \<Rightarrow> string + giteaMsg) \<Rightarrow> JobConfig \<Rightarrow> ZMirror list go" where
  "external_ListZ ask cfg =
     (case Provider cfg of None \<Rightarrow> Panic ''nil pointer dereference'' | Some u \<Rightarrow> gitea_ListZ (ask u))"

section \<open>When a listing returns\<close>

lemma go_map_Ret: "(\<exists>ys. go_map f xs = Ret ys) \<longleftrightarrow> (\<forall>x \<in> set xs. \<exists>y. f x = Ret y)"
  by (induction xs) (auto simp: go_bind_Ret_iff)

lemma getTime_Unix_Ret: "(\<exists>t. getTime_Unix r = Ret t) \<longleftrightarrow> getTime r \<noteq> None"
  by (simp add: getTime_Unix_def split: option.split)

text \<open>A job whose listing does not panic: its service is known, and every repository has a time.\<close>

definition listable :: "(string \<Rightarrow> string + giteaMsg) \<Rightarrow> JobConfig \<Rightarrow> bool" where
  "listable ask cfg \<longleftrightarrow> jc_Provider cfg = ''gitea''
     \<and> (case ask (jc_Upstream cfg) of Inl _ \<Rightarrow> True | Inr m \<Rightarrow> \<forall>r \<in> set (gm_Data m). getTime r \<noteq> None)"

lemma external_List_Ret: "(\<exists>ws. external_List ask cfg = Ret ws) \<longleftrightarrow> listable ask cfg"
proof -
  have "(\<exists>s. gitea_status r = Ret s) \<longleftrightarrow> getTime r \<noteq> None" for r
    using getTime_Unix_Ret [of r] by (auto simp: gitea_status_def go_bind_Ret_iff)
  then show ?thesis
    by (auto simp: external_List_def gitea_List_def listable_def Provider_def go_map_Ret split: sum.split)
qed

text \<open>The document for MirrorZ needs no time of an empty repository.\<close>

lemma external_ListZ_Ret: "listable ask cfg \<Longrightarrow> \<exists>ws. external_ListZ ask cfg = Ret ws"
proof -
  have "\<exists>s. gitea_mirror r = Ret s" if "getTime r \<noteq> None" for r
    using that getTime_Unix_Ret [of r] by (auto simp: gitea_mirror_def getStatusZ_def go_bind_Ret_iff)
  then show "listable ask cfg \<Longrightarrow> ?thesis"
    by (auto simp: external_ListZ_def gitea_ListZ_def listable_def Provider_def go_map_Ret split: sum.split)
qed


lemma epoch_is_day_zero: "days_since_epoch 1970 1 1 = 0"
  by (simp add: days_since_epoch_def days_before_year_def)

end
