(* ===== verification/Go_Json.thy ===== *)
theory Go_Json
  imports Api_Types Size_Format "HOL-Library.List_Lexorder" "HOL-Library.Char_ord"
begin

text \<open>
  The part of \<open>encoding/json\<close> the manager relies on when it merges a request into a stored job:
  structs written as objects and read back, and maps with values of type \<open>interface{}\<close>.

  A struct is the list of its field values, next to a table of its fields with the names and
  options of their tags.  The Kubernetes types inside are opaque; how they are written and read is
  a parameter.  Text is taken to be valid UTF-8, which the codec leaves as it is.
\<close>

section \<open>Values\<close>

text \<open>A number is whole, or kept as its text.\<close>

datatype json =
  JNull | JBool bool | JNum int | JFrac string | JStr string | JArr "json list" | JObj "(string \<times> json) list"

text \<open>A Go map with string keys: its pairs in the order of the keys, in which it is printed.\<close>

fun obj_put :: "string \<Rightarrow> 'v \<Rightarrow> (string \<times> 'v) list \<Rightarrow> (string \<times> 'v) list" where
  "obj_put k v [] = [(k, v)]"
| "obj_put k v ((k', v') # m) =
     (if k < k' then (k, v) # (k', v') # m
      else if k = k' then (k, v) # m
      else (k', v') # obj_put k v m)"

definition obj_puts :: "(string \<times> 'v) list \<Rightarrow> (string \<times> 'v) list \<Rightarrow> (string \<times> 'v) list" where
  "obj_puts kvs m = fold (\<lambda>kv. obj_put (fst kv) (snd kv)) kvs m"

text \<open>A whole number read as a \<open>float64\<close>.\<close>

definition float_int :: "int \<Rightarrow> int" where
  "float_int i = sgn i * int (float53 (nat \<bar>i\<bar>))"

text \<open>Reading a value as \<open>interface{}\<close> and printing it again.\<close>

fun renorm :: "json \<Rightarrow> json" where
  "renorm (JNum i) = JNum (float_int i)"
| "renorm (JArr js) = JArr (map renorm js)"
| "renorm (JObj kvs) = JObj (obj_puts (map (\<lambda>kv. (fst kv, renorm (snd kv))) kvs) [])"
| "renorm j = j"

lemma map_of_obj_put [simp]: "map_of (obj_put k v m) = (map_of m)(k \<mapsto> v)"
  by (induction k v m rule: obj_put.induct) auto

lemma map_of_obj_puts: "distinct (map fst kvs) \<Longrightarrow> map_of (obj_puts kvs m) = map_of m ++ map_of kvs"
proof (induction kvs arbitrary: m)
  case (Cons kv kvs)
  then have "fst kv \<notin> dom (map_of kvs)" by (simp add: dom_map_of_conv_image_fst)
  with Cons show ?case by (auto simp: obj_puts_def map_add_def fun_eq_iff split: option.split)
qed (simp add: obj_puts_def)

lemma keys_obj_put: "fst ` set (obj_put k v m) = insert k (fst ` set m)"
  by (induction k v m rule: obj_put.induct) auto

text \<open>The representation stays ordered, so the keys are distinct.\<close>

abbreviation ordered :: "(string \<times> 'v) list \<Rightarrow> bool" where
  "ordered m \<equiv> sorted_wrt (<) (map fst m)"

lemma ordered_obj_put: "ordered m \<Longrightarrow> ordered (obj_put k v m)"
proof (induction k v m rule: obj_put.induct)
  case (2 k v k' v' m)
  have "\<forall>x \<in> set (map fst (obj_put k v m)). k' < x" if "\<not> k < k'" "k \<noteq> k'"
    using 2(2) that keys_obj_put [of k v m] by (auto simp flip: set_map)
  with 2 show ?case by (auto simp del: set_map)
qed simp

lemma ordered_obj_puts: "ordered m \<Longrightarrow> ordered (obj_puts kvs m)"
  by (induction kvs arbitrary: m) (simp_all add: obj_puts_def ordered_obj_put)

lemma ordered_distinct: "ordered m \<Longrightarrow> distinct (map fst m)"
  by (induction m) auto

lemma keys_obj_puts: "fst ` set (obj_puts kvs m) = fst ` set kvs \<union> fst ` set m"
proof (induction kvs arbitrary: m)
  case (Cons kv kvs)
  then show ?case by (simp add: obj_puts_def keys_obj_put)
qed (simp add: obj_puts_def)

lemma obj_put_last: "\<forall>x \<in> fst ` set m. x < k \<Longrightarrow> obj_put k v m = m @ [(k, v)]"
  by (induction m) (auto dest: less_imp_not_less)

lemma obj_puts_ordered: "ordered (m @ kvs) \<Longrightarrow> obj_puts kvs m = m @ kvs"
proof (induction kvs arbitrary: m)
  case (Cons kv kvs)
  then have "obj_put (fst kv) (snd kv) m = m @ [kv]"
    by (subst obj_put_last) (auto simp: sorted_wrt_append)
  with Cons.IH [of "m @ [kv]"] Cons.prems show ?case by (simp add: obj_puts_def)
qed (simp add: obj_puts_def)

lemma float_int_exact: "\<bar>i\<bar> < 2 ^ 53 \<Longrightarrow> float_int i = i"
  by (simp add: float_int_def float53_exact sgn_if nat_less_iff)


section \<open>Fields of structs\<close>

text \<open>The values of the fields, one constructor per type of field.\<close>

datatype fval =
  VStr string | VInt int | VPtr "string option" | VMap "(string \<times> string) list"
| VEnvs "EnvVar list" | VRefs "string list option" | VAffinity "string option" | VTolerations "string list option"

text \<open>How the Kubernetes types are written, and read where that succeeds.\<close>

record k8s_json =
  kj_encEnvs :: "EnvVar list \<Rightarrow> json"
  kj_decEnvs :: "json \<Rightarrow> EnvVar list option"
  kj_encRefs :: "string list \<Rightarrow> json"
  kj_decRefs :: "json \<Rightarrow> string list option"
  kj_encAffinity :: "string \<Rightarrow> json"
  kj_decAffinity :: "json \<Rightarrow> string option"
  kj_encTolerations :: "string list \<Rightarrow> json"
  kj_decTolerations :: "json \<Rightarrow> string list option"

text \<open>A field: the name in its tag, whether the tag has \<open>omitempty\<close>, and the zero value.\<close>

record fdesc =
  fd_name :: string
  fd_omit :: bool
  fd_zero :: fval

type_synonym schema = "fdesc list"

fun is_empty :: "fval \<Rightarrow> bool" where
  "is_empty (VStr s) \<longleftrightarrow> s = []"
| "is_empty (VInt i) \<longleftrightarrow> i = 0"
| "is_empty (VPtr p) \<longleftrightarrow> p = None"
| "is_empty (VMap m) \<longleftrightarrow> m = []"
| "is_empty (VEnvs es) \<longleftrightarrow> es = []"
| "is_empty (VRefs rs) \<longleftrightarrow> rs = None \<or> rs = Some []"
| "is_empty (VAffinity a) \<longleftrightarrow> a = None"
| "is_empty (VTolerations ts) \<longleftrightarrow> ts = None \<or> ts = Some []"

fun enc_field :: "k8s_json \<Rightarrow> fval \<Rightarrow> json" where
  "enc_field cd (VStr s) = JStr s"
| "enc_field cd (VInt i) = JNum i"
| "enc_field cd (VPtr p) = (case p of None \<Rightarrow> JNull | Some s \<Rightarrow> JStr s)"
| "enc_field cd (VMap m) = JObj (map (\<lambda>kv. (fst kv, JStr (snd kv))) m)"
| "enc_field cd (VEnvs es) = kj_encEnvs cd es"
| "enc_field cd (VRefs rs) = (case rs of None \<Rightarrow> JNull | Some xs \<Rightarrow> kj_encRefs cd xs)"
| "enc_field cd (VAffinity a) = (case a of None \<Rightarrow> JNull | Some x \<Rightarrow> kj_encAffinity cd x)"
| "enc_field cd (VTolerations ts) = (case ts of None \<Rightarrow> JNull | Some xs \<Rightarrow> kj_encTolerations cd xs)"

text \<open>Reading an object into a map of strings adds to the map it finds; a wrong value is reported.\<close>

fun dec_entry :: "json \<Rightarrow> string \<times> bool" where
  "dec_entry (JStr s) = (s, True)"
| "dec_entry JNull = ([], True)"
| "dec_entry _ = ([], False)"

definition dec_map :: "(string \<times> json) list \<Rightarrow> (string \<times> string) list \<Rightarrow> fval \<times> bool" where
  "dec_map kvs m =
     (VMap (obj_puts (map (\<lambda>kv. (fst kv, fst (dec_entry (snd kv)))) kvs) m), list_all (\<lambda>kv. snd (dec_entry (snd kv))) kvs)"

definition dec_with :: "('a \<Rightarrow> fval) \<Rightarrow> fval \<Rightarrow> 'a option \<Rightarrow> fval \<times> bool" where
  "dec_with con old r = (case r of None \<Rightarrow> (old, False) | Some a \<Rightarrow> (con a, True))"

text \<open>
  Reading into a field that holds \<open>old\<close>: the new value and whether the types agree.  A \<open>null\<close>
  clears a pointer, slice or map and leaves any other field alone.
\<close>

fun dec_field :: "k8s_json \<Rightarrow> fval \<Rightarrow> json \<Rightarrow> fval \<times> bool" where
  "dec_field cd (VPtr p) JNull = (VPtr None, True)"
| "dec_field cd (VMap m) JNull = (VMap [], True)"
| "dec_field cd (VEnvs es) JNull = (VEnvs [], True)"
| "dec_field cd (VRefs rs) JNull = (VRefs None, True)"
| "dec_field cd (VAffinity a) JNull = (VAffinity None, True)"
| "dec_field cd (VTolerations ts) JNull = (VTolerations None, True)"
| "dec_field cd old JNull = (old, True)"
| "dec_field cd (VStr s) (JStr s') = (VStr s', True)"
| "dec_field cd (VInt i) (JNum j) = (if - (2 ^ 63) \<le> j \<and> j < 2 ^ 63 then (VInt j, True) else (VInt i, False))"
| "dec_field cd (VPtr p) (JStr s) = (VPtr (Some s), True)"
| "dec_field cd (VMap m) (JObj kvs) = dec_map kvs m"
| "dec_field cd (VEnvs es) j = dec_with VEnvs (VEnvs es) (kj_decEnvs cd j)"
| "dec_field cd (VRefs rs) j = dec_with (VRefs \<circ> Some) (VRefs rs) (kj_decRefs cd j)"
| "dec_field cd (VAffinity a) j = dec_with (VAffinity \<circ> Some) (VAffinity a) (kj_decAffinity cd j)"
| "dec_field cd (VTolerations ts) j = dec_with (VTolerations \<circ> Some) (VTolerations ts) (kj_decTolerations cd j)"
| "dec_field cd old j = (old, False)"

section \<open>Structs\<close>

fun find_index :: "('a \<Rightarrow> bool) \<Rightarrow> 'a list \<Rightarrow> nat option" where
  "find_index P [] = None"
| "find_index P (x # xs) = (if P x then Some 0 else map_option Suc (find_index P xs))"

text \<open>
  Keys are compared up to case where no field has exactly that name.  Besides ASCII letters the
  Kelvin sign folds to \<open>k\<close> and the long s to \<open>s\<close>; no other character folds to a letter of a name.
\<close>

fun fold_key :: "string \<Rightarrow> string" where
  "fold_key [] = []"
| "fold_key (c # r) =
     (if take 3 (c # r) = [CHR 0xE2, CHR 0x84, CHR 0xAA] then CHR ''k'' # fold_key (drop 2 r)
      else if take 2 (c # r) = [CHR 0xC5, CHR 0xBF] then CHR ''s'' # fold_key (drop 1 r)
      else char_lower c # fold_key r)"

definition field_index :: "schema \<Rightarrow> string \<Rightarrow> nat option" where
  "field_index sch k =
     (case find_index (\<lambda>d. fd_name d = k) sch of
        Some i \<Rightarrow> Some i
      | None \<Rightarrow> find_index (\<lambda>d. fold_key (fd_name d) = fold_key k) sch)"

text \<open>
  A struct read as a map of \<open>interface{}\<close>, once it has been printed: the members in the order of
  their keys.
\<close>

definition enc_struct :: "k8s_json \<Rightarrow> schema \<Rightarrow> fval list \<Rightarrow> (string \<times> json) list" where
  "enc_struct cd sch vs =
     concat (map (\<lambda>(d, v). if fd_omit d \<and> is_empty v then [] else [(fd_name d, enc_field cd v)]) (zip sch vs))"

definition as_map :: "(string \<times> json) list \<Rightarrow> (string \<times> json) list" where
  "as_map kvs = obj_puts (map (\<lambda>kv. (fst kv, renorm (snd kv))) kvs) []"

text \<open>Reading an object into a struct, member by member; unknown members are skipped.\<close>

definition dec_member :: "k8s_json \<Rightarrow> schema \<Rightarrow> string \<times> json \<Rightarrow> fval list \<times> bool \<Rightarrow> fval list \<times> bool" where
  "dec_member cd sch kv r =
     (case field_index sch (fst kv) of
        None \<Rightarrow> r
      | Some i \<Rightarrow> (case dec_field cd (fst r ! i) (snd kv) of (v, ok) \<Rightarrow> ((fst r)[i := v], snd r \<and> ok)))"

definition dec_struct :: "k8s_json \<Rightarrow> schema \<Rightarrow> (string \<times> json) list \<Rightarrow> fval list \<times> bool" where
  "dec_struct cd sch kvs = fold (dec_member cd sch) kvs (map fd_zero sch, True)"


section \<open>Structs survive a merge\<close>

abbreviation names :: "schema \<Rightarrow> string list" where
  "names sch \<equiv> map fd_name sch"

lemma find_index_name:
  "distinct (names sch) \<Longrightarrow> i < length sch \<Longrightarrow> find_index (\<lambda>d. fd_name d = fd_name (sch ! i)) sch = Some i"
proof (induction sch arbitrary: i)
  case (Cons d sch)
  then show ?case by (cases i) (auto simp: image_iff)
qed simp

lemma field_index_name: "distinct (names sch) \<Longrightarrow> i < length sch \<Longrightarrow> field_index sch (fd_name (sch ! i)) = Some i"
  by (simp add: field_index_def find_index_name)

text \<open>What reading an object makes of a field: its zero value, or what its member says.\<close>

definition read_field :: "k8s_json \<Rightarrow> (string \<times> json) list \<Rightarrow> fdesc \<Rightarrow> fval \<times> bool" where
  "read_field cd kvs d =
     (case map_of kvs (fd_name d) of None \<Rightarrow> (fd_zero d, True) | Some j \<Rightarrow> dec_field cd (fd_zero d) j)"

lemma dec_struct_exact:
  assumes "distinct (names sch)" and "distinct (map fst kvs)" and "fst ` set kvs \<subseteq> set (names sch)"
  shows "dec_struct cd sch kvs =
    (map (\<lambda>d. fst (read_field cd kvs d)) sch, list_all (\<lambda>d. snd (read_field cd kvs d)) sch)"
  using assms(2,3)
proof (induction kvs rule: rev_induct)
  case Nil
  then show ?case by (simp add: dec_struct_def read_field_def list_all_iff)
next
  case (snoc kv kvs)
  then obtain i where i: "i < length sch" "fst kv = fd_name (sch ! i)" by (auto simp: in_set_conv_nth)
  have fresh: "fst kv \<notin> dom (map_of kvs)" using snoc.prems by (auto simp: dom_map_of_conv_image_fst)
  have other: "read_field cd (kvs @ [kv]) (sch ! k) = read_field cd kvs (sch ! k)" if "k < length sch" "k \<noteq> i" for k
  proof -
    have "fd_name (sch ! k) \<noteq> fst kv" using that i assms(1) by (metis length_map nth_eq_iff_index_eq nth_map)
    then show ?thesis by (simp add: read_field_def map_add_def split: option.split)
  qed
  have this_one: "read_field cd kvs (sch ! i) = (fd_zero (sch ! i), True)"
      "read_field cd (kvs @ [kv]) (sch ! i) = dec_field cd (fd_zero (sch ! i)) (snd kv)"
    using fresh i by (auto simp: read_field_def map_add_def domIff split: option.split)
  have "dec_struct cd sch (kvs @ [kv]) = dec_member cd sch kv (dec_struct cd sch kvs)"
    by (simp add: dec_struct_def)
  also have "\<dots> = ((map (\<lambda>d. fst (read_field cd kvs d)) sch)[i := fst (read_field cd (kvs @ [kv]) (sch ! i))],
      list_all (\<lambda>d. snd (read_field cd kvs d)) sch \<and> snd (read_field cd (kvs @ [kv]) (sch ! i)))"
    using snoc i this_one by (simp add: dec_member_def field_index_name [OF assms(1)] split: prod.split)
  also have "(map (\<lambda>d. fst (read_field cd kvs d)) sch)[i := fst (read_field cd (kvs @ [kv]) (sch ! i))]
      = map (\<lambda>d. fst (read_field cd (kvs @ [kv]) d)) sch"
    using i(1) other by (intro nth_equalityI) (auto simp: nth_list_update)
  also have "(list_all (\<lambda>d. snd (read_field cd kvs d)) sch \<and> snd (read_field cd (kvs @ [kv]) (sch ! i)))
      = list_all (\<lambda>d. snd (read_field cd (kvs @ [kv]) d)) sch"
    unfolding list_all_length using i(1) other this_one(1) by (metis snd_conv)
  finally show ?case .
qed

text \<open>Writing a field and reading it back; an omitted field has its zero value.\<close>

definition survives :: "k8s_json \<Rightarrow> fdesc \<Rightarrow> fval \<Rightarrow> bool" where
  "survives cd d v \<longleftrightarrow>
     (if fd_omit d \<and> is_empty v then v = fd_zero d else dec_field cd (fd_zero d) (renorm (enc_field cd v)) = (v, True))"

lemma enc_struct_Cons:
  "enc_struct cd (d # sch) (v # vs) =
     (if fd_omit d \<and> is_empty v then [] else [(fd_name d, enc_field cd v)]) @ enc_struct cd sch vs"
  by (simp add: enc_struct_def)

lemma map_of_enc_struct:
  assumes "distinct (names sch)" and "length vs = length sch" and "i < length sch"
  shows "map_of (enc_struct cd sch vs) (fd_name (sch ! i)) =
    (if fd_omit (sch ! i) \<and> is_empty (vs ! i) then None else Some (enc_field cd (vs ! i)))"
  using assms(2,1,3)
proof (induction vs sch arbitrary: i rule: list_induct2)
  case (Cons v vs d sch)
  have none: "map_of (enc_struct cd sch ws) k = None" if "k \<notin> set (names sch)" for ws k
    using that by (auto simp: enc_struct_def map_of_eq_None_iff dest!: set_zip_leftD)
  show ?case
  proof (cases i)
    case 0
    with Cons.prems none [of "fd_name d" vs] show ?thesis by (simp add: enc_struct_Cons)
  next
    case (Suc n)
    then have "fd_name d \<noteq> fd_name (sch ! n)" using Cons.prems by (auto simp: image_iff)
    with Cons Suc show ?thesis by (simp add: enc_struct_Cons)
  qed
qed simp

lemma keys_enc_struct: "fst ` set (enc_struct cd sch vs) \<subseteq> set (names sch)"
  by (auto simp: enc_struct_def dest!: set_zip_leftD)

lemma distinct_enc_struct: "distinct (names sch) \<Longrightarrow> distinct (map fst (enc_struct cd sch vs))"
proof (induction sch arbitrary: vs)
  case (Cons d sch)
  show ?case
  proof (cases vs)
    case (Cons v ws)
    have "fd_name d \<notin> set (map fst (enc_struct cd sch ws))"
      using keys_enc_struct [of cd sch ws] Cons.prems by auto
    with Cons.IH [of ws] Cons.prems show ?thesis by (simp add: \<open>vs = v # ws\<close> enc_struct_Cons)
  qed (simp add: enc_struct_def)
qed (simp add: enc_struct_def)

lemma map_of_as_map:
  "distinct (map fst kvs) \<Longrightarrow> map_of (as_map kvs) k = map_option renorm (map_of kvs k)"
proof -
  have "map_of (map (\<lambda>kv. (fst kv, renorm (snd kv))) kvs) k = map_option renorm (map_of kvs k)"
    by (induction kvs) auto
  moreover assume "distinct (map fst kvs)"
  ultimately show ?thesis by (simp add: as_map_def map_of_obj_puts comp_def)
qed

lemma keys_as_map: "fst ` set (as_map kvs) = fst ` set kvs"
  by (simp add: as_map_def keys_obj_puts image_image)


text \<open>
  The reference: a member of the request replaces the field of its name, every other field stays.
\<close>

definition overwrite :: "k8s_json \<Rightarrow> schema \<Rightarrow> (string \<times> json) list \<Rightarrow> fval list \<Rightarrow> fval list" where
  "overwrite cd sch kvs vs =
     map2 (\<lambda>d v. case map_of kvs (fd_name d) of None \<Rightarrow> v | Some j \<Rightarrow> fst (dec_field cd (fd_zero d) j)) sch vs"

definition known :: "schema \<Rightarrow> (string \<times> json) list \<Rightarrow> bool" where
  "known sch kvs \<longleftrightarrow> distinct (map fst kvs) \<and> fst ` set kvs \<subseteq> set (names sch)"

definition well_typed :: "k8s_json \<Rightarrow> schema \<Rightarrow> (string \<times> json) list \<Rightarrow> bool" where
  "well_typed cd sch kvs \<longleftrightarrow>
     list_all (\<lambda>d. case map_of kvs (fd_name d) of None \<Rightarrow> True | Some j \<Rightarrow> snd (dec_field cd (fd_zero d) j)) sch"

lemma merge_struct:
  assumes "distinct (names sch)" and "list_all2 (survives cd) sch vs" and "known sch kvs"
  shows "dec_struct cd sch (obj_puts kvs (as_map (enc_struct cd sch vs))) = (overwrite cd sch kvs vs, well_typed cd sch kvs)"
proof -
  let ?m = "obj_puts kvs (as_map (enc_struct cd sch vs))"
  have len: "length vs = length sch" using assms(2) by (simp add: list_all2_lengthD)
  have ord: "ordered ?m" by (intro ordered_obj_puts) (simp add: as_map_def ordered_obj_puts)
  have keys: "fst ` set ?m \<subseteq> set (names sch)"
    using assms(3) keys_enc_struct [of cd sch vs] by (simp add: keys_obj_puts keys_as_map known_def)
  have field: "read_field cd ?m (sch ! i) =
      (case map_of kvs (fd_name (sch ! i)) of None \<Rightarrow> (vs ! i, True) | Some j \<Rightarrow> dec_field cd (fd_zero (sch ! i)) j)"
    if "i < length sch" for i
  proof -
    have "survives cd (sch ! i) (vs ! i)" using assms(2) that by (simp add: list_all2_nthD)
    then show ?thesis
      using assms(3)
      by (auto simp: read_field_def map_of_obj_puts known_def map_add_def survives_def
          map_of_as_map [OF distinct_enc_struct [OF assms(1)]] map_of_enc_struct [OF assms(1) len that] split: option.split)
  qed
  have "map (\<lambda>d. fst (read_field cd ?m d)) sch = overwrite cd sch kvs vs"
    using field len by (intro nth_equalityI) (auto simp: overwrite_def split: option.split)
  moreover have "list_all (\<lambda>d. snd (read_field cd ?m d)) sch = well_typed cd sch kvs"
    using field by (auto simp: list_all_length well_typed_def split: option.splits)
  ultimately show ?thesis
    using dec_struct_exact [OF assms(1) ordered_distinct [OF ord] keys] by simp
qed

lemma overwrite_nothing: "length vs = length sch \<Longrightarrow> overwrite cd sch [] vs = vs"
  by (intro nth_equalityI) (auto simp: overwrite_def)

end
