(* ===== verification/Manager_Merge.thy ===== *)
theory Manager_Merge
  imports Manager_Gin Go_Json
begin

text \<open>
  Creating or changing a job, \<open>handleMerge\<close> and \<open>createJob\<close> of \<open>manager/server.go\<close>.  The stored
  specification is printed, read back as a map of maps, overwritten section by section with the
  members of the request, printed and read again; the main lemma says that this amounts to
  replacing the fields the request names.
\<close>

section \<open>The tags of a specification\<close>

definition field :: "string \<Rightarrow> fval \<Rightarrow> fdesc" where
  "field k z = \<lparr>fd_name = k, fd_omit = True, fd_zero = z\<rparr>"

definition config_schema :: schema where
  "config_schema =
     [field ''alias'' (VStr []), field ''desc'' (VStr []), field ''url'' (VStr []), field ''helpUrl'' (VStr []),
      field ''type'' (VStr []), \<lparr>fd_name = ''upstream'', fd_omit = False, fd_zero = VStr []\<rparr>, field ''provider'' (VStr []),
      field ''mirrorPath'' (VStr []), field ''command'' (VStr []), field ''concurrent'' (VInt 0), field ''interval'' (VInt 0),
      field ''retry'' (VInt 0), field ''timeout'' (VInt 0), field ''failOnMatch'' (VStr []), field ''IPv6Only'' (VStr []),
      field ''IPv4Only'' (VStr []), field ''excludeFile'' (VStr []), field ''rsyncOptions'' (VStr []),
      field ''stage1Profile'' (VStr []), field ''execOnSuccess'' (VStr []), field ''execOnFailure'' (VStr []),
      field ''sizePattern'' (VStr []), field ''additionEnvs'' (VEnvs []), field ''debug'' (VStr [])]"

definition deploy_schema :: schema where
  "deploy_schema =
     [field ''image'' (VStr []), field ''env'' (VEnvs []), field ''imagePullPolicy'' (VStr []),
      field ''imagePullSecrets'' (VRefs None), field ''nodeName'' (VStr []), field ''affinity'' (VAffinity None),
      field ''tolerations'' (VTolerations None), field ''cpuLimit'' (VStr []), field ''memLimit'' (VStr []),
      field ''disableFront'' (VStr []), field ''frontMode'' (VStr []), field ''frontImage'' (VStr []),
      field ''frontCmd'' (VStr []), field ''disableRsync'' (VStr []), field ''rsyncImage'' (VStr []), field ''rsyncCmd'' (VStr [])]"

definition volume_schema :: schema where
  "volume_schema = [field ''size'' (VStr []), field ''storageClass'' (VPtr None), field ''accessMode'' (VStr [])]"

definition ingress_schema :: schema where
  "ingress_schema =
     [field ''ingressClass'' (VStr []), field ''TLSSecret'' (VStr []), field ''host'' (VStr []), field ''annotations'' (VMap [])]"

section \<open>Specifications as lists of values\<close>

definition config_vals :: "JobConfig \<Rightarrow> fval list" where
  "config_vals c =
     [VStr (jc_Alias c), VStr (jc_Desc c), VStr (jc_Url c), VStr (jc_HelpUrl c), VStr (jc_Type c), VStr (jc_Upstream c),
      VStr (jc_Provider c), VStr (jc_MirrorPath c), VStr (jc_Command c), VInt (jc_Concurrent c), VInt (jc_Interval c),
      VInt (jc_Retry c), VInt (jc_Timeout c), VStr (jc_FailOnMatch c), VStr (jc_IPv6Only c), VStr (jc_IPv4Only c),
      VStr (jc_ExcludeFile c), VStr (jc_RsyncOptions c), VStr (jc_Stage1Profile c), VStr (jc_ExecOnSuccess c),
      VStr (jc_ExecOnFailure c), VStr (jc_SizePattern c), VEnvs (jc_AdditionEnvs c), VStr (jc_Debug c)]"

definition deploy_vals :: "JobDeploy \<Rightarrow> fval list" where
  "deploy_vals d =
     [VStr (dc_Image d), VEnvs (dc_Env d), VStr (dc_ImagePullPolicy d), VRefs (dc_ImagePullSecrets d), VStr (dc_NodeName d),
      VAffinity (dc_Affinity d), VTolerations (dc_Tolerations d), VStr (dc_CPULimit d), VStr (dc_MemoryLimit d),
      VStr (jd_DisableFront d), VStr (jd_FrontMode d), VStr (jd_FrontImage d), VStr (jd_FrontCmd d), VStr (jd_DisableRsync d),
      VStr (jd_RsyncImage d), VStr (jd_RsyncCmd d)]"

definition volume_vals :: "PVConfig \<Rightarrow> fval list" where
  "volume_vals v = [VStr (pv_Size v), VPtr (pv_StorageClass v), VStr (pv_AccessMode v)]"

definition ingress_vals :: "IngressConfig \<Rightarrow> fval list" where
  "ingress_vals i = [VStr (ic_IngressClass i), VStr (ic_TLSSecret i), VStr (ic_Host i), VMap (ic_Annotations i)]"

fun the_str :: "fval \<Rightarrow> string" where "the_str (VStr s) = s" | "the_str _ = []"
fun the_int :: "fval \<Rightarrow> int" where "the_int (VInt i) = i" | "the_int _ = 0"
fun the_ptr :: "fval \<Rightarrow> string option" where "the_ptr (VPtr p) = p" | "the_ptr _ = None"
fun the_pairs :: "fval \<Rightarrow> (string \<times> string) list" where "the_pairs (VMap m) = m" | "the_pairs _ = []"
fun the_envs :: "fval \<Rightarrow> EnvVar list" where "the_envs (VEnvs es) = es" | "the_envs _ = []"
fun the_refs :: "fval \<Rightarrow> string list option" where "the_refs (VRefs rs) = rs" | "the_refs _ = None"
fun the_affinity :: "fval \<Rightarrow> string option" where "the_affinity (VAffinity a) = a" | "the_affinity _ = None"
fun the_tolerations :: "fval \<Rightarrow> string list option" where "the_tolerations (VTolerations ts) = ts" | "the_tolerations _ = None"

definition config_of :: "fval list \<Rightarrow> JobConfig" where
  "config_of vs =
     \<lparr>jc_Alias = the_str (vs ! 0), jc_Desc = the_str (vs ! 1), jc_Url = the_str (vs ! 2), jc_HelpUrl = the_str (vs ! 3),
      jc_Type = the_str (vs ! 4), jc_Upstream = the_str (vs ! 5), jc_Provider = the_str (vs ! 6),
      jc_MirrorPath = the_str (vs ! 7), jc_Command = the_str (vs ! 8), jc_Concurrent = the_int (vs ! 9),
      jc_Interval = the_int (vs ! 10), jc_Retry = the_int (vs ! 11), jc_Timeout = the_int (vs ! 12),
      jc_FailOnMatch = the_str (vs ! 13), jc_IPv6Only = the_str (vs ! 14), jc_IPv4Only = the_str (vs ! 15),
      jc_ExcludeFile = the_str (vs ! 16), jc_RsyncOptions = the_str (vs ! 17), jc_Stage1Profile = the_str (vs ! 18),
      jc_ExecOnSuccess = the_str (vs ! 19), jc_ExecOnFailure = the_str (vs ! 20), jc_SizePattern = the_str (vs ! 21),
      jc_AdditionEnvs = the_envs (vs ! 22), jc_Debug = the_str (vs ! 23)\<rparr>"

definition deploy_of :: "fval list \<Rightarrow> JobDeploy" where
  "deploy_of vs =
     \<lparr>dc_Image = the_str (vs ! 0), dc_Env = the_envs (vs ! 1), dc_ImagePullPolicy = the_str (vs ! 2),
      dc_ImagePullSecrets = the_refs (vs ! 3), dc_NodeName = the_str (vs ! 4), dc_Affinity = the_affinity (vs ! 5),
      dc_Tolerations = the_tolerations (vs ! 6), dc_CPULimit = the_str (vs ! 7), dc_MemoryLimit = the_str (vs ! 8),
      jd_DisableFront = the_str (vs ! 9), jd_FrontMode = the_str (vs ! 10), jd_FrontImage = the_str (vs ! 11),
      jd_FrontCmd = the_str (vs ! 12), jd_DisableRsync = the_str (vs ! 13), jd_RsyncImage = the_str (vs ! 14),
      jd_RsyncCmd = the_str (vs ! 15)\<rparr>"

definition volume_of :: "fval list \<Rightarrow> PVConfig" where
  "volume_of vs = \<lparr>pv_Size = the_str (vs ! 0), pv_StorageClass = the_ptr (vs ! 1), pv_AccessMode = the_str (vs ! 2)\<rparr>"

definition ingress_of :: "fval list \<Rightarrow> IngressConfig" where
  "ingress_of vs = \<lparr>ic_IngressClass = the_str (vs ! 0), ic_TLSSecret = the_str (vs ! 1), ic_Host = the_str (vs ! 2),
     ic_Annotations = the_pairs (vs ! 3)\<rparr>"

lemma section_values:
  "config_of (config_vals c) = c" "deploy_of (deploy_vals d) = d" "volume_of (volume_vals v) = v" "ingress_of (ingress_vals i) = i"
  by (simp_all add: config_of_def config_vals_def deploy_of_def deploy_vals_def volume_of_def volume_vals_def ingress_of_def
      ingress_vals_def nth_Cons')


section \<open>Merging\<close>

text \<open>The sections of a specification, each a map of its members.\<close>

type_synonym sections = "(string \<times> (string \<times> json) list) list"

text \<open>
  The stored specification printed and read as \<open>map[string]map[string]interface{}\<close>.  Its sections are
  structs, so each of them is printed as an object.
\<close>

definition spec_map :: "k8s_json \<Rightarrow> JobSpec \<Rightarrow> sections" where
  "spec_map cd s =
     [(''config'', as_map (enc_struct cd config_schema (config_vals (js_Config s)))),
      (''deploy'', as_map (enc_struct cd deploy_schema (deploy_vals (js_Deploy s)))),
      (''ingress'', as_map (enc_struct cd ingress_schema (ingress_vals (js_Ingress s)))),
      (''volume'', as_map (enc_struct cd volume_schema (volume_vals (js_Volume s))))]"

text \<open>One of the four tests of \<open>handleMerge\<close>; writing to a map that is nil panics.\<close>

definition merge_section :: "string \<Rightarrow> sections \<Rightarrow> sections \<Rightarrow> sections go" where
  "merge_section sec jobSpec oJobSpec =
     (case map_of jobSpec sec of
        None \<Rightarrow> Ret oJobSpec
      | Some val \<Rightarrow>
          if val = [] then Ret oJobSpec
          else case map_of oJobSpec sec of
            None \<Rightarrow> Panic ''assignment to entry in nil map''
          | Some m \<Rightarrow> Ret (obj_put sec (obj_puts val m) oJobSpec))"

text \<open>Printing the merged map and reading it as a specification.\<close>

definition read_spec :: "k8s_json \<Rightarrow> sections \<Rightarrow> JobSpec \<times> bool" where
  "read_spec cd sp =
     (let part = (\<lambda>sec sch. dec_struct cd sch (case map_of sp sec of None \<Rightarrow> [] | Some m \<Rightarrow> m));
          (c, okc) = part ''config'' config_schema; (d, okd) = part ''deploy'' deploy_schema;
          (v, okv) = part ''volume'' volume_schema; (i, oki) = part ''ingress'' ingress_schema
      in (\<lparr>js_Config = config_of c, js_Deploy = deploy_of d, js_Volume = volume_of v, js_Ingress = ingress_of i\<rparr>,
          okc \<and> okd \<and> okv \<and> oki))"

definition handleMerge :: "k8s_json \<Rightarrow> sections \<Rightarrow> sections \<Rightarrow> JobSpec option go" where
  "handleMerge cd oJobSpec jobSpec =
     go_bind (merge_section ''config'' jobSpec oJobSpec) (\<lambda>sp.
     go_bind (merge_section ''deploy'' jobSpec sp) (\<lambda>sp.
     go_bind (merge_section ''volume'' jobSpec sp) (\<lambda>sp.
     go_bind (merge_section ''ingress'' jobSpec sp) (\<lambda>sp.
       case read_spec cd sp of (s, ok) \<Rightarrow> Ret (if ok then Some s else None)))))"

text \<open>
  The handler takes the body both ways it may be decoded: as a specification for a new job, as
  sections for an existing one, each with the decoder's error, and the text of a failed merge.
\<close>

definition apply_job :: "'w env \<Rightarrow> string \<Rightarrow> JobSpec \<Rightarrow> 'w gin \<Rightarrow> 'w gin outcome" where
  "apply_job e mirrorID spec q =
     (case cl_Patch (env_jobs e) \<lparr>job_Name = mirrorID, job_Namespace = [], job_Spec = spec, job_Status = zeroJobStatus\<rparr>
             (gin_world q) of
        (er, w) \<Rightarrow>
          let q = q\<lparr>gin_world := w\<rparr>
          in case er of
               Some m \<Rightarrow> Done (fail_with (''failed to patch job '' @ mirrorID @ '': '' @ m) q)
             | None \<Rightarrow> Done (c_JSON 200 (Info (''patch '' @ mirrorID @ '' succeed'')) q))"

definition createJob ::
  "'w env \<Rightarrow> k8s_json \<Rightarrow> string \<Rightarrow> JobSpec \<times> err \<Rightarrow> sections \<times> err \<Rightarrow> string \<Rightarrow> 'w gin \<Rightarrow> 'w gin outcome" where
  "createJob e cd mirrorID new_body merge_body merge_err q =
     (case cl_Get (env_jobs e) mirrorID (gin_world q) of
        Inl _ \<Rightarrow> apply_job e mirrorID (fst new_body) (c_BindJSON (snd new_body) q)
      | Inr ojb \<Rightarrow>
          let q = c_BindJSON (snd merge_body) q
          in case handleMerge cd (spec_map cd (job_Spec ojb)) (fst merge_body) of
               Panic m \<Rightarrow> Crashed m q
             | Ret None \<Rightarrow> Crashed ''nil pointer dereference'' (c_AbortWithError 400 merge_err q)
             | Ret (Some spec) \<Rightarrow> apply_job e mirrorID spec q)"

section \<open>A merge replaces the fields it names\<close>

text \<open>What is relied on of the Kubernetes types: none is printed as null, and they are read as they were.\<close>

definition codec_ok :: "k8s_json \<Rightarrow> bool" where
  "codec_ok cd \<longleftrightarrow>
     (\<forall>es. renorm (kj_encEnvs cd es) \<noteq> JNull \<and> kj_decEnvs cd (renorm (kj_encEnvs cd es)) = Some es)
   \<and> (\<forall>rs. renorm (kj_encRefs cd rs) \<noteq> JNull \<and> kj_decRefs cd (renorm (kj_encRefs cd rs)) = Some rs)
   \<and> (\<forall>a. renorm (kj_encAffinity cd a) \<noteq> JNull \<and> kj_decAffinity cd (renorm (kj_encAffinity cd a)) = Some a)
   \<and> (\<forall>ts. renorm (kj_encTolerations cd ts) \<noteq> JNull \<and> kj_decTolerations cd (renorm (kj_encTolerations cd ts)) = Some ts)"

text \<open>
  What a stored specification must satisfy: its numbers fit into the 53 bits of a float, no slice is
  empty without being nil, and the annotations are in the order of a printed map.
\<close>

definition spec_ok :: "JobSpec \<Rightarrow> bool" where
  "spec_ok s \<longleftrightarrow>
     (let c = js_Config s in \<forall>i \<in> {jc_Concurrent c, jc_Interval c, jc_Retry c, jc_Timeout c}. \<bar>i\<bar> < 2 ^ 53)
   \<and> dc_ImagePullSecrets (js_Deploy s) \<noteq> Some [] \<and> dc_Tolerations (js_Deploy s) \<noteq> Some []
   \<and> ordered (ic_Annotations (js_Ingress s))"

lemma dec_field_k8s:
  "j \<noteq> JNull \<Longrightarrow> dec_field cd (VEnvs es) j = dec_with VEnvs (VEnvs es) (kj_decEnvs cd j)"
  "j \<noteq> JNull \<Longrightarrow> dec_field cd (VRefs rs) j = dec_with (VRefs \<circ> Some) (VRefs rs) (kj_decRefs cd j)"
  "j \<noteq> JNull \<Longrightarrow> dec_field cd (VAffinity a) j = dec_with (VAffinity \<circ> Some) (VAffinity a) (kj_decAffinity cd j)"
  "j \<noteq> JNull \<Longrightarrow> dec_field cd (VTolerations ts) j = dec_with (VTolerations \<circ> Some) (VTolerations ts) (kj_decTolerations cd j)"
  by (cases j; simp)+

lemma survives_plain:
  "survives cd (field k (VStr [])) (VStr s)" "survives cd \<lparr>fd_name = k, fd_omit = False, fd_zero = VStr []\<rparr> (VStr s)"
  "\<bar>i\<bar> < 2 ^ 53 \<Longrightarrow> survives cd (field k (VInt 0)) (VInt i)"
  "survives cd (field k (VPtr None)) (VPtr p)"
  by (auto simp: survives_def field_def float_int_exact split: option.split)

lemma survives_map:
  assumes "ordered m"
  shows "survives cd (field k (VMap [])) (VMap m)"
proof -
  let ?j = "map (\<lambda>kv. (fst kv, JStr (snd kv))) m"
  have fst_j: "map fst ?j = map fst m" by simp
  have "obj_puts (map (\<lambda>kv. (fst kv, renorm (snd kv))) ?j) [] = ?j"
    by (subst obj_puts_ordered) (use assms in \<open>simp_all add: comp_def\<close>)
  moreover have "obj_puts (map (\<lambda>kv. (fst kv, fst (dec_entry (snd kv)))) ?j) [] = m"
    by (subst obj_puts_ordered) (use assms in \<open>simp_all add: comp_def\<close>)
  moreover have "list_all (\<lambda>kv. snd (dec_entry (snd kv))) ?j" by (simp add: list_all_iff)
  ultimately show ?thesis by (simp add: survives_def field_def dec_map_def)
qed

lemma survives_k8s:
  assumes "codec_ok cd"
  shows "survives cd (field k (VEnvs [])) (VEnvs es)" "rs \<noteq> Some [] \<Longrightarrow> survives cd (field k (VRefs None)) (VRefs rs)"
    "survives cd (field k (VAffinity None)) (VAffinity a)"
    "ts \<noteq> Some [] \<Longrightarrow> survives cd (field k (VTolerations None)) (VTolerations ts)"
  using assms by (auto simp: survives_def field_def codec_ok_def dec_field_k8s dec_with_def split: option.splits)


definition members :: "sections \<Rightarrow> string \<Rightarrow> (string \<times> json) list" where
  "members p sec = (case map_of p sec of None \<Rightarrow> [] | Some val \<Rightarrow> val)"

definition overwrite_spec :: "k8s_json \<Rightarrow> sections \<Rightarrow> JobSpec \<Rightarrow> JobSpec" where
  "overwrite_spec cd p s =
     \<lparr>js_Config = config_of (overwrite cd config_schema (members p ''config'') (config_vals (js_Config s))),
      js_Deploy = deploy_of (overwrite cd deploy_schema (members p ''deploy'') (deploy_vals (js_Deploy s))),
      js_Volume = volume_of (overwrite cd volume_schema (members p ''volume'') (volume_vals (js_Volume s))),
      js_Ingress = ingress_of (overwrite cd ingress_schema (members p ''ingress'') (ingress_vals (js_Ingress s)))\<rparr>"

text \<open>A request that only has members the specification has, each once.\<close>

definition known_members :: "sections \<Rightarrow> bool" where
  "known_members p \<longleftrightarrow> known config_schema (members p ''config'') \<and> known deploy_schema (members p ''deploy'')
     \<and> known volume_schema (members p ''volume'') \<and> known ingress_schema (members p ''ingress'')"

definition request_ok :: "k8s_json \<Rightarrow> sections \<Rightarrow> bool" where
  "request_ok cd p \<longleftrightarrow> well_typed cd config_schema (members p ''config'') \<and> well_typed cd deploy_schema (members p ''deploy'')
     \<and> well_typed cd volume_schema (members p ''volume'') \<and> well_typed cd ingress_schema (members p ''ingress'')"

lemma schemas_distinct:
  "distinct (names config_schema)" "distinct (names deploy_schema)" "distinct (names volume_schema)" "distinct (names ingress_schema)"
  by (simp_all add: config_schema_def deploy_schema_def volume_schema_def ingress_schema_def field_def)

lemma sections_survive:
  assumes "codec_ok cd" and "spec_ok s"
  shows "list_all2 (survives cd) config_schema (config_vals (js_Config s))"
    "list_all2 (survives cd) deploy_schema (deploy_vals (js_Deploy s))"
    "list_all2 (survives cd) volume_schema (volume_vals (js_Volume s))"
    "list_all2 (survives cd) ingress_schema (ingress_vals (js_Ingress s))"
  using assms(2)
  by (simp_all add: config_schema_def config_vals_def deploy_schema_def deploy_vals_def volume_schema_def volume_vals_def
      ingress_schema_def ingress_vals_def survives_plain survives_map survives_k8s [OF assms(1)] spec_ok_def Let_def)

lemma merge_section_Ret:
  assumes "map_of sp sec = Some m"
  shows "\<exists>sp'. merge_section sec p sp = Ret sp' \<and> map_of sp' = (map_of sp)(sec \<mapsto> obj_puts (members p sec) m)"
proof (cases "members p sec = []")
  case True
  then have "merge_section sec p sp = Ret sp"
    by (cases "map_of p sec") (simp_all add: merge_section_def members_def)
  with True assms show ?thesis by (simp add: obj_puts_def fun_upd_idem)
next
  case False
  with assms show ?thesis by (cases "map_of p sec") (simp_all add: merge_section_def members_def)
qed

lemma handleMerge_overwrites:
  assumes "codec_ok cd" and "spec_ok s" and "known_members p"
  shows "handleMerge cd (spec_map cd s) p = Ret (if request_ok cd p then Some (overwrite_spec cd p s) else None)"
proof -
  let ?m = "\<lambda>sch vs. as_map (enc_struct cd sch vs)"
  have m: "map_of (spec_map cd s) ''config'' = Some (?m config_schema (config_vals (js_Config s)))"
      "map_of (spec_map cd s) ''deploy'' = Some (?m deploy_schema (deploy_vals (js_Deploy s)))"
      "map_of (spec_map cd s) ''volume'' = Some (?m volume_schema (volume_vals (js_Volume s)))"
      "map_of (spec_map cd s) ''ingress'' = Some (?m ingress_schema (ingress_vals (js_Ingress s)))"
    by (simp_all add: spec_map_def)
  obtain s1 where s1: "merge_section ''config'' p (spec_map cd s) = Ret s1"
      "map_of s1 = (map_of (spec_map cd s))(''config'' \<mapsto> obj_puts (members p ''config'') (?m config_schema (config_vals (js_Config s))))"
    using merge_section_Ret [OF m(1)] by blast
  obtain s2 where s2: "merge_section ''deploy'' p s1 = Ret s2"
      "map_of s2 = (map_of s1)(''deploy'' \<mapsto> obj_puts (members p ''deploy'') (?m deploy_schema (deploy_vals (js_Deploy s))))"
    using merge_section_Ret [of s1 "''deploy''"] m(2) by (force simp: s1(2))
  obtain s3 where s3: "merge_section ''volume'' p s2 = Ret s3"
      "map_of s3 = (map_of s2)(''volume'' \<mapsto> obj_puts (members p ''volume'') (?m volume_schema (volume_vals (js_Volume s))))"
    using merge_section_Ret [of s2 "''volume''"] m(3) by (force simp: s1(2) s2(2))
  obtain s4 where s4: "merge_section ''ingress'' p s3 = Ret s4"
      "map_of s4 = (map_of s3)(''ingress'' \<mapsto> obj_puts (members p ''ingress'') (?m ingress_schema (ingress_vals (js_Ingress s))))"
    using merge_section_Ret [of s3 "''ingress''"] m(4) by (force simp: s1(2) s2(2) s3(2))
  have ok: "known config_schema (members p ''config'')" "known deploy_schema (members p ''deploy'')"
      "known volume_schema (members p ''volume'')" "known ingress_schema (members p ''ingress'')"
    using assms(3) by (simp_all add: known_members_def)
  have "read_spec cd s4 = (overwrite_spec cd p s, request_ok cd p)"
    by (simp add: read_spec_def s1(2) s2(2) s3(2) s4(2) overwrite_spec_def request_ok_def
        merge_struct [OF schemas_distinct(1) sections_survive(1) [OF assms(1,2)] ok(1)]
        merge_struct [OF schemas_distinct(2) sections_survive(2) [OF assms(1,2)] ok(2)]
        merge_struct [OF schemas_distinct(3) sections_survive(3) [OF assms(1,2)] ok(3)]
        merge_struct [OF schemas_distinct(4) sections_survive(4) [OF assms(1,2)] ok(4)])
  then show ?thesis by (simp add: handleMerge_def s1(1) s2(1) s3(1) s4(1))
qed


text \<open>
  C7: Changing a stored job through its printed form is the same as replacing the fields the request
  names: every other field keeps its value, and the job is written once.  A member of the wrong type
  makes the handler follow a nil pointer after it has answered 400, and nothing is written.
\<close>

theorem createJob_replaces_fields:
  assumes "codec_ok cd" and "cl_Get (env_jobs e) mirrorID (gin_world q) = Inr ojb"
    and "spec_ok (job_Spec ojb)" and "known_members p"
  shows "createJob e cd mirrorID new_body (p, be) merge_err q =
    (if request_ok cd p then apply_job e mirrorID (overwrite_spec cd p (job_Spec ojb)) (c_BindJSON be q)
     else Crashed ''nil pointer dereference'' (c_AbortWithError 400 merge_err (c_BindJSON be q)))"
  by (simp add: createJob_def assms(2) handleMerge_overwrites [OF assms(1,3,4)])

text \<open>A request without members changes nothing.\<close>

lemma overwrite_spec_nothing: "overwrite_spec cd [] s = s"
proof -
  have "length (config_vals c) = length config_schema" "length (deploy_vals d) = length deploy_schema"
    "length (volume_vals v) = length volume_schema" "length (ingress_vals i) = length ingress_schema" for c d v i
    by (simp_all add: config_vals_def config_schema_def deploy_vals_def deploy_schema_def volume_vals_def volume_schema_def
        ingress_vals_def ingress_schema_def)
  then show ?thesis by (simp add: overwrite_spec_def members_def overwrite_nothing section_values)
qed


section \<open>A concrete request\<close>

fun dec_str :: "json \<Rightarrow> string option" where
  "dec_str (JStr s) = Some s"
| "dec_str _ = None"

fun dec_strs :: "json \<Rightarrow> string list option" where
  "dec_strs (JArr js) = those (map dec_str js)"
| "dec_strs _ = None"

fun enc_env :: "EnvVar \<Rightarrow> json" where
  "enc_env ev = JArr [JStr (ev_Name ev), JStr (ev_Value ev), case ev_FieldPath ev of None \<Rightarrow> JNull | Some p \<Rightarrow> JStr p]"

fun dec_env :: "json \<Rightarrow> EnvVar option" where
  "dec_env (JArr [JStr n, JStr v, p]) = Some \<lparr>ev_Name = n, ev_Value = v, ev_FieldPath = dec_str p\<rparr>"
| "dec_env _ = None"

fun dec_envs :: "json \<Rightarrow> EnvVar list option" where
  "dec_envs (JArr js) = those (map dec_env js)"
| "dec_envs _ = None"

definition plain_codec :: k8s_json where
  "plain_codec = \<lparr>kj_encEnvs = (\<lambda>es. JArr (map enc_env es)), kj_decEnvs = dec_envs,
     kj_encRefs = (\<lambda>rs. JArr (map JStr rs)), kj_decRefs = dec_strs, kj_encAffinity = JStr, kj_decAffinity = dec_str,
     kj_encTolerations = (\<lambda>ts. JArr (map JStr ts)), kj_decTolerations = dec_strs\<rparr>"

lemma plain_codec_ok: "codec_ok plain_codec"
proof -
  have "those (map (dec_env \<circ> (renorm \<circ> enc_env)) es) = Some es" for es
    by (induction es) (auto split: option.split)
  moreover have "those (map (dec_str \<circ> (renorm \<circ> JStr)) rs) = Some rs" for rs
    by (induction rs) auto
  ultimately show ?thesis by (simp add: codec_ok_def plain_codec_def)
qed

text \<open>A cluster whose objects are kept in a list; a patch replaces the specification.\<close>

definition job_store :: "Job list env" where
  "job_store =
     \<lparr>env_jobs = store_client job_Name (\<lambda>new old. old\<lparr>job_Status := job_Status new\<rparr>)
        (\<lambda>new old. old\<lparr>job_Spec := job_Spec new\<rparr>),
      env_news = no_client, env_files = no_client,
      env_http_Get = (\<lambda>u w. Inl ''no route to host''),
      env_http_Post = (\<lambda>u c w. (Inr \<lparr>hr_StatusCode = 200, hr_Body = [], hr_ReadErr = None\<rparr>, w))\<rparr>"

definition two_jobs :: "Job list" where
  "two_jobs = map (\<lambda>n. \<lparr>job_Name = n, job_Namespace = ''mirrors'', job_Spec = zeroJobSpec,
     job_Status = zeroJobStatus\<rparr>) [''arch'', ''debian'']"

definition hourly :: sections where
  "hourly = [(''config'', [(''interval'', JNum 60)]), (''volume'', [(''size'', JStr ''2Ti'')])]"

theorem createJob_replaces_fields_witness:
  "createJob job_store plain_codec ''arch'' (zeroJobSpec, None) (hourly, None) [] (new_request two_jobs)
     = apply_job job_store ''arch'' (zeroJobSpec\<lparr>js_Config := zeroJobConfig\<lparr>jc_Interval := 60\<rparr>,
         js_Volume := zeroPVConfig\<lparr>pv_Size := ''2Ti''\<rparr>\<rparr>) (new_request two_jobs)
   \<and> createJob job_store plain_codec ''arch'' (zeroJobSpec, None) ([(''config'', [(''interval'', JStr ''60'')])], None) ''bad''
       (new_request two_jobs)
     = Crashed ''nil pointer dereference'' (c_AbortWithError 400 ''bad'' (new_request two_jobs))"
proof -
  let ?bad = "[(''config'', [(''interval'', JStr ''60'')])] :: sections"
  obtain ojb where ojb: "cl_Get (env_jobs job_store) ''arch'' (gin_world (new_request two_jobs)) = Inr ojb"
      "job_Spec ojb = zeroJobSpec"
    by (simp add: job_store_def store_client_def two_jobs_def)
  have ok: "spec_ok (job_Spec ojb)"
    by (simp add: ojb(2) spec_ok_def zeroJobSpec_def zeroJobConfig_def zeroJobDeploy_def zeroIngressConfig_def)
  have req: "known_members hourly" "request_ok plain_codec hourly" "known_members ?bad" "\<not> request_ok plain_codec ?bad"
    by code_simp+
  have "overwrite_spec plain_codec hourly zeroJobSpec = zeroJobSpec\<lparr>js_Config := zeroJobConfig\<lparr>jc_Interval := 60\<rparr>,
      js_Volume := zeroPVConfig\<lparr>pv_Size := ''2Ti''\<rparr>\<rparr>"
    by code_simp
  with createJob_replaces_fields [OF plain_codec_ok ojb(1) ok] ojb(2) req show ?thesis by (simp add: c_BindJSON_def)
qed

text \<open>
  Members are read up to case, but merged by their exact names: a request that spells a name
  differently is lost where the stored job has a value of its own.
\<close>

lemma other_case_is_lost:
  "handleMerge plain_codec (spec_map plain_codec (zeroJobSpec\<lparr>js_Config := zeroJobConfig\<lparr>jc_Alias := ''old''\<rparr>\<rparr>))
       [(''config'', [(''Alias'', JStr ''new'')])]
     = Ret (Some (zeroJobSpec\<lparr>js_Config := zeroJobConfig\<lparr>jc_Alias := ''old''\<rparr>\<rparr>))"
  by code_simp

end
