(* ===== verification/Manager_Jobs.thy ===== *)
theory Manager_Jobs
  imports Manager_Merge
begin

text \<open>
  The handlers of \<open>manager/server.go\<close> for one job: what the workers report and what an operator
  asks for.  A handler takes the environment, the job's identifier from the path, the decoded
  body with the decoder's error, and the clock; the lock it holds makes it one step.
\<close>

section \<open>Reading and answering\<close>

definition mgr_GetJob :: "'w env \<Rightarrow> string \<Rightarrow> 'w gin \<Rightarrow> Job option \<times> err \<times> 'w gin" where
  "mgr_GetJob e mirrorID q =
     (case cl_Get (env_jobs e) mirrorID (gin_world q) of
        Inl m \<Rightarrow> let er = ''failed to get mirror: '' @ m in (None, Some er, fail_with er q)
      | Inr job \<Rightarrow> (Some job, None, q))"

text \<open>The end of every handler that writes a status: the update, and one of two replies.\<close>

definition put_status :: "'w env \<Rightarrow> Job \<Rightarrow> string \<Rightarrow> (Job \<Rightarrow> body) \<Rightarrow> 'w gin \<Rightarrow> 'w gin" where
  "put_status e job failure answer q =
     (case cl_Status_Update (env_jobs e) job (gin_world q) of
        (er, job', w) \<Rightarrow>
          let q = q\<lparr>gin_world := w\<rparr>
          in case er of Some m \<Rightarrow> fail_with (failure @ m) q | None \<Rightarrow> c_JSON 200 (answer job') q)"

definition getJob :: "'w env \<Rightarrow> string \<Rightarrow> 'w gin \<Rightarrow> 'w gin outcome" where
  "getJob e mirrorID q =
     (case mgr_GetJob e mirrorID q of
        (job, Some er, q) \<Rightarrow> Done (fail_with (''failed to get job '' @ mirrorID @ '': '' @ er) q)
      | (job, None, q) \<Rightarrow> deref job q (\<lambda>j. Done (c_JSON 200 (StatusBody (job_Status j)) q)))"

text \<open>\<open>getJobConfig\<close> reads the specification before it looks at the error.\<close>

definition getJobConfig :: "'w env \<Rightarrow> string \<Rightarrow> 'w gin \<Rightarrow> 'w gin outcome" where
  "getJobConfig e mirrorID q =
     (case mgr_GetJob e mirrorID q of
        (job, er, q) \<Rightarrow> deref job q (\<lambda>j.
          let config = \<lparr>mc_ID = mirrorID, mc_Spec = job_Spec j\<rparr>
          in case er of
               Some m \<Rightarrow> Done (fail_with (''failed to get job '' @ mirrorID @ '': '' @ m) q)
             | None \<Rightarrow> Done (c_JSON 200 (ConfigBody config) q)))"

definition worker_url :: "string \<Rightarrow> string" where
  "worker_url mirrorID = ''http://'' @ mirrorID @ '':6000''"

definition getJobLatestLog :: "'w env \<Rightarrow> string \<Rightarrow> 'w gin \<Rightarrow> 'w gin outcome" where
  "getJobLatestLog e mirrorID q =
     (case env_http_Get e (worker_url mirrorID @ ''/log'') (gin_world q) of
        Inl m \<Rightarrow> let er = ''get log from mirror '' @ mirrorID @ '' fail: '' @ m
                 in Done (c_JSON 500 (Text er) (c_Error er q))
      | Inr resp \<Rightarrow> Done (c_JSON 200 (Text (hr_Body resp)) q))"

definition deleteJob :: "'w env \<Rightarrow> string \<Rightarrow> 'w gin \<Rightarrow> 'w gin outcome" where
  "deleteJob e mirrorID q =
     (case mgr_GetJob e mirrorID q of
        (job, Some er, q) \<Rightarrow> Done q
      | (job, None, q) \<Rightarrow> deref job q (\<lambda>j.
          case cl_Delete (env_jobs e) j (gin_world q) of
            (er, w) \<Rightarrow>
              let q = q\<lparr>gin_world := w\<rparr>
              in case er of
                   Some m \<Rightarrow> Done (fail_with (''failed to delete mirror: '' @ m) q)
                 | None \<Rightarrow> Done (c_JSON 200 (Info ''deleted'') q)))"

section \<open>What a worker reports\<close>

text \<open>The clock is read twice, so that the two times may differ.\<close>

definition registerMirror :: "'w env \<Rightarrow> string \<Rightarrow> int \<Rightarrow> int \<Rightarrow> 'w gin \<Rightarrow> 'w gin outcome" where
  "registerMirror e mirrorID now now' q =
     (case mgr_GetJob e mirrorID q of
        (job, Some er, q) \<Rightarrow> Done (returnErrJSON 500 er q)
      | (job, None, q) \<Rightarrow> deref job q (\<lambda>j.
          let j = j\<lparr>job_Status := (job_Status j)\<lparr>LastOnline := now, LastRegister := now'\<rparr>\<rparr>
          in Done (put_status e j (''failed to register mirror '' @ mirrorID @ '': '')
                     (\<lambda>j. StatusBody (job_Status j)) q)))"

text \<open>No return follows the first two replies: the second use of the job may follow a nil pointer.\<close>

definition updateSchedule :: "'w env \<Rightarrow> string \<Rightarrow> int \<Rightarrow> err \<Rightarrow> int \<Rightarrow> 'w gin \<Rightarrow> 'w gin outcome" where
  "updateSchedule e mirrorID next_schedule bind_err now q =
     (case mgr_GetJob e mirrorID (c_BindJSON bind_err q) of
        (job, er, q) \<Rightarrow>
          let q = (case er of Some _ \<Rightarrow> c_JSON 200 EmptyObject q | None \<Rightarrow> q)
          in deref job q (\<lambda>j.
               let q = (if Scheduled (job_Status j) = next_schedule then c_JSON 200 EmptyObject q else q);
                   j = j\<lparr>job_Status := (job_Status j)\<lparr>Scheduled := next_schedule, LastOnline := now\<rparr>\<rparr>
               in Done (put_status e j (''failed to update job '' @ mirrorID @ '': '') (\<lambda>_. EmptyObject) q)))"

text \<open>The status a report turns into, given the status stored before.\<close>

definition next_status :: "int \<Rightarrow> JobStatus \<Rightarrow> JobStatus \<Rightarrow> JobStatus" where
  "next_status curTime cur status =
     (let status = status\<lparr>LastOnline := curTime, LastRegister := LastRegister cur\<rparr>;
          status = status\<lparr>LastStarted := if Status status = PreSyncing \<and> Status cur \<noteq> PreSyncing then curTime
                                          else LastStarted cur\<rparr>;
          status = status\<lparr>LastUpdate := if Status status = Success then curTime else LastUpdate cur\<rparr>;
          status = status\<lparr>LastEnded := if Status status = Success \<or> Status status = Failed then curTime
                                        else LastEnded cur\<rparr>
      in if Size cur > 0 \<and> Size status = 0 then status\<lparr>Size := Size cur\<rparr> else status)"

text \<open>The error of \<open>GetJob\<close> is overwritten before anyone reads it.\<close>

definition updateJob :: "'w env \<Rightarrow> string \<Rightarrow> JobStatus \<Rightarrow> err \<Rightarrow> int \<Rightarrow> 'w gin \<Rightarrow> 'w gin outcome" where
  "updateJob e mirrorID status bind_err curTime q =
     (case mgr_GetJob e mirrorID (c_BindJSON bind_err q) of
        (curJob, er, q) \<Rightarrow> deref curJob q (\<lambda>j.
          let status = next_status curTime (job_Status j) status
          in Done (put_status e (j\<lparr>job_Status := status\<rparr>) (''failed to update job '' @ mirrorID @ '': '')
                     (\<lambda>_. StatusBody status) q)))"

definition updateMirrorSize :: "'w env \<Rightarrow> string \<Rightarrow> uint64 \<Rightarrow> err \<Rightarrow> 'w gin \<Rightarrow> 'w gin outcome" where
  "updateMirrorSize e mirrorID sz bind_err q =
     (case mgr_GetJob e mirrorID (c_BindJSON bind_err q) of
        (job, Some er, q) \<Rightarrow> Done (returnErrJSON 500 er q)
      | (job, None, q) \<Rightarrow> deref job q (\<lambda>j.
          Done (put_status e (j\<lparr>job_Status := (job_Status j)\<lparr>Size := sz\<rparr>\<rparr>)
                  (''failed to update job '' @ mirrorID @ '': '') JobBody q)))"

section \<open>What an operator asks for\<close>

definition set_status :: "SyncStatus \<Rightarrow> int \<Rightarrow> Job \<Rightarrow> Job" where
  "set_status s now j = j\<lparr>job_Status := (job_Status j)\<lparr>Status := s, LastOnline := now\<rparr>\<rparr>"

definition enableJob :: "'w env \<Rightarrow> string \<Rightarrow> int \<Rightarrow> 'w gin \<Rightarrow> 'w gin outcome" where
  "enableJob e mirrorID now q =
     (case mgr_GetJob e mirrorID q of
        (curJob, Some er, q) \<Rightarrow> Done q
      | (curJob, None, q) \<Rightarrow> deref curJob q (\<lambda>j.
          Done (put_status e (set_status Created now j) ''failed to enable mirror: '' (\<lambda>_. Info ''enabled'') q)))"

definition disableJob :: "'w env \<Rightarrow> string \<Rightarrow> int \<Rightarrow> 'w gin \<Rightarrow> 'w gin outcome" where
  "disableJob e mirrorID now q =
     (case mgr_GetJob e mirrorID q of
        (curJob, Some er, q) \<Rightarrow> Done q
      | (curJob, None, q) \<Rightarrow> deref curJob q (\<lambda>j.
          Done (put_status e (set_status Disabled now j) ''failed to disable mirror: '' (\<lambda>_. Info ''disabled'') q)))"

text \<open>\<open>PostJSON\<close>: encoding a command cannot fail, so the answer is that of the worker.\<close>

definition PostJSON :: "'w env \<Rightarrow> string \<Rightarrow> ClientCmd \<Rightarrow> 'w gin \<Rightarrow> (string + http_response) \<times> 'w gin" where
  "PostJSON e mirrorID cmd q =
     (case env_http_Post e (worker_url mirrorID) cmd (gin_world q) of (r, w) \<Rightarrow> (r, q\<lparr>gin_world := w\<rparr>))"

definition send_command :: "'w env \<Rightarrow> string \<Rightarrow> ClientCmd \<Rightarrow> 'w gin \<Rightarrow> 'w gin" where
  "send_command e mirrorID cmd q =
     (case PostJSON e mirrorID cmd q of
        (Inl m, q) \<Rightarrow> fail_with (''post command to mirror '' @ mirrorID @ '' fail: '' @ m) q
      | (Inr r, q) \<Rightarrow>
          if hr_StatusCode r = 200
          then c_JSON 200 (Info (''successfully send command to mirror '' @ mirrorID)) q
          else case hr_ReadErr r of
                 Some m \<Rightarrow> fail_with m q
               | None \<Rightarrow> c_JSON (hr_StatusCode r) (Text (hr_Body r)) q)"

text \<open>A stop command is recorded as a pause before it is passed on; a failed update ends the request.\<close>

definition handleClientCmd :: "'w env \<Rightarrow> string \<Rightarrow> ClientCmd \<Rightarrow> err \<Rightarrow> int \<Rightarrow> 'w gin \<Rightarrow> 'w gin outcome" where
  "handleClientCmd e mirrorID cmd bind_err now q =
     (let q = c_BindJSON bind_err q
      in if cc_Cmd cmd = CmdStop
         then case mgr_GetJob e mirrorID q of
                (curJob, Some er, q) \<Rightarrow> Done q
              | (curJob, None, q) \<Rightarrow> deref curJob q (\<lambda>j.
                  case cl_Status_Update (env_jobs e) (set_status Paused now j) (gin_world q) of
                    (er, _, w) \<Rightarrow>
                      let q = q\<lparr>gin_world := w\<rparr>
                      in case er of Some m \<Rightarrow> Done q | None \<Rightarrow> Done (send_command e mirrorID cmd q))
         else Done (send_command e mirrorID cmd q))"

section \<open>Sequences of requests\<close>

datatype job_request =
  GetRequest | GetConfigRequest | GetLogRequest | DeleteRequest | RegisterRequest
| ScheduleRequest int err | StatusRequest JobStatus err | SizeRequest uint64 err
| EnableRequest | DisableRequest | CmdRequest ClientCmd err
| CreateRequest k8s_json "JobSpec \<times> err" "sections \<times> err" string

text \<open>
  One request for a job, with the handler its route names and the clock when it is served; the
  second time is that of a second reading of the clock.
\<close>

definition serve_job :: "'w env \<Rightarrow> string \<Rightarrow> int \<times> int \<Rightarrow> job_request \<Rightarrow> 'w gin \<Rightarrow> 'w gin outcome" where
  "serve_job e mirrorID t r q =
     (case r of
        GetRequest \<Rightarrow> getJob e mirrorID q
      | GetConfigRequest \<Rightarrow> getJobConfig e mirrorID q
      | GetLogRequest \<Rightarrow> getJobLatestLog e mirrorID q
      | DeleteRequest \<Rightarrow> deleteJob e mirrorID q
      | RegisterRequest \<Rightarrow> registerMirror e mirrorID (fst t) (snd t) q
      | ScheduleRequest s be \<Rightarrow> updateSchedule e mirrorID s be (fst t) q
      | StatusRequest s be \<Rightarrow> updateJob e mirrorID s be (fst t) q
      | SizeRequest s be \<Rightarrow> updateMirrorSize e mirrorID s be q
      | EnableRequest \<Rightarrow> enableJob e mirrorID (fst t) q
      | DisableRequest \<Rightarrow> disableJob e mirrorID (fst t) q
      | CmdRequest c be \<Rightarrow> handleClientCmd e mirrorID c be (fst t) q
      | CreateRequest cd nb mb er \<Rightarrow> createJob e cd mirrorID nb mb er q)"

fun serve_jobs :: "'w env \<Rightarrow> ((int \<times> int) \<times> string \<times> job_request) list \<Rightarrow> 'w \<Rightarrow> 'w" where
  "serve_jobs e [] w = w"
| "serve_jobs e ((t, mirrorID, r) # rs) w =
     serve_jobs e rs (gin_world (Recovery (serve_job e mirrorID t r (new_request w))))"

fun clock_ok :: "int \<Rightarrow> ((int \<times> int) \<times> 'r) list \<Rightarrow> bool" where
  "clock_ok now [] = True"
| "clock_ok now ((t, _) # rs) = (now \<le> fst t \<and> fst t \<le> snd t \<and> clock_ok (snd t) rs)"

fun clock_end :: "int \<Rightarrow> ((int \<times> int) \<times> 'r) list \<Rightarrow> int" where
  "clock_end now [] = now"
| "clock_end now ((t, _) # rs) = clock_end (snd t) rs"

text \<open>
  What the manager relies on of the cached client: a later read returns what a read returned
  before (the cache may lag) or the status just written to that job, a patch keeps the status of the
  job or makes a job with the status it has, and neither a deletion nor a message to a worker changes what is
  read of an object.
\<close>

definition tracks_status :: "'w env \<Rightarrow> bool" where
  "tracks_status e \<longleftrightarrow>
     (\<forall>ob w n j. cl_Get (env_jobs e) n (snd (snd (cl_Status_Update (env_jobs e) ob w))) = Inr j \<longrightarrow>
        cl_Get (env_jobs e) n w = Inr j \<or> job_Status j = job_Status ob)
   \<and> (\<forall>ob w n j. cl_Get (env_jobs e) n (snd (cl_Delete (env_jobs e) ob w)) = Inr j \<longrightarrow>
        cl_Get (env_jobs e) n w = Inr j)
   \<and> (\<forall>ob w n j. cl_Get (env_jobs e) n (snd (cl_Patch (env_jobs e) ob w)) = Inr j \<longrightarrow>
        (\<exists>j'. cl_Get (env_jobs e) n w = Inr j' \<and> job_Status j = job_Status j') \<or> job_Status j = job_Status ob)
   \<and> (\<forall>u c w n j. cl_Get (env_jobs e) n (snd (env_http_Post e u c w)) = Inr j \<longrightarrow>
        cl_Get (env_jobs e) n w = Inr j)"

text \<open>The times of a status agree with each other and with the clock.\<close>

definition times_ok :: "int \<Rightarrow> JobStatus \<Rightarrow> bool" where
  "times_ok now s \<longleftrightarrow> LastUpdate s \<le> LastEnded s \<and> LastEnded s \<le> LastOnline s
     \<and> LastStarted s \<le> LastOnline s \<and> LastOnline s \<le> now \<and> LastRegister s \<le> now"

definition all_times_ok :: "'w env \<Rightarrow> int \<Rightarrow> 'w \<Rightarrow> bool" where
  "all_times_ok e now w \<longleftrightarrow>
     (\<forall>n j. cl_Get (env_jobs e) n w = Inr j \<longrightarrow> times_ok now (job_Status j))"

lemma times_ok_mono: "times_ok t s \<Longrightarrow> t \<le> t' \<Longrightarrow> times_ok t' s"
  by (auto simp: times_ok_def)

lemma all_times_ok_mono: "all_times_ok e t w \<Longrightarrow> t \<le> t' \<Longrightarrow> all_times_ok e t' w"
  by (auto simp: all_times_ok_def intro: times_ok_mono)

lemma times_ok_writes:
  assumes "times_ok now s" "now \<le> t" "t \<le> t'"
  shows "times_ok t' (s\<lparr>LastOnline := t, LastRegister := t'\<rparr>)" "times_ok t (s\<lparr>Scheduled := v, LastOnline := t\<rparr>)"
    "times_ok t (next_status t s r)" "times_ok t (s\<lparr>Size := z\<rparr>)" "times_ok t (s\<lparr>Status := x, LastOnline := t\<rparr>)"
  using assms by (auto simp: times_ok_def next_status_def Let_def)

lemma put_status_world [simp]:
  "gin_world (put_status e j f a q) = snd (snd (cl_Status_Update (env_jobs e) j (gin_world q)))"
  by (auto simp: put_status_def Let_def split: prod.split option.split)

lemma send_command_world [simp]:
  "gin_world (send_command e n c q) = snd (env_http_Post e (worker_url n) c (gin_world q))"
  by (auto simp: send_command_def PostJSON_def Let_def split: prod.split sum.split option.split)

lemma apply_job_world [simp]:
  "gin_world (Recovery (apply_job e n spec q)) = snd (cl_Patch (env_jobs e)
     \<lparr>job_Name = n, job_Namespace = [], job_Spec = spec, job_Status = zeroJobStatus\<rparr> (gin_world q))"
  by (auto simp: apply_job_def Recovery_def Let_def split: prod.split option.split)

lemma Recovery_simps [simp]:
  "Recovery (Done q) = q" "gin_world (Recovery (Crashed m q)) = gin_world q"
  by (simp_all add: Recovery_def)

lemma mgr_GetJob_cases:
  obtains (found) j where "cl_Get (env_jobs e) n (gin_world q) = Inr j" "mgr_GetJob e n q = (Some j, None, q)"
  | (missing) m where "cl_Get (env_jobs e) n (gin_world q) = Inl m"
      "mgr_GetJob e n q = (None, Some (''failed to get mirror: '' @ m), fail_with (''failed to get mirror: '' @ m) q)"
  by (cases "cl_Get (env_jobs e) n (gin_world q)") (auto simp: mgr_GetJob_def Let_def)

lemmas handler_defs = getJob_def getJobConfig_def getJobLatestLog_def deleteJob_def registerMirror_def
  updateSchedule_def updateJob_def updateMirrorSize_def enableJob_def disableJob_def handleClientCmd_def

lemma status_written:
  assumes "tracks_status e" "all_times_ok e t w" "times_ok t (job_Status ob)"
  shows "all_times_ok e t (snd (snd (cl_Status_Update (env_jobs e) ob w)))"
  using assms unfolding tracks_status_def all_times_ok_def by metis

lemma nothing_written:
  assumes "tracks_status e" "all_times_ok e t w"
  shows "all_times_ok e t (snd (cl_Delete (env_jobs e) ob w))" "all_times_ok e t (snd (env_http_Post e u c w))"
  using assms unfolding tracks_status_def all_times_ok_def by metis+

lemma spec_written:
  assumes "tracks_status e" "all_times_ok e t w" "0 \<le> t" "job_Status ob = zeroJobStatus"
  shows "all_times_ok e t (snd (cl_Patch (env_jobs e) ob w))"
proof -
  have "times_ok t zeroJobStatus" using assms(3) by (simp add: times_ok_def zeroJobStatus_def)
  with assms show ?thesis unfolding tracks_status_def all_times_ok_def by metis
qed

text \<open>The world after one request, by what the handler found.\<close>

fun world_after :: "'w env \<Rightarrow> int \<times> int \<Rightarrow> string \<Rightarrow> Job \<Rightarrow> job_request \<Rightarrow> 'w \<Rightarrow> 'w" where
  "world_after e t n j RegisterRequest w =
     snd (snd (cl_Status_Update (env_jobs e)
       (j\<lparr>job_Status := (job_Status j)\<lparr>LastOnline := fst t, LastRegister := snd t\<rparr>\<rparr>) w))"
| "world_after e t n j (ScheduleRequest s be) w =
     snd (snd (cl_Status_Update (env_jobs e)
       (j\<lparr>job_Status := (job_Status j)\<lparr>Scheduled := s, LastOnline := fst t\<rparr>\<rparr>) w))"
| "world_after e t n j (StatusRequest s be) w =
     snd (snd (cl_Status_Update (env_jobs e) (j\<lparr>job_Status := next_status (fst t) (job_Status j) s\<rparr>) w))"
| "world_after e t n j (SizeRequest z be) w =
     snd (snd (cl_Status_Update (env_jobs e) (j\<lparr>job_Status := (job_Status j)\<lparr>Size := z\<rparr>\<rparr>) w))"
| "world_after e t n j EnableRequest w = snd (snd (cl_Status_Update (env_jobs e) (set_status Created (fst t) j) w))"
| "world_after e t n j DisableRequest w = snd (snd (cl_Status_Update (env_jobs e) (set_status Disabled (fst t) j) w))"
| "world_after e t n j (CmdRequest c be) w =
     (if cc_Cmd c = CmdStop
      then case cl_Status_Update (env_jobs e) (set_status Paused (fst t) j) w of
             (er, _, w') \<Rightarrow> if er = None then snd (env_http_Post e (worker_url n) c w') else w'
      else snd (env_http_Post e (worker_url n) c w))"
| "world_after e t n j DeleteRequest w = snd (cl_Delete (env_jobs e) j w)"
| "world_after e t n j (CreateRequest cd nb mb er) w =
     (case handleMerge cd (spec_map cd (job_Spec j)) (fst mb) of
        Ret (Some spec) \<Rightarrow> snd (cl_Patch (env_jobs e)
          \<lparr>job_Name = n, job_Namespace = [], job_Spec = spec, job_Status = zeroJobStatus\<rparr> w)
      | _ \<Rightarrow> w)"
| "world_after e t n j _ w = w"

lemma serve_known:
  assumes "cl_Get (env_jobs e) n w = Inr j"
  shows "gin_world (Recovery (serve_job e n t r (new_request w))) = world_after e t n j r w"
proof -
  have get: "mgr_GetJob e n q = (Some j, None, q)" if "gin_world q = w" for q
    using assms that by (simp add: mgr_GetJob_def)
  show ?thesis
    by (cases r) (use assms in \<open>auto simp: serve_job_def handler_defs createJob_def get Let_def
        split: prod.split option.split sum.split go.split\<close>)
qed

lemma serve_unknown:
  assumes "cl_Get (env_jobs e) n w = Inl m"
  shows "gin_world (Recovery (serve_job e n t r (new_request w)))
    = (case r of CmdRequest c be \<Rightarrow> if cc_Cmd c = CmdStop then w else snd (env_http_Post e (worker_url n) c w)
       | CreateRequest cd nb mb er \<Rightarrow> snd (cl_Patch (env_jobs e)
           \<lparr>job_Name = n, job_Namespace = [], job_Spec = fst nb, job_Status = zeroJobStatus\<rparr> w)
       | _ \<Rightarrow> w)"
proof -
  have get: "mgr_GetJob e n q = (None, Some (''failed to get mirror: '' @ m), fail_with (''failed to get mirror: '' @ m) q)"
    if "gin_world q = w" for q
    using assms that by (simp add: mgr_GetJob_def Let_def)
  show ?thesis
    by (cases r) (use assms in \<open>auto simp: serve_job_def handler_defs createJob_def get Let_def
        split: prod.split option.split sum.split\<close>)
qed

lemma serve_times_ok:
  assumes tr: "tracks_status e" and ok: "all_times_ok e now w" and t: "now \<le> fst t" "fst t \<le> snd t" and now: "0 \<le> now"
  shows "all_times_ok e (snd t) (gin_world (Recovery (serve_job e n t r (new_request w))))"
proof -
  have w: "all_times_ok e (snd t) w" using ok t by (auto intro: all_times_ok_mono)
  show ?thesis
  proof (cases "cl_Get (env_jobs e) n w")
    case (Inl m)
    show ?thesis unfolding serve_unknown [OF Inl]
      by (cases r) (use t now in \<open>auto simp: w intro: nothing_written [OF tr w] spec_written [OF tr w]\<close>)
  next
    case (Inr j)
    then have j: "times_ok now (job_Status j)" using ok by (simp add: all_times_ok_def)
    note writes = times_ok_writes [OF j t] times_ok_mono [OF times_ok_writes(2) [OF j t] t(2)]
      times_ok_mono [OF times_ok_writes(3) [OF j t] t(2)] times_ok_mono [OF times_ok_writes(4) [OF j t] t(2)]
      times_ok_mono [OF times_ok_writes(5) [OF j t] t(2)]
    have paused: "all_times_ok e (snd t) (snd (snd (cl_Status_Update (env_jobs e) (set_status Paused (fst t) j) w)))"
      by (rule status_written [OF tr w]) (simp add: set_status_def writes)
    show ?thesis unfolding serve_known [OF Inr]
      by (cases r) (use paused t now in \<open>auto simp: w writes set_status_def
          intro!: status_written [OF tr w] nothing_written [OF tr] spec_written [OF tr w] split: prod.split go.split option.split\<close>)
  qed
qed

text \<open>
  C4: Whatever the workers and the operators send, in whatever order, the times of every job stay in
  order: a successful synchronisation is not later than the last ended one, neither it nor the
  last start is later than the last contact, and nothing is later than the clock.
\<close>

theorem times_stay_in_order:
  assumes "tracks_status e" "all_times_ok e now w" "clock_ok now rs" "0 \<le> now"
  shows "all_times_ok e (clock_end now rs) (serve_jobs e rs w)"
  using assms(2-4)
proof (induction rs arbitrary: now w)
  case (Cons tr rs)
  obtain t n r where tr: "tr = (t, n, r)" by (cases tr)
  from Cons.prems tr show ?case
    by (auto intro!: Cons.IH serve_times_ok [OF assms(1) Cons.prems(1)])
qed simp

text \<open>A cluster of two mirrors whose workers accept every command.\<close>

abbreviation sample_env :: "Job list env" where "sample_env \<equiv> job_store"

abbreviation sample_jobs :: "Job list" where "sample_jobs \<equiv> two_jobs"

lemma sample_env_tracks: "tracks_status sample_env"
proof -
  note store = store_client_status [where nm = job_Name and st = "\<lambda>new old. old\<lparr>job_Status := job_Status new\<rparr>"]
    store_client_delete [where nm = job_Name]
    store_client_patch [where nm = job_Name and sp = "\<lambda>new old. old\<lparr>job_Spec := job_Spec new\<rparr>"]
  show ?thesis
    unfolding tracks_status_def job_store_def env.simps
    by (intro conjI allI impI; (drule store(1), simp, force)?; (erule store(2))?; (drule store(3), simp, force)?; simp)
qed

theorem times_stay_in_order_witness:
  "all_times_ok sample_env 50
     (serve_jobs sample_env
        [((10, 11), ''arch'', RegisterRequest), ((20, 20), ''arch'', StatusRequest (zeroJobStatus\<lparr>Status := PreSyncing\<rparr>) None),
         ((25, 25), ''arch'', CreateRequest plain_codec (zeroJobSpec, None) (hourly, None) []),
         ((30, 30), ''gone'', DisableRequest), ((40, 50), ''arch'', StatusRequest (zeroJobStatus\<lparr>Status := Success\<rparr>) None)]
        sample_jobs)"
proof -
  have "all_times_ok sample_env 0 sample_jobs"
    by (auto simp: all_times_ok_def job_store_def store_client_get two_jobs_def zeroJobStatus_def times_ok_def
        split: if_splits)
  from times_stay_in_order [OF sample_env_tracks this,
      of "[((10, 11), ''arch'', RegisterRequest), ((20, 20), ''arch'', StatusRequest (zeroJobStatus\<lparr>Status := PreSyncing\<rparr>) None),
         ((25, 25), ''arch'', CreateRequest plain_codec (zeroJobSpec, None) (hourly, None) []),
         ((30, 30), ''gone'', DisableRequest), ((40, 50), ''arch'', StatusRequest (zeroJobStatus\<lparr>Status := Success\<rparr>) None)]"]
  show ?thesis by (simp del: serve_jobs.simps)
qed

section \<open>Errors\<close>
section \<open>Errors\<close>

text \<open>
  A request for a job that does not exist answers 500 whatever it asks for; but asking for its
  configuration and reporting a status or a schedule does so by following a nil pointer.
\<close>

theorem unknown_job_crashes:
  assumes "cl_Get (env_jobs e) n w = Inl m" and "q = fail_with (''failed to get mirror: '' @ m) (new_request w)"
  shows "getJobConfig e n (new_request w) = Crashed ''nil pointer dereference'' q
    \<and> updateJob e n st None t (new_request w) = Crashed ''nil pointer dereference'' q
    \<and> updateSchedule e n s None t (new_request w) = Crashed ''nil pointer dereference'' (c_JSON 200 EmptyObject q)
    \<and> response_code (Recovery (serve_job e n (t, t) r (new_request w)))
        = (case r of GetLogRequest \<Rightarrow> response_code (Recovery (getJobLatestLog e n (new_request w)))
           | CmdRequest c be \<Rightarrow> response_code (Recovery (handleClientCmd e n c be t (new_request w)))
           | CreateRequest cd nb mb er \<Rightarrow> response_code (Recovery (createJob e cd n nb mb er (new_request w)))
           | ScheduleRequest _ be \<Rightarrow> if be = None then 500 else 400
           | StatusRequest _ be \<Rightarrow> if be = None then 500 else 400
           | SizeRequest _ be \<Rightarrow> if be = None then 500 else 400
           | _ \<Rightarrow> 500)"
  using assms
  by (cases r) (auto simp: serve_job_def handler_defs mgr_GetJob_def Let_def response_code_def Recovery_def gin_simps
      split: option.split)

theorem unknown_job_crashes_witness:
  "updateJob sample_env ''gone'' zeroJobStatus None 7 (new_request sample_jobs)
     = Crashed ''nil pointer dereference'' (fail_with ''failed to get mirror: not found'' (new_request sample_jobs))
   \<and> response_code (Recovery (serve_job sample_env ''gone'' (7, 7) DeleteRequest (new_request sample_jobs))) = 500"
proof -
  have "cl_Get (env_jobs sample_env) ''gone'' sample_jobs = Inl ''not found''" by code_simp
  from unknown_job_crashes [OF this refl, of zeroJobStatus 7 0 DeleteRequest] show ?thesis by simp
qed

text \<open>
  A stop command whose status update fails is not passed on to the worker, yet the operator is
  answered 200.
\<close>

theorem failed_stop_answers_ok:
  assumes "cc_Cmd c = CmdStop" "cl_Get (env_jobs e) n w = Inr j"
    and "cl_Status_Update (env_jobs e) (set_status Paused t j) w = (Some m, j', w')"
  shows "handleClientCmd e n c None t (new_request w) = Done (new_request w')
    \<and> response_code (new_request w') = 200"
  using assms
  by (simp add: handleClientCmd_def mgr_GetJob_def c_BindJSON_def Let_def new_request_def response_code_def)

theorem failed_stop_answers_ok_witness:
  "let e = sample_env\<lparr>env_jobs := (env_jobs sample_env)\<lparr>cl_Status_Update := (\<lambda>ob w. (Some ''conflict'', ob, w))\<rparr>\<rparr>
   in handleClientCmd e ''arch'' \<lparr>cc_Cmd = CmdStop, cc_Force = False\<rparr> None 7 (new_request sample_jobs)
        = Done (new_request sample_jobs)"
proof -
  let ?e = "sample_env\<lparr>env_jobs := (env_jobs sample_env)\<lparr>cl_Status_Update := (\<lambda>ob w. (Some ''conflict'', ob, w))\<rparr>\<rparr>"
  have "cl_Get (env_jobs ?e) ''arch'' sample_jobs = Inr (hd sample_jobs)" by code_simp
  from failed_stop_answers_ok [OF _ this, of "\<lparr>cc_Cmd = CmdStop, cc_Force = False\<rparr>" 7 "''conflict''"]
  show ?thesis by (simp add: Let_def)
qed

text \<open>
  A report that does not decode is answered 400, and the status is overwritten all the same by
  whatever the decoder had filled in before the error.
\<close>

lemma malformed_report_is_stored:
  assumes "cl_Get (env_jobs e) n w = Inr j"
    and "cl_Status_Update (env_jobs e) (j\<lparr>job_Status := next_status t (job_Status j) st\<rparr>) w = (None, j', w')"
  shows "\<exists>q. updateJob e n st (Some m) t (new_request w) = Done q \<and> gin_world q = w' \<and> response_code q = 400"
  using assms
  by (simp add: updateJob_def mgr_GetJob_def put_status_def Let_def response_code_def new_request_def gin_simps)

lemma malformed_report_is_stored_witness:
  "\<exists>q. updateJob sample_env ''arch'' zeroJobStatus (Some ''EOF'') 7 (new_request sample_jobs) = Done q
     \<and> response_code q = 400
     \<and> cl_Get (env_jobs sample_env) ''arch'' (gin_world q)
         = Inr ((hd sample_jobs)\<lparr>job_Status := zeroJobStatus\<lparr>LastOnline := 7\<rparr>\<rparr>)"
proof -
  let ?j = "(hd sample_jobs)\<lparr>job_Status := zeroJobStatus\<lparr>LastOnline := 7\<rparr>\<rparr>"
  have 1: "cl_Get (env_jobs sample_env) ''arch'' sample_jobs = Inr (hd sample_jobs)"
    and 2: "cl_Status_Update (env_jobs sample_env)
        ((hd sample_jobs)\<lparr>job_Status := next_status 7 (job_Status (hd sample_jobs)) zeroJobStatus\<rparr>) sample_jobs
      = (None, ?j, ?j # tl sample_jobs)"
    and 3: "cl_Get (env_jobs sample_env) ''arch'' (?j # tl sample_jobs) = Inr ?j"
    by code_simp+
  from malformed_report_is_stored [OF 1 2] 3 show ?thesis by metis
qed

end
