(* ===== verification/Manager_MirrorZ.thy ===== *)
theory Manager_MirrorZ
  imports Manager_External Manager_Jobs "HOL-Library.List_Lexorder" "HOL-Library.Char_ord" "HOL-Library.Multiset"
begin

text \<open>
  The two pages of \<open>manager/server.go\<close> that list all mirrors: \<open>listJob\<close>, and \<open>mirrorZ\<close> with
  the document of the MirrorZ project, which every request rewrites in place.
\<close>

section \<open>The list of mirrors\<close>

definition mirror_status :: "Job \<Rightarrow> MirrorStatus" where
  "mirror_status v =
     (let cfg = js_Config (job_Spec v);
          w = \<lparr>mi_ID = job_Name v, mi_Alias = jc_Alias cfg, mi_Desc = jc_Desc cfg, mi_Url = jc_Url cfg,
               mi_HelpUrl = jc_HelpUrl cfg, mi_Type = jc_Type cfg, mi_SizeStr = ParseSize (Size (job_Status v)),
               mi_JobStatus = job_Status v\<rparr>
      in if jc_Type cfg = Proxy
         then w\<lparr>mi_JobStatus := (job_Status v)\<lparr>Upstream := jc_Upstream cfg, Status := Cached\<rparr>\<rparr>
         else if jc_Type cfg = Git
         then w\<lparr>mi_JobStatus := (job_Status v)\<lparr>Upstream := jc_Upstream cfg, Status := Created\<rparr>\<rparr>
         else if jc_Type cfg = [] then w\<lparr>mi_Type := Mirror\<rparr>
         else w)"

definition is_external :: "Job \<Rightarrow> bool" where
  "is_external v = (jc_Type (js_Config (job_Spec v)) = External)"

fun collect_mirrors :: "(string \<Rightarrow> string + giteaMsg) \<Rightarrow> Job list \<Rightarrow> MirrorStatus list go" where
  "collect_mirrors ask [] = Ret []"
| "collect_mirrors ask (v # vs) =
     go_bind (if is_external v then external_List ask (js_Config (job_Spec v)) else Ret [mirror_status v]) (\<lambda>ws.
       go_bind (collect_mirrors ask vs) (\<lambda>rest. Ret (ws @ rest)))"

definition listJob :: "'w env \<Rightarrow> (string \<Rightarrow> string + giteaMsg) \<Rightarrow> 'w gin \<Rightarrow> 'w gin outcome" where
  "listJob e ask q =
     (case cl_List (env_jobs e) (gin_world q) of
        (items, er) \<Rightarrow>
          (case collect_mirrors ask items of
             Panic m \<Rightarrow> Crashed m q
           | Ret ws \<Rightarrow>
               let ws = sort_key (\<lambda>w. ToLower (mi_ID w)) ws
               in case er of
                    Some m \<Rightarrow> Done (fail_with (''failed to list mirrors: '' @ m) q)
                  | None \<Rightarrow> Done (c_JSON 200 (MirrorsBody ws) q)))"

section \<open>The MirrorZ document\<close>

definition z_info :: "FileRes \<Rightarrow> ZInfo" where
  "z_info v = \<lparr>zi_Distro = if file_Alias v = [] then file_Name v else file_Alias v, zi_Category = file_Type v,
     zi_Urls = map (\<lambda>u. \<lparr>zu_Name = fi_Name u, zu_Url = fi_Path u\<rparr>) (file_Files v)\<rparr>"

text \<open>A letter with a time, unless the time is unknown.\<close>

definition stamp :: "char \<Rightarrow> int \<Rightarrow> string \<Rightarrow> string" where
  "stamp c t old = (if t \<noteq> 0 then c # Itoa t else old)"

definition z_main :: "JobStatus \<Rightarrow> string" where
  "z_main s =
     (if Status s = Success then stamp (CHR ''S'') (LastUpdate s) ''U''
      else if Status s = PreSyncing then stamp (CHR ''D'') (Scheduled s) ''U''
      else if Status s = Syncing then stamp (CHR ''Y'') (LastStarted s) ''U''
      else if Status s = Failed then stamp (CHR ''F'') (LastEnded s) ''U''
      else if Status s = Paused then stamp (CHR ''P'') (LastEnded s) ''U''
      else if Status s = Created then stamp (CHR ''N'') (LastRegister s) ''U''
      else ''U'')"

definition z_status :: "Job \<Rightarrow> string" where
  "z_status v =
     (let s = job_Status v in
      if jc_Type (js_Config (job_Spec v)) = Proxy then ''C''
      else let status = z_main s in
           if status \<noteq> ''U''
           then status
             @ (if Scheduled s \<noteq> 0 then ''X'' @ Itoa (Scheduled s) else [])
             @ (if LastUpdate s = 0 \<and> LastRegister s \<noteq> 0 then ''N'' @ Itoa (LastRegister s) else [])
             @ (if (Status s = Syncing \<or> Status s = Failed) \<and> LastUpdate s \<noteq> 0 then ''O'' @ Itoa (LastUpdate s) else [])
           else status)"

definition z_mirror :: "Job \<Rightarrow> ZMirror" where
  "z_mirror v =
     (let cfg = js_Config (job_Spec v) in
      \<lparr>zm_Cname = job_Name v, zm_Desc = jc_Desc cfg,
       zm_Url = if jc_Url cfg = [] then ''/'' @ job_Name v else jc_Url cfg, zm_Status = z_status v,
       zm_Help = jc_HelpUrl cfg, zm_Upstream = jc_Upstream cfg, zm_Size = ParseSize (Size (job_Status v)),
       zm_Disable = (jc_Type cfg \<noteq> Proxy \<and> Status (job_Status v) = Disabled)\<rparr>)"

text \<open>
  The loop over the jobs appends to the document and adds up the sizes; a panic leaves what was
  appended before.
\<close>

fun z_mirrors ::
  "(string \<Rightarrow> string + giteaMsg) \<Rightarrow> Job list \<Rightarrow> ZMirror list \<times> uint64 \<Rightarrow> (ZMirror list \<times> uint64) \<times> err" where
  "z_mirrors ask [] acc = (acc, None)"
| "z_mirrors ask (v # vs) (ms, fullSize) =
     (if is_external v
      then case external_ListZ ask (js_Config (job_Spec v)) of
             Panic m \<Rightarrow> ((ms, fullSize), Some m)
           | Ret ws \<Rightarrow> z_mirrors ask vs (ms @ ws, fullSize)
      else z_mirrors ask vs (ms @ [z_mirror v], fullSize + Size (job_Status v)))"

definition z_disk :: "uint64 \<Rightarrow> string \<Rightarrow> string" where
  "z_disk fullSize capacity = ParseSize fullSize @ (if capacity \<noteq> [] then ''/'' @ capacity else [])"

text \<open>The handler with the document it shares with every other request.\<close>

definition mirrorZ ::
  "'w env \<Rightarrow> (string \<Rightarrow> string + giteaMsg) \<Rightarrow> string \<Rightarrow> bool \<Rightarrow> MirrorZ \<Rightarrow> 'w gin \<Rightarrow> 'w gin outcome \<times> MirrorZ" where
  "mirrorZ e ask capacity pack doc q =
     (let infos = (case cl_List (env_files e) (gin_world q) of
                     (_, Some _) \<Rightarrow> []
                   | (fs, None) \<Rightarrow> map z_info (filter (\<lambda>v. 0 < length (file_Files v)) fs));
          ((ms, fullSize), crash) = (case cl_List (env_jobs e) (gin_world q) of
                     (_, Some _) \<Rightarrow> (([], 0), None)
                   | (vs, None) \<Rightarrow> z_mirrors ask vs ([], 0));
          doc = doc\<lparr>mz_Info := infos, mz_Mirrors := ms\<rparr>
      in case crash of
           Some m \<Rightarrow> (Crashed m q, doc)
         | None \<Rightarrow>
             let doc = doc\<lparr>mz_Site := (mz_Site doc)\<lparr>zs_Disk := z_disk fullSize capacity\<rparr>\<rparr>
             in (Done (c_JSON 200 (if pack then ZPackBody [doc] else ZBody doc) q), doc))"

section \<open>When and what the pages list\<close>

lemma collect_mirrors_Ret:
  "(\<exists>ws. collect_mirrors ask vs = Ret ws) \<longleftrightarrow> (\<forall>v \<in> set vs. is_external v \<longrightarrow> listable ask (js_Config (job_Spec v)))"
  using external_List_Ret [of ask] by (induction vs) (auto simp: go_bind_Ret_iff)

text \<open>
  C30: The list of mirrors is answered exactly when every external job names the one known service
  and every repository it lists has a readable time; one other external job makes the page, and
  with it every mirror, unavailable.
\<close>

theorem listJob_returns_iff:
  "(\<exists>q'. listJob e ask q = Done q')
     \<longleftrightarrow> (\<forall>v \<in> set (fst (cl_List (env_jobs e) (gin_world q))).
           is_external v \<longrightarrow> listable ask (js_Config (job_Spec v)))"
proof (cases "cl_List (env_jobs e) (gin_world q)")
  case (Pair items er)
  then show ?thesis
    unfolding collect_mirrors_Ret [symmetric]
    by (cases "collect_mirrors ask items") (auto simp: listJob_def Let_def split: option.split)
qed

definition external_job :: "string \<Rightarrow> Job" where
  "external_job provider = (hd sample_jobs)\<lparr>job_Name := ''forge'', job_Spec := zeroJobSpec\<lparr>js_Config :=
     zeroJobConfig\<lparr>jc_Type := External, jc_Provider := provider, jc_Upstream := ''https://git.example.org''\<rparr>\<rparr>\<rparr>"

theorem listJob_returns_iff_witness:
  "(\<exists>q. listJob sample_env (\<lambda>_. Inl ''timeout'') (new_request (external_job ''gitea'' # sample_jobs)) = Done q)
   \<and> \<not> (\<exists>q. listJob sample_env (\<lambda>_. Inl ''timeout'') (new_request (external_job ''gitlab'' # sample_jobs)) = Done q)"
proof -
  have items: "fst (cl_List (env_jobs sample_env) (gin_world (new_request w))) = w" for w
    by (simp add: job_store_def store_client_def)
  show ?thesis
    unfolding listJob_returns_iff items
    by (simp add: external_job_def two_jobs_def listable_def is_external_def zeroJobSpec_def zeroJobConfig_def
        status_simps)
qed

lemma collect_own:
  "\<not> list_ex is_external vs \<Longrightarrow> collect_mirrors ask vs = Ret (map mirror_status vs)"
  by (induction vs) auto

lemma mirror_status_ID [simp]: "mi_ID (mirror_status v) = job_Name v"
  by (simp add: mirror_status_def Let_def)

text \<open>
  Without external jobs the page lists every job once, in the order of the lower-case names.
\<close>

lemma listJob_lists_sorted:
  assumes "cl_List (env_jobs e) (gin_world q) = (items, None)" "\<not> list_ex is_external items"
  shows "\<exists>ws. listJob e ask q = Done (c_JSON 200 (MirrorsBody ws) q)
    \<and> mset ws = mset (map mirror_status items) \<and> sorted (map (\<lambda>w. ToLower (mi_ID w)) ws)"
  using assms by (intro exI [of _ "sort_key (\<lambda>w. ToLower (mi_ID w)) (map mirror_status items)"])
    (simp add: listJob_def collect_own Let_def)

definition z_head :: "string \<Rightarrow> bool" where
  "z_head s \<longleftrightarrow> s = ''U'' \<or> (\<exists>c t. s = c # Itoa t \<and> c \<in> set ''SDYFPN'' \<and> t \<noteq> 0)"

lemma z_head_rules:
  "z_head ''U''" "c \<in> set ''SDYFPN'' \<Longrightarrow> z_head (stamp c t ''U'')"
  "z_head x \<Longrightarrow> z_head y \<Longrightarrow> z_head (if b then x else y)"
  by (auto simp: z_head_def stamp_def)

lemma z_main_head: "z_head (z_main s)"
  unfolding z_main_def by (intro z_head_rules) simp_all

lemma sample_listing:
  "cl_List (env_jobs sample_env) (gin_world (new_request sample_jobs)) = (sample_jobs, None)"
  "\<not> list_ex is_external sample_jobs"
  by (simp_all add: job_store_def store_client_def two_jobs_def is_external_def zeroJobSpec_def zeroJobConfig_def
      status_simps)

lemma listJob_lists_sorted_witness:
  "\<exists>ws. listJob sample_env (\<lambda>_. Inl ''timeout'') (new_request sample_jobs)
       = Done (c_JSON 200 (MirrorsBody ws) (new_request sample_jobs))
     \<and> length ws = 2 \<and> sorted (map (\<lambda>w. ToLower (mi_ID w)) ws)"
proof -
  have "length ws = 2" if "mset ws = mset (map mirror_status sample_jobs)" for ws
    using mset_eq_length [OF that] by (simp add: two_jobs_def)
  then show ?thesis using listJob_lists_sorted [OF sample_listing, of "\<lambda>_. Inl ''timeout''"] by blast
qed


lemma z_mirrors_own:
  "\<not> list_ex is_external vs \<Longrightarrow>
     z_mirrors ask vs (ms, n) = ((ms @ map z_mirror vs, n + sum_list (map (\<lambda>v. Size (job_Status v)) vs)), None)"
  by (induction vs arbitrary: ms n) (auto simp: algebra_simps)

lemma unat_sum_list: "unat (sum_list ws :: uint64) = sum_list (map unat ws) mod 2 ^ 64"
  by (induction ws) (simp_all add: unat_word_ariths mod_simps)



end
