(* ===== verification/Controller_Config.thy ===== *)
theory Controller_Config
  imports Go_Prelude
begin

text \<open>
  The configuration of the controller, \<open>getConfig\<close> and \<open>mergeDefaults\<close> of \<open>cmd/main.go\<close>, read
  from the environment of its process.
\<close>

record ControllerConfig =
  cf_ManagerImage :: string
  cf_WorkerImage :: string
  cf_PullPolicy :: string
  cf_PullSecret :: string
  cf_StorageClass :: string
  cf_AccessMode :: string
  cf_FrontMode :: string
  cf_FrontImage :: string
  cf_RsyncImage :: string
  cf_FrontCmd :: string
  cf_FrontConfig :: string
  cf_RsyncCmd :: string
  cf_FrontHost :: string
  cf_FrontTLS :: string
  cf_FrontClass :: string
  cf_FrontAnn :: "(string \<times> string) list option"
  cf_EnableMetric :: bool
  cf_Debug :: bool

text \<open>A map is the list of its pairs without repeated keys; the nil map is \<open>None\<close>.\<close>

fun map_put :: "string \<Rightarrow> string \<Rightarrow> (string \<times> string) list \<Rightarrow> (string \<times> string) list" where
  "map_put k v [] = [(k, v)]"
| "map_put k v ((k', v') # m) = (if k' = k then (k, v) # m else (k', v') # map_put k v m)"

definition parse_annotations :: "string \<Rightarrow> (string \<times> string) list" where
  "parse_annotations s =
     (if s = [] then []
      else fold (\<lambda>item m. case Split item (CHR ''='') of [k, v] \<Rightarrow> map_put k v m | _ \<Rightarrow> m) (Split s (CHR '';'')) [])"

text \<open>The default configuration of the file server in front of a mirror, line by line.\<close>

definition default_front_config :: string where
  "default_front_config = Join
     ['''',
      ''{'',
      ''    \"logging\": {'',
      ''        \"logs\": {'',
      ''            \"default\": {},'',
      ''            \"loki\": {'',
      ''                \"writer\": {'',
      ''                    \"labels\": {'',
      ''                        \"job\": \"{env.JOB_NAME}\",'',
      ''                        \"instance\": \"{env.HOSTNAME}\",'',
      ''                        \"component\": \"caddy\"'',
      ''                    },'',
      ''                    \"output\": \"loki\",'',
      ''                    \"url\": \"http://loki:3100/loki/api/v1/push\"'',
      ''                },'',
      ''                \"encoder\": {'',
      ''                    \"format\": \"json\"'',
      ''                },'',
      ''                \"level\": \"INFO\",'',
      ''                \"include\": ['',
      ''                    \"http.log.access\"'',
      ''                ]'',
      ''            }'',
      ''        }'',
      ''    },'',
      ''    \"apps\": {'',
      ''        \"http\": {'',
      ''            \"servers\": {'',
      ''                \"metric\": {'',
      ''                    \"listen\": ['',
      ''                        \":2019\"'',
      ''                    ],'',
      ''                    \"routes\": ['',
      ''                        {'',
      ''                            \"handle\": ['',
      ''                                {'',
      ''                                    \"handler\": \"metrics\"'',
      ''                                }'',
      ''                            ]'',
      ''                        }'',
      ''                    ]'',
      ''                },'',
      ''                \"file_server\": {'',
      ''                    \"listen\": ['',
      ''                        \":80\"'',
      ''                    ],'',
      ''                    \"routes\": ['',
      ''                        {'',
      ''                            \"handle\": ['',
      ''                                {'',
      ''                                    \"browse\": {},'',
      ''                                    \"handler\": \"file_server\",'',
      ''                                    \"root\": \"/data\"'',
      ''                                }'',
      ''                            ]'',
      ''                        }'',
      ''                    ],'',
      ''                    \"logs\": {'',
      ''                        \"default_logger_name\": \"loki\"'',
      ''                    },'',
      ''                    \"metrics\": {}'',
      ''                }'',
      ''            }'',
      ''        }'',
      ''    }'',
      ''}'',
      replicate 2 (CHR 0x09)]
     [CHR 0x0A]"

definition defaultConfig :: ControllerConfig where
  "defaultConfig =
     \<lparr>cf_ManagerImage = ''cquptmirror/manager:latest'', cf_WorkerImage = ''cquptmirror/worker:latest'',
      cf_PullPolicy = [], cf_PullSecret = [], cf_StorageClass = [], cf_AccessMode = [],
      cf_FrontMode = ''cquptmirror/caddy:latest'', cf_FrontImage = [], cf_RsyncImage = [], cf_FrontCmd = [],
      cf_FrontConfig = default_front_config, cf_RsyncCmd = [], cf_FrontHost = ''mirrors.cqupt.edu.cn'', cf_FrontTLS = [],
      cf_FrontClass = ''traefik'',
      cf_FrontAnn = Some [(''traefik.ingress.kubernetes.io/router.entrypoints'', ''web'')],
      cf_EnableMetric = False, cf_Debug = False\<rparr>"

definition or_default :: "string \<Rightarrow> string \<Rightarrow> string" where
  "or_default s d = (if s = [] then d else s)"

text \<open>
  The loop over the fields by reflection: a string or map field that is zero takes the default, a
  field of another kind is skipped.  A map is zero only when it is nil.
\<close>

definition mergeDefaults :: "ControllerConfig \<Rightarrow> ControllerConfig" where
  "mergeDefaults c =
     (let d = defaultConfig in
      c\<lparr>cf_ManagerImage := or_default (cf_ManagerImage c) (cf_ManagerImage d),
        cf_WorkerImage := or_default (cf_WorkerImage c) (cf_WorkerImage d),
        cf_PullPolicy := or_default (cf_PullPolicy c) (cf_PullPolicy d),
        cf_PullSecret := or_default (cf_PullSecret c) (cf_PullSecret d),
        cf_StorageClass := or_default (cf_StorageClass c) (cf_StorageClass d),
        cf_AccessMode := or_default (cf_AccessMode c) (cf_AccessMode d),
        cf_FrontMode := or_default (cf_FrontMode c) (cf_FrontMode d),
        cf_FrontImage := or_default (cf_FrontImage c) (cf_FrontImage d),
        cf_RsyncImage := or_default (cf_RsyncImage c) (cf_RsyncImage d),
        cf_FrontCmd := or_default (cf_FrontCmd c) (cf_FrontCmd d),
        cf_FrontConfig := or_default (cf_FrontConfig c) (cf_FrontConfig d),
        cf_RsyncCmd := or_default (cf_RsyncCmd c) (cf_RsyncCmd d),
        cf_FrontHost := or_default (cf_FrontHost c) (cf_FrontHost d),
        cf_FrontTLS := or_default (cf_FrontTLS c) (cf_FrontTLS d),
        cf_FrontClass := or_default (cf_FrontClass c) (cf_FrontClass d),
        cf_FrontAnn := (case cf_FrontAnn c of None \<Rightarrow> cf_FrontAnn d | Some m \<Rightarrow> Some m)\<rparr>)"

text \<open>\<open>env\<close> is \<open>os.Getenv\<close>, which reads an unset variable as empty.\<close>

definition getConfig :: "(string \<Rightarrow> string) \<Rightarrow> ControllerConfig" where
  "getConfig env = mergeDefaults
     \<lparr>cf_ManagerImage = env ''MANAGER_IMAGE'', cf_WorkerImage = env ''WORKER_IMAGE'', cf_PullPolicy = env ''PULL_POLICY'',
      cf_PullSecret = env ''PULL_SECRET'', cf_StorageClass = env ''STORAGE_CLASS'', cf_AccessMode = env ''ACCESS_MODE'',
      cf_FrontMode = env ''FRONT_MODE'', cf_FrontImage = env ''FRONT_IMAGE'', cf_RsyncImage = env ''RSYNC_IMAGE'',
      cf_FrontCmd = env ''FRONT_CMD'', cf_FrontConfig = env ''FRONT_CONFIG'', cf_RsyncCmd = env ''RSYNC_CMD'',
      cf_FrontHost = env ''FRONT_HOST'', cf_FrontTLS = env ''FRONT_TLS'', cf_FrontClass = env ''FRONT_CLASS'',
      cf_FrontAnn = Some (parse_annotations (env ''FRONT_ANN'')),
      cf_EnableMetric = (env ''ENABLE_METRIC'' \<noteq> []), cf_Debug = (env ''DEBUG'' \<noteq> [])\<rparr>"

lemma mergeDefaults_idem: "mergeDefaults (mergeDefaults c) = mergeDefaults c"
  by (simp add: mergeDefaults_def or_default_def Let_def split: option.split)

text \<open>
  Merging twice is merging once, the settings that have a default are never empty afterwards,
  and the default annotations are never used: the map read from the environment is empty, not nil.
\<close>

lemma getConfig_defaults:
  "mergeDefaults (getConfig env) = getConfig env
   \<and> cf_WorkerImage (getConfig env) \<noteq> [] \<and> cf_ManagerImage (getConfig env) \<noteq> [] \<and> cf_FrontMode (getConfig env) \<noteq> []
   \<and> cf_FrontAnn (getConfig env) = Some (parse_annotations (env ''FRONT_ANN''))"
  unfolding getConfig_def mergeDefaults_idem
  by (intro conjI refl) (simp_all add: mergeDefaults_def or_default_def defaultConfig_def Let_def)

end
