(* ===== verification/Controller_Objects.thy ===== *)
theory Controller_Objects
  imports Api_Types Controller_Config
begin

text \<open>
  The Kubernetes objects the controller builds, with the fields it fills in.  Liveness and
  readiness probe of a container are always the same one.  \<open>om_Owned\<close> says that the object has a
  reference to the resource it is built for.
\<close>

record Meta =
  om_Kind :: string
  om_Name :: string
  om_Namespace :: string
  om_Labels :: "(string \<times> string) list"
  om_Annotations :: "(string \<times> string) list"
  om_Owned :: bool

definition meta :: "string \<Rightarrow> string \<Rightarrow> string \<Rightarrow> (string \<times> string) list \<Rightarrow> Meta" where
  "meta kind name ns labels =
     \<lparr>om_Kind = kind, om_Name = name, om_Namespace = ns, om_Labels = labels, om_Annotations = [], om_Owned = False\<rparr>"

record Probe =
  pr_Port :: int
  pr_InitialDelaySeconds :: int
  pr_TimeoutSeconds :: int
  pr_PeriodSeconds :: int
  pr_SuccessThreshold :: int
  pr_FailureThreshold :: int

definition tcp_probe :: "int \<Rightarrow> Probe" where
  "tcp_probe port = \<lparr>pr_Port = port, pr_InitialDelaySeconds = 10, pr_TimeoutSeconds = 5, pr_PeriodSeconds = 30,
     pr_SuccessThreshold = 1, pr_FailureThreshold = 5\<rparr>"

record ContainerPort =
  cp_Port :: int
  cp_Name :: string

record VolumeMount =
  vm_Name :: string
  vm_MountPath :: string
  vm_SubPath :: string

record Container =
  cn_Name :: string
  cn_Image :: string
  cn_PullPolicy :: string
  cn_Env :: "EnvVar list"
  cn_Probe :: Probe
  cn_Mounts :: "VolumeMount list"
  cn_Ports :: "ContainerPort list"
  cn_Command :: "string list"
  cn_Limits :: "(string \<times> string) list"

datatype VolumeSource = Claim string | ConfigMapSource string

record Volume =
  vol_Name :: string
  vol_Source :: VolumeSource

record PodSpec =
  pod_Containers :: "Container list"
  pod_Volumes :: "Volume list"
  pod_ImagePullSecrets :: "string list option"
  pod_NodeName :: string
  pod_Affinity :: "string option"
  pod_Tolerations :: "string list option"
  pod_ServiceAccount :: string

text \<open>A Deployment or a DaemonSet, by the kind in its metadata.\<close>

record Workload =
  wl_Meta :: Meta
  wl_Selector :: "(string \<times> string) list"
  wl_PodLabels :: "(string \<times> string) list"
  wl_Pod :: PodSpec

record ServicePort =
  sp_Name :: string
  sp_Port :: int
  sp_TargetPort :: string

record Service =
  svc_Meta :: Meta
  svc_Ports :: "ServicePort list"
  svc_Selector :: "(string \<times> string) list"

datatype PathType = Prefix | Exact

record IngressPath =
  ip_Path :: string
  ip_Type :: PathType
  ip_Service :: string
  ip_Port :: string

record Ingress =
  ig_Meta :: Meta
  ig_Host :: string
  ig_Paths :: "IngressPath list"
  ig_Class :: "string option"
  ig_TLS :: "string list"

record PVC =
  pvc_Meta :: Meta
  pvc_Storage :: string
  pvc_AccessModes :: "string list"
  pvc_StorageClass :: "string option"

record ConfigMap =
  cm_Meta :: Meta
  cm_Data :: "(string \<times> string) list"

record ServiceMonitor =
  sm_Meta :: Meta
  sm_Namespaces :: "string list"
  sm_Selector :: "(string \<times> string) list"
  sm_Port :: string
  sm_Path :: string

record PolicyRule =
  rule_Resources :: "string list"
  rule_Verbs :: "string list"

record Role =
  role_Meta :: Meta
  role_Rules :: "PolicyRule list"

record RoleBinding =
  rb_Meta :: Meta
  rb_Subject :: string
  rb_Role :: string

datatype kobject =
  OPVC PVC | OService Service | OIngress Ingress | OConfigMap ConfigMap | OWorkload Workload
| OServiceMonitor ServiceMonitor | OServiceAccount Meta | ORole Role | ORoleBinding RoleBinding

fun kmeta :: "kobject \<Rightarrow> Meta" where
  "kmeta (OPVC x) = pvc_Meta x"
| "kmeta (OService x) = svc_Meta x"
| "kmeta (OIngress x) = ig_Meta x"
| "kmeta (OConfigMap x) = cm_Meta x"
| "kmeta (OWorkload x) = wl_Meta x"
| "kmeta (OServiceMonitor x) = sm_Meta x"
| "kmeta (OServiceAccount x) = x"
| "kmeta (ORole x) = role_Meta x"
| "kmeta (ORoleBinding x) = rb_Meta x"

section \<open>Names and labels: internal/controller/utils.go\<close>

definition getCommonLabels :: "string \<Rightarrow> (string \<times> string) list" where
  "getCommonLabels jobName =
     [(''app.kubernetes.io/app'', jobName), (''app.kubernetes.io/component'', ''mirror''),
      (''app.kubernetes.io/managed-by'', ''kubesync'')]"

definition serviceName :: "string \<Rightarrow> string" where
  "serviceName jobName = ''mirror-'' @ jobName"

section \<open>Library calls\<close>

text \<open>
  \<open>resource.MustParse\<close> panics on a text that is no quantity; which texts are is a parameter.
\<close>

definition MustParse :: "(string \<Rightarrow> bool) \<Rightarrow> string \<Rightarrow> string go" where
  "MustParse quantity s = (if quantity s then Ret s else Panic ''cannot parse quantity'')"

text \<open>The resource limits of a container.\<close>

definition limits :: "(string \<Rightarrow> bool) \<Rightarrow> string \<Rightarrow> string \<Rightarrow> (string \<times> string) list go" where
  "limits quantity memory cpu =
     go_bind (if memory \<noteq> [] then go_bind (MustParse quantity memory) (\<lambda>m. Ret [(''limits.memory'', m)]) else Ret []) (\<lambda>ms.
     go_bind (if cpu \<noteq> [] then go_bind (MustParse quantity cpu) (\<lambda>c. Ret [(''limits.cpu'', c)]) else Ret []) (\<lambda>cs.
       Ret (ms @ cs)))"

text \<open>
  What the controller asks of the libraries: whether \<open>SetControllerReference\<close> fails for a kind of
  object, which texts are quantities, and whether \<open>json.Compact\<close> accepts a text.
\<close>

record kube_lib =
  lib_setRef :: "string \<Rightarrow> err"
  lib_quantity :: "string \<Rightarrow> bool"
  lib_jsonErr :: "string \<Rightarrow> err"

end
