(* ===== verification/Controller_Job.thy ===== *)
theory Controller_Job
  imports Controller_Objects
begin

text \<open>
  What the controller builds for a mirror job, \<open>internal/controller/job_helper.go\<close>: the volume
  claim, the deployment with its worker, front and rsync containers, the service, the ingress, the
  config map of the front and the service monitor.
\<close>

definition ApiPort :: int where "ApiPort = 6000"
definition FrontPort :: int where "FrontPort = 80"
definition RsyncPort :: int where "RsyncPort = 873"
definition MetricPort :: int where "MetricPort = 2019"

section \<open>Front and rsync\<close>

text \<open>\<open>json.Compact\<close> of a valid text: white space outside of strings is dropped.\<close>

fun json_compact :: "bool \<Rightarrow> string \<Rightarrow> string" where
  "json_compact inStr [] = []"
| "json_compact inStr (c # cs) =
     (if inStr
      then if c = CHR 0x5C then (case cs of [] \<Rightarrow> [c] | d # ds \<Rightarrow> c # d # json_compact True ds)
           else c # json_compact (c \<noteq> CHR 0x22) cs
      else if c \<in> {CHR '' '', CHR 0x09, CHR 0x0A, CHR 0x0D} then json_compact False cs
      else c # json_compact (c = CHR 0x22) cs)"

definition getFrontConfig :: "kube_lib \<Rightarrow> ControllerConfig \<Rightarrow> string + string" where
  "getFrontConfig lib cf =
     (if cf_FrontConfig cf = [] then Inr []
      else case lib_jsonErr lib (cf_FrontConfig cf) of
             Some e \<Rightarrow> Inl e
           | None \<Rightarrow> Inr (json_compact False (cf_FrontConfig cf)))"

record rsync_front =
  rf_disableFront :: bool
  rf_disableRsync :: bool
  rf_frontCmd :: "string list"
  rf_rsyncCmd :: "string list"
  rf_frontMode :: string
  rf_frontImage :: string
  rf_rsyncImage :: string

definition words_of :: "string \<Rightarrow> string \<Rightarrow> string list" where
  "words_of own common =
     (if own \<noteq> [] then Split own (CHR '' '') else if common \<noteq> [] then Split common (CHR '' '') else [])"

definition checkRsyncFront :: "ControllerConfig \<Rightarrow> Job \<Rightarrow> rsync_front" where
  "checkRsyncFront cf job =
     (let d = js_Deploy (job_Spec job);
          frontMode = (if jd_FrontMode d \<noteq> [] then jd_FrontMode d else cf_FrontMode cf);
          rsyncImage = (if jd_RsyncImage d \<noteq> [] then jd_RsyncImage d else cf_RsyncImage cf)
      in \<lparr>rf_disableFront = (frontMode = [] \<or> ParseBool (jd_DisableFront d) = Some True),
          rf_disableRsync = (rsyncImage = [] \<or> ParseBool (jd_DisableRsync d) = Some True),
          rf_frontCmd = words_of (jd_FrontCmd d) (cf_FrontCmd cf),
          rf_rsyncCmd = words_of (jd_RsyncCmd d) (cf_RsyncCmd cf),
          rf_frontMode = frontMode,
          rf_frontImage = (if frontMode \<noteq> [] \<and> cf_FrontImage cf = [] then frontMode @ '':latest'' else cf_FrontImage cf),
          rf_rsyncImage = rsyncImage\<rparr>)"

section \<open>The objects\<close>

definition job_meta :: "string \<Rightarrow> string \<Rightarrow> Job \<Rightarrow> Meta" where
  "job_meta kind name job = meta kind name (job_Namespace job) (getCommonLabels (job_Name job))"

text \<open>Setting the reference to the job; an error is passed on.\<close>

definition owned :: "kube_lib \<Rightarrow> Meta \<Rightarrow> string + Meta" where
  "owned lib m = (case lib_setRef lib (om_Kind m) of Some e \<Rightarrow> Inl e | None \<Rightarrow> Inr (m\<lparr>om_Owned := True\<rparr>))"

text \<open>The size is parsed before it is found to be missing.\<close>

definition desiredPersistentVolumeClaim :: "kube_lib \<Rightarrow> ControllerConfig \<Rightarrow> Job \<Rightarrow> (string + PVC) go" where
  "desiredPersistentVolumeClaim lib cf job =
     (let v = js_Volume (job_Spec job) in
      go_bind (MustParse (lib_quantity lib) (pv_Size v)) (\<lambda>storage.
      go_bind (if pv_Size v = [] then MustParse (lib_quantity lib) ''50Gi'' else Ret storage) (\<lambda>storage.
        Ret (case owned lib (job_meta ''PersistentVolumeClaim'' (job_Name job) job) of
               Inl e \<Rightarrow> Inl e
             | Inr m \<Rightarrow>
                 Inr \<lparr>pvc_Meta = m, pvc_Storage = storage,
                      pvc_AccessModes =
                        [if pv_AccessMode v \<noteq> [] then pv_AccessMode v
                         else if cf_AccessMode cf \<noteq> [] then cf_AccessMode cf else ''ReadWriteOnce''],
                      pvc_StorageClass =
                        (case pv_StorageClass v of
                           Some c \<Rightarrow> Some c
                         | None \<Rightarrow> if cf_StorageClass cf \<noteq> [] then Some (cf_StorageClass cf) else None)\<rparr>))))"

definition desiredFrontConfigmap :: "kube_lib \<Rightarrow> ControllerConfig \<Rightarrow> Job \<Rightarrow> string + ConfigMap option" where
  "desiredFrontConfigmap lib cf job =
     (case getFrontConfig lib cf of
        Inl e \<Rightarrow> Inl e
      | Inr caddyConfig \<Rightarrow>
          if caddyConfig = [] then Inr None
          else Inr (Some \<lparr>cm_Meta = job_meta ''ConfigMap'' (job_Name job @ ''-front'') job,
                          cm_Data = [(''frontConfig'', caddyConfig)]\<rparr>))"

definition worker_env :: "ControllerConfig \<Rightarrow> Job \<Rightarrow> string \<Rightarrow> EnvVar list" where
  "worker_env cf job manager =
     (let c = js_Config (job_Spec job) in
      [envvar ''NAME'' (job_Name job), envvar ''PROVIDER'' (jc_Provider c), envvar ''UPSTREAM'' (jc_Upstream c),
       envvar ''MIRROR_PATH'' (jc_MirrorPath c), envvar ''CONCURRENT'' (Itoa (jc_Concurrent c)),
       envvar ''INTERVAL'' (Itoa (jc_Interval c)), envvar ''RETRY'' (Itoa (jc_Retry c)),
       envvar ''TIMEOUT'' (Itoa (jc_Timeout c)), envvar ''COMMAND'' (jc_Command c),
       envvar ''FAIL_ON_MATCH'' (jc_FailOnMatch c), envvar ''SIZE_PATTERN'' (jc_SizePattern c),
       envvar ''IPV6'' (jc_IPv6Only c), envvar ''IPV4'' (jc_IPv4Only c), envvar ''EXCLUDE_FILE'' (jc_ExcludeFile c),
       envvar ''RSYNC_OPTIONS'' (jc_RsyncOptions c), envvar ''STAGE1_PROFILE'' (jc_Stage1Profile c),
       envvar ''EXEC_ON_SUCCESS'' (jc_ExecOnSuccess c), envvar ''EXEC_ON_FAILURE'' (jc_ExecOnFailure c),
       envvar ''API'' (''http://'' @ manager @ '':3000''), envvar ''ADDR'' ('':'' @ Itoa ApiPort)]
      @ dc_Env (js_Deploy (job_Spec job)) @ jc_AdditionEnvs c
      @ (if jc_Debug c \<noteq> [] \<or> cf_Debug cf then [envvar ''DEBUG'' ''true''] else []))"

definition data_mount :: "Job \<Rightarrow> VolumeMount" where
  "data_mount job = \<lparr>vm_Name = job_Name job, vm_MountPath = ''/data/'' @ job_Name job, vm_SubPath = []\<rparr>"

definition job_pullPolicy :: "ControllerConfig \<Rightarrow> Job \<Rightarrow> string" where
  "job_pullPolicy cf job =
     (let p = dc_ImagePullPolicy (js_Deploy (job_Spec job)) in
      if p \<noteq> [] then p else if cf_PullPolicy cf \<noteq> [] then cf_PullPolicy cf else ''IfNotPresent'')"

text \<open>The worker container of a job that is not disabled; none without an image.\<close>

definition worker_container :: "kube_lib \<Rightarrow> ControllerConfig \<Rightarrow> Job \<Rightarrow> string \<Rightarrow> Container list go" where
  "worker_container lib cf job manager =
     (let d = js_Deploy (job_Spec job);
          image = (if dc_Image d = [] then cf_WorkerImage cf else dc_Image d)
      in go_bind (limits (lib_quantity lib) (dc_MemoryLimit d) (dc_CPULimit d)) (\<lambda>ls.
           Ret (if image \<noteq> []
                then [\<lparr>cn_Name = job_Name job, cn_Image = image, cn_PullPolicy = job_pullPolicy cf job,
                       cn_Env = worker_env cf job manager, cn_Probe = tcp_probe ApiPort, cn_Mounts = [data_mount job],
                       cn_Ports = [\<lparr>cp_Port = ApiPort, cp_Name = ''api''\<rparr>], cn_Command = [], cn_Limits = ls\<rparr>]
                else [])))"

definition front_container :: "ControllerConfig \<Rightarrow> Job \<Rightarrow> rsync_front \<Rightarrow> ConfigMap option \<Rightarrow> Container" where
  "front_container cf job rf frontCM =
     \<lparr>cn_Name = job_Name job @ ''-front'', cn_Image = rf_frontImage rf, cn_PullPolicy = job_pullPolicy cf job,
      cn_Env = [envvar ''JOB_NAME'' (job_Name job)], cn_Probe = tcp_probe FrontPort,
      cn_Mounts = data_mount job #
        (case frontCM of
           None \<Rightarrow> []
         | Some cm \<Rightarrow> [\<lparr>vm_Name = om_Name (cm_Meta cm), vm_MountPath = ''/etc/frontConfig'', vm_SubPath = ''frontConfig''\<rparr>]),
      cn_Ports = \<lparr>cp_Port = FrontPort, cp_Name = ''front''\<rparr> #
        (if cf_EnableMetric cf then [\<lparr>cp_Port = MetricPort, cp_Name = ''metrics''\<rparr>] else []),
      cn_Command = rf_frontCmd rf, cn_Limits = []\<rparr>"

definition rsync_container :: "ControllerConfig \<Rightarrow> Job \<Rightarrow> rsync_front \<Rightarrow> Container" where
  "rsync_container cf job rf =
     \<lparr>cn_Name = job_Name job @ ''-rsync'', cn_Image = rf_rsyncImage rf, cn_PullPolicy = job_pullPolicy cf job,
      cn_Env = [], cn_Probe = tcp_probe RsyncPort, cn_Mounts = [data_mount job],
      cn_Ports = [\<lparr>cp_Port = RsyncPort, cp_Name = ''rsync''\<rparr>], cn_Command = rf_rsyncCmd rf, cn_Limits = []\<rparr>"

definition job_volumes :: "Job \<Rightarrow> rsync_front \<Rightarrow> ConfigMap option \<Rightarrow> Volume list" where
  "job_volumes job rf frontCM =
     \<lparr>vol_Name = job_Name job, vol_Source = Claim (job_Name job)\<rparr> #
     (case frontCM of
        Some cm \<Rightarrow> if \<not> rf_disableFront rf
                   then [\<lparr>vol_Name = om_Name (cm_Meta cm), vol_Source = ConfigMapSource (om_Name (cm_Meta cm))\<rparr>] else []
      | None \<Rightarrow> [])"

definition pull_secrets :: "string list option \<Rightarrow> string \<Rightarrow> string list option" where
  "pull_secrets own common =
     (case own of Some ss \<Rightarrow> Some ss | None \<Rightarrow> if common \<noteq> [] then Some [common] else None)"

text \<open>An error, no deployment at all, or the deployment.\<close>

definition job_desiredDeployment ::
  "kube_lib \<Rightarrow> ControllerConfig \<Rightarrow> Job \<Rightarrow> string \<Rightarrow> ConfigMap option \<Rightarrow> (string + Workload option) go" where
  "job_desiredDeployment lib cf job manager frontCM =
     (let d = js_Deploy (job_Spec job);
          rf = checkRsyncFront cf job;
          enabled = (Status (job_Status job) \<noteq> Disabled)
      in if enabled \<and> jc_Upstream (js_Config (job_Spec job)) = [] then Ret (Inl ''upstream not set'')
         else go_bind (if enabled then worker_container lib cf job manager else Ret []) (\<lambda>workers.
           let containers = workers
                 @ (if \<not> rf_disableFront rf then [front_container cf job rf frontCM] else [])
                 @ (if \<not> rf_disableRsync rf then [rsync_container cf job rf] else [])
           in Ret (if containers = [] then Inr None
                   else case owned lib (job_meta ''Deployment'' (job_Name job) job) of
                          Inl e \<Rightarrow> Inl e
                        | Inr m \<Rightarrow>
                            Inr (Some
                              \<lparr>wl_Meta = m, wl_Selector = getCommonLabels (job_Name job),
                               wl_PodLabels = getCommonLabels (job_Name job),
                               wl_Pod =
                                 \<lparr>pod_Containers = containers, pod_Volumes = job_volumes job rf frontCM,
                                  pod_ImagePullSecrets = pull_secrets (dc_ImagePullSecrets d) (cf_PullSecret cf),
                                  pod_NodeName = dc_NodeName d, pod_Affinity = dc_Affinity d,
                                  pod_Tolerations = dc_Tolerations d, pod_ServiceAccount = []\<rparr>\<rparr>))))"

definition service_port :: "string \<Rightarrow> int \<Rightarrow> ServicePort" where
  "service_port name port = \<lparr>sp_Name = name, sp_Port = port, sp_TargetPort = name\<rparr>"

definition job_desiredService :: "kube_lib \<Rightarrow> ControllerConfig \<Rightarrow> Job \<Rightarrow> string + Service" where
  "job_desiredService lib cf job =
     (let rf = checkRsyncFront cf job in
      case owned lib (job_meta ''Service'' (serviceName (job_Name job)) job) of
        Inl e \<Rightarrow> Inl e
      | Inr m \<Rightarrow>
          Inr \<lparr>svc_Meta = m,
               svc_Ports = service_port ''api'' ApiPort #
                 (if \<not> rf_disableFront rf then [service_port ''front'' FrontPort] else [])
                 @ (if \<not> rf_disableRsync rf then [service_port ''rsync'' RsyncPort] else [])
                 @ (if cf_EnableMetric cf then [service_port ''metrics'' MetricPort] else []),
               svc_Selector = getCommonLabels (job_Name job)\<rparr>)"

definition merge_annotations :: "ControllerConfig \<Rightarrow> (string \<times> string) list \<Rightarrow> (string \<times> string) list" where
  "merge_annotations cf own =
     fold (\<lambda>(k, v) m. map_put k v m) own (fold (\<lambda>(k, v) m. map_put k v m) (case_option [] id (cf_FrontAnn cf)) [])"

definition own_or_common :: "string \<Rightarrow> string \<Rightarrow> string" where
  "own_or_common own common = (if own \<noteq> [] then own else common)"

text \<open>The class, the secret and the host of an ingress: the resource's own, or the controller's.\<close>

definition ingress_for ::
  "ControllerConfig \<Rightarrow> IngressConfig \<Rightarrow> Meta \<Rightarrow> IngressPath list \<Rightarrow> Ingress" where
  "ingress_for cf ic m paths =
     (let cls = own_or_common (ic_IngressClass ic) (cf_FrontClass cf);
          tls = own_or_common (ic_TLSSecret ic) (cf_FrontTLS cf)
      in \<lparr>ig_Meta = m\<lparr>om_Annotations := merge_annotations cf (ic_Annotations ic)\<rparr>,
          ig_Host = own_or_common (ic_Host ic) (cf_FrontHost cf), ig_Paths = paths,
          ig_Class = if cls \<noteq> [] then Some cls else None, ig_TLS = if tls \<noteq> [] then [tls] else []\<rparr>)"

definition job_desiredIngress :: "kube_lib \<Rightarrow> ControllerConfig \<Rightarrow> Job \<Rightarrow> string + Ingress" where
  "job_desiredIngress lib cf job =
     (case owned lib (job_meta ''Ingress'' (job_Name job) job) of
        Inl e \<Rightarrow> Inl e
      | Inr m \<Rightarrow> Inr (ingress_for cf (js_Ingress (job_Spec job)) m
          [\<lparr>ip_Path = ''/'' @ job_Name job, ip_Type = Prefix, ip_Service = serviceName (job_Name job), ip_Port = ''front''\<rparr>]))"

definition desiredServiceMonitor :: "Job \<Rightarrow> ServiceMonitor" where
  "desiredServiceMonitor job =
     \<lparr>sm_Meta = job_meta ''ServiceMonitor'' (job_Name job) job, sm_Namespaces = [job_Namespace job],
      sm_Selector = getCommonLabels (job_Name job), sm_Port = ''metrics'', sm_Path = ''/''\<rparr>"

end
