(* ===== verification/Controller_Reconcile.thy ===== *)
theory Controller_Reconcile
  imports Controller_Job
begin

text \<open>
  The reconciliation of a job, \<open>internal/controller/job_controller.go\<close>: build the desired
  objects, apply them in order, delete what a job without containers no longer needs, and record
  the status.  The client of the cluster is a parameter over an abstract cluster \<open>'w\<close>.
\<close>

section \<open>The client\<close>

text \<open>
  A failed read of a resource says whether the resource was just not found.  The list of managers is
  that of the namespace with phase \<open>Succeeded\<close>.
\<close>

record 'w kclient =
  kc_GetJob :: "string \<Rightarrow> string \<Rightarrow> 'w \<Rightarrow> (string \<times> bool) + Job"
  kc_UpdateJobStatus :: "Job \<Rightarrow> 'w \<Rightarrow> err \<times> 'w"
  kc_GetManager :: "string \<Rightarrow> string \<Rightarrow> 'w \<Rightarrow> (string \<times> bool) + ManagerRes"
  kc_UpdateManagerStatus :: "ManagerRes \<Rightarrow> 'w \<Rightarrow> err \<times> 'w"
  kc_ActiveManagers :: "string \<Rightarrow> 'w \<Rightarrow> string + ManagerRes list"
  kc_GetNews :: "string \<Rightarrow> string \<Rightarrow> 'w \<Rightarrow> (string \<times> bool) + AnnouncementRes"
  kc_UpdateNewsStatus :: "AnnouncementRes \<Rightarrow> 'w \<Rightarrow> err \<times> 'w"
  kc_Has :: "string \<Rightarrow> string \<Rightarrow> string \<Rightarrow> 'w \<Rightarrow> bool"
  kc_Patch :: "kobject \<Rightarrow> 'w \<Rightarrow> err \<times> 'w"
  kc_Delete :: "string \<Rightarrow> string \<Rightarrow> string \<Rightarrow> 'w \<Rightarrow> err \<times> 'w"

definition IgnoreNotFound :: "string \<times> bool \<Rightarrow> err" where
  "IgnoreNotFound e = (if snd e then None else Some (fst e))"

text \<open>Applying objects one after the other, up to the first error.\<close>

fun patch_all :: "'w kclient \<Rightarrow> kobject list \<Rightarrow> 'w \<Rightarrow> err \<times> 'w" where
  "patch_all cl [] w = (None, w)"
| "patch_all cl (ob # obs) w =
     (case kc_Patch cl ob w of (Some e, w) \<Rightarrow> (Some e, w) | (None, w) \<Rightarrow> patch_all cl obs w)"

text \<open>Deleting by kind, namespace and name; the errors are dropped.\<close>

fun delete_all :: "'w kclient \<Rightarrow> (string \<times> string \<times> string) list \<Rightarrow> 'w \<Rightarrow> 'w" where
  "delete_all cl [] w = w"
| "delete_all cl ((kind, ns, name) # ds) w = delete_all cl ds (snd (kc_Delete cl kind ns name w))"

section \<open>The plan for a job\<close>

record job_plan =
  pl_disableFront :: bool
  pl_ingress :: "Ingress option"
  pl_frontCM :: "ConfigMap option"
  pl_pvc :: PVC
  pl_app :: "Workload option"
  pl_svc :: Service
  pl_sm :: "ServiceMonitor option"

definition job_front :: "kube_lib \<Rightarrow> ControllerConfig \<Rightarrow> Job \<Rightarrow> string + Ingress option \<times> ConfigMap option" where
  "job_front lib cf job =
     (if rf_disableFront (checkRsyncFront cf job) then Inr (None, None)
      else case job_desiredIngress lib cf job of
             Inl e \<Rightarrow> Inl e
           | Inr ig \<Rightarrow> (case desiredFrontConfigmap lib cf job of Inl e \<Rightarrow> Inl e | Inr cm \<Rightarrow> Inr (Some ig, cm)))"

definition plan_job :: "kube_lib \<Rightarrow> ControllerConfig \<Rightarrow> Job \<Rightarrow> string \<Rightarrow> (string + job_plan) go" where
  "plan_job lib cf job managerName =
     (case job_front lib cf job of
        Inl e \<Rightarrow> Ret (Inl e)
      | Inr (ig, frontCM) \<Rightarrow>
          go_bind (desiredPersistentVolumeClaim lib cf job) (\<lambda>pvc.
            case pvc of
              Inl e \<Rightarrow> Ret (Inl e)
            | Inr pvc \<Rightarrow>
                go_bind (job_desiredDeployment lib cf job managerName frontCM) (\<lambda>app.
                  case app of
                    Inl e \<Rightarrow> Ret (Inl e)
                  | Inr app \<Rightarrow>
                      (case job_desiredService lib cf job of
                         Inl e \<Rightarrow> Ret (Inl e)
                       | Inr svc \<Rightarrow>
                           Ret (Inr \<lparr>pl_disableFront = rf_disableFront (checkRsyncFront cf job), pl_ingress = ig,
                                     pl_frontCM = frontCM, pl_pvc = pvc, pl_app = app, pl_svc = svc,
                                     pl_sm = if cf_EnableMetric cf then Some (desiredServiceMonitor job) else None\<rparr>)))))"

definition opt_list :: "'a option \<Rightarrow> 'a list" where
  "opt_list o1 = (case o1 of None \<Rightarrow> [] | Some a \<Rightarrow> [a])"

definition plan_patches :: "job_plan \<Rightarrow> kobject list" where
  "plan_patches pl =
     OPVC (pl_pvc pl) #
     (case pl_app pl of
        None \<Rightarrow> []
      | Some app \<Rightarrow>
          OService (pl_svc pl)
          # (if \<not> pl_disableFront pl
             then map OIngress (opt_list (pl_ingress pl)) @ map OConfigMap (opt_list (pl_frontCM pl)) else [])
          @ OWorkload app # map OServiceMonitor (opt_list (pl_sm pl)))"

text \<open>
  What is deleted when there is nothing to run: the ingress, the service, the deployment, the
  config map and the service monitor, all under the name of the job.  The deployment is deleted by
  the object that was read, which has no name if the read failed.
\<close>

definition unused_objects :: "Job \<Rightarrow> bool \<Rightarrow> (string \<times> string \<times> string) list" where
  "unused_objects job deployed =
     (let ns = job_Namespace job; n = job_Name job in
      [(''Ingress'', ns, n), (''Service'', ns, n),
       (if deployed then (''Deployment'', ns, n) else (''Deployment'', [], [])),
       (''ConfigMap'', ns, n), (''ServiceMonitor'', ns, n)])"

definition job_deletions :: "Job \<Rightarrow> job_plan \<Rightarrow> bool \<Rightarrow> (string \<times> string \<times> string) list" where
  "job_deletions job pl deployed =
     (if pl_app pl = None then unused_objects job deployed else [])
     @ (if pl_disableFront pl then [(''Ingress'', job_Namespace job, job_Name job)] else [])"

section \<open>Reconcile\<close>

definition job_Reconcile ::
  "kube_lib \<Rightarrow> ControllerConfig \<Rightarrow> 'w kclient \<Rightarrow> string \<Rightarrow> string \<Rightarrow> 'w \<Rightarrow> (err \<times> 'w) go" where
  "job_Reconcile lib cf cl ns name w =
     (case kc_GetJob cl ns name w of
        Inl e \<Rightarrow> Ret (IgnoreNotFound e, w)
      | Inr job \<Rightarrow>
          (case kc_ActiveManagers cl ns w of
             Inl e \<Rightarrow> Ret (Some e, w)
           | Inr [] \<Rightarrow> Ret (Some ''no active manager in this namespace'', w)
           | Inr (m # _) \<Rightarrow>
               if jc_Type (js_Config (job_Spec job)) \<noteq> [] \<and> jc_Type (js_Config (job_Spec job)) \<noteq> Mirror
               then Ret (None, w)
               else go_bind (plan_job lib cf job (mgr_Name m)) (\<lambda>pl.
                 case pl of
                   Inl e \<Rightarrow> Ret (Some e, w)
                 | Inr pl \<Rightarrow>
                     (case patch_all cl (plan_patches pl) w of
                        (Some e, w) \<Rightarrow> Ret (Some e, w)
                      | (None, w) \<Rightarrow>
                          let w = delete_all cl (job_deletions job pl
                                    (kc_Has cl ''Deployment'' (job_Namespace job) (job_Name job) w)) w;
                              job = (if Status (job_Status job) = []
                                     then job\<lparr>job_Status := (job_Status job)\<lparr>Status := Created\<rparr>\<rparr> else job)
                          in Ret (kc_UpdateJobStatus cl job w)))))"

section \<open>The planned objects fit together\<close>


lemma job_meta_sel [simp]:
  "om_Name (job_meta k n job) = n" "om_Labels (job_meta k n job) = getCommonLabels (job_Name job)" "om_Kind (job_meta k n job) = k"
  "om_Namespace (job_meta k n job) = job_Namespace job"
  by (simp_all add: job_meta_def meta_def)

lemma plan_job_Ret:
  assumes "plan_job lib cf job m = Ret (Inr pl)"
  shows "job_front lib cf job = Inr (pl_ingress pl, pl_frontCM pl)"
    "desiredPersistentVolumeClaim lib cf job = Ret (Inr (pl_pvc pl))"
    "job_desiredDeployment lib cf job m (pl_frontCM pl) = Ret (Inr (pl_app pl))"
    "job_desiredService lib cf job = Inr (pl_svc pl)"
    "pl_disableFront pl = rf_disableFront (checkRsyncFront cf job)"
    "pl_sm pl = (if cf_EnableMetric cf then Some (desiredServiceMonitor job) else None)"
proof -
  obtain ig cm where f: "job_front lib cf job = Inr (ig, cm)"
    using assms by (cases "job_front lib cf job") (auto simp: plan_job_def)
  obtain pvc where p: "desiredPersistentVolumeClaim lib cf job = Ret (Inr pvc)"
    using assms by (cases "desiredPersistentVolumeClaim lib cf job") (auto simp: plan_job_def f split: sum.splits)
  obtain app where a: "job_desiredDeployment lib cf job m cm = Ret (Inr app)"
    using assms by (cases "job_desiredDeployment lib cf job m cm") (auto simp: plan_job_def f p split: sum.splits)
  obtain svc where s: "job_desiredService lib cf job = Inr svc"
    using assms by (cases "job_desiredService lib cf job") (auto simp: plan_job_def f p a)
  show "job_front lib cf job = Inr (pl_ingress pl, pl_frontCM pl)"
    "desiredPersistentVolumeClaim lib cf job = Ret (Inr (pl_pvc pl))"
    "job_desiredDeployment lib cf job m (pl_frontCM pl) = Ret (Inr (pl_app pl))"
    "job_desiredService lib cf job = Inr (pl_svc pl)"
    "pl_disableFront pl = rf_disableFront (checkRsyncFront cf job)"
    "pl_sm pl = (if cf_EnableMetric cf then Some (desiredServiceMonitor job) else None)"
    using assms by (auto simp: plan_job_def f p a s)
qed

lemma worker_container_Ret:
  assumes "worker_container lib cf job m = Ret cs"
  shows "\<forall>c \<in> set cs. cn_Mounts c = [data_mount job] \<and> cn_Env c = worker_env cf job m
      \<and> cn_Ports c = [\<lparr>cp_Port = ApiPort, cp_Name = ''api''\<rparr>]"
    and "cs = [] \<longleftrightarrow> dc_Image (js_Deploy (job_Spec job)) = [] \<and> cf_WorkerImage cf = []"
  using assms by (auto simp: worker_container_def Let_def go_bind_Ret_iff split: if_splits)

text \<open>The containers of the pod of a job, given those of the worker.\<close>

definition job_containers :: "ControllerConfig \<Rightarrow> Job \<Rightarrow> ConfigMap option \<Rightarrow> Container list \<Rightarrow> Container list" where
  "job_containers cf job frontCM workers =
     (let rf = checkRsyncFront cf job in
      workers @ (if \<not> rf_disableFront rf then [front_container cf job rf frontCM] else [])
      @ (if \<not> rf_disableRsync rf then [rsync_container cf job rf] else []))"

lemma job_desiredDeployment_Ret:
  assumes "job_desiredDeployment lib cf job m cm = Ret (Inr (Some app))"
  shows "wl_Selector app = getCommonLabels (job_Name job)" "wl_PodLabels app = getCommonLabels (job_Name job)"
    "om_Name (wl_Meta app) = job_Name job" "pod_Volumes (wl_Pod app) = job_volumes job (checkRsyncFront cf job) cm"
    "\<exists>workers. pod_Containers (wl_Pod app) = job_containers cf job cm workers
       \<and> (if Status (job_Status job) \<noteq> Disabled then worker_container lib cf job m = Ret workers else workers = [])"
  using assms
  by (auto simp: job_desiredDeployment_def Let_def go_bind_Ret_iff owned_def job_containers_def split: if_splits option.splits)

lemma job_desiredService_Inr:
  "job_desiredService lib cf job = Inr svc \<Longrightarrow>
     svc_Selector svc = getCommonLabels (job_Name job) \<and> om_Name (svc_Meta svc) = serviceName (job_Name job)
     \<and> svc_Ports svc = service_port ''api'' ApiPort #
         (if \<not> rf_disableFront (checkRsyncFront cf job) then [service_port ''front'' FrontPort] else [])
         @ (if \<not> rf_disableRsync (checkRsyncFront cf job) then [service_port ''rsync'' RsyncPort] else [])
         @ (if cf_EnableMetric cf then [service_port ''metrics'' MetricPort] else [])"
  by (auto simp: job_desiredService_def Let_def owned_def split: option.splits)

lemma job_front_Inr:
  assumes "job_front lib cf job = Inr (ig, cm)"
  shows "ig = None \<longleftrightarrow> rf_disableFront (checkRsyncFront cf job)"
    "ig = Some i \<Longrightarrow> ig_Paths i = [\<lparr>ip_Path = ''/'' @ job_Name job, ip_Type = Prefix,
       ip_Service = serviceName (job_Name job), ip_Port = ''front''\<rparr>]"
    "rf_disableFront (checkRsyncFront cf job) \<Longrightarrow> cm = None"
  using assms
  by (auto simp: job_front_def job_desiredIngress_def ingress_for_def owned_def Let_def split: if_splits option.splits sum.splits)

lemma desiredPVC_name: "desiredPersistentVolumeClaim lib cf job = Ret (Inr pvc) \<Longrightarrow> om_Name (pvc_Meta pvc) = job_Name job"
  by (auto simp: desiredPersistentVolumeClaim_def Let_def go_bind_Ret_iff owned_def split: option.splits)

text \<open>
  C8: The objects planned for a job refer to each other consistently: the deployment and the service
  select the pods of the job; every mount of a container is a volume of the pod; the volumes are the planned
  claim and the planned config map; and the ingress leads to a port of the service.
\<close>

theorem plan_job_consistent:
  assumes "plan_job lib cf job m = Ret (Inr pl)"
  shows "(\<forall>app. pl_app pl = Some app \<longrightarrow>
      wl_Selector app = wl_PodLabels app \<and> svc_Selector (pl_svc pl) = wl_PodLabels app
      \<and> (\<forall>c \<in> set (pod_Containers (wl_Pod app)). \<forall>mt \<in> set (cn_Mounts c). vm_Name mt \<in> vol_Name ` set (pod_Volumes (wl_Pod app)))
      \<and> (\<forall>v \<in> set (pod_Volumes (wl_Pod app)). case vol_Source v of
           Claim n \<Rightarrow> n = om_Name (pvc_Meta (pl_pvc pl))
         | ConfigMapSource n \<Rightarrow> \<exists>cm. pl_frontCM pl = Some cm \<and> om_Name (cm_Meta cm) = n))
    \<and> (\<forall>ig. pl_ingress pl = Some ig \<longrightarrow> (\<forall>p \<in> set (ig_Paths ig).
         ip_Service p = om_Name (svc_Meta (pl_svc pl)) \<and> ip_Port p \<in> sp_Name ` set (svc_Ports (pl_svc pl))))"
proof (intro conjI allI impI)
  note plan = plan_job_Ret [OF assms]
  note svc = job_desiredService_Inr [OF plan(4)] and pvc = desiredPVC_name [OF plan(2)]
  fix app assume app: "pl_app pl = Some app"
  note dep = job_desiredDeployment_Ret [OF plan(3) [unfolded app]]
  show "wl_Selector app = wl_PodLabels app" "svc_Selector (pl_svc pl) = wl_PodLabels app"
    using dep svc by simp_all
  obtain workers where cs: "pod_Containers (wl_Pod app) = job_containers cf job (pl_frontCM pl) workers"
    and ws: "\<forall>c \<in> set workers. cn_Mounts c = [data_mount job]"
    using dep(5) worker_container_Ret(1) by (force split: if_splits)
  show "\<forall>c \<in> set (pod_Containers (wl_Pod app)). \<forall>mt \<in> set (cn_Mounts c). vm_Name mt \<in> vol_Name ` set (pod_Volumes (wl_Pod app))"
    using ws by (auto simp: cs dep(4) job_containers_def job_volumes_def front_container_def rsync_container_def data_mount_def
        Let_def split: if_splits option.splits)
  show "\<forall>v \<in> set (pod_Volumes (wl_Pod app)). case vol_Source v of Claim n \<Rightarrow> n = om_Name (pvc_Meta (pl_pvc pl))
      | ConfigMapSource n \<Rightarrow> \<exists>cm. pl_frontCM pl = Some cm \<and> om_Name (cm_Meta cm) = n"
    using pvc by (cases "pl_frontCM pl") (auto simp: dep(4) job_volumes_def)
next
  note plan = plan_job_Ret [OF assms]
  fix ig assume ig: "pl_ingress pl = Some ig"
  have "\<not> rf_disableFront (checkRsyncFront cf job)" using job_front_Inr(1) [OF plan(1)] ig by simp
  then show "\<forall>p \<in> set (ig_Paths ig). ip_Service p = om_Name (svc_Meta (pl_svc pl)) \<and> ip_Port p \<in> sp_Name ` set (svc_Ports (pl_svc pl))"
    using job_front_Inr(2) [OF plan(1) ig] job_desiredService_Inr [OF plan(4)] by (simp add: service_port_def)
qed

text \<open>A controller with default settings, libraries that only refuse the empty quantity, and a job.\<close>

definition sample_lib :: kube_lib where
  "sample_lib = \<lparr>lib_setRef = (\<lambda>_. None), lib_quantity = (\<lambda>s. s \<noteq> []), lib_jsonErr = (\<lambda>_. None)\<rparr>"

definition sample_mirror :: Job where
  "sample_mirror = \<lparr>job_Name = ''debian'', job_Namespace = ''mirrors'',
     job_Spec = zeroJobSpec\<lparr>js_Config := zeroJobConfig\<lparr>jc_Upstream := ''rsync://ftp.debian.org/debian/''\<rparr>,
       js_Volume := zeroPVConfig\<lparr>pv_Size := ''2Ti''\<rparr>\<rparr>,
     job_Status = zeroJobStatus\<rparr>"

lemma sample_plan:
  "\<exists>pl. plan_job sample_lib (defaultConfig\<lparr>cf_FrontConfig := ''{}''\<rparr>) sample_mirror ''manager'' = Ret (Inr pl)
     \<and> pl_app pl \<noteq> None \<and> pl_ingress pl \<noteq> None \<and> pl_frontCM pl \<noteq> None"
  by (simp add: plan_job_def job_front_def checkRsyncFront_def sample_lib_def sample_mirror_def defaultConfig_def
      job_desiredIngress_def desiredFrontConfigmap_def getFrontConfig_def owned_def job_meta_def meta_def
      desiredPersistentVolumeClaim_def job_desiredDeployment_def job_desiredService_def worker_container_def limits_def
      MustParse_def zeroJobSpec_def zeroJobConfig_def zeroJobDeploy_def zeroPVConfig_def zeroJobStatus_def status_simps
      ParseBool_def Let_def)

theorem plan_job_consistent_witness:
  "\<exists>pl app ig. plan_job sample_lib (defaultConfig\<lparr>cf_FrontConfig := ''{}''\<rparr>) sample_mirror ''manager'' = Ret (Inr pl)
     \<and> pl_app pl = Some app \<and> svc_Selector (pl_svc pl) = wl_PodLabels app
     \<and> pl_ingress pl = Some ig \<and> list_all (\<lambda>p. ip_Service p = om_Name (svc_Meta (pl_svc pl))) (ig_Paths ig)"
proof -
  obtain pl app ig where pl: "plan_job sample_lib (defaultConfig\<lparr>cf_FrontConfig := ''{}''\<rparr>) sample_mirror ''manager'' = Ret (Inr pl)"
    "pl_app pl = Some app" "pl_ingress pl = Some ig"
    using sample_plan by auto
  from plan_job_consistent [OF pl(1)] pl show ?thesis by (auto simp: list_all_iff)
qed

text \<open>
  For a job that runs, every port of the service is one of its containers, except that the
  port for metrics is offered even when the front, which would serve it, is disabled.
\<close>

lemma service_targets_exist:
  assumes "plan_job lib cf job m = Ret (Inr pl)" "pl_app pl = Some app" "Status (job_Status job) \<noteq> Disabled"
    and "dc_Image (js_Deploy (job_Spec job)) \<noteq> [] \<or> cf_WorkerImage cf \<noteq> []"
  shows "(\<forall>sp \<in> set (svc_Ports (pl_svc pl)). \<exists>c \<in> set (pod_Containers (wl_Pod app)). sp_TargetPort sp \<in> cp_Name ` set (cn_Ports c))
    \<longleftrightarrow> \<not> (cf_EnableMetric cf \<and> pl_disableFront pl)"
proof -
  note plan = plan_job_Ret [OF assms(1)]
  obtain workers where cs: "pod_Containers (wl_Pod app) = job_containers cf job (pl_frontCM pl) workers"
    and w: "worker_container lib cf job m = Ret workers"
    using job_desiredDeployment_Ret(5) [OF plan(3) [unfolded assms(2)]] assms(3) by auto
  obtain c ws where ws: "workers = c # ws" using worker_container_Ret(2) [OF w] assms(4) by (cases workers) auto
  have ports: "cp_Name ` set (cn_Ports c) = {''api''}" if "c \<in> set workers" for c
    using worker_container_Ret(1) [OF w] that by simp
  have worker: "(\<exists>c \<in> set workers. x \<in> cp_Name ` set (cn_Ports c)) \<longleftrightarrow> x = ''api''" for x
    using ports ws by (metis list.set_intros(1) singletonD singletonI)
  let ?rf = "checkRsyncFront cf job"
  have front: "x \<in> cp_Name ` set (cn_Ports (front_container cf job ?rf (pl_frontCM pl)))
      \<longleftrightarrow> x = ''front'' \<or> cf_EnableMetric cf \<and> x = ''metrics''" for x
    by (cases "cf_EnableMetric cf") (simp_all add: front_container_def)
  have rsync: "x \<in> cp_Name ` set (cn_Ports (rsync_container cf job ?rf)) \<longleftrightarrow> x = ''rsync''" for x
    by (simp add: rsync_container_def)
  have names: "(\<exists>c \<in> set (pod_Containers (wl_Pod app)). x \<in> cp_Name ` set (cn_Ports c)) \<longleftrightarrow>
      x = ''api'' \<or> \<not> rf_disableFront ?rf \<and> (x = ''front'' \<or> cf_EnableMetric cf \<and> x = ''metrics'')
      \<or> \<not> rf_disableRsync ?rf \<and> x = ''rsync''" for x
    unfolding cs job_containers_def Let_def set_append bex_Un worker by (simp add: front rsync)
  have "svc_Ports (pl_svc pl) = service_port ''api'' ApiPort #
      (if \<not> rf_disableFront ?rf then [service_port ''front'' FrontPort] else [])
      @ (if \<not> rf_disableRsync ?rf then [service_port ''rsync'' RsyncPort] else [])
      @ (if cf_EnableMetric cf then [service_port ''metrics'' MetricPort] else [])"
    using job_desiredService_Inr [OF plan(4)] by blast
  then show ?thesis unfolding names plan(5)
    by (cases "rf_disableFront ?rf"; cases "rf_disableRsync ?rf"; cases "cf_EnableMetric cf") (simp_all add: service_port_def)
qed

lemma service_targets_exist_witness:
  "\<exists>pl app. plan_job sample_lib (defaultConfig\<lparr>cf_FrontConfig := ''{}''\<rparr>) sample_mirror ''manager'' = Ret (Inr pl)
     \<and> pl_app pl = Some app
     \<and> list_all (\<lambda>sp. \<exists>c \<in> set (pod_Containers (wl_Pod app)). sp_TargetPort sp \<in> cp_Name ` set (cn_Ports c)) (svc_Ports (pl_svc pl))"
proof -
  obtain pl app where pl: "plan_job sample_lib (defaultConfig\<lparr>cf_FrontConfig := ''{}''\<rparr>) sample_mirror ''manager'' = Ret (Inr pl)"
    "pl_app pl = Some app"
    using sample_plan by auto
  from service_targets_exist [OF pl] pl show ?thesis
    by (auto simp: list_all_iff sample_mirror_def zeroJobStatus_def status_simps defaultConfig_def)
qed

text \<open>
  C39: When a job no longer runs anything, its service and the config map of its front stay behind: neither is ever
  among the deleted objects, because the deletions use the name of the job.
\<close>

theorem service_never_deleted:
  assumes "plan_job lib cf job m = Ret (Inr pl)"
  shows "(''Service'', job_Namespace job, om_Name (svc_Meta (pl_svc pl))) \<notin> set (job_deletions job pl' deployed)
    \<and> (''ConfigMap'', job_Namespace job, job_Name job @ ''-front'') \<notin> set (job_deletions job pl' deployed)"
  using job_desiredService_Inr [OF plan_job_Ret(4) [OF assms]]
  by (auto simp: job_deletions_def unused_objects_def serviceName_def Let_def)

theorem service_never_deleted_witness:
  "\<exists>pl. plan_job sample_lib (defaultConfig\<lparr>cf_FrontConfig := ''{}''\<rparr>) sample_mirror ''manager'' = Ret (Inr pl)
     \<and> (''Service'', ''mirrors'', om_Name (svc_Meta (pl_svc pl))) \<notin> set (job_deletions sample_mirror (pl\<lparr>pl_app := None\<rparr>) True)"
proof -
  obtain pl where pl: "plan_job sample_lib (defaultConfig\<lparr>cf_FrontConfig := ''{}''\<rparr>) sample_mirror ''manager'' = Ret (Inr pl)"
    using sample_plan by auto
  from service_never_deleted [OF pl, of "pl\<lparr>pl_app := None\<rparr>" True] pl show ?thesis by (auto simp: sample_mirror_def)
qed

text \<open>
  A job without a size for its volume makes the reconciliation panic: the empty size is parsed
  before the default replaces it.
\<close>

theorem empty_size_panics:
  assumes "\<not> lib_quantity lib []" "pv_Size (js_Volume (job_Spec job)) = []"
    and "kc_GetJob cl ns name w = Inr job" "kc_ActiveManagers cl ns w = Inr (mg # mgs)"
    and "jc_Type (js_Config (job_Spec job)) = []" "job_front lib cf job = Inr front"
  shows "job_Reconcile lib cf cl ns name w = Panic ''cannot parse quantity''"
  using assms
  by (cases front)
    (simp add: job_Reconcile_def plan_job_def desiredPersistentVolumeClaim_def MustParse_def)

text \<open>
  A cluster for concrete runs: one job, one active manager, and the kinds and names of the objects
  applied to it.
\<close>

definition one_job_client :: "Job \<Rightarrow> ManagerRes \<Rightarrow> (string \<times> string \<times> string) list kclient" where
  "one_job_client job mg =
     \<lparr>kc_GetJob = (\<lambda>ns n w. if n = job_Name job then Inr job else Inl (''not found'', True)),
      kc_UpdateJobStatus = (\<lambda>j w. (None, w)),
      kc_GetManager = (\<lambda>ns n w. Inl (''not found'', True)), kc_UpdateManagerStatus = (\<lambda>m w. (None, w)),
      kc_ActiveManagers = (\<lambda>ns w. Inr [mg]),
      kc_GetNews = (\<lambda>ns n w. Inl (''not found'', True)), kc_UpdateNewsStatus = (\<lambda>a w. (None, w)),
      kc_Has = (\<lambda>kind ns n w. (kind, ns, n) \<in> set w),
      kc_Patch = (\<lambda>ob w. (None, (om_Kind (kmeta ob), om_Namespace (kmeta ob), om_Name (kmeta ob)) # w)),
      kc_Delete = (\<lambda>kind ns n w. (None, filter (\<lambda>x. x \<noteq> (kind, ns, n)) w))\<rparr>"

definition sample_manager :: ManagerRes where
  "sample_manager = \<lparr>mgr_Name = ''manager'', mgr_Namespace = ''mirrors'',
     mgr_Spec = \<lparr>ms_DeployType = [], ms_Deploy = zeroDeployConfig, ms_Ingress = zeroIngressConfig\<rparr>, mgr_Phase = DeploySucceeded\<rparr>"

theorem empty_size_panics_witness:
  "let job = sample_mirror\<lparr>job_Spec := (job_Spec sample_mirror)\<lparr>js_Volume := zeroPVConfig\<rparr>\<rparr>
   in job_Reconcile sample_lib (defaultConfig\<lparr>cf_FrontConfig := ''{}''\<rparr>) (one_job_client job sample_manager) ''mirrors'' ''debian'' []
        = Panic ''cannot parse quantity''"
proof -
  let ?job = "sample_mirror\<lparr>job_Spec := (job_Spec sample_mirror)\<lparr>js_Volume := zeroPVConfig\<rparr>\<rparr>"
  let ?cf = "defaultConfig\<lparr>cf_FrontConfig := ''{}''\<rparr>"
  have 1: "\<not> lib_quantity sample_lib []" "pv_Size (js_Volume (job_Spec ?job)) = []" "jc_Type (js_Config (job_Spec ?job)) = []"
    and 2: "kc_GetJob (one_job_client ?job sample_manager) ''mirrors'' ''debian'' [] = Inr ?job"
      "kc_ActiveManagers (one_job_client ?job sample_manager) ''mirrors'' [] = Inr [sample_manager]"
    by (simp_all add: sample_lib_def sample_mirror_def zeroPVConfig_def zeroJobConfig_def one_job_client_def)
  have "\<exists>front. job_front sample_lib ?cf ?job = Inr front"
    by (simp add: job_front_def sample_lib_def job_desiredIngress_def desiredFrontConfigmap_def getFrontConfig_def owned_def
        split: if_split)
  then obtain front where "job_front sample_lib ?cf ?job = Inr front" ..
  from empty_size_panics [OF 1(1,2) 2 1(3) this] show ?thesis by simp
qed

end
