(* ===== verification/Controller_Manager.thy ===== *)
theory Controller_Manager
  imports Controller_Reconcile
begin

text \<open>
  The reconciliation of a manager (\<open>internal/controller/manager_helper.go\<close> and
  \<open>manager_controller.go\<close>) and of an announcement (\<open>announcement_controller.go\<close>).
\<close>

definition ManagerPort :: int where "ManagerPort = 3000"

section \<open>The objects of a manager\<close>

definition manager_labels :: "ManagerRes \<Rightarrow> (string \<times> string) list" where
  "manager_labels m = [(''manager'', mgr_Name m)]"

definition manager_meta :: "string \<Rightarrow> string \<Rightarrow> ManagerRes \<Rightarrow> Meta" where
  "manager_meta kind name m = meta kind name (mgr_Namespace m) (manager_labels m)"

definition desiredSA :: "kube_lib \<Rightarrow> ManagerRes \<Rightarrow> string + Meta" where
  "desiredSA lib m = owned lib (manager_meta ''ServiceAccount'' (mgr_Name m @ ''-sa'') m)"

definition all_verbs :: "string list" where
  "all_verbs = [''create'', ''delete'', ''get'', ''list'', ''patch'', ''update'', ''watch'']"

definition status_verbs :: "string list" where
  "status_verbs = [''get'', ''patch'', ''update'']"

definition manager_rules :: "PolicyRule list" where
  "manager_rules =
     [\<lparr>rule_Resources = [''jobs''], rule_Verbs = all_verbs\<rparr>,
      \<lparr>rule_Resources = [''jobs/status''], rule_Verbs = status_verbs\<rparr>,
      \<lparr>rule_Resources = [''announcements''], rule_Verbs = all_verbs\<rparr>,
      \<lparr>rule_Resources = [''announcements/status''], rule_Verbs = status_verbs\<rparr>,
      \<lparr>rule_Resources = [''files''], rule_Verbs = all_verbs\<rparr>,
      \<lparr>rule_Resources = [''files/status''], rule_Verbs = status_verbs\<rparr>]"

definition desiredRole :: "kube_lib \<Rightarrow> ManagerRes \<Rightarrow> string + Role" where
  "desiredRole lib m =
     (case owned lib (manager_meta ''Role'' (mgr_Name m @ ''-role'') m) of
        Inl e \<Rightarrow> Inl e | Inr mt \<Rightarrow> Inr \<lparr>role_Meta = mt, role_Rules = manager_rules\<rparr>)"

definition desiredRoleBinding :: "kube_lib \<Rightarrow> ManagerRes \<Rightarrow> string + RoleBinding" where
  "desiredRoleBinding lib m =
     (case owned lib (manager_meta ''RoleBinding'' (mgr_Name m) m) of
        Inl e \<Rightarrow> Inl e
      | Inr mt \<Rightarrow> Inr \<lparr>rb_Meta = mt, rb_Subject = mgr_Name m @ ''-sa'', rb_Role = mgr_Name m @ ''-role''\<rparr>)"

definition manager_env :: "ManagerRes \<Rightarrow> EnvVar list" where
  "manager_env m =
     [\<lparr>ev_Name = ''NAMESPACE'', ev_Value = [], ev_FieldPath = Some ''metadata.namespace''\<rparr>,
      envvar ''ADDR'' ('':'' @ Itoa ManagerPort)] @ dc_Env (ms_Deploy (mgr_Spec m))"

text \<open>Without an image, or with an unknown deploy type, there is nothing to deploy.\<close>

definition manager_desiredDeployment :: "kube_lib \<Rightarrow> ControllerConfig \<Rightarrow> ManagerRes \<Rightarrow> (string + Workload option) go" where
  "manager_desiredDeployment lib cf m =
     (let d = ms_Deploy (mgr_Spec m);
          deployType = (if ms_DeployType (mgr_Spec m) \<noteq> [] then ms_DeployType (mgr_Spec m) else DeployDeployment);
          image = (if dc_Image d = [] then cf_ManagerImage cf else dc_Image d)
      in if image = [] then Ret (Inr None)
         else go_bind (limits (lib_quantity lib) (dc_MemoryLimit d) (dc_CPULimit d)) (\<lambda>ls.
           if deployType \<noteq> DeployDeployment \<and> deployType \<noteq> DeployDaemonSet then Ret (Inr None)
           else Ret (case owned lib (manager_meta deployType (mgr_Name m) m) of
                       Inl e \<Rightarrow> Inl e
                     | Inr mt \<Rightarrow>
                         Inr (Some
                           \<lparr>wl_Meta = mt, wl_Selector = manager_labels m, wl_PodLabels = manager_labels m,
                            wl_Pod =
                              \<lparr>pod_Containers =
                                 [\<lparr>cn_Name = mgr_Name m, cn_Image = image,
                                   cn_PullPolicy = if dc_ImagePullPolicy d \<noteq> [] then dc_ImagePullPolicy d else cf_PullPolicy cf,
                                   cn_Env = manager_env m, cn_Probe = tcp_probe ManagerPort, cn_Mounts = [],
                                   cn_Ports = [\<lparr>cp_Port = ManagerPort, cp_Name = ''api''\<rparr>], cn_Command = [], cn_Limits = ls\<rparr>],
                               pod_Volumes = [],
                               pod_ImagePullSecrets = pull_secrets (dc_ImagePullSecrets d) (cf_PullSecret cf),
                               pod_NodeName = dc_NodeName d, pod_Affinity = dc_Affinity d,
                               pod_Tolerations = dc_Tolerations d, pod_ServiceAccount = mgr_Name m @ ''-sa''\<rparr>\<rparr>))))"

definition manager_desiredService :: "kube_lib \<Rightarrow> ManagerRes \<Rightarrow> string + Service" where
  "manager_desiredService lib m =
     (case owned lib (manager_meta ''Service'' (mgr_Name m) m) of
        Inl e \<Rightarrow> Inl e
      | Inr mt \<Rightarrow> Inr \<lparr>svc_Meta = mt, svc_Ports = [service_port ''api'' ManagerPort], svc_Selector = manager_labels m\<rparr>)"

definition manager_paths :: "string list" where
  "manager_paths = [''/api/mirrors'', ''/api/news'', ''/api/files'', ''/api/mirrorz.json'']"

definition manager_desiredIngress :: "kube_lib \<Rightarrow> ControllerConfig \<Rightarrow> ManagerRes \<Rightarrow> string + Ingress" where
  "manager_desiredIngress lib cf m =
     (case owned lib (manager_meta ''Ingress'' (mgr_Name m) m) of
        Inl e \<Rightarrow> Inl e
      | Inr mt \<Rightarrow> Inr (ingress_for cf (ms_Ingress (mgr_Spec m)) mt
          (map (\<lambda>p. \<lparr>ip_Path = p, ip_Type = Exact, ip_Service = mgr_Name m, ip_Port = ''api''\<rparr>) manager_paths)))"

section \<open>Reconcile\<close>

record manager_plan =
  mp_sa :: Meta
  mp_role :: Role
  mp_rb :: RoleBinding
  mp_app :: "Workload option"
  mp_svc :: Service
  mp_ingress :: Ingress

definition plan_manager :: "kube_lib \<Rightarrow> ControllerConfig \<Rightarrow> ManagerRes \<Rightarrow> (string + manager_plan) go" where
  "plan_manager lib cf m =
     (case (desiredSA lib m, desiredRole lib m, desiredRoleBinding lib m) of
        (Inl e, _, _) \<Rightarrow> Ret (Inl e)
      | (_, Inl e, _) \<Rightarrow> Ret (Inl e)
      | (_, _, Inl e) \<Rightarrow> Ret (Inl e)
      | (Inr sa, Inr role, Inr rb) \<Rightarrow>
          go_bind (manager_desiredDeployment lib cf m) (\<lambda>app.
            case (app, manager_desiredService lib m, manager_desiredIngress lib cf m) of
              (Inl e, _, _) \<Rightarrow> Ret (Inl e)
            | (_, Inl e, _) \<Rightarrow> Ret (Inl e)
            | (_, _, Inl e) \<Rightarrow> Ret (Inl e)
            | (Inr app, Inr svc, Inr ig) \<Rightarrow>
                Ret (Inr \<lparr>mp_sa = sa, mp_role = role, mp_rb = rb, mp_app = app, mp_svc = svc, mp_ingress = ig\<rparr>)))"

text \<open>The workload of the other kind, which a change of the deploy type leaves behind.\<close>

definition other_kind :: "string \<Rightarrow> string" where
  "other_kind kind = (if kind = DeployDeployment then DeployDaemonSet else DeployDeployment)"

text \<open>The object read before it is deleted has no name if the read failed.\<close>

definition delete_other :: "'w kclient \<Rightarrow> ManagerRes \<Rightarrow> string \<Rightarrow> 'w \<Rightarrow> 'w" where
  "delete_other cl m kind w =
     (if kc_Has cl kind (mgr_Namespace m) (mgr_Name m) w
      then snd (kc_Delete cl kind (mgr_Namespace m) (mgr_Name m) w) else snd (kc_Delete cl kind [] [] w))"

text \<open>
  With nothing to deploy the switch over the type of the workload has already returned, without
  an error and without the service, the ingress and the status.
\<close>

definition manager_Reconcile ::
  "kube_lib \<Rightarrow> ControllerConfig \<Rightarrow> 'w kclient \<Rightarrow> string \<Rightarrow> string \<Rightarrow> 'w \<Rightarrow> (err \<times> 'w) go" where
  "manager_Reconcile lib cf cl ns name w =
     (case kc_GetManager cl ns name w of
        Inl e \<Rightarrow> Ret (IgnoreNotFound e, w)
      | Inr m \<Rightarrow>
          (case kc_ActiveManagers cl ns w of
             Inl e \<Rightarrow> Ret (Some e, w)
           | Inr ms \<Rightarrow>
               if 0 < length ms \<and> mgr_Name (hd ms) \<noteq> mgr_Name m
               then Ret (Some ''already have one active manager in this namespace'', w)
               else go_bind (plan_manager lib cf m) (\<lambda>pl.
                 case pl of
                   Inl e \<Rightarrow> Ret (Some e, w)
                 | Inr pl \<Rightarrow>
                     (case patch_all cl [OServiceAccount (mp_sa pl), ORole (mp_role pl), ORoleBinding (mp_rb pl)] w of
                        (Some e, w) \<Rightarrow> Ret (Some e, w)
                      | (None, w) \<Rightarrow>
                          (case mp_app pl of
                             None \<Rightarrow> Ret (None, w)
                           | Some app \<Rightarrow>
                               (case patch_all cl [OWorkload app, OService (mp_svc pl), OIngress (mp_ingress pl)]
                                       (delete_other cl m (other_kind (om_Kind (wl_Meta app))) w) of
                                  (Some e, w) \<Rightarrow> Ret (Some e, w)
                                | (None, w) \<Rightarrow> Ret (kc_UpdateManagerStatus cl (m\<lparr>mgr_Phase := DeploySucceeded\<rparr>) w)))))))"

section \<open>Announcements\<close>

text \<open>The clock is read once for each time.\<close>

definition news_Reconcile :: "'w kclient \<Rightarrow> string \<Rightarrow> string \<Rightarrow> int \<Rightarrow> int \<Rightarrow> 'w \<Rightarrow> err \<times> 'w" where
  "news_Reconcile cl ns name now now' w =
     (case kc_GetNews cl ns name w of
        Inl e \<Rightarrow> (IgnoreNotFound e, w)
      | Inr a \<Rightarrow>
          let a = (if ann_PubTime a = 0 then a\<lparr>ann_PubTime := now\<rparr> else a)
          in kc_UpdateNewsStatus cl (a\<lparr>ann_EditTime := now'\<rparr>) w)"


section \<open>The objects of a manager fit together\<close>

lemma manager_meta_sel [simp]:
  "om_Name (manager_meta k n m) = n" "om_Namespace (manager_meta k n m) = mgr_Namespace m"
  "om_Kind (manager_meta k n m) = k" "om_Labels (manager_meta k n m) = manager_labels m"
  by (simp_all add: manager_meta_def meta_def)

lemma owned_InrD:
  "owned lib x = Inr y \<Longrightarrow> y = x\<lparr>om_Owned := True\<rparr>"
  by (simp add: owned_def split: option.splits)

lemma plan_manager_Ret:
  assumes "plan_manager lib cf m = Ret (Inr pl)"
  shows "desiredSA lib m = Inr (mp_sa pl)" "desiredRole lib m = Inr (mp_role pl)"
    "desiredRoleBinding lib m = Inr (mp_rb pl)" "manager_desiredDeployment lib cf m = Ret (Inr (mp_app pl))"
    "manager_desiredService lib m = Inr (mp_svc pl)" "manager_desiredIngress lib cf m = Inr (mp_ingress pl)"
proof -
  obtain sa where 1: "desiredSA lib m = Inr sa"
    using assms by (cases "desiredSA lib m") (auto simp: plan_manager_def)
  obtain role where 2: "desiredRole lib m = Inr role"
    using assms by (cases "desiredRole lib m") (auto simp: plan_manager_def 1)
  obtain rb where 3: "desiredRoleBinding lib m = Inr rb"
    using assms by (cases "desiredRoleBinding lib m") (auto simp: plan_manager_def 1 2)
  obtain x where "manager_desiredDeployment lib cf m = Ret x"
    using assms by (cases "manager_desiredDeployment lib cf m") (auto simp: plan_manager_def 1 2 3)
  then obtain app where 4: "manager_desiredDeployment lib cf m = Ret (Inr app)"
    using assms by (cases x) (auto simp: plan_manager_def 1 2 3)
  obtain svc where 5: "manager_desiredService lib m = Inr svc"
    using assms by (cases "manager_desiredService lib m") (auto simp: plan_manager_def 1 2 3 4)
  obtain ig where 6: "manager_desiredIngress lib cf m = Inr ig"
    using assms by (cases "manager_desiredIngress lib cf m") (auto simp: plan_manager_def 1 2 3 4 5)
  show "desiredSA lib m = Inr (mp_sa pl)" "desiredRole lib m = Inr (mp_role pl)"
    "desiredRoleBinding lib m = Inr (mp_rb pl)" "manager_desiredDeployment lib cf m = Ret (Inr (mp_app pl))"
    "manager_desiredService lib m = Inr (mp_svc pl)" "manager_desiredIngress lib cf m = Inr (mp_ingress pl)"
    using assms by (auto simp: plan_manager_def 1 2 3 4 5 6)
qed

lemma desiredSA_Inr:
  "desiredSA lib m = Inr sa \<Longrightarrow> om_Name sa = mgr_Name m @ ''-sa''"
  by (auto simp: desiredSA_def dest!: owned_InrD)

lemma desiredRole_Inr:
  "desiredRole lib m = Inr role \<Longrightarrow> om_Name (role_Meta role) = mgr_Name m @ ''-role'' \<and> role_Rules role = manager_rules"
  by (auto simp: desiredRole_def dest!: owned_InrD split: sum.splits)

lemma desiredRoleBinding_Inr:
  "desiredRoleBinding lib m = Inr rb \<Longrightarrow> rb_Subject rb = mgr_Name m @ ''-sa'' \<and> rb_Role rb = mgr_Name m @ ''-role''"
  by (auto simp: desiredRoleBinding_def split: sum.splits)

lemma manager_desiredService_Inr:
  "manager_desiredService lib m = Inr svc \<Longrightarrow>
   om_Name (svc_Meta svc) = mgr_Name m \<and> svc_Ports svc = [service_port ''api'' ManagerPort] \<and> svc_Selector svc = manager_labels m"
  by (auto simp: manager_desiredService_def dest!: owned_InrD split: sum.splits)

lemma manager_desiredIngress_Inr:
  "manager_desiredIngress lib cf m = Inr ig \<Longrightarrow>
   ig_Paths ig = map (\<lambda>p. \<lparr>ip_Path = p, ip_Type = Exact, ip_Service = mgr_Name m, ip_Port = ''api''\<rparr>) manager_paths"
  by (auto simp: manager_desiredIngress_def ingress_for_def Let_def split: sum.splits)

lemma manager_workload:
  assumes "manager_desiredDeployment lib cf m = Ret (Inr (Some app))"
  shows "wl_Selector app = manager_labels m" "wl_PodLabels app = manager_labels m"
    "pod_ServiceAccount (wl_Pod app) = mgr_Name m @ ''-sa''"
    "map cn_Ports (pod_Containers (wl_Pod app)) = [[\<lparr>cp_Port = ManagerPort, cp_Name = ''api''\<rparr>]]"
    "map cn_Env (pod_Containers (wl_Pod app)) = [manager_env m]"
  using assms
  by (auto simp: manager_desiredDeployment_def Let_def go_bind_Ret_iff split: if_splits sum.splits)

text \<open>
  C15: The objects a manager is deployed with fit together: the binding gives the role to the account
  the pods run under, the service selects those pods and each of its ports is a port of a
  container, and every path of the ingress leads to a port of the service.
\<close>

theorem plan_manager_consistent:
  assumes "plan_manager lib cf m = Ret (Inr pl)" and "mp_app pl = Some app"
  shows "rb_Subject (mp_rb pl) = om_Name (mp_sa pl) \<and> rb_Role (mp_rb pl) = om_Name (role_Meta (mp_role pl)) \<and>
    pod_ServiceAccount (wl_Pod app) = om_Name (mp_sa pl) \<and>
    wl_Selector app = wl_PodLabels app \<and> svc_Selector (mp_svc pl) = wl_PodLabels app \<and>
    (\<forall>sp \<in> set (svc_Ports (mp_svc pl)). \<exists>c \<in> set (pod_Containers (wl_Pod app)).
       \<lparr>cp_Port = sp_Port sp, cp_Name = sp_TargetPort sp\<rparr> \<in> set (cn_Ports c)) \<and>
    (\<forall>p \<in> set (ig_Paths (mp_ingress pl)). ip_Service p = om_Name (svc_Meta (mp_svc pl)) \<and>
       ip_Port p \<in> sp_Name ` set (svc_Ports (mp_svc pl)))"
proof -
  note plan = plan_manager_Ret [OF assms(1)]
  note w = manager_workload [OF plan(4) [unfolded assms(2)]]
  obtain c where "pod_Containers (wl_Pod app) = [c]" "cn_Ports c = [\<lparr>cp_Port = ManagerPort, cp_Name = ''api''\<rparr>]"
    using w(4) by (auto simp: map_eq_Cons_conv)
  then show ?thesis
    using w(1-3) desiredSA_Inr [OF plan(1)] desiredRole_Inr [OF plan(2)] desiredRoleBinding_Inr [OF plan(3)]
      manager_desiredService_Inr [OF plan(5)] manager_desiredIngress_Inr [OF plan(6)]
    by (auto simp: service_port_def)
qed

theorem plan_manager_consistent_witness:
  "\<exists>pl app. plan_manager sample_lib (defaultConfig\<lparr>cf_ManagerImage := ''manager:1''\<rparr>) sample_manager = Ret (Inr pl) \<and>
     mp_app pl = Some app \<and> rb_Subject (mp_rb pl) = ''manager-sa'' \<and> pod_ServiceAccount (wl_Pod app) = ''manager-sa''"
proof -
  let ?cf = "defaultConfig\<lparr>cf_ManagerImage := ''manager:1''\<rparr>"
  obtain pl app where 1: "plan_manager sample_lib ?cf sample_manager = Ret (Inr pl)" "mp_app pl = Some app"
    and 2: "om_Name (mp_sa pl) = ''manager-sa''"
    by (simp add: plan_manager_def desiredSA_def desiredRole_def desiredRoleBinding_def manager_desiredDeployment_def
        manager_desiredService_def manager_desiredIngress_def owned_def sample_lib_def sample_manager_def zeroDeployConfig_def
        limits_def Let_def DeployDeployment_def)
  from plan_manager_consistent [OF 1] 1 2 show ?thesis by auto
qed

text \<open>
  While another manager of the namespace is active nothing is changed, and the reconciliation
  answers with an error.
\<close>

lemma second_manager_refused:
  assumes "kc_GetManager cl ns name w = Inr m" and "kc_ActiveManagers cl ns w = Inr (m' # ms)"
    and "mgr_Name m' \<noteq> mgr_Name m"
  shows "manager_Reconcile lib cf cl ns name w = Ret (Some ''already have one active manager in this namespace'', w)"
  using assms by (simp add: manager_Reconcile_def)

text \<open>
  An unknown deploy type is no error: the account, the role and the binding are applied, and
  neither the service, the ingress nor the phase of the manager is touched.
\<close>

lemma unknown_deploy_type:
  assumes "manager_desiredDeployment lib cf m = Ret r"
    and "ms_DeployType (mgr_Spec m) \<notin> {[], DeployDeployment, DeployDaemonSet}"
  shows "r = Inr None"
  using assms by (auto simp: manager_desiredDeployment_def Let_def go_bind_Ret_iff split: if_splits)

text \<open>
  The publication time of an announcement is set once and kept, and with a clock that does not run
  backwards the edit time is not before it.
\<close>

lemma publication_time_kept:
  assumes "kc_GetNews cl ns name w = Inr a" and "ann_PubTime a \<le> now" and "now \<le> now'"
  shows "\<exists>a'. news_Reconcile cl ns name now now' w = kc_UpdateNewsStatus cl a' w \<and>
    (ann_PubTime a \<noteq> 0 \<longrightarrow> ann_PubTime a' = ann_PubTime a) \<and> (ann_PubTime a = 0 \<longrightarrow> ann_PubTime a' = now) \<and>
    ann_PubTime a' \<le> ann_EditTime a' \<and> ann_Title a' = ann_Title a \<and> ann_Content a' = ann_Content a"
  using assms by (auto simp: news_Reconcile_def Let_def intro!: exI)

end
