(* ===== verification/Spec2Isabelle.thy ===== *)
theory Spec2Isabelle
  imports Api_DeepCopy Worker_Appointment Worker_Assembly Manager_Pages Manager_MirrorZ Manager_Routes Worker_Provider Controller_Manager
begin

text \<open>
  \<^bold>\<open>A verification development for kubesync.\<close>

  \<^bold>\<open>The program.\<close>  kubesync runs a mirror site on a Kubernetes cluster.  A \<^emph>\<open>controller\<close>
  (\<open>src/cmd/main.go\<close>, \<open>src/internal/controller\<close>) watches the custom resources of
  \<open>src/api/v1beta1\<close> and keeps, for every Job, the objects that serve the mirror: a volume claim, a
  deployment with the worker, a web front and an rsync daemon, a service, an ingress; and for every
  Manager a deployment with its account, role, service and ingress.  A \<^emph>\<open>worker\<close>
  (\<open>src/worker\<close>) is one process per job: it reads its configuration from the environment the controller has
  written, runs the synchronisation at its appointments through one of three providers, with hooks before
  and after it, and reports to the manager.  The \<^emph>\<open>manager\<close> (\<open>src/manager\<close>) is a web server
  over the same resources: it takes the reports of the workers, passes commands on to them, and
  lists the mirrors, their news and their images.

  \<^bold>\<open>The theories, in the order of their dependence.\<close>

  \<^item> \<open>Go_Prelude\<close>: the values Go functions return (errors, panics), strings, integers and
    durations of Go's library, and the collections of rewrite rules; \<open>Go_Json\<close>: the part of
    \<open>encoding/json\<close> that prints and reads structures by their tags.
  \<^item> \<open>Api_Types\<close>: the resources as records and the messages of \<open>internal/types.go\<close>;
    \<open>Size_Format\<close>: sizes as text, \<open>ParseSize\<close>; \<open>File_Recognizer\<close>:
    \<open>internal/recognizer.go\<close>.
  \<^item> \<open>Worker_Schedule\<close>, \<open>Worker_Context\<close>, \<open>Worker_Runner\<close>, \<open>Worker_Base\<close>,
    \<open>Worker_Hooks\<close>: the parts a job is made of, one theory per file of \<open>src/worker\<close> (the five
    hook files share one); \<open>Worker_Config\<close>: \<open>config.go\<close> and the readers of \<open>util.go\<close>;
    \<open>Worker_Provider\<close>: \<open>provider.go\<close> and the three providers.
  \<^item> \<open>Worker_Sync\<close>: one run of a job, \<open>runJobWrapper\<close> of \<open>job.go\<close>, as a function of what
    the environment does; \<open>Worker_Job\<close>: the same run and the control loop of \<open>mirrorJob.Run\<close> as
    goroutines; \<open>Worker_Loop\<close>: the whole process of \<open>worker.go\<close>, the scheduling loop, the
    command handler, \<open>Halt\<close> and the goroutines, interleaved; \<open>Worker_Appointment\<close> and
    \<open>Worker_Halt\<close>: two invariants of that process; \<open>Worker_Assembly\<close>: how it is put together and
    started, \<open>NewTUNASyncWorker\<close> and \<open>worker/cmd/main.go\<close>.
  \<^item> \<open>Manager_Gin\<close>: the context of a request and the parameters of the handlers;
    \<open>Manager_Merge\<close>, \<open>Manager_Jobs\<close>, \<open>Manager_Pages\<close>, \<open>Manager_External\<close>,
    \<open>Manager_MirrorZ\<close>: the handlers of \<open>manager/server.go\<close> with \<open>manager/external\<close> and
    \<open>manager/mirrorz\<close>; \<open>Manager_Routes\<close>: the routes and the requests that are to meet them.
  \<^item> \<open>Controller_Config\<close>: \<open>getConfig\<close> and its defaults; \<open>Controller_Objects\<close>: the objects of the
    cluster; \<open>Controller_Job\<close>: \<open>job_helper.go\<close>; \<open>Controller_Reconcile\<close>:
    \<open>job_controller.go\<close>; \<open>Controller_Manager\<close>: \<open>manager_helper.go\<close>,
    \<open>manager_controller.go\<close> and \<open>announcement_controller.go\<close>.
  \<^item> This theory: what holds across components.

  \<^bold>\<open>How state and effects are represented.\<close>  A structure is a record with the fields of the source, an
  enumeration of strings a set of string constants.  A function that may fail returns an error or a
  value; a panic is the constructor \<open>Panic\<close> of \<open>go\<close>.  Methods that change their receiver
  return it.  The handlers of the manager map a request context to an \<open>outcome\<close> and thread the
  state of the cluster.  The worker process is a step function \<open>exec\<close> on the record
  \<open>sys\<close>, one label per channel operation, lock, access to the shared state or call; what can happen is
  \<open>steps\<close>, the sequences of such moves.  Integers that can overflow are machine words or are
  wrapped by \<open>int64\<close>.

  \<^bold>\<open>What is a parameter.\<close>  Code that is not part of the repository and the outside world are
  arguments: the cluster client (\<open>client\<close>, \<open>kclient\<close>), the quantities, owner references and
  configuration maps of the Kubernetes library (\<open>kube_lib\<close>), the JSON forms of its types, what the operating system answers to a process, the file systems and commands behind hooks
  (\<open>w_oracle\<close>), the network (\<open>transport\<close>), the splitting of command lines, the regular
  expressions of a configuration, and templates.  Laws that are relied on are named predicates (\<open>sets_variables\<close>,
  \<open>codec_ok\<close>, \<open>tracks_status\<close>), and each has a witness.

  \<^bold>\<open>What the lemmas show.\<close>

  \<^item> \<^emph>\<open>One run.\<close>  With the real hooks a run sends the messages of its specification and
    restores the context (\<open>run_refines_spec\<close>, through the locale \<open>hook_phases\<close>); it asks for the next
    appointment at most once, always if nobody interferes, and starts the provider at most
    \<open>Retry\<close> times.  The providers return, leave their log closed and report the outcome of
    their processes.
  \<^item> \<^emph>\<open>The process.\<close>  The queue refines a one-slot timer (locale \<open>one_slot_timer\<close>).  Every
    run of the wrapper is a run of its goroutine.  In every reachable state the channels and the
    semaphore keep their capacities; without start commands no goroutine blocks on the queue; a job
    not disabled has one control loop; an undisturbed job has exactly one claim to its next
    synchronisation; the channel a loop closes is open.  The deviations (a restart that jams
    the queue, a ping that cancels the appointment, two loops after two quick starts, a halt that hangs) are proved on
    concrete runs or for all continuations.
  \<^item> \<^emph>\<open>The manager.\<close>  Whatever requests arrive, the recorded times stay in order; merging a request into a stored
    job replaces the fields it names; images are served back as they were reported; the lists are
    complete, with the exact condition under which they are answered.
  \<^item> \<^emph>\<open>The controller.\<close>  The objects planned for a job or a manager refer to each other; what the
    reconciliation deletes and fails to delete.
  \<^item> \<^emph>\<open>Data.\<close>  Sizes are printed with
    half a hundredth of a unit; names of images, commands and contexts.
  \<^item> \<^emph>\<open>Across components.\<close>  The configuration of a job reaches the worker, which keeps within
    it; the worker's requests meet the manager's routes; the ingress exposes routes that read only; the manager, on the
    other hand, addresses the worker by a name its service does not have.

  \<^bold>\<open>Bounds and fuel.\<close>  No definition is cut off by fuel: loops are structural recursion over
  what they consume (hooks, attempts, digits, repositories, the ten attempts to register).  The
  moves of the process are not bounded; the invariants hold for every sequence of them.  The capacities 32 of the message channel
  and 1 of the control channel are those of the source.

  \<^bold>\<open>Not modelled.\<close>  The reading of sizes and the generated deep copies; The parsing of command-line flags and the libraries that start the processes
  (\<open>main\<close> of the three programs, \<open>SetupWithManager\<close>'s watches); the matching of paths by the
  router and the logging middleware; TLS and socket set-up (\<open>CreateHTTPClient\<close>, \<open>runHTTPServer\<close>); the
  \<open>MemBytes\<close> type of the worker, which nothing uses and which wraps a parser of a library; registration of the resource types with the
  scheme (\<open>groupversion_info.go\<close>); log lines, except those a provider writes into its own log; the variant of the Btrfs hook
  for other systems, which only panics.  Memory is sequentially consistent: races on
  plain fields are interleavings of their accesses.
\<close>

section \<open>From the controller to the worker\<close>

text \<open>
  How the variables of a container become the environment of its process is up to the container
  runtime; what is relied on is that a variable that is set once, to a plain value, has that value.
\<close>

definition sets_variables :: "(EnvVar list \<Rightarrow> environment) \<Rightarrow> bool" where
  "sets_variables environ =
     (\<forall>evs ev. distinct (map ev_Name evs) \<longrightarrow> ev \<in> set evs \<longrightarrow> ev_FieldPath ev = None \<longrightarrow>
        environ evs (ev_Name ev) = Some (ev_Value ev))"

lemma sets_variables_envvar:
  assumes "sets_variables environ" "distinct (map ev_Name evs)" "envvar n v \<in> set evs"
  shows "environ evs n = Some v"
  using assms unfolding sets_variables_def by (metis EnvVar.select_convs envvar_def)

definition in_int64 :: "int \<Rightarrow> bool" where
  "in_int64 i \<longleftrightarrow> - (2 ^ 63) \<le> i \<and> i < 2 ^ 63"

definition given :: "string \<Rightarrow> string list option" where
  "given s = (if s = [] then None else Some (Split s (CHR '';'')))"

lemma worker_config_read:
  assumes "sets_variables environ" and "distinct (map ev_Name (worker_env cf job manager))"
    and "job_Name job \<noteq> []" and "jc_Upstream c \<noteq> []" and "c = js_Config (job_Spec job)"
    and "in_int64 (jc_Concurrent c)" "in_int64 (jc_Interval c)" "in_int64 (jc_Retry c)" "in_int64 (jc_Timeout c)"
  shows "\<exists>cfg. LoadConfig (environ (worker_env cf job manager)) = (cfg, None)
    \<and> cfg_Name cfg = job_Name job \<and> cfg_Upstream cfg = jc_Upstream c
    \<and> cfg_Provider cfg = (if jc_Provider c = [] then ''rsync'' else jc_Provider c) \<and> cfg_MirrorPath cfg = jc_MirrorPath c
    \<and> cfg_Concurrent cfg = (if jc_Concurrent c = 0 then 3 else jc_Concurrent c)
    \<and> cfg_Interval cfg = (if jc_Interval c = 0 then 1440 else jc_Interval c)
    \<and> cfg_Retry cfg = jc_Retry c \<and> cfg_Timeout cfg = jc_Timeout c \<and> cfg_Command cfg = jc_Command c
    \<and> cfg_FailOnMatch cfg = jc_FailOnMatch c \<and> cfg_SizePattern cfg = jc_SizePattern c
    \<and> cfg_UseIPv6 cfg = (ParseBool (jc_IPv6Only c) = Some True) \<and> cfg_UseIPv4 cfg = (ParseBool (jc_IPv4Only c) = Some True)
    \<and> cfg_ExcludeFile cfg = jc_ExcludeFile c \<and> cfg_RsyncOptions cfg = given (jc_RsyncOptions c)
    \<and> cfg_Stage1Profile cfg = jc_Stage1Profile c
    \<and> cfg_ExecOnSuccess cfg = given (jc_ExecOnSuccess c) \<and> cfg_ExecOnFailure cfg = given (jc_ExecOnFailure c)
    \<and> cfg_APIBase cfg = ''http://'' @ manager @ '':3000'' \<and> cfg_Addr cfg = '':6000''
    \<and> (jc_Debug c \<noteq> [] \<or> cf_Debug cf \<longrightarrow> cfg_Debug cfg)"
proof -
  let ?evs = "worker_env cf job manager"
  let ?e = "environ ?evs"
  note env = sets_variables_envvar [OF assms(1,2)]
  have strs: "?e ''NAME'' = Some (job_Name job)" "?e ''PROVIDER'' = Some (jc_Provider c)" "?e ''UPSTREAM'' = Some (jc_Upstream c)"
    "?e ''MIRROR_PATH'' = Some (jc_MirrorPath c)" "?e ''COMMAND'' = Some (jc_Command c)"
    "?e ''FAIL_ON_MATCH'' = Some (jc_FailOnMatch c)" "?e ''SIZE_PATTERN'' = Some (jc_SizePattern c)"
    "?e ''EXCLUDE_FILE'' = Some (jc_ExcludeFile c)" "?e ''STAGE1_PROFILE'' = Some (jc_Stage1Profile c)"
    "?e ''API'' = Some (''http://'' @ manager @ '':3000'')" "?e ''ADDR'' = Some ('':'' @ Itoa ApiPort)"
    by (rule env; simp add: worker_env_def Let_def assms(5))+
  have others: "?e ''IPV6'' = Some (jc_IPv6Only c)" "?e ''IPV4'' = Some (jc_IPv4Only c)"
    "?e ''RSYNC_OPTIONS'' = Some (jc_RsyncOptions c)" "?e ''EXEC_ON_SUCCESS'' = Some (jc_ExecOnSuccess c)"
    "?e ''EXEC_ON_FAILURE'' = Some (jc_ExecOnFailure c)"
    by (rule env; simp add: worker_env_def Let_def assms(5))+
  have ints: "?e ''CONCURRENT'' = Some (Itoa (jc_Concurrent c))" "?e ''INTERVAL'' = Some (Itoa (jc_Interval c))"
    "?e ''RETRY'' = Some (Itoa (jc_Retry c))" "?e ''TIMEOUT'' = Some (Itoa (jc_Timeout c))"
    by (rule env; simp add: worker_env_def Let_def assms(5))+
  have debug: "?e ''DEBUG'' = Some ''true''" if "jc_Debug c \<noteq> [] \<or> cf_Debug cf"
    by (rule env) (use that in \<open>simp add: worker_env_def Let_def assms(5)\<close>)
  have addr: "'':'' @ Itoa ApiPort = '':6000''" by code_simp
  have "GetIntEnv ?e ''CONCURRENT'' 3 = (if jc_Concurrent c = 0 then 3 else jc_Concurrent c)"
    "GetIntEnv ?e ''INTERVAL'' 1440 = (if jc_Interval c = 0 then 1440 else jc_Interval c)"
    "GetIntEnv ?e ''RETRY'' 0 = jc_Retry c" "GetIntEnv ?e ''TIMEOUT'' 0 = jc_Timeout c"
    using assms(6-9) by (simp_all add: GetIntEnv_Itoa ints in_int64_def)
  moreover have "GetBoolEnv ?e ''DEBUG''" if "jc_Debug c \<noteq> [] \<or> cf_Debug cf"
    using debug [OF that] by (simp add: GetBoolEnv_def ParseBool_def)
  ultimately show ?thesis
    using assms(3,4) addr
    by (simp add: LoadConfig_def Let_def zeroConfig_def GetStringEnv_def GetBoolEnv_def GetListEnv_def strs others given_def
        split: option.split)
qed


definition plain_environ :: "EnvVar list \<Rightarrow> environment" where
  "plain_environ evs = map_of (map (\<lambda>ev. (ev_Name ev, ev_Value ev)) evs)"

lemma plain_environ_sets: "sets_variables plain_environ"
  by (auto simp: sets_variables_def plain_environ_def comp_def intro!: map_of_is_SomeI)

lemma sample_config_read:
  "distinct (map ev_Name (worker_env defaultConfig sample_mirror ''manager''))"
  "job_Name sample_mirror = ''debian''" "jc_Upstream (js_Config (job_Spec sample_mirror)) \<noteq> []"
  "jc_Concurrent (js_Config (job_Spec sample_mirror)) = 0" "jc_Interval (js_Config (job_Spec sample_mirror)) = 0"
  "jc_Retry (js_Config (job_Spec sample_mirror)) = 0" "jc_Timeout (js_Config (job_Spec sample_mirror)) = 0" "in_int64 0"
  by (simp_all add: worker_env_def Let_def sample_mirror_def defaultConfig_def zeroJobConfig_def zeroJobDeploy_def
      zeroDeployConfig_def zeroJobSpec_def envvar_def in_int64_def)



lemma sample_worker_starts:
  "\<exists>level rel wk. startWorker blank_split (\<lambda>_. None) Inr (\<lambda>_. True) \<lparr>wf_verbose = True, wf_debug = False, wf_profPath = []\<rparr>
     (plain_environ (worker_env defaultConfig sample_mirror ''manager'')) = Ret (Runs level rel wk)"
proof -
  let ?e = "plain_environ (worker_env defaultConfig sample_mirror ''manager'')"
  let ?c = "js_Config (job_Spec sample_mirror)"
  have "jc_Upstream ?c = ''rsync://ftp.debian.org/debian/''" "jc_Provider ?c = []" "given (jc_ExecOnSuccess ?c) = None"
      "given (jc_ExecOnFailure ?c) = None"
    by (simp_all add: sample_mirror_def zeroJobConfig_def given_def)
  moreover obtain cfg where cfg: "LoadConfig ?e = (cfg, None)" "cfg_Upstream cfg = jc_Upstream ?c" "cfg_Provider cfg = ''rsync''"
      "cfg_Concurrent cfg = 3" "cfg_ExecOnSuccess cfg = None" "cfg_ExecOnFailure cfg = None"
    using worker_config_read [OF plain_environ_sets sample_config_read(1) _ sample_config_read(3) refl] calculation
    by (auto simp: sample_config_read)
  ultimately have "acceptable blank_split (\<lambda>_. None) Inr cfg"
    by (simp add: acceptable_def commands_split_def go_simps)
  then show ?thesis
    using LoadConfig_ok_iff [of ?e] LoadConfig_Concurrent [of ?e] cfg by (simp add: startWorker_Runs_iff)
qed


section \<open>Between the worker and the manager\<close>

text \<open>
  C14: The address the controller gives a worker is that of the service it makes for the manager, and
  each request a worker sends there is for one route, with the handler it is meant for.
\<close>

theorem worker_finds_manager:
  assumes "plan_manager lib cf m = Ret (Inr pl)"
  shows "\<exists>sp \<in> set (svc_Ports (mp_svc pl)). \<exists>api.
      api = ''http://'' @ om_Name (svc_Meta (mp_svc pl)) @ '':'' @ Itoa (sp_Port sp)
      \<and> envvar ''API'' api \<in> set (worker_env cf' job (mgr_Name m))
      \<and> handlers_for mz api (job_Name job) (registerWorker_request api (job_Name job)) = [HRegisterMirror]
      \<and> handlers_for mz api (job_Name job) (updateStatus_request api (job_Name job)) = [HUpdateJob]
      \<and> handlers_for mz api (job_Name job) (updateSchedInfo_request api (job_Name job)) = [HUpdateSchedule]
      \<and> handlers_for mz api (job_Name job) (fetchJobStatus_request api (job_Name job)) = [HGetJob]"
proof -
  have port: "Itoa ManagerPort = ''3000''" by code_simp
  show ?thesis
    using manager_desiredService_Inr [OF plan_manager_Ret(5) [OF assms]]
    by (simp add: service_port_def port worker_env_def Let_def worker_requests_handled)
qed

theorem worker_finds_manager_witness:
  "\<exists>pl api. plan_manager sample_lib defaultConfig sample_manager = Ret (Inr pl)
     \<and> api = ''http://manager:3000'' \<and> envvar ''API'' api \<in> set (worker_env defaultConfig sample_mirror ''manager'')
     \<and> handlers_for True api ''debian'' (updateStatus_request api ''debian'') = [HUpdateJob]"
proof -
  obtain pl where pl: "plan_manager sample_lib defaultConfig sample_manager = Ret (Inr pl)"
    by (simp add: plan_manager_def desiredSA_def desiredRole_def desiredRoleBinding_def manager_desiredDeployment_def
        manager_desiredService_def manager_desiredIngress_def owned_def sample_lib_def sample_manager_def zeroDeployConfig_def
        limits_def Let_def DeployDeployment_def defaultConfig_def)
  have "Itoa ManagerPort = ''3000''" by code_simp
  moreover have "mgr_Name sample_manager = ''manager''" "job_Name sample_mirror = ''debian''"
    by (simp_all add: sample_manager_def sample_mirror_def)
  ultimately show ?thesis
    using worker_finds_manager [OF pl, of defaultConfig sample_mirror True] manager_desiredService_Inr [OF plan_manager_Ret(5) [OF pl]]
      pl by (auto simp: service_port_def)
qed

text \<open>
  C32: In the other direction the names differ: the manager sends commands to a host named like the
  job, and the service the controller makes for the worker never has that name.
\<close>

theorem manager_misses_worker:
  assumes "job_desiredService lib cf job = Inr svc"
  shows "worker_url (job_Name job) \<noteq> ''http://'' @ om_Name (svc_Meta svc) @ '':'' @ Itoa ApiPort"
proof -
  have "om_Name (svc_Meta svc) = ''mirror-'' @ job_Name job"
    using assms by (auto simp: job_desiredService_def serviceName_def Let_def dest!: owned_InrD split: sum.splits)
  moreover have "Itoa ApiPort = ''6000''" by code_simp
  ultimately have "length (''http://'' @ om_Name (svc_Meta svc) @ '':'' @ Itoa ApiPort) = length (worker_url (job_Name job)) + 7"
    by (simp add: worker_url_def)
  then show ?thesis by (metis add_cancel_left_right zero_neq_numeral)
qed

theorem manager_misses_worker_witness:
  "\<exists>svc. job_desiredService sample_lib defaultConfig sample_mirror = Inr svc
     \<and> worker_url ''debian'' \<noteq> ''http://'' @ om_Name (svc_Meta svc) @ '':'' @ Itoa ApiPort"
proof -
  obtain svc where s: "job_desiredService sample_lib defaultConfig sample_mirror = Inr svc"
    by (simp add: job_desiredService_def owned_def sample_lib_def Let_def)
  have "job_Name sample_mirror = ''debian''" by (simp add: sample_mirror_def)
  with manager_misses_worker [OF s] s show ?thesis by auto
qed

text \<open>
  C24: What the ingress of a manager exposes is registered as a route of a manager with a MirrorZ
  document, and whatever the identifier in the other routes, only reads are exposed.
\<close>

theorem ingress_exposes_reads:
  assumes "manager_desiredIngress lib cf m = Inr ig"
  shows "\<forall>p \<in> set (ig_Paths ig). ip_Type p = Exact \<and> (\<exists>r \<in> set (routes True). fill i (rt_pattern r) = ip_Path p)
    \<and> (\<forall>r \<in> set (routes mz). fill i (rt_pattern r) = ip_Path p \<longrightarrow> rt_method r = GET)"
  unfolding manager_desiredIngress_Inr [OF assms]
  by (simp add: manager_paths_def routes_def plain_routes_def job_routes_def page_routes_def job_route_def)

theorem ingress_exposes_reads_witness:
  "\<exists>ig. manager_desiredIngress sample_lib defaultConfig sample_manager = Inr ig \<and> ig_Paths ig \<noteq> []
     \<and> (\<forall>p \<in> set (ig_Paths ig). \<forall>r \<in> set (routes True). fill ''debian'' (rt_pattern r) = ip_Path p \<longrightarrow> rt_method r = GET)"
proof -
  obtain ig where ig: "manager_desiredIngress sample_lib defaultConfig sample_manager = Inr ig"
    by (simp add: manager_desiredIngress_def owned_def sample_lib_def)
  from manager_desiredIngress_Inr [OF ig] have "ig_Paths ig \<noteq> []" by (simp add: manager_paths_def)
  with ig ingress_exposes_reads [OF ig, of "''debian''" True] show ?thesis by blast
qed

end
